(* ===== verification/Prelude.thy ===== *)
theory Prelude
  imports Main "HOL-Library.Word"
begin

text \<open>
  Shared vocabulary of the development: the C integer types of the kernel sources as
  machine words, the kernel error numbers returned by the modelled functions, the C
  string conventions (NUL-terminated byte arrays) and truncating C division, with the
  generic lemmas on lists, options and words that the component theories use.
  The collection \<open>c_defs\<close> gathers the small C helpers below so that component proofs
  can unfold them in one go with \<open>simp add: c_defs\<close>.
\<close>

named_theorems c_defs "unfolding rules of the C-level helpers"

type_synonym u8 = "8 word"
type_synonym u16 = "16 word"
type_synonym u32 = "32 word"
type_synonym s32 = "32 word" \<comment> \<open>a C \<open>int\<close>: 32 bits, read with \<open>sint\<close>\<close>

subsection \<open>Kernel error numbers\<close>

text \<open>The positive values of \<open>include/uapi/asm-generic/errno-base.h\<close> and \<open>errno.h\<close>;
  the functions return their negation.\<close>

definition ENOENT :: int where [c_defs]: "ENOENT = 2"
definition ESRCH :: int where [c_defs]: "ESRCH = 3"
definition EIO :: int where [c_defs]: "EIO = 5"
definition ENOMEM :: int where [c_defs]: "ENOMEM = 12"
definition EACCES :: int where [c_defs]: "EACCES = 13"
definition EFAULT :: int where [c_defs]: "EFAULT = 14"
definition EBUSY :: int where [c_defs]: "EBUSY = 16"
definition ENODEV :: int where [c_defs]: "ENODEV = 19"
definition EINVAL :: int where [c_defs]: "EINVAL = 22"
definition ERANGE :: int where [c_defs]: "ERANGE = 34"
definition ENODATA :: int where [c_defs]: "ENODATA = 61"
definition ENOTCONN :: int where [c_defs]: "ENOTCONN = 107"

subsection \<open>C strings\<close>

text \<open>
  A C string is modelled by the bytes of its buffer. Reading at an index past the end of
  the modelled buffer yields the terminating NUL, which is how every loop of the sources
  over a string stops.
\<close>

definition cstr_at :: "string \<Rightarrow> nat \<Rightarrow> char" where
  [c_defs]: "cstr_at xs i = (if i < length xs then xs ! i else CHR 0x00)"

definition strlen :: "string \<Rightarrow> nat" where
  [c_defs]: "strlen xs = length (takeWhile (\<lambda>c. c \<noteq> CHR 0x00) xs)"

definition byte_of_char :: "char \<Rightarrow> u8" where
  [c_defs]: "byte_of_char c = of_nat (of_char c)"

subsection \<open>C integer division\<close>

text \<open>C's \<open>/\<close> on \<open>int\<close> truncates towards zero; HOL's \<open>div\<close> on \<open>int\<close> rounds towards
  minus infinity. Division by zero is undefined behaviour in C; the model keeps HOL's 0
  there and every theorem that divides states the divisor is non-zero.\<close>

definition c_div :: "int \<Rightarrow> int \<Rightarrow> int" where
  [c_defs]: "c_div a b = sgn a * sgn b * (\<bar>a\<bar> div \<bar>b\<bar>)"

text \<open>An array read at a C \<open>int\<close> index; \<open>None\<close> is an out-of-range read.\<close>

definition nth_opt :: "'a list \<Rightarrow> int \<Rightarrow> 'a option" where
  "nth_opt xs i = (if 0 \<le> i \<and> nat i < length xs then Some (xs ! nat i) else None)"

text \<open>The decimal text \<open>sprintf(buf, "%d", v)\<close> writes.\<close>

fun dec_digits :: "nat \<Rightarrow> string" where
  "dec_digits n = (if n < 10 then [char_of (48 + n)] else dec_digits (n div 10) @ [char_of (48 + n mod 10)])"

declare dec_digits.simps [simp del]

definition sprintf_d :: "int \<Rightarrow> string" where
  "sprintf_d i = (if i < 0 then CHR ''-'' # dec_digits (nat (- i)) else dec_digits (nat i))"

lemma c_div_nonneg [simp]: "0 \<le> a \<Longrightarrow> 0 \<le> b \<Longrightarrow> c_div a b = a div b"
  by (cases "a = 0"; cases "b = 0") (auto simp: c_div_def sgn_if)

lemma c_div_neg_pos: "a < 0 \<Longrightarrow> 0 < b \<Longrightarrow> c_div a b = - ((- a) div b)"
  by (simp add: c_div_def sgn_if)

subsection \<open>Lists\<close>

lemma find_Some_in_set: "find P xs = Some x \<Longrightarrow> x \<in> set xs \<and> P x"
  by (auto simp: find_Some_iff)

lemma find_None_no_match: "find P xs = None \<longleftrightarrow> (\<forall>x \<in> set xs. \<not> P x)"
  by (auto simp: find_None_iff)

lemma find_distinct_key:
  assumes "distinct (map f xs)" and "x \<in> set xs"
  shows "find (\<lambda>y. f y = f x) xs = Some x"
  using assms by (induction xs) (auto simp: image_iff)

lemma find_filter_some:
  "find P (filter Q xs) = find (\<lambda>x. Q x \<and> P x) xs"
  by (induction xs) auto

lemma find_cong_set: "(\<And>x. x \<in> set xs \<Longrightarrow> P x = Q x) \<Longrightarrow> find P xs = find Q xs"
  by (induction xs) auto

lemma nth_opt_Some [simp]: "0 \<le> i \<Longrightarrow> i < int (length xs) \<Longrightarrow> nth_opt xs i = Some (xs ! nat i)"
  by (simp add: nth_opt_def)

lemma sorted_wrt_gt_nth:
  "sorted_wrt (>) xs \<Longrightarrow> i < j \<Longrightarrow> j < length xs \<Longrightarrow> xs ! j < xs ! i"
  by (simp add: sorted_wrt_iff_nth_less)

lemma nth_int_mem: "0 \<le> i \<Longrightarrow> i < int (length xs) \<Longrightarrow> xs ! nat i \<in> set xs"
  by simp

subsection \<open>Words\<close>

unbundle bit_operations_syntax

lemma unat_and_15_lt: "unat ((w::32 word) AND 15) < 16"
proof -
  have "unat (w AND 15) \<le> unat (15 :: 32 word)"
    by (rule word_and_le1 [THEN word_le_nat_alt [THEN iffD1]])
  then show ?thesis by simp
qed

lemma word_lt_inc: "(w::'a::len word) \<noteq> - 1 \<Longrightarrow> w < w + 1"
  using inc_less_eq_self_iff_eq [of w] by (simp add: not_le [symmetric])

lemma word_lt_inc_trans: "(x::'a::len word) < w \<Longrightarrow> w \<noteq> - 1 \<Longrightarrow> x < w + 1"
  using word_lt_inc [of w] by simp

subsection \<open>Decimal text\<close>

lemma length_dec_digits: "n < 10 ^ k \<Longrightarrow> 0 < k \<Longrightarrow> length (dec_digits n) \<le> k"
proof (induction n arbitrary: k rule: dec_digits.induct)
  case (1 n)
  show ?case
  proof (cases "n < 10")
    case False
    have "1 < k"
      using "1.prems" False by (cases k; cases "k - 1") auto
    moreover have "n div 10 < 10 ^ (k - 1)"
      using "1.prems" \<open>1 < k\<close> by (cases k) (auto simp: less_mult_imp_div_less)
    ultimately show ?thesis using "1.IH" False by (subst dec_digits.simps) fastforce
  qed (use "1.prems" in \<open>subst dec_digits.simps, simp\<close>)
qed

lemma set_dec_digits: "set (dec_digits n) \<subseteq> {c. 48 \<le> (of_char c :: nat) \<and> (of_char c :: nat) < 58}"
  by (induction n rule: dec_digits.induct) (subst dec_digits.simps; auto simp: of_char_of)

lemma length_sprintf_d_sint: "length (sprintf_d (sint (w :: s32))) \<le> 11"
proof -
  have "nat \<bar>sint w\<bar> < 10 ^ 10"
    using sint_ge [of w] sint_lt [of w] by (simp add: abs_if nat_less_iff)
  then have "length (dec_digits (nat \<bar>sint w\<bar>)) \<le> 10" by (rule length_dec_digits) simp
  then show ?thesis by (auto simp: sprintf_d_def abs_if)
qed

lemma newline_notin_sprintf_d: "CHR ''\<newline>'' \<notin> set (sprintf_d i)"
proof -
  have "CHR ''\<newline>'' \<notin> set (dec_digits n)" for n using set_dec_digits [of n] by auto
  then show ?thesis by (simp add: sprintf_d_def)
qed


end
