(* ===== verification/Smack_Labels.thy ===== *)
theory Smack_Labels
  imports Prelude
begin

text \<open>
  The Smack label table of \<open>security/smack/smack_access.c\<close>: the statically allocated
  well-known labels, the global list and hash table of interned labels
  (\<open>smack_known_list\<close>, \<open>smack_known_hash\<close>), the secid counter, label parsing
  (\<open>smk_parse_smack\<close>), the CIPSO category encoding (\<open>smk_netlbl_mls\<close>), interning
  (\<open>smk_import_entry\<close>, \<open>smk_import\<close>) and the secid translations.

  Kernel memory is an arena: \<open>sk_heap\<close> holds every \<open>struct smack_known\<close> ever
  allocated, and a label is the index of its object (its address). Comparing two labels,
  as the C code compares \<open>struct smack_known *\<close> and \<open>char *smk_known\<close> pointers, is
  comparing indices. The hash function \<open>full_name_hash\<close> of the kernel library is a
  parameter \<open>h\<close>: no lemma depends on which function it is.
\<close>

type_synonym lbl = nat

record smack_rule =
  smk_subject :: lbl
  smk_object :: lbl
  smk_rule_access :: s32 \<comment> \<open>the C field \<open>smk_access\<close>\<close>

text \<open>The part of \<open>struct netlbl_lsm_secattr\<close> that \<open>smk_netlbl_mls\<close> fills in: the MLS
  level and the set category bits, in the order they are set.\<close>

record netlbl_mls =
  mls_lvl :: int
  mls_cat :: "nat list"

record smack_known =
  smk_known :: string
  smk_secid :: u32
  smk_netlabel :: netlbl_mls
  smk_rules :: "smack_rule list"

record smack_state =
  sk_heap :: "smack_known list"
  sk_list :: "lbl list" \<comment> \<open>\<open>smack_known_list\<close>, most recent first\<close>
  sk_hash :: "lbl list list" \<comment> \<open>\<open>smack_known_hash[SMACK_HASH_SLOTS]\<close>\<close>
  smack_next_secid :: u32
  log_policy :: s32

subsection \<open>Constants of \<open>smack.h\<close>\<close>

definition SMK_LONGLABEL :: nat where "SMK_LONGLABEL = 256"
definition SMK_CIPSOLEN :: nat where "SMK_CIPSOLEN = 24"
definition SMACK_HASH_SLOTS :: nat where "SMACK_HASH_SLOTS = 16"
definition SMACK_AUDIT_DENIED :: s32 where "SMACK_AUDIT_DENIED = 1"
definition SMACK_AUDIT_ACCEPT :: s32 where "SMACK_AUDIT_ACCEPT = 2"

subsection \<open>The well-known labels\<close>

text \<open>The six statically allocated entries occupy the first six addresses of the arena.\<close>

definition smack_known_huh :: lbl where "smack_known_huh = 0"
definition smack_known_hat :: lbl where "smack_known_hat = 1"
definition smack_known_star :: lbl where "smack_known_star = 2"
definition smack_known_floor :: lbl where "smack_known_floor = 3"
definition smack_known_invalid :: lbl where "smack_known_invalid = 4"
definition smack_known_web :: lbl where "smack_known_web = 5"

lemmas smack_known_addrs = smack_known_huh_def smack_known_hat_def smack_known_star_def
  smack_known_floor_def smack_known_invalid_def smack_known_web_def

definition static_known :: "string \<Rightarrow> u32 \<Rightarrow> smack_known" where
  "static_known t n = \<lparr>smk_known = t, smk_secid = n,
     smk_netlabel = \<lparr>mls_lvl = 0, mls_cat = []\<rparr>, smk_rules = []\<rparr>"

definition smack_known_statics :: "smack_known list" where
  "smack_known_statics =
     [static_known ''?'' 2, static_known ''^'' 3, static_known ''*'' 4,
      static_known ''_'' 5, static_known '''' 6, static_known ''@'' 7]"

text \<open>The state at boot, before \<open>smack_init\<close> links the static labels: the initial
  value of \<open>smack_next_secid\<close> and of \<open>log_policy\<close>.\<close>

definition smack_boot_state :: smack_state where
  "smack_boot_state = \<lparr>sk_heap = smack_known_statics, sk_list = [],
     sk_hash = replicate SMACK_HASH_SLOTS [], smack_next_secid = 10,
     log_policy = SMACK_AUDIT_DENIED\<rparr>"

subsection \<open>Hash table\<close>

definition smk_hash_slot :: "(string \<Rightarrow> u32) \<Rightarrow> string \<Rightarrow> nat" where
  "smk_hash_slot h str = unat (h str AND of_nat (SMACK_HASH_SLOTS - 1))"

definition label_text :: "smack_state \<Rightarrow> lbl \<Rightarrow> string" where
  "label_text s skp = smk_known (sk_heap s ! skp)"

definition label_secid :: "smack_state \<Rightarrow> lbl \<Rightarrow> u32" where
  "label_secid s skp = smk_secid (sk_heap s ! skp)"

definition smk_insert_entry :: "(string \<Rightarrow> u32) \<Rightarrow> lbl \<Rightarrow> smack_state \<Rightarrow> smack_state" where
  "smk_insert_entry h skp s =
     (let b = smk_hash_slot h (label_text s skp)
      in s\<lparr>sk_hash := (sk_hash s)[b := skp # sk_hash s ! b], sk_list := skp # sk_list s\<rparr>)"

definition smk_find_entry :: "(string \<Rightarrow> u32) \<Rightarrow> smack_state \<Rightarrow> string \<Rightarrow> lbl option" where
  "smk_find_entry h s str = find (\<lambda>skp. label_text s skp = str) (sk_hash s ! smk_hash_slot h str)"

text \<open>\<open>init_smack_known_list\<close> of \<open>smack_lsm.c\<close> links the six static labels in this order.\<close>

definition init_smack_known_list :: "(string \<Rightarrow> u32) \<Rightarrow> smack_state" where
  "init_smack_known_list h =
     fold (smk_insert_entry h)
       [smack_known_huh, smack_known_hat, smack_known_star, smack_known_floor,
        smack_known_invalid, smack_known_web] smack_boot_state"

subsection \<open>Parsing a label\<close>

text \<open>The character test of the loop of \<open>smk_parse_smack\<close>: a byte above \<open>'~'\<close>, at or
  below \<open>' '\<close>, or one of \<open>/ \" \\ '\<close> ends the label. With a signed or an unsigned
  \<open>char\<close> the same bytes end it.\<close>

definition smk_valid_char :: "char \<Rightarrow> bool" where
  "smk_valid_char c \<longleftrightarrow>
     \<not> ((126::nat) < of_char c \<or> of_char c \<le> (32::nat) \<or> c = CHR ''/'' \<or> c = CHR 0x22 \<or>
        c = CHR 0x5C \<or> c = CHR 0x27)"

function smk_parse_scan :: "string \<Rightarrow> nat \<Rightarrow> nat \<Rightarrow> nat" where
  "smk_parse_scan str len i =
     (if i < len \<and> smk_valid_char (cstr_at str i) then smk_parse_scan str len (Suc i) else i)"
  by pat_completeness auto
termination
  by (relation "measure (\<lambda>(str, len, i). len - i)") auto

declare smk_parse_scan.simps [simp del]

definition smk_parse_len :: "string \<Rightarrow> int \<Rightarrow> nat" where
  "smk_parse_len str len = (if len \<le> 0 then strlen str + 1 else nat len)"

text \<open>\<open>smk_parse_smack\<close> copies the label into a \<open>kzalloc\<close>ed buffer; \<open>alloc\<close> says
  whether that allocation succeeds, NULL being returned when it fails.\<close>

definition smk_parse_smack :: "bool \<Rightarrow> string \<Rightarrow> int \<Rightarrow> string option" where
  "smk_parse_smack alloc str len =
     (let n = (if len \<le> 0 then strlen str + 1 else nat len)
      in if cstr_at str 0 = CHR ''-'' then None
         else (let i = smk_parse_scan str n 0
               in if i = 0 \<or> SMK_LONGLABEL \<le> i then None
                  else if alloc then Some (take i str) else None))"

subsection \<open>CIPSO categories\<close>

text \<open>The two nested loops of \<open>smk_netlbl_mls\<close>: for each byte of the category set,
  the mask \<open>m\<close> runs from \<open>0x80\<close> down to \<open>0x01\<close> while \<open>cat\<close> counts up; every set
  bit sets category \<open>cat\<close>. The inner loop returns the categories and the final \<open>cat\<close>.\<close>

function smk_mls_byte :: "u8 \<Rightarrow> u8 \<Rightarrow> nat \<Rightarrow> nat list \<times> nat" where
  "smk_mls_byte b m cat =
     (if m = 0 then ([], cat)
      else (let (cs, cat') = smk_mls_byte b (drop_bit 1 m) (Suc cat)
            in ((if m AND b = 0 then [] else [cat]) @ cs, cat')))"
  by pat_completeness auto
termination
proof (relation "measure (\<lambda>(b, m, cat). unat m)")
  fix b m :: u8 and cat :: nat
  assume "m \<noteq> 0"
  then show "((b, drop_bit 1 m, Suc cat), b, m, cat) \<in> measure (\<lambda>(b, m, cat). unat m)"
    using unat_gt_0 [of m] by (simp add: drop_bit_eq_div unat_div)
qed simp

declare smk_mls_byte.simps [simp del]

fun smk_mls_cats :: "u8 list \<Rightarrow> nat \<Rightarrow> nat list \<times> nat" where
  "smk_mls_cats [] cat = ([], cat)"
| "smk_mls_cats (b # bs) cat =
     (let (cs, cat') = smk_mls_byte b 0x80 cat; (ds, cat'') = smk_mls_cats bs cat'
      in (cs @ ds, cat''))"

definition smk_netlbl_mls :: "int \<Rightarrow> u8 list \<Rightarrow> nat \<Rightarrow> netlbl_mls" where
  "smk_netlbl_mls level catset len =
     \<lparr>mls_lvl = level, mls_cat = fst (smk_mls_cats (take len catset) 1)\<rparr>"

text \<open>\<open>(char *)&skp->smk_secid\<close>: the four bytes of a \<open>u32\<close> in little-endian memory.\<close>

definition u32_le_bytes :: "u32 \<Rightarrow> u8 list" where
  "u32_le_bytes w = [ucast w, ucast (drop_bit 8 w), ucast (drop_bit 16 w), ucast (drop_bit 24 w)]"

subsection \<open>Interning\<close>

text \<open>Which allocation of \<open>smk_import_entry\<close> fails, if any: the \<open>kzalloc\<close> of the
  label copy in \<open>smk_parse_smack\<close>, the \<open>kzalloc\<close> of the new entry, or the category map of \<open>smk_netlbl_mls\<close> (its allocation or a
  \<open>netlbl_secattr_catmap_setbit\<close>).\<close>

datatype alloc_outcome = Alloc_ok | Alloc_fail_label | Alloc_fail_entry | Alloc_fail_catmap

text \<open>The fields \<open>smk_import_entry\<close> sets in a new entry: the label, the next secid and
  the CIPSO attributes, direct when the label is shorter than \<open>SMK_CIPSOLEN\<close>, mapped
  through the secid otherwise; the rule list starts empty.\<close>

definition smk_new_entry :: "int \<Rightarrow> int \<Rightarrow> string \<Rightarrow> u32 \<Rightarrow> smack_known" where
  "smk_new_entry cipso_direct cipso_mapped smack secid =
     (let slen = length smack
      in \<lparr>smk_known = smack, smk_secid = secid,
          smk_netlabel = (if slen < SMK_CIPSOLEN
                          then smk_netlbl_mls cipso_direct (map byte_of_char smack) slen
                          else smk_netlbl_mls cipso_mapped (u32_le_bytes secid) 4),
          smk_rules = []\<rparr>)"

definition smk_import_entry ::
  "(string \<Rightarrow> u32) \<Rightarrow> int \<Rightarrow> int \<Rightarrow> alloc_outcome \<Rightarrow> string \<Rightarrow> int \<Rightarrow> smack_state
     \<Rightarrow> lbl option \<times> smack_state" where
  "smk_import_entry h cipso_direct cipso_mapped mem str len s =
     (case smk_parse_smack (mem \<noteq> Alloc_fail_label) str len of
        None \<Rightarrow> (None, s)
      | Some smack \<Rightarrow>
          (case smk_find_entry h s smack of
             Some skp \<Rightarrow> (Some skp, s)
           | None \<Rightarrow>
               if mem = Alloc_fail_entry then (None, s)
               else
                 (let secid = smack_next_secid s;
                      s1 = s\<lparr>smack_next_secid := secid + 1\<rparr>;
                      skp = length (sk_heap s1)
                  in if mem = Alloc_fail_catmap then (None, s1)
                     else (Some skp, smk_insert_entry h skp
                             (s1\<lparr>sk_heap := sk_heap s1 @
                                   [smk_new_entry cipso_direct cipso_mapped smack secid]\<rparr>)))))"

definition smk_import ::
  "(string \<Rightarrow> u32) \<Rightarrow> int \<Rightarrow> int \<Rightarrow> alloc_outcome \<Rightarrow> string \<Rightarrow> int \<Rightarrow> smack_state
     \<Rightarrow> lbl option \<times> smack_state" where
  "smk_import h cipso_direct cipso_mapped mem str len s =
     (if cstr_at str 0 = CHR ''-'' then (None, s)
      else smk_import_entry h cipso_direct cipso_mapped mem str len s)"

subsection \<open>Secid translation\<close>

definition smack_from_secid :: "smack_state \<Rightarrow> u32 \<Rightarrow> lbl" where
  "smack_from_secid s secid =
     (case find (\<lambda>skp. label_secid s skp = secid) (sk_list s) of
        Some skp \<Rightarrow> skp
      | None \<Rightarrow> smack_known_invalid)"

definition smack_to_secid :: "(string \<Rightarrow> u32) \<Rightarrow> smack_state \<Rightarrow> string \<Rightarrow> u32" where
  "smack_to_secid h s str =
     (case smk_find_entry h s str of
        None \<Rightarrow> 0
      | Some skp \<Rightarrow> label_secid s skp)"

subsection \<open>The table invariant\<close>

text \<open>
  What every operation keeps: the listed labels are allocated, listed once, carry
  pairwise different texts and secids, each bucket of the hash table is exactly the
  sublist of the labels whose text hashes to it (in list order, since both are
  prepended to), every secid is below the counter, and the six static entries keep
  their texts.
\<close>

definition smack_inv :: "(string \<Rightarrow> u32) \<Rightarrow> smack_state \<Rightarrow> bool" where
  "smack_inv h s \<longleftrightarrow>
     set (sk_list s) \<subseteq> {..<length (sk_heap s)} \<and>
     distinct (sk_list s) \<and>
     distinct (map (label_text s) (sk_list s)) \<and>
     distinct (map (label_secid s) (sk_list s)) \<and>
     length (sk_hash s) = SMACK_HASH_SLOTS \<and>
     list_all (\<lambda>b. sk_hash s ! b = filter (\<lambda>skp. smk_hash_slot h (label_text s skp) = b) (sk_list s))
       [0..<SMACK_HASH_SLOTS] \<and>
     list_all (\<lambda>skp. label_secid s skp < smack_next_secid s) (sk_list s) \<and>
     take 6 (map smk_known (sk_heap s)) = map smk_known smack_known_statics"

subsection \<open>Lemmas\<close>

lemma smk_valid_char_NUL [simp]: "\<not> smk_valid_char (CHR 0x00)"
  by (simp add: smk_valid_char_def)

lemma drop_take_Cons:
  "i < n \<Longrightarrow> i < length xs \<Longrightarrow> drop i (take n xs) = xs ! i # drop (Suc i) (take n xs)"
  using Cons_nth_drop_Suc [of i "take n xs"] by simp

lemma smk_parse_scan_takeWhile:
  "i \<le> n \<Longrightarrow> smk_parse_scan str n i = i + length (takeWhile smk_valid_char (drop i (take n str)))"
proof (induction str n i rule: smk_parse_scan.induct)
  case (1 str n i)
  show ?case
  proof (cases "i < n \<and> smk_valid_char (cstr_at str i)")
    case True
    then have i: "i < length str" and v: "smk_valid_char (str ! i)"
      by (auto simp: cstr_at_def split: if_splits)
    have "drop i (take n str) = str ! i # drop (Suc i) (take n str)"
      using True i by (simp add: drop_take_Cons)
    with True v "1.IH" show ?thesis
      by (simp add: smk_parse_scan.simps [of str n i])
  next
    case False
    show ?thesis
    proof (cases "i < n")
      case False
      with "1.prems" have "i = n" by simp
      then show ?thesis by (simp add: smk_parse_scan.simps [of str n n])
    next
      case True
      with \<open>\<not> (i < n \<and> smk_valid_char (cstr_at str i))\<close>
      have nv: "\<not> smk_valid_char (cstr_at str i)" by simp
      show ?thesis
      proof (cases "i < length str")
        case True
        with \<open>i < n\<close> have "drop i (take n str) = str ! i # drop (Suc i) (take n str)"
          by (simp add: drop_take_Cons)
        with nv True show ?thesis by (simp add: smk_parse_scan.simps [of str n i] cstr_at_def)
      next
        case False
        then have "drop i (take n str) = []" by simp
        with nv show ?thesis by (simp add: smk_parse_scan.simps [of str n i])
      qed
    qed
  qed
qed

lemma take_length_takeWhile_take:
  "take (length (takeWhile P (take n xs))) xs = takeWhile P (take n xs)"
proof -
  have le: "length (takeWhile P (take n xs)) \<le> n"
    using length_takeWhile_le [of P "take n xs"] by simp
  have "takeWhile P (take n xs) = take (length (takeWhile P (take n xs))) (take n xs)"
    by (rule takeWhile_eq_take)
  also have "\<dots> = take (length (takeWhile P (take n xs))) xs"
    by (simp only: take_take min_absorb1 [OF le])
  finally show ?thesis by (rule sym)
qed

lemma smk_parse_smack_eq:
  "smk_parse_smack alloc str len =
     (let t = takeWhile smk_valid_char (take (smk_parse_len str len) str)
      in if cstr_at str 0 = CHR ''-'' \<or> t = [] \<or> SMK_LONGLABEL \<le> length t \<or> \<not> alloc then None else Some t)"
  using smk_parse_scan_takeWhile [of 0 "smk_parse_len str len" str]
  by (simp add: smk_parse_smack_def smk_parse_len_def Let_def take_length_takeWhile_take
      split: if_splits)

text \<open>C7: A label returned by \<open>smk_parse_smack\<close> (whatever its allocation does) is non-empty, shorter than \<open>SMK_LONGLABEL\<close>, made of valid label characters only, a prefix of the input, and does not start with a dash.\<close>

lemma smk_parse_smack_valid:
  "smk_parse_smack alloc str len = Some t \<Longrightarrow>
     t \<noteq> [] \<and> length t < SMK_LONGLABEL \<and> list_all smk_valid_char t \<and>
     t = take (length t) str \<and> hd t \<noteq> CHR ''-''"
proof -
  assume p: "smk_parse_smack alloc str len = Some t"
  let ?n = "smk_parse_len str len"
  from p have t: "t = takeWhile smk_valid_char (take ?n str)"
    and ne: "t \<noteq> []" and short: "length t < SMK_LONGLABEL" and nd: "cstr_at str 0 \<noteq> CHR ''-''"
    by (auto simp: smk_parse_smack_eq Let_def split: if_splits)
  have pre: "t = take (length t) str"
    using t take_length_takeWhile_take [of smk_valid_char ?n str] by simp
  have all: "list_all smk_valid_char t"
    using t by (auto simp: list_all_iff dest: set_takeWhileD)
  from ne pre have "str \<noteq> []" by auto
  then have "hd t = cstr_at str 0"
    using ne pre by (metis cstr_at_def hd_conv_nth length_greater_0_conv nth_take)
  with all ne short pre nd show ?thesis by simp
qed

lemma takeWhile_take_strlen:
  "takeWhile smk_valid_char (take (Suc (strlen xs)) xs) = takeWhile smk_valid_char xs"
  by (induction xs) (auto simp: strlen_def)

text \<open>C8: \<open>smk_parse_smack\<close>, whatever its allocation does, rejects the empty string, any string starting with a dash, and a NUL-terminated string whose run of valid characters is \<open>SMK_LONGLABEL\<close> long or longer.\<close>

lemma smk_parse_smack_rejects:
  "smk_parse_smack alloc [] len = None \<and>
   smk_parse_smack alloc (CHR ''-'' # cs) len = None \<and>
   (SMK_LONGLABEL \<le> length (takeWhile smk_valid_char str) \<longrightarrow> smk_parse_smack alloc str 0 = None)"
  by (auto simp: smk_parse_smack_eq Let_def cstr_at_def smk_parse_len_def takeWhile_take_strlen)

lemma smk_hash_slot_lt [simp]: "smk_hash_slot h str < SMACK_HASH_SLOTS"
  using unat_and_15_lt [of "h str"] by (simp add: smk_hash_slot_def SMACK_HASH_SLOTS_def)

lemma smk_insert_entry_fields [simp]:
  "sk_heap (smk_insert_entry h skp s) = sk_heap s"
  "sk_list (smk_insert_entry h skp s) = skp # sk_list s"
  "smack_next_secid (smk_insert_entry h skp s) = smack_next_secid s"
  "log_policy (smk_insert_entry h skp s) = log_policy s"
  "length (sk_hash (smk_insert_entry h skp s)) = length (sk_hash s)"
  by (simp_all add: smk_insert_entry_def Let_def)

lemma label_fields_insert [simp]:
  "label_text (smk_insert_entry h skp s) = label_text s"
  "label_secid (smk_insert_entry h skp s) = label_secid s"
  by (simp_all add: label_text_def label_secid_def fun_eq_iff)

lemma label_fields_next_secid [simp]:
  "label_text (s\<lparr>smack_next_secid := n\<rparr>) = label_text s"
  "label_secid (s\<lparr>smack_next_secid := n\<rparr>) = label_secid s"
  by (simp_all add: label_text_def label_secid_def fun_eq_iff)

lemma label_fields_heap_append [simp]:
  "skp < length (sk_heap s) \<Longrightarrow> label_text (s\<lparr>sk_heap := sk_heap s @ [e]\<rparr>) skp = label_text s skp"
  "skp < length (sk_heap s) \<Longrightarrow> label_secid (s\<lparr>sk_heap := sk_heap s @ [e]\<rparr>) skp = label_secid s skp"
  by (simp_all add: label_text_def label_secid_def nth_append)

lemma smack_inv_hash_nth:
  "smack_inv h s \<Longrightarrow> b < SMACK_HASH_SLOTS \<Longrightarrow>
     sk_hash s ! b = filter (\<lambda>skp. smk_hash_slot h (label_text s skp) = b) (sk_list s)"
  by (simp add: smack_inv_def list_all_iff)

lemma smack_inv_insert:
  assumes inv: "smack_inv h s" and a: "skp < length (sk_heap s)" and n: "skp \<notin> set (sk_list s)"
    and t: "label_text s skp \<notin> label_text s ` set (sk_list s)"
    and i: "label_secid s skp \<notin> label_secid s ` set (sk_list s)"
    and lt: "label_secid s skp < smack_next_secid s"
  shows "smack_inv h (smk_insert_entry h skp s)"
proof -
  let ?b = "smk_hash_slot h (label_text s skp)"
  have len: "length (sk_hash s) = SMACK_HASH_SLOTS" using inv by (simp add: smack_inv_def)
  have "sk_hash (smk_insert_entry h skp s) ! b =
          filter (\<lambda>x. smk_hash_slot h (label_text s x) = b) (skp # sk_list s)"
    if "b < SMACK_HASH_SLOTS" for b
    using that len smack_inv_hash_nth [OF inv that] smack_inv_hash_nth [OF inv smk_hash_slot_lt]
    by (cases "b = ?b") (simp_all add: smk_insert_entry_def Let_def)
  with inv a n t i lt show ?thesis
    by (simp add: smack_inv_def list_all_iff)
qed

lemma smack_inv_boot: "smack_inv h smack_boot_state"
  by (simp add: smack_inv_def smack_boot_state_def list_all_iff SMACK_HASH_SLOTS_def
      smack_known_statics_def)

lemma smack_inv_init: "smack_inv h (init_smack_known_list h)"
  unfolding init_smack_known_list_def
  by (simp, intro smack_inv_insert smack_inv_boot;
      simp add: smack_boot_state_def label_text_def label_secid_def smack_known_statics_def
        static_known_def smack_known_addrs)

lemma init_smack_known_list_fields [simp]:
  "sk_heap (init_smack_known_list h) = smack_known_statics"
  "sk_list (init_smack_known_list h) = [5, 4, 3, 2, 1, 0]"
  "smack_next_secid (init_smack_known_list h) = 10"
  "log_policy (init_smack_known_list h) = SMACK_AUDIT_DENIED"
  by (simp_all add: init_smack_known_list_def smack_boot_state_def smack_known_addrs)

lemma smk_find_entry_list:
  assumes inv: "smack_inv h s"
  shows "smk_find_entry h s str = find (\<lambda>skp. label_text s skp = str) (sk_list s)"
proof -
  let ?slot = "smk_hash_slot h"
  have "smk_find_entry h s str =
          find (\<lambda>skp. label_text s skp = str)
            (filter (\<lambda>skp. ?slot (label_text s skp) = ?slot str) (sk_list s))"
    using smack_inv_hash_nth [OF inv smk_hash_slot_lt] by (simp add: smk_find_entry_def)
  also have "\<dots> = find (\<lambda>skp. ?slot (label_text s skp) = ?slot str \<and> label_text s skp = str) (sk_list s)"
    by (rule find_filter_some)
  also have "(\<lambda>skp. ?slot (label_text s skp) = ?slot str \<and> label_text s skp = str) =
             (\<lambda>skp. label_text s skp = str)"
    by auto
  finally show ?thesis .
qed

text \<open>C4: On a table satisfying the invariant, the hashed lookup \<open>smk_find_entry\<close> finds a label exactly when it is on \<open>smack_known_list\<close> with that text: the bucket walk agrees with a walk of the whole list.\<close>

lemma smk_find_entry_Some_iff:
  assumes inv: "smack_inv h s"
  shows "smk_find_entry h s str = Some skp \<longleftrightarrow> skp \<in> set (sk_list s) \<and> label_text s skp = str"
proof
  assume "smk_find_entry h s str = Some skp"
  then show "skp \<in> set (sk_list s) \<and> label_text s skp = str"
    using smk_find_entry_list [OF inv] by (auto dest: find_Some_in_set)
next
  assume m: "skp \<in> set (sk_list s) \<and> label_text s skp = str"
  have "distinct (map (label_text s) (sk_list s))" using inv by (simp add: smack_inv_def)
  with m show "smk_find_entry h s str = Some skp"
    using find_distinct_key [of "label_text s" "sk_list s" skp] smk_find_entry_list [OF inv] by auto
qed

lemma smk_find_entry_None_iff:
  "smack_inv h s \<Longrightarrow> smk_find_entry h s str = None \<longleftrightarrow> str \<notin> label_text s ` set (sk_list s)"
  by (auto simp: smk_find_entry_list find_None_no_match)

lemma smack_inv_heap_length: "smack_inv h s \<Longrightarrow> 6 \<le> length (sk_heap s)"
proof -
  assume "smack_inv h s"
  then have "length (take 6 (map smk_known (sk_heap s))) = 6"
    by (simp add: smack_inv_def smack_known_statics_def)
  then show ?thesis by simp
qed

lemma smack_inv_heap_append:
  assumes inv: "smack_inv h s"
  shows "smack_inv h (s\<lparr>sk_heap := sk_heap s @ [e]\<rparr>)"
proof -
  let ?s = "s\<lparr>sk_heap := sk_heap s @ [e]\<rparr>"
  have lt: "\<forall>x \<in> set (sk_list s). x < length (sk_heap s)" using inv by (auto simp: smack_inv_def)
  have tx: "map (label_text ?s) (sk_list s) = map (label_text s) (sk_list s)"
    using lt by (intro map_cong) simp_all
  have sx: "map (label_secid ?s) (sk_list s) = map (label_secid s) (sk_list s)"
    using lt by (intro map_cong) simp_all
  have fx: "filter (\<lambda>skp. smk_hash_slot h (label_text ?s skp) = b) (sk_list s) =
        filter (\<lambda>skp. smk_hash_slot h (label_text s skp) = b) (sk_list s)" for b
    using lt by (intro filter_cong) simp_all
  have bx: "list_all (\<lambda>skp. label_secid ?s skp < smack_next_secid s) (sk_list s) =
            list_all (\<lambda>skp. label_secid s skp < smack_next_secid s) (sk_list s)"
    using lt by (simp add: list_all_iff)
  have t6: "take 6 (map smk_known (sk_heap s @ [e])) = take 6 (map smk_known (sk_heap s))"
    using smack_inv_heap_length [OF inv] by simp
  show ?thesis
    using inv lt smack_inv_heap_length [OF inv] unfolding smack_inv_def
    by (simp add: tx sx fx bx t6) auto
qed

lemma smack_inv_next_secid:
  assumes inv: "smack_inv h s" and nw: "smack_next_secid s \<noteq> - 1"
  shows "smack_inv h (s\<lparr>smack_next_secid := smack_next_secid s + 1\<rparr>)"
  using inv word_lt_inc_trans [OF _ nw] by (auto simp: smack_inv_def list_all_iff)

lemma smk_import_entry_cases:
  "smk_import_entry h cd cm mem str len s = (r, s') \<Longrightarrow>
     (r = None \<and> s' = s) \<or>
     (\<exists>smack. smk_parse_smack True str len = Some smack \<and> smk_find_entry h s smack = None \<and>
        mem = Alloc_fail_catmap \<and> r = None \<and> s' = s\<lparr>smack_next_secid := smack_next_secid s + 1\<rparr>) \<or>
     (\<exists>smack skp. smk_parse_smack True str len = Some smack \<and> smk_find_entry h s smack = Some skp \<and>
        mem \<noteq> Alloc_fail_label \<and> r = Some skp \<and> s' = s) \<or>
     (\<exists>smack. smk_parse_smack True str len = Some smack \<and> smk_find_entry h s smack = None \<and>
        mem = Alloc_ok \<and> r = Some (length (sk_heap s)) \<and>
        s' = smk_insert_entry h (length (sk_heap s))
               (s\<lparr>smack_next_secid := smack_next_secid s + 1,
                  sk_heap := sk_heap s @ [smk_new_entry cd cm smack (smack_next_secid s)]\<rparr>))"
  by (cases mem) (auto simp: smk_import_entry_def Let_def smk_parse_smack_def split: option.splits if_splits)

lemma smack_inv_import_entry:
  assumes inv: "smack_inv h s" and nw: "smack_next_secid s \<noteq> - 1"
  shows "smack_inv h (snd (smk_import_entry h cd cm mem str len s))"
proof -
  obtain r s' where eq: "smk_import_entry h cd cm mem str len s = (r, s')" by fastforce
  from smk_import_entry_cases [OF eq] show ?thesis
  proof (elim disjE exE conjE)
    fix smack
    assume p: "smk_parse_smack True str len = Some smack" and f: "smk_find_entry h s smack = None"
      and s': "s' = smk_insert_entry h (length (sk_heap s))
               (s\<lparr>smack_next_secid := smack_next_secid s + 1,
                  sk_heap := sk_heap s @ [smk_new_entry cd cm smack (smack_next_secid s)]\<rparr>)"
    let ?e = "smk_new_entry cd cm smack (smack_next_secid s)"
    let ?s1 = "s\<lparr>smack_next_secid := smack_next_secid s + 1\<rparr>"
    let ?s2 = "?s1\<lparr>sk_heap := sk_heap ?s1 @ [?e]\<rparr>"
    have inv2: "smack_inv h ?s2"
      by (rule smack_inv_heap_append [OF smack_inv_next_secid [OF inv nw]])
    have lt: "\<forall>x \<in> set (sk_list s). x < length (sk_heap s)" using inv by (auto simp: smack_inv_def)
    have tx0: "label_text ?s2 (length (sk_heap s)) = smack"
      and sec: "label_secid ?s2 (length (sk_heap s)) = smack_next_secid s"
      by (simp_all add: label_text_def label_secid_def smk_new_entry_def Let_def)
    have "smack \<notin> label_text s ` set (sk_list s)"
      using f smk_find_entry_None_iff [OF inv] by simp
    then have t: "label_text ?s2 (length (sk_heap s)) \<notin> label_text ?s2 ` set (sk_list ?s2)"
      using lt tx0 by (auto simp: label_text_def nth_append)
    have "\<forall>x \<in> set (sk_list s). label_secid s x < smack_next_secid s"
      using inv by (simp add: smack_inv_def list_all_iff)
    then have i: "label_secid ?s2 (length (sk_heap s)) \<notin> label_secid ?s2 ` set (sk_list ?s2)"
      using lt sec by (auto simp: label_secid_def nth_append)
    have "smack_inv h (smk_insert_entry h (length (sk_heap s)) ?s2)"
      by (rule smack_inv_insert [OF inv2]) (use lt t i sec nw word_lt_inc in auto)
    with s' eq show ?thesis by simp
  qed (use eq inv smack_inv_next_secid [OF inv nw] in simp_all)
qed

lemma smack_init_find_static:
  "i < 6 \<Longrightarrow> smk_find_entry h (init_smack_known_list h) (smk_known (smack_known_statics ! i)) = Some i"
  by (subst smk_find_entry_list [OF smack_inv_init])
     (auto simp: label_text_def smack_known_statics_def static_known_def numeral_eq_Suc less_Suc_eq)

text \<open>C2: After \<open>init_smack_known_list\<close> links the six static labels, the table
  invariant holds for every hash function, and each static label is found by its text at its
  static address.\<close>

lemma smack_init_lookup:
  "smack_inv h (init_smack_known_list h) \<and>
   list_all (\<lambda>i. smk_find_entry h (init_smack_known_list h) (smk_known (smack_known_statics ! i)) = Some i)
     [0..<6]"
  using smack_inv_init [of h] smack_init_find_static [of _ h] by (simp add: list_all_iff)

lemma smk_import_entry_keeps:
  assumes inv: "smack_inv h s" and eq: "smk_import_entry h cd cm mem str len s = (r, s')"
  shows "set (sk_list s) \<subseteq> set (sk_list s') \<and>
         (\<forall>skp \<in> set (sk_list s). label_text s' skp = label_text s skp \<and>
                                 label_secid s' skp = label_secid s skp)"
proof -
  have lt: "\<forall>x \<in> set (sk_list s). x < length (sk_heap s)" using inv by (auto simp: smack_inv_def)
  from smk_import_entry_cases [OF eq] lt show ?thesis
    by (elim disjE exE conjE) (auto simp: label_text_def label_secid_def nth_append)
qed

text \<open>C3: \<open>smk_import_entry\<close> keeps the table invariant as long as the secid counter has
  not reached its last value, and never drops or changes a label already listed.\<close>

lemma smk_import_entry_inv:
  assumes inv: "smack_inv h s" and nw: "smack_next_secid s \<noteq> - 1"
    and eq: "smk_import_entry h cd cm mem str len s = (r, s')"
  shows "smack_inv h s' \<and> set (sk_list s) \<subseteq> set (sk_list s') \<and>
         (\<forall>skp \<in> set (sk_list s). label_text s' skp = label_text s skp \<and>
                                 label_secid s' skp = label_secid s skp)"
  using smack_inv_import_entry [OF inv nw, of cd cm mem str len] smk_import_entry_keeps [OF inv eq] eq
  by simp

lemma smk_find_entry_insert_head:
  assumes "length (sk_hash s) = SMACK_HASH_SLOTS" and "label_text s skp = str"
  shows "smk_find_entry h (smk_insert_entry h skp s) str = Some skp"
  using assms by (simp add: smk_find_entry_def smk_insert_entry_def Let_def label_text_def)

text \<open>C11: A label returned by \<open>smk_import_entry\<close> is on the list and its text is the parse of the input.\<close>

lemma smk_import_entry_result:
  assumes inv: "smack_inv h s" and eq: "smk_import_entry h cd cm mem str len s = (Some skp, s')"
  shows "skp \<in> set (sk_list s') \<and> smk_parse_smack True str len = Some (label_text s' skp)"
  using smk_import_entry_cases [OF eq] smk_find_entry_list [OF inv]
  by (auto simp: label_text_def smk_new_entry_def Let_def dest: find_Some_in_set)

lemma smk_parse_smack_alloc:
  "smk_parse_smack alloc str len = (if alloc then smk_parse_smack True str len else None)"
  by (simp add: smk_parse_smack_def Let_def)

text \<open>C5: Importing a label that was just imported leaves the table unchanged and returns
  the same entry, unless the \<open>kzalloc\<close> of the label copy in \<open>smk_parse_smack\<close> fails, which
  returns NULL; the other allocations are not reached, so a label is never entered twice.\<close>

lemma smk_import_entry_idem:
  assumes inv: "smack_inv h s" and eq: "smk_import_entry h cd cm mem str len s = (Some skp, s')"
  shows "smk_import_entry h cd cm mem' str len s' = (if mem' = Alloc_fail_label then None else Some skp, s')"
proof -
  from smk_import_entry_cases [OF eq] obtain smack where p: "smk_parse_smack True str len = Some smack"
    and found: "smk_find_entry h s' smack = Some skp"
  proof (elim disjE exE conjE)
    fix smack
    assume p: "smk_parse_smack True str len = Some smack" and "smk_find_entry h s smack = None"
      and r: "Some skp = Some (length (sk_heap s))"
      and s': "s' = smk_insert_entry h (length (sk_heap s))
               (s\<lparr>smack_next_secid := smack_next_secid s + 1,
                  sk_heap := sk_heap s @ [smk_new_entry cd cm smack (smack_next_secid s)]\<rparr>)"
    have len: "length (sk_hash s) = SMACK_HASH_SLOTS" using inv by (simp add: smack_inv_def)
    have rr: "skp = length (sk_heap s)" using r by simp
    have "smk_find_entry h s' smack = Some skp"
      using len unfolding s' rr
      by (intro smk_find_entry_insert_head) (simp_all add: label_text_def smk_new_entry_def Let_def)
    with p show thesis by (rule that)
  qed (auto intro: that)
  then show ?thesis
    using smk_parse_smack_alloc [of "mem' \<noteq> Alloc_fail_label" str len]
    by (simp add: smk_import_entry_def)
qed

text \<open>C6: When \<open>smk_import_entry\<close> returns NULL (unparsable text or an allocation failure) the label list, the hash table and the entries are unchanged.\<close>

lemma smk_import_entry_fail_unchanged:
  assumes "smk_import_entry h cd cm mem str len s = (None, s')"
  shows "sk_list s' = sk_list s \<and> sk_hash s' = sk_hash s \<and> sk_heap s' = sk_heap s"
  using smk_import_entry_cases [OF assms] by auto

text \<open>C10: For a listed label, \<open>smack_from_secid\<close> of \<open>smack_to_secid\<close> of its text gives the label back.\<close>

lemma smack_secid_roundtrip:
  assumes inv: "smack_inv h s" and m: "skp \<in> set (sk_list s)"
  shows "smack_from_secid s (smack_to_secid h s (label_text s skp)) = skp"
proof -
  have "distinct (map (label_text s) (sk_list s))" using inv by (simp add: smack_inv_def)
  then have "smk_find_entry h s (label_text s skp) = Some skp"
    using find_distinct_key [of "label_text s" "sk_list s" skp] m smk_find_entry_list [OF inv]
    by simp
  moreover have "distinct (map (label_secid s) (sk_list s))" using inv by (simp add: smack_inv_def)
  ultimately show ?thesis
    using find_distinct_key [of "label_secid s" "sk_list s" skp] m
    by (simp add: smack_to_secid_def smack_from_secid_def)
qed

lemma exp_and_eq_0_iff: "((2::'a::len word) ^ n AND w = 0) \<longleftrightarrow> \<not> bit w n"
  by (simp add: and.commute and_exp_eq_0_iff_not_bit)

lemma smk_mls_byte_pow:
  "k < 8 \<Longrightarrow> smk_mls_byte b (2 ^ k) cat =
     (map (\<lambda>j. cat + k - j) (filter (bit b) (rev [0..<Suc k])), cat + Suc k)"
proof (induction k arbitrary: cat)
  case 0
  have "drop_bit 1 (1::u8) = 0" by simp
  then show ?case
    using exp_and_eq_0_iff [of 0 b] by (simp add: smk_mls_byte.simps [of b 1 cat] smk_mls_byte.simps [of b 0])
next
  case (Suc k)
  have nz: "(2::u8) ^ Suc k \<noteq> 0" using Suc.prems by (subst exp_eq_zero_iff) simp
  have db: "drop_bit 1 ((2::u8) ^ Suc k) = 2 ^ k" using Suc.prems by (subst drop_bit_exp_eq) simp
  have m: "map (\<lambda>j. Suc cat + k - j) (filter (bit b) (rev [0..<Suc k])) =
           map (\<lambda>j. cat + Suc k - j) (filter (bit b) (rev [0..<Suc k]))"
    by (intro map_cong) auto
  show ?case
    using Suc.IH [of "Suc cat"] Suc.prems nz db m exp_and_eq_0_iff [of "Suc k" b]
    by (simp add: smk_mls_byte.simps [of b "2 ^ Suc k" cat] del: power_Suc)
qed

lemma smk_mls_byte_0x80:
  "smk_mls_byte b 0x80 cat = (map (\<lambda>j. cat + 7 - j) (filter (bit b) (rev [0..<8])), cat + 8)"
  using smk_mls_byte_pow [of 7 b cat] by simp

lemma smk_mls_cats_Cons:
  "smk_mls_cats (b # bs) cat =
     (map (\<lambda>j. cat + 7 - j) (filter (bit b) (rev [0..<8])) @ fst (smk_mls_cats bs (cat + 8)),
      snd (smk_mls_cats bs (cat + 8)))"
  by (simp add: smk_mls_byte_0x80 case_prod_beta)

lemma smk_mls_cats_next: "snd (smk_mls_cats bs cat) = cat + 8 * length bs"
  by (induction bs arbitrary: cat) (simp_all add: smk_mls_cats_Cons del: smk_mls_cats.simps(2))

lemma smk_mls_cats_mem:
  "c \<in> set (fst (smk_mls_cats bs cat)) \<longleftrightarrow>
     (\<exists>i < length bs. \<exists>j < 8. bit (bs ! i) j \<and> c = cat + 8 * i + 7 - j)"
proof (induction bs arbitrary: cat)
  case Nil
  then show ?case by simp
next
  case (Cons b bs)
  have "(\<exists>i < length (b # bs). \<exists>j < 8. bit ((b # bs) ! i) j \<and> c = cat + 8 * i + 7 - j) \<longleftrightarrow>
        (\<exists>j < 8. bit b j \<and> c = cat + 7 - j) \<or>
        (\<exists>i < length bs. \<exists>j < 8. bit (bs ! i) j \<and> c = (cat + 8) + 8 * i + 7 - j)"
  proof
    assume "\<exists>i < length (b # bs). \<exists>j < 8. bit ((b # bs) ! i) j \<and> c = cat + 8 * i + 7 - j"
    then obtain i j where "i < length (b # bs)" "j < 8" "bit ((b # bs) ! i) j" "c = cat + 8 * i + 7 - j"
      by blast
    then show "(\<exists>j < 8. bit b j \<and> c = cat + 7 - j) \<or>
        (\<exists>i < length bs. \<exists>j < 8. bit (bs ! i) j \<and> c = (cat + 8) + 8 * i + 7 - j)"
      by (cases i) auto
  next
    assume "(\<exists>j < 8. bit b j \<and> c = cat + 7 - j) \<or>
        (\<exists>i < length bs. \<exists>j < 8. bit (bs ! i) j \<and> c = (cat + 8) + 8 * i + 7 - j)"
    then show "\<exists>i < length (b # bs). \<exists>j < 8. bit ((b # bs) ! i) j \<and> c = cat + 8 * i + 7 - j"
    proof
      assume "\<exists>j < 8. bit b j \<and> c = cat + 7 - j"
      then show ?thesis by (intro exI [of _ 0]) auto
    next
      assume "\<exists>i < length bs. \<exists>j < 8. bit (bs ! i) j \<and> c = (cat + 8) + 8 * i + 7 - j"
      then obtain i j where "i < length bs" "j < 8" "bit (bs ! i) j" "c = (cat + 8) + 8 * i + 7 - j"
        by blast
      then show ?thesis by (intro exI [of _ "Suc i"]) auto
    qed
  qed
  moreover have "c \<in> set (fst (smk_mls_cats (b # bs) cat)) \<longleftrightarrow>
        (\<exists>j < 8. bit b j \<and> c = cat + 7 - j) \<or> c \<in> set (fst (smk_mls_cats bs (cat + 8)))"
    by (auto simp: smk_mls_cats_Cons simp del: smk_mls_cats.simps)
  ultimately show ?case using Cons.IH [of "cat + 8"] by simp
qed

text \<open>C12: \<open>smk_netlbl_mls\<close> sets category \<open>c\<close> exactly when \<open>1 \<le> c \<le> 8 * len\<close> and bit \<open>(c - 1) mod 8\<close> of byte \<open>(c - 1) div 8\<close>, counted from the most significant bit, is set in the category string.\<close>

lemma smk_netlbl_mls_cat_iff:
  "c \<in> set (mls_cat (smk_netlbl_mls lvl bs (length bs))) \<longleftrightarrow>
     1 \<le> c \<and> c \<le> 8 * length bs \<and> bit (bs ! ((c - 1) div 8)) (7 - (c - 1) mod 8)"
proof -
  have "c \<in> set (mls_cat (smk_netlbl_mls lvl bs (length bs))) \<longleftrightarrow>
        (\<exists>i < length bs. \<exists>j < 8. bit (bs ! i) j \<and> c = 1 + 8 * i + 7 - j)"
    by (simp add: smk_netlbl_mls_def smk_mls_cats_mem)
  also have "\<dots> \<longleftrightarrow> 1 \<le> c \<and> c \<le> 8 * length bs \<and> bit (bs ! ((c - 1) div 8)) (7 - (c - 1) mod 8)"
  proof
    assume "\<exists>i < length bs. \<exists>j < 8. bit (bs ! i) j \<and> c = 1 + 8 * i + 7 - j"
    then obtain i j where ij: "i < length bs" "j < 8" "bit (bs ! i) j" "c = 1 + 8 * i + 7 - j"
      by blast
    define k where "k = 7 - j"
    have k8: "k < 8" and jk: "j = 7 - k" using ij(2) by (simp_all add: k_def)
    have "c - 1 = 8 * i + k" using ij by (simp add: k_def)
    then have "(c - 1) div 8 = i" and "7 - (c - 1) mod 8 = j" using k8 jk by simp_all
    with ij show "1 \<le> c \<and> c \<le> 8 * length bs \<and> bit (bs ! ((c - 1) div 8)) (7 - (c - 1) mod 8)"
      by auto
  next
    assume r: "1 \<le> c \<and> c \<le> 8 * length bs \<and> bit (bs ! ((c - 1) div 8)) (7 - (c - 1) mod 8)"
    let ?i = "(c - 1) div 8" and ?j = "7 - (c - 1) mod 8"
    have "?i < length bs" using r by auto
    moreover have "?j < 8" by simp
    moreover have "c = 1 + 8 * ?i + 7 - ?j" using r by auto
    ultimately show "\<exists>i < length bs. \<exists>j < 8. bit (bs ! i) j \<and> c = 1 + 8 * i + 7 - j"
      using r by blast
  qed
  finally show ?thesis .
qed

lemma smk_new_entry_fields [simp]:
  "smk_known (smk_new_entry cd cm t n) = t"
  "smk_secid (smk_new_entry cd cm t n) = n"
  "smk_rules (smk_new_entry cd cm t n) = []"
  by (simp_all add: smk_new_entry_def Let_def)

lemma smk_import_entry_new:
  assumes p: "smk_parse_smack True str len = Some t" and n: "smk_find_entry h s t = None"
  shows "smk_import_entry h cd cm Alloc_ok str len s =
           (Some (length (sk_heap s)),
            smk_insert_entry h (length (sk_heap s))
              (s\<lparr>smack_next_secid := smack_next_secid s + 1,
                 sk_heap := sk_heap s @ [smk_new_entry cd cm t (smack_next_secid s)]\<rparr>))"
  using p n by (simp add: smk_import_entry_def Let_def)

lemma smk_find_entry_insert_other:
  assumes "label_text s skp \<noteq> str"
  shows "smk_find_entry h (smk_insert_entry h skp s) str = smk_find_entry h s str"
  using assms
  by (cases "smk_hash_slot h (label_text s skp) = smk_hash_slot h str";
      cases "smk_hash_slot h str < length (sk_hash s)")
     (simp_all add: smk_find_entry_def smk_insert_entry_def Let_def label_text_def nth_list_update
        list_update_beyond)

lemma smk_find_entry_heap_append:
  assumes inv: "smack_inv h s"
  shows "smk_find_entry h (s\<lparr>smack_next_secid := n, sk_heap := sk_heap s @ [e]\<rparr>) str = smk_find_entry h s str"
proof -
  let ?b = "sk_hash s ! smk_hash_slot h str"
  have "?b = filter (\<lambda>skp. smk_hash_slot h (label_text s skp) = smk_hash_slot h str) (sk_list s)"
    by (rule smack_inv_hash_nth [OF inv smk_hash_slot_lt])
  moreover have "\<forall>x \<in> set (sk_list s). x < length (sk_heap s)" using inv by (auto simp: smack_inv_def)
  ultimately have "\<forall>x \<in> set ?b. x < length (sk_heap s)" by auto
  moreover have hs: "sk_hash (s\<lparr>smack_next_secid := n, sk_heap := sk_heap s @ [e]\<rparr>) = sk_hash s" by simp
  ultimately show ?thesis
    unfolding smk_find_entry_def hs by (intro find_cong_set) (auto simp: label_text_def nth_append)
qed

subsection \<open>The properties at concrete inputs\<close>

text \<open>The table after boot with the hash function that maps every label to bucket 0, and
  the import of a label \<open>app1\<close> into it.\<close>

lemma smk_parse_smack_app1: "smk_parse_smack True ''app1'' 0 = Some ''app1''"
  by code_simp

lemma smk_parse_smack_app2: "smk_parse_smack True ''app2'' 0 = Some ''app2''"
  by code_simp

lemma smk_import_entry_app1:
  "fst (smk_import_entry (\<lambda>_. 0) 3 4 Alloc_ok ''app1'' 0 (init_smack_known_list (\<lambda>_. 0))) = Some 6"
  by code_simp

theorem smack_init_lookup_witness:
  "smk_find_entry (\<lambda>_. 0) (init_smack_known_list (\<lambda>_. 0)) ''*'' = Some 2"
proof -
  have "\<forall>i \<in> set [0..<6]. smk_find_entry (\<lambda>_. 0) (init_smack_known_list (\<lambda>_. 0))
          (smk_known (smack_known_statics ! i)) = Some i"
    using smack_init_lookup [of "\<lambda>_. 0"] unfolding list_all_iff by (rule conjunct2)
  then have "smk_find_entry (\<lambda>_. 0) (init_smack_known_list (\<lambda>_. 0))
          (smk_known (smack_known_statics ! 2)) = Some 2"
    by (rule bspec) simp
  then show ?thesis by (simp add: smack_known_statics_def static_known_def)
qed

theorem smk_import_entry_inv_witness:
  "smack_inv (\<lambda>_. 0) (init_smack_known_list (\<lambda>_. 0)) \<and>
   smack_next_secid (init_smack_known_list (\<lambda>_. 0)) \<noteq> - 1 \<and>
   smack_inv (\<lambda>_. 0) (snd (smk_import_entry (\<lambda>_. 0) 3 4 Alloc_ok ''app1'' 0 (init_smack_known_list (\<lambda>_. 0))))"
  using smack_inv_init [of "\<lambda>_. 0"]
    smk_import_entry_inv [of "\<lambda>_. 0" "init_smack_known_list (\<lambda>_. 0)" 3 4 Alloc_ok "''app1''" 0
      "fst (smk_import_entry (\<lambda>_. 0) 3 4 Alloc_ok ''app1'' 0 (init_smack_known_list (\<lambda>_. 0)))"
      "snd (smk_import_entry (\<lambda>_. 0) 3 4 Alloc_ok ''app1'' 0 (init_smack_known_list (\<lambda>_. 0)))"]
  by simp

theorem smk_find_entry_Some_iff_witness:
  "smack_inv (\<lambda>_. 0) (init_smack_known_list (\<lambda>_. 0)) \<and>
   smk_find_entry (\<lambda>_. 0) (init_smack_known_list (\<lambda>_. 0)) ''^'' = Some 1"
  using smack_inv_init [of "\<lambda>_. 0"]
    smk_find_entry_Some_iff [of "\<lambda>_. 0" "init_smack_known_list (\<lambda>_. 0)" "''^''" 1]
  by (simp add: label_text_def smack_known_statics_def static_known_def)

theorem smk_import_entry_idem_witness:
  "fst (smk_import_entry (\<lambda>_. 0) 3 4 Alloc_ok ''app1'' 0 (init_smack_known_list (\<lambda>_. 0))) = Some 6 \<and>
   smk_import_entry (\<lambda>_. 0) 3 4 Alloc_fail_entry ''app1'' 0
     (snd (smk_import_entry (\<lambda>_. 0) 3 4 Alloc_ok ''app1'' 0 (init_smack_known_list (\<lambda>_. 0)))) =
   (Some 6, snd (smk_import_entry (\<lambda>_. 0) 3 4 Alloc_ok ''app1'' 0 (init_smack_known_list (\<lambda>_. 0))))"
  using smack_inv_init [of "\<lambda>_. 0"] smk_import_entry_app1
    smk_import_entry_idem [of "\<lambda>_. 0" "init_smack_known_list (\<lambda>_. 0)" 3 4 Alloc_ok "''app1''" 0 6
      "snd (smk_import_entry (\<lambda>_. 0) 3 4 Alloc_ok ''app1'' 0 (init_smack_known_list (\<lambda>_. 0)))"
      Alloc_fail_entry]
  by (simp add: prod_eq_iff)

theorem smk_import_entry_fail_unchanged_witness:
  "fst (smk_import_entry (\<lambda>_. 0) 3 4 Alloc_fail_catmap ''app1'' 0 (init_smack_known_list (\<lambda>_. 0))) = None \<and>
   sk_list (snd (smk_import_entry (\<lambda>_. 0) 3 4 Alloc_fail_catmap ''app1'' 0 (init_smack_known_list (\<lambda>_. 0)))) =
   [5, 4, 3, 2, 1, 0]"
proof -
  have "fst (smk_import_entry (\<lambda>_. 0) 3 4 Alloc_fail_catmap ''app1'' 0 (init_smack_known_list (\<lambda>_. 0))) = None"
    by code_simp
  then show ?thesis
    using smk_import_entry_fail_unchanged [of "\<lambda>_. 0" 3 4 Alloc_fail_catmap "''app1''" 0
      "init_smack_known_list (\<lambda>_. 0)"
      "snd (smk_import_entry (\<lambda>_. 0) 3 4 Alloc_fail_catmap ''app1'' 0 (init_smack_known_list (\<lambda>_. 0)))"]
    by (simp add: prod_eq_iff)
qed

theorem smk_parse_smack_valid_witness:
  "smk_parse_smack True ''app1 x'' 0 = Some ''app1'' \<and> length ''app1'' < SMK_LONGLABEL \<and> hd ''app1'' \<noteq> CHR ''-''"
proof -
  have p: "smk_parse_smack True ''app1 x'' 0 = Some ''app1''" by code_simp
  show ?thesis using p smk_parse_smack_valid [OF p] by simp
qed

theorem smk_parse_smack_rejects_witness:
  "SMK_LONGLABEL \<le> length (takeWhile smk_valid_char (replicate 300 (CHR ''a''))) \<and>
   smk_parse_smack True (replicate 300 (CHR ''a'')) 0 = None"
  using smk_parse_smack_rejects [of True _ "replicate 300 (CHR ''a'')"]
  by (simp add: SMK_LONGLABEL_def smk_valid_char_def)

theorem smack_secid_roundtrip_witness:
  "smack_inv (\<lambda>_. 0) (init_smack_known_list (\<lambda>_. 0)) \<and> (3::nat) \<in> set (sk_list (init_smack_known_list (\<lambda>_. 0))) \<and>
   smack_from_secid (init_smack_known_list (\<lambda>_. 0)) (smack_to_secid (\<lambda>_. 0) (init_smack_known_list (\<lambda>_. 0)) ''_'') = 3"
  using smack_inv_init [of "\<lambda>_. 0"] smack_secid_roundtrip [of "\<lambda>_. 0" "init_smack_known_list (\<lambda>_. 0)" 3]
  by (simp add: label_text_def smack_known_statics_def static_known_def)

theorem smk_import_entry_result_witness:
  "6 \<in> set (sk_list (snd (smk_import_entry (\<lambda>_. 0) 3 4 Alloc_ok ''app1'' 0 (init_smack_known_list (\<lambda>_. 0))))) \<and>
   label_text (snd (smk_import_entry (\<lambda>_. 0) 3 4 Alloc_ok ''app1'' 0 (init_smack_known_list (\<lambda>_. 0)))) 6 = ''app1''"
  using smack_inv_init [of "\<lambda>_. 0"] smk_import_entry_app1 smk_parse_smack_app1
    smk_import_entry_result [of "\<lambda>_. 0" "init_smack_known_list (\<lambda>_. 0)" 3 4 Alloc_ok "''app1''" 0 6
      "snd (smk_import_entry (\<lambda>_. 0) 3 4 Alloc_ok ''app1'' 0 (init_smack_known_list (\<lambda>_. 0)))"]
  by (simp add: prod_eq_iff)

theorem smk_netlbl_mls_cat_iff_witness:
  "1 \<in> set (mls_cat (smk_netlbl_mls 0 [0x80] 1)) \<and> 2 \<notin> set (mls_cat (smk_netlbl_mls 0 [0x80] 1))"
  using smk_netlbl_mls_cat_iff [of 1 0 "[0x80]"] smk_netlbl_mls_cat_iff [of 2 0 "[0x80]"]
  by simp

end
