(* ===== verification/Smack_Access.thy ===== *)
theory Smack_Access
  imports Smack_Labels
begin

text \<open>
  The Smack access decision of \<open>security/smack/smack_access.c\<close>: the rule lookup
  \<open>smk_access_entry\<close>, the decision \<open>smk_access\<close> with its hard-coded label
  comparisons, the task-level check \<open>smk_tskacc\<close>/\<open>smk_curacc\<close>, and the audit path
  \<open>smack_log\<close>, \<open>smack_str_from_perm\<close>, \<open>smack_log_callback\<close>. Access masks and
  return values are C \<open>int\<close>s, kept as 32-bit words and read with \<open>sint\<close> where
  the code compares them with zero. An abstract policy over permission sets
  (\<open>smack_permits\<close>) states what the decision promises; \<open>smk_access\<close> refines it.
\<close>

unbundle bit_operations_syntax

subsection \<open>Access bits\<close>

text \<open>\<open>MAY_EXEC\<close>, \<open>MAY_WRITE\<close>, \<open>MAY_READ\<close>, \<open>MAY_APPEND\<close> of \<open>linux/fs.h\<close>;
  \<open>MAY_TRANSMUTE\<close>, \<open>MAY_LOCK\<close>, \<open>MAY_ANYREAD\<close> of \<open>smack.h\<close>.\<close>

definition MAY_EXEC :: s32 where "MAY_EXEC = 0x1"
definition MAY_WRITE :: s32 where "MAY_WRITE = 0x2"
definition MAY_READ :: s32 where "MAY_READ = 0x4"
definition MAY_APPEND :: s32 where "MAY_APPEND = 0x8"
definition MAY_TRANSMUTE :: s32 where "MAY_TRANSMUTE = 0x1000"
definition MAY_LOCK :: s32 where "MAY_LOCK = 0x2000"
definition MAY_ANYREAD :: s32 where "MAY_ANYREAD = MAY_READ OR MAY_EXEC"

lemmas may_bits = MAY_EXEC_def MAY_WRITE_def MAY_READ_def MAY_APPEND_def MAY_TRANSMUTE_def
  MAY_LOCK_def MAY_ANYREAD_def

subsection \<open>Rule lookup\<close>

text \<open>\<open>smk_access_entry\<close>: the first rule of the list for this subject/object pair
  gives the access mode, \<open>-ENOENT\<close> when there is none; a mode with \<open>MAY_WRITE\<close> gets
  \<open>MAY_LOCK\<close> added. The test is made on \<open>-ENOENT\<close> too, as in the C code.\<close>

definition smk_access_entry :: "lbl \<Rightarrow> lbl \<Rightarrow> smack_rule list \<Rightarrow> s32" where
  "smk_access_entry subject_label object_label rule_list =
     (let may = (case find (\<lambda>srp. smk_object srp = object_label \<and> smk_subject srp = subject_label)
                        rule_list of
                   Some srp \<Rightarrow> smk_rule_access srp
                 | None \<Rightarrow> - word_of_int ENOENT)
      in if may AND MAY_WRITE = MAY_WRITE then may OR MAY_LOCK else may)"

subsection \<open>Audit\<close>

record smk_audit_info =
  sad_fn :: "string option" \<comment> \<open>\<open>smack_audit_data->function\<close>, possibly NULL\<close>

record smack_audit_data =
  sad_function :: string
  sad_subject :: string
  sad_object :: string
  sad_request :: string
  sad_result :: int

definition smack_str_from_perm :: "s32 \<Rightarrow> string" where
  "smack_str_from_perm access =
     (if access AND MAY_READ \<noteq> 0 then ''r'' else []) @
     (if access AND MAY_WRITE \<noteq> 0 then ''w'' else []) @
     (if access AND MAY_EXEC \<noteq> 0 then ''x'' else []) @
     (if access AND MAY_APPEND \<noteq> 0 then ''a'' else []) @
     (if access AND MAY_TRANSMUTE \<noteq> 0 then ''t'' else []) @
     (if access AND MAY_LOCK \<noteq> 0 then ''l'' else [])"

text \<open>\<open>smack_log\<close>: the audit record it hands to \<open>common_lsm_audit\<close>, if the logging
  policy asks for this outcome.\<close>

definition smack_log :: "s32 \<Rightarrow> string \<Rightarrow> string \<Rightarrow> s32 \<Rightarrow> int \<Rightarrow> smk_audit_info
    \<Rightarrow> smack_audit_data option" where
  "smack_log policy subject_label object_label request result ad =
     (if result \<noteq> 0 \<and> policy AND SMACK_AUDIT_DENIED = 0 then None
      else if result = 0 \<and> policy AND SMACK_AUDIT_ACCEPT = 0 then None
      else Some \<lparr>sad_function = (case sad_fn ad of None \<Rightarrow> ''unknown'' | Some f \<Rightarrow> f),
                 sad_subject = subject_label, sad_object = object_label,
                 sad_request = smack_str_from_perm request, sad_result = result\<rparr>)"

text \<open>\<open>smack_log_callback\<close>: the text appended to the audit buffer. The kernel's
  \<open>audit_log_untrustedstring\<close> is the parameter \<open>untrusted\<close>.\<close>

definition smack_log_callback :: "(string \<Rightarrow> string) \<Rightarrow> smack_audit_data \<Rightarrow> string" where
  "smack_log_callback untrusted sad =
     ''lsm=SMACK fn='' @ sad_function sad @ '' action='' @
     (if sad_result sad \<noteq> 0 then ''denied'' else ''granted'') @
     '' subject='' @ untrusted (sad_subject sad) @
     '' object='' @ untrusted (sad_object sad) @
     (if sad_request sad = [] then '' labels_differ'' else '' requested='' @ sad_request sad)"

subsection \<open>The decision\<close>

text \<open>\<open>smk_access\<close>: the result code (0 or \<open>-EACCES\<close>) and the audit record, if an
  audit structure was passed. The label comparisons are the pointer comparisons of the
  code, here comparisons of addresses.\<close>

definition smk_access_rc :: "smack_state \<Rightarrow> lbl \<Rightarrow> lbl \<Rightarrow> s32 \<Rightarrow> int" where
  "smk_access_rc s subject_known object_label request =
     (if subject_known = smack_known_star then - EACCES
      else if object_label = smack_known_web \<or> subject_known = smack_known_web then 0
      else if object_label = smack_known_star then 0
      else if subject_known = object_label then 0
      else if (request AND MAY_ANYREAD = request \<or> request AND MAY_LOCK = request) \<and>
              (object_label = smack_known_floor \<or> subject_known = smack_known_hat) then 0
      else (let may = smk_access_entry subject_known object_label
                        (smk_rules (sk_heap s ! subject_known))
            in if 0 < sint may \<and> request AND may = request then 0 else - EACCES))"

definition smk_access :: "smack_state \<Rightarrow> lbl \<Rightarrow> lbl \<Rightarrow> s32 \<Rightarrow> smk_audit_info option
    \<Rightarrow> int \<times> smack_audit_data option" where
  "smk_access s subject_known object_label request a =
     (let rc = smk_access_rc s subject_known object_label request
      in (rc, case a of
                None \<Rightarrow> None
              | Some ad \<Rightarrow> smack_log (log_policy s) (label_text s subject_known)
                             (label_text s object_label) request rc ad))"

text \<open>The part of \<open>struct task_smack\<close> the check reads: the task label
  (\<open>smk_of_task\<close>) and the task's own rule list.\<close>

record task_smack =
  smk_task :: lbl
  tsk_rules :: "smack_rule list"

definition smk_of_task :: "task_smack \<Rightarrow> lbl" where
  "smk_of_task tsp = smk_task tsp"

text \<open>\<open>smk_tskacc\<close>: the global decision, narrowed by the task's rules, then overridden
  when the task holds \<open>CAP_MAC_OVERRIDE\<close> (\<open>smack_privileged\<close>, the parameter
  \<open>privileged\<close>).\<close>

definition smk_tskacc_rc :: "smack_state \<Rightarrow> bool \<Rightarrow> task_smack \<Rightarrow> lbl \<Rightarrow> s32 \<Rightarrow> int" where
  "smk_tskacc_rc s privileged subject obj_label mode =
     (let skp = smk_of_task subject;
          rc = fst (smk_access s skp obj_label mode None)
      in if rc = 0 then
           (let may = smk_access_entry skp obj_label (tsk_rules subject)
            in if sint may < 0 then 0
               else if mode AND may = mode then 0
               else if privileged then 0 else - EACCES)
         else if privileged then 0 else rc)"

definition smk_tskacc :: "smack_state \<Rightarrow> bool \<Rightarrow> task_smack \<Rightarrow> lbl \<Rightarrow> s32
    \<Rightarrow> smk_audit_info option \<Rightarrow> int \<times> smack_audit_data option" where
  "smk_tskacc s privileged subject obj_label mode a =
     (let skp = smk_of_task subject;
          rc = smk_tskacc_rc s privileged subject obj_label mode
      in (rc, case a of
                None \<Rightarrow> None
              | Some ad \<Rightarrow> smack_log (log_policy s) (label_text s skp) (label_text s obj_label)
                             mode rc ad))"

definition smk_curacc :: "smack_state \<Rightarrow> bool \<Rightarrow> task_smack \<Rightarrow> lbl \<Rightarrow> s32
    \<Rightarrow> smk_audit_info option \<Rightarrow> int \<times> smack_audit_data option" where
  "smk_curacc s privileged current obj_label mode a = smk_tskacc s privileged current obj_label mode a"

subsection \<open>Loading a rule\<close>

text \<open>Rule loading (\<open>smk_set_access\<close> of \<open>smackfs.c\<close>, outside this slice): an existing
  rule for the pair gets the new mode, otherwise a new rule is appended to the subject's
  list.\<close>

definition smk_rule_match :: "lbl \<Rightarrow> lbl \<Rightarrow> smack_rule \<Rightarrow> bool" where
  "smk_rule_match subj obj srp \<longleftrightarrow> smk_object srp = obj \<and> smk_subject srp = subj"

definition smk_set_access :: "lbl \<Rightarrow> lbl \<Rightarrow> s32 \<Rightarrow> smack_state \<Rightarrow> smack_state" where
  "smk_set_access subj obj acc s =
     (let k = sk_heap s ! subj; rs = smk_rules k;
          rs' = (if list_ex (smk_rule_match subj obj) rs
                 then map (\<lambda>r. if smk_rule_match subj obj r then r\<lparr>smk_rule_access := acc\<rparr> else r) rs
                 else rs @ [\<lparr>smk_subject = subj, smk_object = obj, smk_rule_access = acc\<rparr>])
      in s\<lparr>sk_heap := (sk_heap s)[subj := k\<lparr>smk_rules := rs'\<rparr>]\<rparr>)"

subsection \<open>The abstract policy\<close>

datatype perm = Read | Write | Exec | Append | Transmute | Lock

definition perm_bit :: "perm \<Rightarrow> nat" where
  "perm_bit p = (case p of Exec \<Rightarrow> 0 | Write \<Rightarrow> 1 | Read \<Rightarrow> 2 | Append \<Rightarrow> 3
     | Transmute \<Rightarrow> 12 | Lock \<Rightarrow> 13)"

definition perms_of :: "s32 \<Rightarrow> perm set" where
  "perms_of m = {p. bit m (perm_bit p)}"

text \<open>A mask is well formed when it has no bit besides the six access bits.\<close>

definition perm_mask_wf :: "s32 \<Rightarrow> bool" where
  "perm_mask_wf m \<longleftrightarrow> m AND NOT 0x300F = 0"

definition write_lock_closure :: "perm set \<Rightarrow> perm set" where
  "write_lock_closure A = (if Write \<in> A then insert Lock A else A)"

text \<open>The rule of a subject for an object, as a permission set.\<close>

definition rule_perms :: "smack_state \<Rightarrow> lbl \<Rightarrow> lbl \<Rightarrow> perm set option" where
  "rule_perms s subj obj =
     map_option (perms_of \<circ> smk_rule_access) (find (smk_rule_match subj obj) (smk_rules (sk_heap s ! subj)))"

text \<open>What the decision promises, in the order of the hard-coded checks: a star subject
  gets nothing, the web label and the star object everything, a subject everything on
  its own label, a read-or-execute-only or lock-only request succeeds on the floor
  object or for the hat subject, and otherwise a non-empty rule must cover the request
  after write-implies-lock.\<close>

definition smack_permits :: "(lbl \<Rightarrow> lbl \<Rightarrow> perm set option) \<Rightarrow> lbl \<Rightarrow> lbl \<Rightarrow> perm set \<Rightarrow> bool" where
  "smack_permits rules subj obj R \<longleftrightarrow>
     subj \<noteq> smack_known_star \<and>
     (obj = smack_known_web \<or> subj = smack_known_web \<or> obj = smack_known_star \<or> subj = obj \<or>
      ((R \<subseteq> {Read, Exec} \<or> R \<subseteq> {Lock}) \<and> (obj = smack_known_floor \<or> subj = smack_known_hat)) \<or>
      (case rules subj obj of
         None \<Rightarrow> False
       | Some A \<Rightarrow> A \<noteq> {} \<and> R \<subseteq> write_lock_closure A))"

subsection \<open>Rule loading keeps the table\<close>

lemma nth_update_same_label:
  "f ((xs ! i)\<lparr>smk_rules := rs\<rparr>) = f (xs ! i) \<Longrightarrow> f ((xs[i := (xs ! i)\<lparr>smk_rules := rs\<rparr>]) ! x) = f (xs ! x)"
  by (cases "i < length xs"; cases "x = i") (simp_all add: list_update_beyond)

lemma nth_update_rules [simp]:
  "smk_known ((xs[i := (xs ! i)\<lparr>smk_rules := rs\<rparr>]) ! x) = smk_known (xs ! x)"
  "smk_secid ((xs[i := (xs ! i)\<lparr>smk_rules := rs\<rparr>]) ! x) = smk_secid (xs ! x)"
  by (rule nth_update_same_label, simp)+

lemma smk_set_access_fields [simp]:
  "sk_list (smk_set_access subj obj acc s) = sk_list s"
  "sk_hash (smk_set_access subj obj acc s) = sk_hash s"
  "smack_next_secid (smk_set_access subj obj acc s) = smack_next_secid s"
  "log_policy (smk_set_access subj obj acc s) = log_policy s"
  "label_text (smk_set_access subj obj acc s) = label_text s"
  "label_secid (smk_set_access subj obj acc s) = label_secid s"
  "length (sk_heap (smk_set_access subj obj acc s)) = length (sk_heap s)"
  by (simp_all add: smk_set_access_def Let_def label_text_def label_secid_def fun_eq_iff)

lemma smack_inv_set_access: "smack_inv h s \<Longrightarrow> smack_inv h (smk_set_access subj obj acc s)"
proof -
  assume inv: "smack_inv h s"
  have "map smk_known (sk_heap (smk_set_access subj obj acc s)) = map smk_known (sk_heap s)"
    by (simp add: smk_set_access_def Let_def map_equality_iff)
  with inv show ?thesis by (simp add: smack_inv_def)
qed

subsection \<open>Permission masks as permission sets\<close>

lemma perm_UNIV: "(UNIV :: perm set) = {Read, Write, Exec, Append, Transmute, Lock}"
  using perm.exhaust by auto

lemma perms_of_list: "perms_of m = set (filter (\<lambda>p. bit m (perm_bit p)) [Read, Write, Exec, Append, Transmute, Lock])"
proof -
  have "perms_of m = {p \<in> UNIV. bit m (perm_bit p)}" by (simp add: perms_of_def)
  also have "\<dots> = {p \<in> {Read, Write, Exec, Append, Transmute, Lock}. bit m (perm_bit p)}"
    by (simp only: perm_UNIV)
  also have "\<dots> = set (filter (\<lambda>p. bit m (perm_bit p)) [Read, Write, Exec, Append, Transmute, Lock])"
    by auto
  finally show ?thesis .
qed

lemma bit_0x300F_iff: "bit (0x300F :: s32) n \<longleftrightarrow> n \<in> {0, 1, 2, 3, 12, 13}"
proof (cases "n < 32")
  case True
  have "list_all (\<lambda>n. bit (0x300F :: s32) n \<longleftrightarrow> n \<in> {0, 1, 2, 3, 12, 13}) [0..<32]"
    by code_simp
  with True show ?thesis by (simp add: list_all_iff)
next
  case False
  then show ?thesis using bit_imp_le_length [of "0x300F :: s32" n] by auto
qed

lemma perms_of_consts:
  "perms_of MAY_ANYREAD = {Read, Exec}" "perms_of MAY_LOCK = {Lock}" "perms_of MAY_READ = {Read}"
  "perms_of MAY_WRITE = {Write}" "perms_of MAY_EXEC = {Exec}"
  by (simp_all add: perms_of_list may_bits perm_bit_def bit_or_iff insert_commute)

lemma perms_of_minus2: "perms_of (- 2) = {Write, Read, Append, Transmute, Lock}"
  by (simp add: perms_of_list perm_bit_def insert_commute)

lemma perm_bit_le: "perm_bit p \<le> 13"
  by (cases p) (simp_all add: perm_bit_def)

lemma perm_mask_wf_iff: "perm_mask_wf m \<longleftrightarrow> (\<forall>n. bit m n \<longrightarrow> n \<in> {0, 1, 2, 3, 12, 13})"
  unfolding perm_mask_wf_def bit_eq_iff bit_and_iff bit_not_iff bit_0x300F_iff bit_0
  using bit_imp_le_length [of m] by (auto simp: possible_bit_word)

lemma perm_mask_wf_bit: "perm_mask_wf m \<Longrightarrow> bit m n \<Longrightarrow> \<exists>p. perm_bit p = n"
proof -
  assume wf: "perm_mask_wf m" and b: "bit m n"
  then have "n \<in> {0, 1, 2, 3, 12, 13}" by (simp add: perm_mask_wf_iff)
  then show ?thesis
    by (elim insertE emptyE)
       (auto intro: exI [of _ Exec] exI [of _ Write] exI [of _ Read] exI [of _ Append]
          exI [of _ Transmute] exI [of _ Lock] simp: perm_bit_def)
qed

lemma and_eq_self_iff_perms:
  assumes wf: "perm_mask_wf x"
  shows "x AND m = x \<longleftrightarrow> perms_of x \<subseteq> perms_of m"
proof
  assume eq: "x AND m = x"
  show "perms_of x \<subseteq> perms_of m"
  proof
    fix p assume "p \<in> perms_of x"
    then have "bit (x AND m) (perm_bit p)" using eq by (simp add: perms_of_def)
    then show "p \<in> perms_of m" by (simp add: perms_of_def bit_and_iff)
  qed
next
  assume sub: "perms_of x \<subseteq> perms_of m"
  have "bit m n" if b: "bit x n" for n
  proof -
    obtain p where "perm_bit p = n" using perm_mask_wf_bit [OF wf b] by blast
    with b sub show "bit m n" by (auto simp: perms_of_def)
  qed
  then show "x AND m = x" by (auto simp: bit_eq_iff bit_and_iff)
qed

lemma perm_mask_wf_or_lock: "perm_mask_wf m \<Longrightarrow> perm_mask_wf (m OR MAY_LOCK)"
  by (simp add: perm_mask_wf_def word_ao_dist may_bits)

lemma perms_of_or: "perms_of (a OR b) = perms_of a \<union> perms_of b"
  by (auto simp: perms_of_def bit_or_iff)

lemma write_bit_iff: "m AND MAY_WRITE = MAY_WRITE \<longleftrightarrow> Write \<in> perms_of m"
proof -
  have "m AND MAY_WRITE = MAY_WRITE \<longleftrightarrow> MAY_WRITE AND m = MAY_WRITE" by (simp add: and.commute)
  also have "\<dots> \<longleftrightarrow> perms_of MAY_WRITE \<subseteq> perms_of m"
    by (rule and_eq_self_iff_perms) (simp add: perm_mask_wf_def may_bits)
  finally show ?thesis by (simp add: perms_of_consts)
qed

lemma perm_mask_wf_sint:
  assumes wf: "perm_mask_wf m"
  shows "sint m = uint m"
proof -
  have n31: "\<not> bit m 31" using wf unfolding perm_mask_wf_iff by fastforce
  have "take_bit 31 (uint m) = uint m"
  proof (rule bit_eqI)
    fix n show "bit (take_bit 31 (uint m)) n \<longleftrightarrow> bit (uint m) n"
      using n31 by (cases "n = 31") (auto simp: bit_take_bit_iff bit_uint_iff)
  qed
  with n31 show "sint m = uint m"
    by (simp add: sint_uint signed_take_bit_eq_if_positive bit_uint_iff)
qed

lemma sint_pos_iff_perms:
  assumes wf: "perm_mask_wf m"
  shows "0 < sint m \<longleftrightarrow> perms_of m \<noteq> {}"
proof -
  have "m \<noteq> 0 \<longleftrightarrow> perms_of m \<noteq> {}"
  proof
    assume "m \<noteq> 0"
    then obtain n where "bit m n" by (auto simp: bit_eq_iff)
    with perm_mask_wf_bit [OF wf this] show "perms_of m \<noteq> {}" by (auto simp: perms_of_def)
  next
    assume "perms_of m \<noteq> {}"
    then show "m \<noteq> 0" by (auto simp: perms_of_def)
  qed
  then show ?thesis using uint_ge_0 [of m] by (auto simp: perm_mask_wf_sint [OF wf] less_le uint_0_iff)
qed

lemma smk_rule_match_eq: "smk_rule_match subj obj = (\<lambda>srp. smk_object srp = obj \<and> smk_subject srp = subj)"
  by (rule ext) (simp add: smk_rule_match_def)

lemma smk_access_entry_none:
  "find (smk_rule_match subj obj) rs = None \<Longrightarrow> smk_access_entry subj obj rs = - 2"
  by (simp add: smk_access_entry_def smk_rule_match_eq ENOENT_def may_bits)

lemma smk_access_entry_some:
  "find (smk_rule_match subj obj) rs = Some r \<Longrightarrow>
   smk_access_entry subj obj rs =
     (if Write \<in> perms_of (smk_rule_access r) then smk_rule_access r OR MAY_LOCK else smk_rule_access r)"
  by (simp add: smk_access_entry_def smk_rule_match_eq write_bit_iff)

lemma perms_of_lock_on_write:
  "perms_of (if Write \<in> perms_of m then m OR MAY_LOCK else m) = write_lock_closure (perms_of m)"
  by (simp add: perms_of_or perms_of_consts write_lock_closure_def)

lemma perm_mask_wf_lock_on_write:
  "perm_mask_wf m \<Longrightarrow> perm_mask_wf (if Write \<in> perms_of m then m OR MAY_LOCK else m)"
  by (simp add: perm_mask_wf_or_lock)

lemma write_lock_closure_empty_iff: "write_lock_closure A = {} \<longleftrightarrow> A = {}"
  by (auto simp: write_lock_closure_def)

lemma smk_access_rc_zero_iff:
  "smk_access_rc s subj obj req = 0 \<longleftrightarrow>
     subj \<noteq> smack_known_star \<and>
     (obj = smack_known_web \<or> subj = smack_known_web \<or> obj = smack_known_star \<or> subj = obj \<or>
      ((req AND MAY_ANYREAD = req \<or> req AND MAY_LOCK = req) \<and>
       (obj = smack_known_floor \<or> subj = smack_known_hat)) \<or>
      (let may = smk_access_entry subj obj (smk_rules (sk_heap s ! subj))
       in 0 < sint may \<and> req AND may = req))"
  by (simp add: smk_access_rc_def EACCES_def Let_def)

lemma smk_access_entry_permits:
  assumes wf_req: "perm_mask_wf req"
    and wf_rules: "\<forall>r \<in> set rs. perm_mask_wf (smk_rule_access r)"
  shows "(let may = smk_access_entry subj obj rs in 0 < sint may \<and> req AND may = req) \<longleftrightarrow>
         (case map_option (perms_of \<circ> smk_rule_access) (find (smk_rule_match subj obj) rs) of
            None \<Rightarrow> False
          | Some A \<Rightarrow> A \<noteq> {} \<and> perms_of req \<subseteq> write_lock_closure A)"
proof (cases "find (smk_rule_match subj obj) rs")
  case None
  then show ?thesis by (simp add: smk_access_entry_none)
next
  case (Some r)
  then have wf: "perm_mask_wf (smk_rule_access r)" using wf_rules by (auto dest: find_Some_in_set)
  show ?thesis
    using Some sint_pos_iff_perms [OF perm_mask_wf_lock_on_write [OF wf]]
      and_eq_self_iff_perms [OF wf_req]
    by (simp add: smk_access_entry_some perms_of_lock_on_write write_lock_closure_empty_iff Let_def)
qed

lemma anyread_iff:
  "perm_mask_wf req \<Longrightarrow> req AND MAY_ANYREAD = req \<longleftrightarrow> perms_of req \<subseteq> {Read, Exec}"
  by (simp add: and_eq_self_iff_perms perms_of_consts)

lemma lock_only_iff:
  "perm_mask_wf req \<Longrightarrow> req AND MAY_LOCK = req \<longleftrightarrow> perms_of req \<subseteq> {Lock}"
  by (simp add: and_eq_self_iff_perms perms_of_consts)

text \<open>C1: For a request made of access bits only and a subject whose rules carry access bits only, \<open>smk_access\<close> grants exactly what the abstract policy \<open>smack_permits\<close> permits: the star subject nothing; the web label, the star object and the subject's own label everything; a read/execute-only or lock-only request on the floor object or by the hat subject; and otherwise what a non-empty rule grants once write implies lock.\<close>

theorem smk_access_refines_policy:
  assumes "perm_mask_wf req"
    and "\<forall>r \<in> set (smk_rules (sk_heap s ! subj)). perm_mask_wf (smk_rule_access r)"
  shows "smk_access_rc s subj obj req = 0 \<longleftrightarrow> smack_permits (rule_perms s) subj obj (perms_of req)"
  using smk_access_entry_permits [OF assms, of subj obj]
  by (simp add: smk_access_rc_zero_iff smack_permits_def rule_perms_def anyread_iff [OF assms(1)]
      lock_only_iff [OF assms(1)])

text \<open>\<open>smk_access\<close> returns 0 or \<open>-EACCES\<close> and nothing else.\<close>

lemma smk_access_rc_cases: "smk_access_rc s subj obj req \<in> {0, - EACCES}"
  by (simp add: smk_access_rc_def Let_def)

text \<open>C13: The denials of \<open>smk_access\<close>: a subject with the star label is denied every access, to every object, even to the star or web object; and outside the hard-coded cases a subject with no rule for an object is denied with \<open>-EACCES\<close>, whatever the request.\<close>

lemma smk_access_denied_cases:
  assumes "subj \<notin> {smack_known_web, smack_known_hat}" "obj \<notin> {smack_known_web, smack_known_star, smack_known_floor}"
    and "subj \<noteq> obj" and "find (smk_rule_match subj obj) (smk_rules (sk_heap s ! subj)) = None"
  shows "smk_access_rc s smack_known_star obj' req' = - EACCES \<and> smk_access_rc s subj obj req = - EACCES"
  using assms by (simp add: smk_access_rc_def smk_access_entry_none)

text \<open>C14: The hard-coded grants of \<open>smk_access\<close>, without a rule: any subject other than star may access the web object, and the web subject any object, with any request; any subject other than star may read, execute, read-and-execute or lock the floor object, and the hat subject may do so on any object (the shortcut tests \<open>MAY_ANYREAD\<close>, which includes execute).\<close>

lemma smk_access_hardcoded_grants:
  assumes "subj \<noteq> smack_known_star" and "req' \<in> {MAY_READ, MAY_EXEC, MAY_ANYREAD, MAY_LOCK}"
  shows "smk_access_rc s subj smack_known_web req = 0 \<and> smk_access_rc s smack_known_web obj req = 0 \<and>
         smk_access_rc s subj smack_known_floor req' = 0 \<and> smk_access_rc s smack_known_hat obj req' = 0"
proof -
  have "smk_access_rc s subj smack_known_web req = 0 \<and> smk_access_rc s smack_known_web obj req = 0"
    using assms(1) by (simp add: smk_access_rc_def smack_known_addrs)
  moreover have "smk_access_rc s subj smack_known_floor req' = 0 \<and> smk_access_rc s smack_known_hat obj req' = 0"
    using assms by (auto simp: smk_access_rc_zero_iff may_bits smack_known_addrs)
  ultimately show ?thesis by blast
qed

text \<open>C17: \<open>smk_access_entry\<close> returns \<open>-ENOENT\<close> when no rule matches (adding \<open>MAY_LOCK\<close> to it changes nothing), and otherwise the rule's access with lock added when write is granted.\<close>

lemma smk_access_entry_result:
  "(find (smk_rule_match subj obj) rs = None \<longrightarrow> sint (smk_access_entry subj obj rs) = - ENOENT) \<and>
   (find (smk_rule_match subj obj) rs = Some r \<longrightarrow>
      perms_of (smk_access_entry subj obj rs) = write_lock_closure (perms_of (smk_rule_access r)))"
  by (simp add: smk_access_entry_none smk_access_entry_some perms_of_lock_on_write ENOENT_def)

text \<open>C19: The capability decides first in \<open>smk_tskacc\<close>: a task holding \<open>CAP_MAC_OVERRIDE\<close> passes for every object and request, and without it the task is granted only what the global decision \<open>smk_access\<close> grants for its label, so task rules can only narrow access.\<close>

lemma smk_tskacc_grants:
  "smk_tskacc_rc s True tsk obj mode = 0 \<and>
   (smk_tskacc_rc s False tsk obj mode = 0 \<longrightarrow> smk_access_rc s (smk_of_task tsk) obj mode = 0)"
  by (auto simp: smk_tskacc_rc_def smk_access_def Let_def split: if_splits)

text \<open>C21: When the global decision grants a request and the task has its own rule for the object, the unprivileged \<open>smk_tskacc\<close> grants it exactly when the task rule, with write implying lock, covers the request.\<close>

lemma smk_tskacc_task_rule_denies:
  assumes "smk_access_rc s (smk_of_task tsk) obj mode = 0" "perm_mask_wf mode"
    and "find (smk_rule_match (smk_of_task tsk) obj) (tsk_rules tsk) = Some r"
    and "perm_mask_wf (smk_rule_access r)"
  shows "smk_tskacc_rc s False tsk obj mode = 0 \<longleftrightarrow>
         perms_of mode \<subseteq> write_lock_closure (perms_of (smk_rule_access r))"
proof -
  let ?may = "smk_access_entry (smk_of_task tsk) obj (tsk_rules tsk)"
  have wf: "perm_mask_wf ?may"
    using assms(3) perm_mask_wf_lock_on_write [OF assms(4)] by (simp add: smk_access_entry_some)
  have "\<not> sint ?may < 0" using uint_ge_0 [of ?may] by (simp add: perm_mask_wf_sint [OF wf])
  then show ?thesis using assms(1,3) and_eq_self_iff_perms [OF assms(2), of ?may]
    by (simp add: smk_tskacc_rc_def smk_access_def smk_access_entry_some perms_of_lock_on_write EACCES_def)
qed

text \<open>Under the default logging policy (\<open>SMACK_AUDIT_DENIED\<close>), \<open>smack_log\<close> emits an audit record exactly for the denied checks.\<close>

lemma smack_log_default_policy:
  "smack_log SMACK_AUDIT_DENIED subj obj req rc ad \<noteq> None \<longleftrightarrow> rc \<noteq> 0"
  by (simp add: smack_log_def SMACK_AUDIT_DENIED_def SMACK_AUDIT_ACCEPT_def)

subsection \<open>The properties at concrete inputs\<close>

theorem smk_access_refines_policy_witness:
  "perm_mask_wf MAY_READ \<and>
   list_all (\<lambda>r. perm_mask_wf (smk_rule_access r))
     (smk_rules (sk_heap (smk_set_access 0 1 MAY_READ (init_smack_known_list (\<lambda>_. 0))) ! 0)) \<and>
   smk_access_rc (smk_set_access 0 1 MAY_READ (init_smack_known_list (\<lambda>_. 0))) 0 1 MAY_READ = 0 \<and>
   smack_permits (rule_perms (smk_set_access 0 1 MAY_READ (init_smack_known_list (\<lambda>_. 0)))) 0 1 {Read}"
proof -
  have wf: "perm_mask_wf MAY_READ" by (simp add: perm_mask_wf_def may_bits)
  have rules: "\<forall>r \<in> set (smk_rules (sk_heap (smk_set_access 0 1 MAY_READ (init_smack_known_list (\<lambda>_. 0))) ! 0)).
      perm_mask_wf (smk_rule_access r)"
    using wf by (simp add: smk_set_access_def smack_known_statics_def static_known_def)
  have rc: "smk_access_rc (smk_set_access 0 1 MAY_READ (init_smack_known_list (\<lambda>_. 0))) 0 1 MAY_READ = 0"
    by (simp add: smk_access_rc_def smk_set_access_def smack_known_statics_def static_known_def
        smk_access_entry_def smack_known_addrs may_bits)
  show ?thesis
    using smk_access_refines_policy [OF wf rules, of 1] wf rules rc perms_of_consts(3)
    by (simp add: list_all_iff)
qed

theorem smk_access_hardcoded_grants_witness:
  "smack_known_huh \<noteq> smack_known_star \<and> MAY_EXEC \<in> {MAY_READ, MAY_EXEC, MAY_ANYREAD, MAY_LOCK} \<and>
   smk_access_rc (init_smack_known_list (\<lambda>_. 0)) smack_known_huh smack_known_web MAY_WRITE = 0 \<and>
   smk_access_rc (init_smack_known_list (\<lambda>_. 0)) smack_known_web smack_known_hat MAY_WRITE = 0 \<and>
   smk_access_rc (init_smack_known_list (\<lambda>_. 0)) smack_known_huh smack_known_floor MAY_EXEC = 0 \<and>
   smk_access_rc (init_smack_known_list (\<lambda>_. 0)) smack_known_hat smack_known_star MAY_EXEC = 0"
  using smk_access_hardcoded_grants [of smack_known_huh MAY_EXEC "init_smack_known_list (\<lambda>_. 0)" MAY_WRITE smack_known_hat]
    smk_access_hardcoded_grants [of smack_known_huh MAY_EXEC "init_smack_known_list (\<lambda>_. 0)" MAY_WRITE smack_known_star]
  by (simp add: smack_known_addrs)

theorem smk_access_denied_cases_witness:
  "find (smk_rule_match 0 1) (smk_rules (sk_heap (init_smack_known_list (\<lambda>_. 0)) ! 0)) = None \<and>
   smk_access_rc (init_smack_known_list (\<lambda>_. 0)) smack_known_star smack_known_floor MAY_READ = - 13 \<and>
   smk_access_rc (init_smack_known_list (\<lambda>_. 0)) 0 1 MAY_READ = - 13"
proof -
  have f: "find (smk_rule_match 0 1) (smk_rules (sk_heap (init_smack_known_list (\<lambda>_. 0)) ! 0)) = None"
    by (simp add: smack_known_statics_def static_known_def)
  show ?thesis
    using f smk_access_denied_cases [of 0 1 "init_smack_known_list (\<lambda>_. 0)" smack_known_floor MAY_READ MAY_READ]
    by (simp add: smack_known_addrs EACCES_def)
qed

theorem smk_access_entry_result_witness:
  "sint (smk_access_entry 0 2 [\<lparr>smk_subject = 0, smk_object = 1, smk_rule_access = MAY_WRITE\<rparr>]) = - 2 \<and>
   perms_of (smk_access_entry 0 1 [\<lparr>smk_subject = 0, smk_object = 1, smk_rule_access = MAY_WRITE\<rparr>]) =
     {Write, Lock}"
  using smk_access_entry_result [of 0 2 "[\<lparr>smk_subject = 0, smk_object = 1, smk_rule_access = MAY_WRITE\<rparr>]"
      "\<lparr>smk_subject = 0, smk_object = 1, smk_rule_access = MAY_WRITE\<rparr>"]
    smk_access_entry_result [of 0 1 "[\<lparr>smk_subject = 0, smk_object = 1, smk_rule_access = MAY_WRITE\<rparr>]"
      "\<lparr>smk_subject = 0, smk_object = 1, smk_rule_access = MAY_WRITE\<rparr>"]
  by (simp add: smk_rule_match_def ENOENT_def perms_of_consts write_lock_closure_def insert_commute)

theorem smk_access_rc_cases_witness:
  "smk_access_rc (init_smack_known_list (\<lambda>_. 0)) 0 1 MAY_READ \<in> {0, - 13}"
  using smk_access_rc_cases [of "init_smack_known_list (\<lambda>_. 0)" 0 1 MAY_READ] by (simp add: EACCES_def)

theorem smk_tskacc_grants_witness:
  "smk_tskacc_rc (init_smack_known_list (\<lambda>_. 0)) True \<lparr>smk_task = smack_known_star, tsk_rules = []\<rparr>
     smack_known_hat MAY_WRITE = 0 \<and>
   smk_tskacc_rc (init_smack_known_list (\<lambda>_. 0)) False \<lparr>smk_task = 0, tsk_rules = []\<rparr> 3 MAY_READ = 0 \<and>
   smk_access_rc (init_smack_known_list (\<lambda>_. 0)) 0 3 MAY_READ = 0"
proof -
  have t: "smk_tskacc_rc (init_smack_known_list (\<lambda>_. 0)) False \<lparr>smk_task = 0, tsk_rules = []\<rparr> 3 MAY_READ = 0"
    by (simp add: smk_tskacc_rc_def smk_access_def smk_access_rc_def smk_of_task_def smack_known_addrs
        may_bits smk_access_entry_def ENOENT_def)
  show ?thesis
    using t smk_tskacc_grants [of "init_smack_known_list (\<lambda>_. 0)" "\<lparr>smk_task = 0, tsk_rules = []\<rparr>" 3 MAY_READ]
      smk_tskacc_grants [of "init_smack_known_list (\<lambda>_. 0)" "\<lparr>smk_task = smack_known_star, tsk_rules = []\<rparr>"
        smack_known_hat MAY_WRITE]
    by (simp add: smk_of_task_def)
qed

theorem smk_tskacc_task_rule_denies_witness:
  "smk_access_rc (init_smack_known_list (\<lambda>_. 0)) 0 3 MAY_READ = 0 \<and>
   smk_tskacc_rc (init_smack_known_list (\<lambda>_. 0)) False
     \<lparr>smk_task = 0, tsk_rules = [\<lparr>smk_subject = 0, smk_object = 3, smk_rule_access = MAY_EXEC\<rparr>]\<rparr>
     3 MAY_READ \<noteq> 0"
proof -
  have rc: "smk_access_rc (init_smack_known_list (\<lambda>_. 0)) 0 3 MAY_READ = 0"
    by (simp add: smk_access_rc_def smack_known_addrs may_bits)
  have wf: "perm_mask_wf MAY_READ" "perm_mask_wf MAY_EXEC" by (simp_all add: perm_mask_wf_def may_bits)
  show ?thesis
    using rc wf smk_tskacc_task_rule_denies [of "init_smack_known_list (\<lambda>_. 0)"
        "\<lparr>smk_task = 0, tsk_rules = [\<lparr>smk_subject = 0, smk_object = 3, smk_rule_access = MAY_EXEC\<rparr>]\<rparr>"
        3 MAY_READ "\<lparr>smk_subject = 0, smk_object = 3, smk_rule_access = MAY_EXEC\<rparr>"]
    by (simp add: smk_of_task_def smk_rule_match_def perms_of_consts write_lock_closure_def)
qed

theorem smack_log_default_policy_witness:
  "smack_log SMACK_AUDIT_DENIED ''app1'' ''app2'' MAY_READ (- 13) \<lparr>sad_fn = None\<rparr> \<noteq> None \<and>
   smack_log SMACK_AUDIT_DENIED ''app1'' ''app2'' MAY_READ 0 \<lparr>sad_fn = None\<rparr> = None"
  using smack_log_default_policy [of "''app1''" "''app2''" MAY_READ "- 13" "\<lparr>sad_fn = None\<rparr>"]
    smack_log_default_policy [of "''app1''" "''app2''" MAY_READ 0 "\<lparr>sad_fn = None\<rparr>"]
  by simp

end
