(* ===== verification/Mali_Search.thy ===== *)
theory Mali_Search
  imports Prelude
begin

text \<open>
  The GPU frequency scaling of \<open>drivers/gpu/mali/platform/sc8830/mali_platform.c\<close>:
  the clock-source tables of the three SoC variants, the generated table of all
  source/divider frequencies (\<open>gpu_dfs_full_list_generate\<close>), the two binary searches
  \<open>freq_search\<close> and \<open>get_next_freq\<close>, the context set-up \<open>gpu_dfs_context_init\<close>, the
  utilization callback, the deferred frequency change and the power-mode changes.
  The C \<open>int\<close>s of the tables are HOL integers: every value is below \<open>2^31\<close> and every
  division has non-negative operands, where C and HOL division agree.
  A \<open>struct gpu_freq_info *\<close> is an index into the static array \<open>dfs_freq_full_list\<close>.
  This theory holds the tables and the searches with their correctness; \<open>Mali_DVFS\<close>
  the DVFS context and its events.
\<close>

subsection \<open>Tables\<close>

record gpu_clock_source =
  gcs_name :: string
  gcs_freq :: int
  gcs_freq_select :: int
  gcs_clk_src :: "nat option" \<comment> \<open>the \<open>struct clk *\<close>, NULL until \<open>clk_get\<close>\<close>

record gpu_freq_info =
  gfi_index :: int
  gfi_freq :: int
  gfi_freq_select :: int
  gfi_div_select :: int
  gfi_up_threshold :: int
  gfi_down_threshold :: int
  gfi_clk_src :: "nat option"

type_synonym fptr = nat \<comment> \<open>a pointer into \<open>dfs_freq_full_list\<close>\<close>

definition GPU_HARDWARE_MAX_DIVISION :: int where "GPU_HARDWARE_MAX_DIVISION = 4"

definition clk_source :: "string \<Rightarrow> int \<Rightarrow> int \<Rightarrow> gpu_clock_source" where
  "clk_source n f s = \<lparr>gcs_name = n, gcs_freq = f, gcs_freq_select = s, gcs_clk_src = None\<rparr>"

text \<open>\<open>gpu_clk_src\<close> of the three variants: tshark 28nm (\<open>CONFIG_ARCH_SCX30G\<close>), sharkl
  28nm (\<open>CONFIG_ARCH_SCX35L\<close>) and shark 40nm (the default).\<close>

definition gpu_clk_src_scx30g :: "gpu_clock_source list" where
  "gpu_clk_src_scx30g =
     [clk_source ''clk_460m8'' 460800 6, clk_source ''clk_384m'' 384000 5,
      clk_source ''clk_312m'' 312000 4, clk_source ''clk_256m'' 256000 2,
      clk_source ''clk_208m'' 208000 1, clk_source ''clk_153m6'' 153600 0]"

definition gpu_clk_src_scx35l :: "gpu_clock_source list" where
  "gpu_clk_src_scx35l =
     [clk_source ''clk_512m'' 512000 5, clk_source ''clk_384m'' 384000 4,
      clk_source ''clk_307m2'' 307200 3, clk_source ''clk_256m'' 256000 2,
      clk_source ''clk_192m'' 192000 1, clk_source ''clk_153m6'' 153600 0]"

definition gpu_clk_src_shark :: "gpu_clock_source list" where
  "gpu_clk_src_shark =
     [clk_source ''clk_312m'' 312000 3, clk_source ''clk_256m'' 256000 1,
      clk_source ''clk_208m'' 208000 0]"

text \<open>The static \<open>dfs_freq_list\<close> initialisers (without \<open>CONFIG_OF\<close>): pointers into the
  full list.\<close>

definition dfs_list_scx30g :: "fptr list" where "dfs_list_scx30g = [0, 4, 8, 12, 16, 20, 17, 15]"
definition dfs_list_scx35l :: "fptr list" where "dfs_list_scx35l = [0, 4, 8, 12, 16, 20, 10, 15]"
definition dfs_list_shark :: "fptr list" where "dfs_list_shark = [0, 4, 8, 1, 9, 7]"

text \<open>The zero-initialised static array \<open>dfs_freq_full_list[32]\<close>.\<close>

definition gfi_zero :: gpu_freq_info where
  "gfi_zero = \<lparr>gfi_index = 0, gfi_freq = 0, gfi_freq_select = 0, gfi_div_select = 0,
     gfi_up_threshold = 0, gfi_down_threshold = 0, gfi_clk_src = None\<rparr>"

text \<open>One entry of the generating loop: source \<open>i\<close>, divider \<open>j + 1\<close>. \<open>UP_THRESHOLD\<close> is
  the macro \<open>9/10\<close>, so \<open>freq*UP_THRESHOLD/(j+1)\<close> is \<open>freq*9/10/(j+1)\<close>; the down threshold
  is not set and keeps its zero.\<close>

definition full_list_entry :: "gpu_freq_info list \<Rightarrow> gpu_clock_source list \<Rightarrow> nat \<Rightarrow> nat \<Rightarrow> gpu_freq_info list" where
  "full_list_entry full src i j =
     (let k = i * 4 + j; c = src ! i; e = full ! k
      in full[k := e\<lparr>gfi_index := int k, gfi_freq := gcs_freq c div (int j + 1),
                    gfi_freq_select := gcs_freq_select c, gfi_div_select := int j + 1,
                    gfi_up_threshold := gcs_freq c * 9 div 10 div (int j + 1),
                    gfi_clk_src := gcs_clk_src c\<rparr>])"

definition gpu_dfs_full_list_generate :: "gpu_clock_source list \<Rightarrow> gpu_freq_info list \<Rightarrow> gpu_freq_info list" where
  "gpu_dfs_full_list_generate src full =
     fold (\<lambda>i full. fold (\<lambda>j full. full_list_entry full src i j) [0..<4] full) [0..<length src] full"

subsection \<open>Binary searches\<close>

text \<open>\<open>freq_search\<close> over the frequencies \<open>fs\<close> the list's pointers lead to, sorted
  from the highest down. The loop runs while \<open>low \<le> high\<close>; \<open>low + high\<close> is then
  non-negative, so \<open>div\<close> is C's division.\<close>

function freq_search_loop :: "int list \<Rightarrow> int \<Rightarrow> int \<Rightarrow> int \<Rightarrow> int" where
  "freq_search_loop fs key low high =
     (if low \<le> high then
        (let mid = (low + high) div 2
         in if key = fs ! nat mid then mid
            else if key > fs ! nat mid then freq_search_loop fs key low (mid - 1)
            else freq_search_loop fs key (mid + 1) high)
      else -1)"
  by pat_completeness auto
termination by (relation "measure (\<lambda>(fs, key, low, high). nat (high - low + 1))") auto

definition freq_search :: "int list \<Rightarrow> int \<Rightarrow> int \<Rightarrow> int" where
  "freq_search fs len key = (if key < 0 then -1 else freq_search_loop fs key 0 (len - 1))"

text \<open>\<open>get_next_freq\<close> over the up thresholds \<open>us\<close> of the list: the search runs from the
  index of the maximum-frequency limit to that of the minimum one and reads
  \<open>freq_list[mid+1]\<close>, a read that would leave the list is \<open>None\<close>. The last \<open>mid\<close> is
  returned when the loop ends.\<close>


function get_next_freq_loop :: "int list \<Rightarrow> int \<Rightarrow> int \<Rightarrow> int \<Rightarrow> int \<Rightarrow> int \<Rightarrow> int option" where
  "get_next_freq_loop us min_index key low high mid =
     (if low \<le> high then
        (let mid = (low + high) div 2
         in case nth_opt us mid of
              None \<Rightarrow> None
            | Some u \<Rightarrow>
                if key < u \<and> mid = min_index then Some mid
                else if key < u \<and> nth_opt us (mid + 1) = None then None
                else if key < u \<and> key > the (nth_opt us (mid + 1)) then Some mid
                else if key > u then get_next_freq_loop us min_index key low (mid - 1) mid
                else get_next_freq_loop us min_index key (mid + 1) high mid)
      else Some mid)"
  by pat_completeness auto
termination
  by (relation "measure (\<lambda>(us, mi, key, low, high, mid). nat (high - low + 1))") auto

definition get_next_freq :: "int list \<Rightarrow> int \<Rightarrow> int \<Rightarrow> int \<Rightarrow> int option" where
  "get_next_freq us min_index max_index key = get_next_freq_loop us min_index key max_index min_index 0"

text \<open>What \<open>get_next_freq\<close> is meant to find: the index \<open>t\<close> between the two limits
  whose up threshold is above the target while the next one is below it (the lowest
  frequency that still has headroom), or the maximum-frequency limit when no threshold is
  above the target.\<close>

definition gnf_bracket :: "int list \<Rightarrow> int \<Rightarrow> int \<Rightarrow> int \<Rightarrow> int \<Rightarrow> bool" where
  "gnf_bracket us lo hi key t \<longleftrightarrow>
     lo \<le> t \<and> t \<le> hi \<and> (t = lo \<or> key < us ! nat t) \<and> (t = hi \<or> us ! nat (t + 1) < key)"

subsection \<open>Correctness of the searches\<close>

lemmas freq_search_loop_simps = freq_search_loop.simps
declare freq_search_loop.simps [simp del]

lemma freq_search_loop_sound:
  "freq_search_loop fs key low high = r \<Longrightarrow> r \<noteq> -1 \<Longrightarrow> 0 \<le> low \<Longrightarrow> high < int (length fs) \<Longrightarrow>
   low \<le> r \<and> r \<le> high \<and> fs ! nat r = key"
proof (induction fs key low high arbitrary: r rule: freq_search_loop.induct)
  case (1 fs key low high)
  show ?case
  proof (cases "low \<le> high")
    case False
    with "1.prems" show ?thesis by (simp add: freq_search_loop_simps)
  next
    case True
    define mid where "mid = (low + high) div 2"
    have m: "low \<le> mid" "mid \<le> high" using True by (simp_all add: mid_def)
    show ?thesis
    proof (cases "key = fs ! nat mid")
      case True
      from "1.prems"(1) have "r = mid"
        unfolding freq_search_loop_simps [of fs key low high]
        using True \<open>low \<le> high\<close> by (simp add: mid_def [symmetric] Let_def)
      with True m show ?thesis by simp
    next
      case ne: False
      show ?thesis
      proof (cases "key > fs ! nat mid")
        case True
        then have "freq_search_loop fs key low (mid - 1) = r"
          using "1.prems"(1) \<open>low \<le> high\<close> ne
          unfolding freq_search_loop_simps [of fs key low high] by (simp add: mid_def [symmetric] Let_def)
        from "1.IH"(1) [OF \<open>low \<le> high\<close> mid_def ne True this] "1.prems" m show ?thesis by simp
      next
        case False
        then have "freq_search_loop fs key (mid + 1) high = r"
          using "1.prems"(1) \<open>low \<le> high\<close> ne
          unfolding freq_search_loop_simps [of fs key low high] by (simp add: mid_def [symmetric] Let_def)
        from "1.IH"(2) [OF \<open>low \<le> high\<close> mid_def ne False this] "1.prems" m show ?thesis by simp
      qed
    qed
  qed
qed


lemma freq_search_loop_complete:
  "sorted_wrt (>) fs \<Longrightarrow> 0 \<le> low \<Longrightarrow> high < int (length fs) \<Longrightarrow> low \<le> i \<Longrightarrow> i \<le> high \<Longrightarrow>
   fs ! nat i = key \<Longrightarrow> freq_search_loop fs key low high \<noteq> -1"
proof (induction fs key low high rule: freq_search_loop.induct)
  case (1 fs key low high)
  have lh: "low \<le> high" using "1.prems" by simp
  define mid where "mid = (low + high) div 2"
  have m: "low \<le> mid" "mid \<le> high" using lh by (simp_all add: mid_def)
  show ?case
  proof (cases "key = fs ! nat mid")
    case True
    then show ?thesis
      unfolding freq_search_loop_simps [of fs key low high] using lh m "1.prems"
      by (simp add: mid_def [symmetric] Let_def)
  next
    case ne: False
    show ?thesis
    proof (cases "key > fs ! nat mid")
      case True
      have "i < mid"
      proof (rule ccontr)
        assume "\<not> i < mid"
        then have "mid < i" using ne "1.prems"(6) by (cases "i = mid") auto
        then have "fs ! nat i < fs ! nat mid"
          using sorted_wrt_gt_nth [OF "1.prems"(1), of "nat mid" "nat i"] "1.prems" m by simp
        with True "1.prems"(6) show False by simp
      qed
      then have "freq_search_loop fs key low (mid - 1) \<noteq> -1"
        using "1.IH"(1) [OF lh mid_def ne True] "1.prems" m by simp
      then show ?thesis
        unfolding freq_search_loop_simps [of fs key low high] using lh ne True
        by (simp add: mid_def [symmetric] Let_def)
    next
      case False
      have "mid < i"
      proof (rule ccontr)
        assume "\<not> mid < i"
        then have "i < mid" using ne "1.prems"(6) by (cases "i = mid") auto
        then have "fs ! nat mid < fs ! nat i"
          using sorted_wrt_gt_nth [OF "1.prems"(1), of "nat i" "nat mid"] "1.prems" m by simp
        with False ne "1.prems"(6) show False by simp
      qed
      then have "freq_search_loop fs key (mid + 1) high \<noteq> -1"
        using "1.IH"(2) [OF lh mid_def ne False] "1.prems" m by simp
      then show ?thesis
        unfolding freq_search_loop_simps [of fs key low high] using lh ne False
        by (simp add: mid_def [symmetric] Let_def)
    qed
  qed
qed

text \<open>C30: On a strictly decreasing frequency list, \<open>freq_search\<close> is exact search: it
  returns a position holding the key when the key is listed (and not negative), and -1
  otherwise.\<close>

lemma freq_search_correct:
  assumes "sorted_wrt (>) fs"
  shows "(key \<in> set fs \<and> 0 \<le> key \<longrightarrow>
            0 \<le> freq_search fs (int (length fs)) key \<and>
            nat (freq_search fs (int (length fs)) key) < length fs \<and>
            fs ! nat (freq_search fs (int (length fs)) key) = key) \<and>
         (key \<notin> set fs \<or> key < 0 \<longrightarrow> freq_search fs (int (length fs)) key = -1)"
proof -
  let ?r = "freq_search_loop fs key 0 (int (length fs) - 1)"
  have found: "0 \<le> ?r \<and> ?r \<le> int (length fs) - 1 \<and> fs ! nat ?r = key" if "?r \<noteq> -1"
    using freq_search_loop_sound [of fs key 0 "int (length fs) - 1" ?r] that by simp
  have A: "0 \<le> freq_search fs (int (length fs)) key \<and>
            nat (freq_search fs (int (length fs)) key) < length fs \<and>
            fs ! nat (freq_search fs (int (length fs)) key) = key"
    if k: "key \<in> set fs \<and> 0 \<le> key"
  proof -
    obtain i where i: "i < length fs" "fs ! i = key" using k by (auto simp: in_set_conv_nth)
    have "?r \<noteq> -1"
      using freq_search_loop_complete [OF assms, of 0 "int (length fs) - 1" "int i" key] i by simp
    with found k show ?thesis by (auto simp: freq_search_def)
  qed
  have B: "freq_search fs (int (length fs)) key = -1" if k: "key \<notin> set fs \<or> key < 0"
  proof (cases "key < 0")
    case False
    have "?r = -1"
    proof (rule ccontr)
      assume "?r \<noteq> -1"
      then have "nat ?r < length fs" and "fs ! nat ?r = key" using found by auto
      then have "key \<in> set fs" by (metis nth_mem)
      with k False show False by simp
    qed
    with False show ?thesis by (simp add: freq_search_def)
  qed (simp add: freq_search_def)
  from A B show ?thesis by blast
qed

lemmas get_next_freq_loop_simps = get_next_freq_loop.simps
declare get_next_freq_loop.simps [simp del]


lemma get_next_freq_loop_bounds:
  "0 \<le> lo \<Longrightarrow> hi < int (length us) \<Longrightarrow> lo \<le> low \<Longrightarrow> high \<le> hi \<Longrightarrow>
   low \<le> high \<or> lo \<le> mid \<and> mid \<le> hi \<Longrightarrow>
   \<exists>r. get_next_freq_loop us hi key low high mid = Some r \<and> lo \<le> r \<and> r \<le> hi"
proof (induction us hi key low high mid rule: get_next_freq_loop.induct)
  case (1 us hi key low high mid0)
  show ?case
  proof (cases "low \<le> high")
    case False
    with "1.prems" show ?thesis by (simp add: get_next_freq_loop_simps [of us hi key low high mid0])
  next
    case lh: True
    define mid where "mid = (low + high) div 2"
    have m: "low \<le> mid" "mid \<le> high" using lh by (simp_all add: mid_def)
    have u: "nth_opt us mid = Some (us ! nat mid)" using m "1.prems" by simp
    have u1: "mid < hi \<Longrightarrow> nth_opt us (mid + 1) = Some (us ! nat (mid + 1))" using m "1.prems" by simp
    have eq: "get_next_freq_loop us hi key low high mid0 =
       (if key < us ! nat mid \<and> mid = hi then Some mid
        else if key < us ! nat mid \<and> nth_opt us (mid + 1) = None then None
        else if key < us ! nat mid \<and> key > the (nth_opt us (mid + 1)) then Some mid
        else if key > us ! nat mid then get_next_freq_loop us hi key low (mid - 1) mid
        else get_next_freq_loop us hi key (mid + 1) high mid)"
      unfolding get_next_freq_loop_simps [of us hi key low high mid0] using lh u
      by (simp add: mid_def [symmetric] Let_def)
    have IH1: "\<exists>r. get_next_freq_loop us hi key low (mid - 1) mid = Some r \<and> lo \<le> r \<and> r \<le> hi"
      if "\<not> (key < us ! nat mid \<and> mid = hi)" "key > us ! nat mid"
      using "1.IH"(1) [OF lh mid_def u] that "1.prems" m by auto
    have IH2: "\<exists>r. get_next_freq_loop us hi key (mid + 1) high mid = Some r \<and> lo \<le> r \<and> r \<le> hi"
      if "\<not> (key < us ! nat mid \<and> mid = hi)" "\<not> key > us ! nat mid"
        "\<not> (key < us ! nat mid \<and> nth_opt us (mid + 1) = None)"
        "\<not> (key < us ! nat mid \<and> key > the (nth_opt us (mid + 1)))"
      using "1.IH"(2) [OF lh mid_def u] that "1.prems" m by auto
    show ?thesis
    proof (cases "key < us ! nat mid \<and> mid = hi")
      case True
      then have "get_next_freq_loop us hi key low high mid0 = Some mid"
        unfolding eq using True by simp
      with True m "1.prems" show ?thesis by auto
    next
      case c1: False
      show ?thesis
      proof (cases "key < us ! nat mid")
        case True
        then have "mid < hi" using c1 m "1.prems" by auto
        then show ?thesis using eq c1 True u1 IH1 IH2 m "1.prems" by (cases "key > us ! nat (mid + 1)") auto
      next
        case False
        then show ?thesis using eq c1 IH1 IH2 by (cases "key > us ! nat mid") auto
      qed
    qed
  qed
qed

lemma get_next_freq_loop_step:
  assumes "low \<le> high" "mid = (low + high) div 2" "0 \<le> low" "high < int (length us)"
  shows "get_next_freq_loop us hi key low high mid0 =
       (if key < us ! nat mid \<and> mid = hi then Some mid
        else if key < us ! nat mid \<and> nth_opt us (mid + 1) = None then None
        else if key < us ! nat mid \<and> key > the (nth_opt us (mid + 1)) then Some mid
        else if key > us ! nat mid then get_next_freq_loop us hi key low (mid - 1) mid
        else get_next_freq_loop us hi key (mid + 1) high mid)"
proof -
  have "0 \<le> mid" "mid < int (length us)" using assms by simp_all
  then have n: "nth_opt us mid = Some (us ! nat mid)" by simp
  show ?thesis
    unfolding get_next_freq_loop_simps [of us hi key low high mid0] Let_def assms(2) [symmetric]
    by (simp only: if_P [OF assms(1)] n option.case)
qed

lemma sorted_wrt_gt_int:
  "sorted_wrt (>) (us :: int list) \<Longrightarrow> 0 \<le> i \<Longrightarrow> i < j \<Longrightarrow> j < int (length us) \<Longrightarrow> us ! nat j < us ! nat i"
  using sorted_wrt_gt_nth [of us "nat i" "nat j"] by simp

lemma sorted_wrt_ge_int:
  "sorted_wrt (>) (us :: int list) \<Longrightarrow> 0 \<le> i \<Longrightarrow> i \<le> j \<Longrightarrow> j < int (length us) \<Longrightarrow> us ! nat j \<le> us ! nat i"
  using sorted_wrt_gt_int [of us i j] by (cases "i < j") auto

lemma gnf_bracket_unique:
  assumes s: "sorted_wrt (>) us" and "0 \<le> lo" "hi < int (length us)"
    and a: "gnf_bracket us lo hi key a" and b: "gnf_bracket us lo hi key b"
  shows "a = b"
proof (rule ccontr)
  assume "a \<noteq> b"
  then consider "a < b" | "b < a" by linarith
  then show False
  proof cases
    case 1
    have "us ! nat b \<le> us ! nat (a + 1)"
      using sorted_wrt_ge_int [OF s, of "a + 1" b] a b 1 assms by (simp add: gnf_bracket_def)
    then show False using a b 1 by (auto simp: gnf_bracket_def)
  next
    case 2
    have "us ! nat a \<le> us ! nat (b + 1)"
      using sorted_wrt_ge_int [OF s, of "b + 1" a] a b 2 assms by (simp add: gnf_bracket_def)
    then show False using a b 2 by (auto simp: gnf_bracket_def)
  qed
qed


lemma gnf_bracket_exists:
  assumes s: "sorted_wrt (>) us" and nk: "key \<notin> set us"
    and r: "0 \<le> lo" "lo \<le> hi" "hi < int (length us)"
  shows "\<exists>t. gnf_bracket us lo hi key t"
proof (cases "key < us ! nat lo")
  case False
  have "us ! nat lo \<noteq> key" using nk nth_int_mem [of lo us] r by auto
  with False have "us ! nat lo < key" by simp
  moreover have "lo = hi \<or> us ! nat (lo + 1) < us ! nat lo"
    using sorted_wrt_gt_int [OF s, of lo "lo + 1"] r by (cases "lo < hi") auto
  ultimately have "gnf_bracket us lo hi key lo" using r by (auto simp: gnf_bracket_def)
  then show ?thesis ..
next
  case True
  define S where "S = {i. lo \<le> i \<and> i \<le> hi \<and> key < us ! nat i}"
  have fin: "finite S" by (rule finite_subset [of _ "{lo..hi}"]) (auto simp: S_def)
  have lo: "lo \<in> S" using True r by (simp add: S_def)
  define t where "t = Max S"
  have t: "t \<in> S" unfolding t_def using lo by (intro Max_in fin) auto
  have mx: "i \<in> S \<Longrightarrow> i \<le> t" for i unfolding t_def using fin by (rule Max_ge)
  have "us ! nat (t + 1) < key" if "t \<noteq> hi"
  proof -
    have "t + 1 \<le> hi" using t that by (simp add: S_def)
    then have "t + 1 \<notin> S" using mx [of "t + 1"] by auto
    then have "us ! nat (t + 1) \<le> key" using t \<open>t + 1 \<le> hi\<close> by (auto simp: S_def)
    moreover have "us ! nat (t + 1) \<noteq> key"
      using nk nth_int_mem [of "t + 1" us] \<open>t + 1 \<le> hi\<close> t r by (auto simp: S_def)
    ultimately show ?thesis by simp
  qed
  then have "gnf_bracket us lo hi key t" using t by (auto simp: gnf_bracket_def S_def)
  then show ?thesis ..
qed

lemma get_next_freq_loop_correct:
  "sorted_wrt (>) us \<Longrightarrow> key \<notin> set us \<Longrightarrow> 0 \<le> lo \<Longrightarrow> hi < int (length us) \<Longrightarrow>
   gnf_bracket us lo hi key t \<Longrightarrow> lo \<le> low \<Longrightarrow> high \<le> hi \<Longrightarrow>
   (low \<le> high \<and> low \<le> t \<and> t \<le> high) \<or> (high < low \<and> mid = t) \<Longrightarrow>
   get_next_freq_loop us hi key low high mid = Some t"
proof (induction us hi key low high mid rule: get_next_freq_loop.induct)
  case (1 us hi key low high mid0)
  note s = "1.prems"(1) and nk = "1.prems"(2) and r = "1.prems"(3,4) and bt = "1.prems"(5)
  show ?case
  proof (cases "low \<le> high")
    case False
    then show ?thesis
      using "1.prems" unfolding get_next_freq_loop_simps [of us hi key low high mid0] by auto
  next
    case lh: True
    define m where "m = (low + high) div 2"
    have mb: "low \<le> m" "m \<le> high" using lh by (simp_all add: m_def)
    have tin: "low \<le> t" "t \<le> high" using "1.prems"(8) lh by auto
    have b: "lo \<le> t" "t \<le> hi" "t = lo \<or> key < us ! nat t" "t = hi \<or> us ! nat (t + 1) < key"
      using bt by (simp_all add: gnf_bracket_def)
    have step: "get_next_freq_loop us hi key low high mid0 =
       (if key < us ! nat m \<and> m = hi then Some m
        else if key < us ! nat m \<and> nth_opt us (m + 1) = None then None
        else if key < us ! nat m \<and> key > the (nth_opt us (m + 1)) then Some m
        else if key > us ! nat m then get_next_freq_loop us hi key low (m - 1) m
        else get_next_freq_loop us hi key (m + 1) high m)"
      by (rule get_next_freq_loop_step) (use lh m_def "1.prems" in auto)
    have um: "us ! nat m \<noteq> key" using nk nth_int_mem [of m us] mb "1.prems" by auto
    have u: "nth_opt us m = Some (us ! nat m)" using mb "1.prems" by simp
    show ?thesis
    proof (cases "key < us ! nat m")
      case lt: True
      show ?thesis
      proof (cases "m = hi")
        case True
        have "t = hi"
        proof (rule ccontr)
          assume "t \<noteq> hi"
          then have "us ! nat (t + 1) < key" "t + 1 \<le> hi" using b by auto
          moreover have "us ! nat hi \<le> us ! nat (t + 1)"
            using sorted_wrt_ge_int [OF s, of "t + 1" hi] r b \<open>t + 1 \<le> hi\<close> by simp
          ultimately show False using lt True by simp
        qed
        with step lt True show ?thesis by simp
      next
        case mh: False
        then have mlt: "m < hi" using mb "1.prems"(7) by simp
        then have n1: "nth_opt us (m + 1) = Some (us ! nat (m + 1))" using mb "1.prems" by simp
        show ?thesis
        proof (cases "us ! nat (m + 1) < key")
          case True
          then have "gnf_bracket us lo hi key m" using lt mb mlt "1.prems" by (simp add: gnf_bracket_def)
          then have "m = t" using gnf_bracket_unique [OF s r(1) r(2) _ bt] by simp
          with step lt mh n1 True show ?thesis by simp
        next
          case False
          have "m + 1 \<le> t"
          proof (rule ccontr)
            assume "\<not> m + 1 \<le> t"
            then have "t \<le> m" by simp
            then have "us ! nat (t + 1) < key" using b mlt by auto
            moreover have "us ! nat (m + 1) \<le> us ! nat (t + 1)"
              using sorted_wrt_ge_int [OF s, of "t + 1" "m + 1"] \<open>t \<le> m\<close> b "1.prems" mlt by simp
            ultimately show False using False by simp
          qed
          then have "get_next_freq_loop us hi key (m + 1) high m = Some t"
            using "1.IH"(2) [OF lh m_def u] "1.prems" tin mb \<open>m + 1 \<le> t\<close> mh lt False n1 by simp
          with step lt mh n1 False show ?thesis by simp
        qed
      qed
    next
      case ge: False
      then have gt: "key > us ! nat m" using um by simp
      have "t < m \<or> (t = m \<and> t = lo)"
      proof (rule ccontr)
        assume "\<not> (t < m \<or> (t = m \<and> t = lo))"
        then have "m \<le> t" "t \<noteq> lo" using mb "1.prems"(6) by auto
        then have "key < us ! nat t" using b by simp
        moreover have "us ! nat t \<le> us ! nat m"
          using sorted_wrt_ge_int [OF s, of m t] \<open>m \<le> t\<close> mb b "1.prems" by simp
        ultimately show False using gt by simp
      qed
      then have "get_next_freq_loop us hi key low (m - 1) m = Some t"
      proof
        assume "t < m"
        then show ?thesis
          using "1.IH"(1) [OF lh m_def u] "1.prems" tin mb gt ge by simp
      next
        assume "t = m \<and> t = lo"
        then have "m - 1 < low" "m = t" using mb "1.prems"(6) by auto
        then show ?thesis
          using "1.IH"(1) [OF lh m_def u] "1.prems" b gt ge by simp
      qed
      with step ge gt show ?thesis by simp
    qed
  qed
qed

text \<open>C31: On strictly decreasing thresholds and a key that is not one of them,
  \<open>get_next_freq\<close> between the limits \<open>max_index \<le> min_index\<close> returns the unique position
  that brackets the key: every higher-frequency position in the window has a threshold
  below the key and the next one a threshold above it.\<close>

theorem get_next_freq_correct:
  assumes "sorted_wrt (>) us" "key \<notin> set us" "0 \<le> max_index" "max_index \<le> min_index"
    "min_index < int (length us)"
  shows "\<exists>t. get_next_freq us min_index max_index key = Some t \<and> gnf_bracket us max_index min_index key t"
proof -
  obtain t where t: "gnf_bracket us max_index min_index key t"
    using gnf_bracket_exists [OF assms] by blast
  have "get_next_freq_loop us min_index key max_index min_index 0 = Some t"
    using get_next_freq_loop_correct [OF assms(1,2,3,5) t, of max_index min_index 0] t assms
    by (simp add: gnf_bracket_def)
  with t show ?thesis by (auto simp: get_next_freq_def)
qed

text \<open>At a key equal to a threshold the search is not monotone: on the shark
  thresholds the keys 280799 and 280801 select the top frequency, the key 280800 between
  them selects the next lower one.\<close>

lemma get_next_freq_glitch:
  "get_next_freq [280800, 230400, 187200, 140400, 93600, 57600] 5 0 280799 = Some 0 \<and>
   get_next_freq [280800, 230400, 187200, 140400, 93600, 57600] 5 0 280800 = Some 1 \<and>
   get_next_freq [280800, 230400, 187200, 140400, 93600, 57600] 5 0 280801 = Some 0"
  by code_simp


subsection \<open>The properties at concrete inputs\<close>

lemma freq_search_correct_witness:
  "sorted_wrt (>) [312000, 256000, 208000 :: int] \<and>
   [312000, 256000, 208000 :: int] ! nat (freq_search [312000, 256000, 208000] 3 256000) = 256000 \<and>
   freq_search [312000, 256000, 208000] 3 100000 = -1"
  using freq_search_correct [of "[312000, 256000, 208000]" 256000]
    freq_search_correct [of "[312000, 256000, 208000]" 100000]
  by simp

lemma get_next_freq_correct_witness:
  "sorted_wrt (>) [280800, 230400, 187200, 140400, 93600, 57600 :: int] \<and>
   200000 \<notin> set [280800, 230400, 187200, 140400, 93600, 57600 :: int] \<and>
   (\<exists>t. get_next_freq [280800, 230400, 187200, 140400, 93600, 57600] 5 0 200000 = Some t \<and>
        gnf_bracket [280800, 230400, 187200, 140400, 93600, 57600] 0 5 200000 t)"
  using get_next_freq_correct [of "[280800, 230400, 187200, 140400, 93600, 57600]" 200000 0 5]
  by simp

end
