(* ===== verification/Mali_DVFS.thy ===== *)
theory Mali_DVFS
  imports Mali_Search
begin

text \<open>
  The DVFS state of \<open>mali_platform.c\<close> and the entry points that change it:
  \<open>gpu_dfs_context_init\<close>, \<open>mali_power_initialize\<close> (the path without \<open>CONFIG_OF\<close>),
  \<open>mali_platform_utilization\<close>, the deferred \<open>gpu_change_freq_div\<close>,
  \<open>mali_platform_power_mode_change\<close> and \<open>mali_platform_device_unregister\<close>.
  The hardware is what the code writes: the parent of \<open>gpu_clock\<close>
  (\<open>clk_set_parent\<close>), the divider (\<open>mali_set_div\<close>; the register field holds the divider
  minus one), the \<open>FORCE_SHUTDOWN\<close> bit of the power domain, and the enable counts of the
  clocks (\<open>clk_enable\<close>/\<open>clk_disable\<close>). Each entry point is taken as one atomic
  step of a sequential machine. This is an assumption of the model, not something the code
  guarantees: \<open>gpu_dfs_sem\<close> is held by \<open>mali_platform_power_mode_change\<close> and by
  \<open>gpu_change_freq_div\<close>, but \<open>mali_platform_utilization\<close> takes no lock, and
  \<open>gpu_change_freq_div\<close> reads \<open>cur_freq_p\<close> and \<open>next_freq_p\<close> before its \<open>down()\<close>
  (\<open>mali_platform.c\<close> 1388-1392). \<open>queue_work\<close> sets a pending flag and the work runs
  later as its own event.
\<close>

subsection \<open>State\<close>

record gpu_dfs_context =
  cur_freq_p :: fptr
  next_freq_p :: fptr
  cur_load :: int
  freq_list_len :: int
  gpu_clock_on :: bool
  gpu_power_on :: bool
  gpu_suspended :: bool
  dfs_min_freq_p :: fptr
  dfs_max_freq_p :: fptr
  default_min_freq_p :: fptr
  default_max_freq_p :: fptr
  gpu_max_freq_p :: fptr
  gpu_min_freq_p :: fptr
  dfs_freq_list :: "fptr list"
  gpu_dfs_workqueue :: bool \<comment> \<open>created (non-NULL)\<close>

text \<open>The build: the clock-source table and the \<open>dfs_freq_list\<close> initialiser of the SoC,
  \<open>DFS_FREQ_NUM\<close>, the four frequency limits, \<open>GPU_150M_FREQ_INDEX\<close>, the index of the
  256MHz source used at power-on, and the two switches \<open>SPRD_DFS_ONE_STEP_SCALE_DOWN\<close>
  and \<open>SPRD_MATCH_DFS_TO_LOWER_FREQ\<close>.\<close>

record mali_config =
  cfg_clk_src :: "gpu_clock_source list"
  cfg_dfs_list :: "fptr list"
  cfg_dfs_freq_num :: int
  cfg_gpu_max_freq :: int
  cfg_gpu_min_freq :: int
  cfg_dfs_max_freq :: int
  cfg_dfs_min_freq :: int
  cfg_150m_index :: int
  cfg_256m_src :: nat
  cfg_one_step :: bool
  cfg_match_lower :: bool

record mali_state =
  ms_ctx :: gpu_dfs_context
  ms_full :: "gpu_freq_info list" \<comment> \<open>\<open>dfs_freq_full_list\<close>\<close>
  ms_clk_src :: "gpu_clock_source list" \<comment> \<open>\<open>gpu_clk_src\<close>\<close>
  gpu_level :: int
  gpufreq_min_limit :: int
  gpufreq_max_limit :: int
  gpu_cur_freq :: int
  gpu_last_set_freq :: int
  ms_work_pending :: bool \<comment> \<open>\<open>gpu_dfs_work\<close> queued\<close>
  ms_force_shutdown :: bool \<comment> \<open>\<open>BIT_PD_GPU_TOP_FORCE_SHUTDOWN\<close>\<close>
  ms_clk_parent :: "nat option"
  ms_clk_div :: int
  ms_gpu_clock_en :: int \<comment> \<open>enable count of \<open>gpu_clock\<close>\<close>
  ms_gpu_clock_i_en :: int \<comment> \<open>enable count of \<open>gpu_clock_i\<close>\<close>
  ms_src_en :: "int list" \<comment> \<open>enable counts of the sources\<close>

text \<open>The three builds without \<open>CONFIG_OF\<close>. \<open>DFS_MAX_FREQ\<close>, \<open>DFS_MIN_FREQ\<close> and the
  two switches come from headers outside this slice and stay parameters.\<close>

definition mali_cfg_shark :: "int \<Rightarrow> int \<Rightarrow> bool \<Rightarrow> bool \<Rightarrow> mali_config" where
  "mali_cfg_shark dmax dmin one_step lower =
     \<lparr>cfg_clk_src = gpu_clk_src_shark, cfg_dfs_list = dfs_list_shark, cfg_dfs_freq_num = 6,
      cfg_gpu_max_freq = 312000, cfg_gpu_min_freq = 64000, cfg_dfs_max_freq = dmax,
      cfg_dfs_min_freq = dmin, cfg_150m_index = 3, cfg_256m_src = 1,
      cfg_one_step = one_step, cfg_match_lower = lower\<rparr>"

definition mali_cfg_scx30g :: "int \<Rightarrow> int \<Rightarrow> bool \<Rightarrow> bool \<Rightarrow> mali_config" where
  "mali_cfg_scx30g dmax dmin one_step lower =
     \<lparr>cfg_clk_src = gpu_clk_src_scx30g, cfg_dfs_list = dfs_list_scx30g, cfg_dfs_freq_num = 8,
      cfg_gpu_max_freq = 460800, cfg_gpu_min_freq = 64000, cfg_dfs_max_freq = dmax,
      cfg_dfs_min_freq = dmin, cfg_150m_index = 5, cfg_256m_src = 3,
      cfg_one_step = one_step, cfg_match_lower = lower\<rparr>"

definition mali_cfg_scx35l :: "int \<Rightarrow> int \<Rightarrow> bool \<Rightarrow> bool \<Rightarrow> mali_config" where
  "mali_cfg_scx35l dmax dmin one_step lower =
     \<lparr>cfg_clk_src = gpu_clk_src_scx35l, cfg_dfs_list = dfs_list_scx35l, cfg_dfs_freq_num = 8,
      cfg_gpu_max_freq = 512000, cfg_gpu_min_freq = 64000, cfg_dfs_max_freq = dmax,
      cfg_dfs_min_freq = dmin, cfg_150m_index = 5, cfg_256m_src = 3,
      cfg_one_step = one_step, cfg_match_lower = lower\<rparr>"

definition fi :: "mali_state \<Rightarrow> fptr \<Rightarrow> gpu_freq_info" where
  "fi s p = ms_full s ! p"

definition dfs_at :: "gpu_dfs_context \<Rightarrow> int \<Rightarrow> fptr" where
  "dfs_at ctx i = dfs_freq_list ctx ! nat i"

text \<open>What \<open>freq_list[mid]->freq\<close> and \<open>freq_list[mid]->up_threshold\<close> read, for the first
  \<open>freq_list_len\<close> pointers.\<close>

definition dfs_freqs :: "gpu_freq_info list \<Rightarrow> gpu_dfs_context \<Rightarrow> int list" where
  "dfs_freqs full ctx = map (\<lambda>p. gfi_freq (full ! p)) (take (nat (freq_list_len ctx)) (dfs_freq_list ctx))"

definition dfs_ups :: "gpu_freq_info list \<Rightarrow> gpu_dfs_context \<Rightarrow> int list" where
  "dfs_ups full ctx = map (\<lambda>p. gfi_up_threshold (full ! p)) (take (nat (freq_list_len ctx)) (dfs_freq_list ctx))"

subsection \<open>Initialisation\<close>

text \<open>The loop of \<open>gpu_dfs_context_init\<close> that writes each list position into the
  \<open>index\<close> field of the entry it points to.\<close>

definition set_list_indices :: "fptr list \<Rightarrow> int \<Rightarrow> gpu_freq_info list \<Rightarrow> gpu_freq_info list" where
  "set_list_indices lst len full =
     fold (\<lambda>i f. f[lst ! i := (f ! (lst ! i))\<lparr>gfi_index := int i\<rparr>]) [0..<nat len] full"

text \<open>A search result, or the fallback pointer when it is negative.\<close>

definition dfs_pick :: "gpu_dfs_context \<Rightarrow> int \<Rightarrow> fptr \<Rightarrow> fptr" where
  "dfs_pick ctx i dflt = (if i < 0 then dflt else dfs_at ctx i)"

definition gpu_dfs_context_init :: "mali_config \<Rightarrow> mali_state \<Rightarrow> mali_state" where
  "gpu_dfs_context_init cfg s =
     (let ctx = ms_ctx s; len = freq_list_len ctx;
          full = set_list_indices (dfs_freq_list ctx) len
                   (gpu_dfs_full_list_generate (ms_clk_src s) (ms_full s));
          fs = dfs_freqs full ctx;
          last = dfs_at ctx (cfg_dfs_freq_num cfg - 1);
          pmax = dfs_pick ctx (freq_search fs len (cfg_dfs_max_freq cfg)) (dfs_at ctx 0);
          pmin = dfs_pick ctx (freq_search fs len (cfg_dfs_min_freq cfg)) last;
          gmax = dfs_pick ctx (freq_search fs len (cfg_gpu_max_freq cfg)) (dfs_at ctx 0);
          gmin = dfs_pick ctx (freq_search fs len (cfg_gpu_min_freq cfg)) last
      in s\<lparr>ms_full := full,
           ms_ctx := ctx\<lparr>cur_freq_p := pmax, next_freq_p := pmax, dfs_max_freq_p := pmax,
                        default_max_freq_p := pmax, dfs_min_freq_p := pmin,
                        default_min_freq_p := pmin, gpu_max_freq_p := gmax,
                        gpu_min_freq_p := gmin\<rparr>\<rparr>)"

text \<open>The power-on sequence shared by \<open>mali_power_initialize\<close> and the power-on mode:
  the domain's \<open>FORCE_SHUTDOWN\<close> bit is cleared, \<open>gpu_clock_i\<close> is enabled, the parent and
  divider of the maximum DFS frequency are set and \<open>gpu_clock\<close> is enabled.\<close>

definition mali_power_up :: "mali_state \<Rightarrow> mali_state" where
  "mali_power_up s =
     (let ctx = ms_ctx s; mx = fi s (dfs_max_freq_p ctx)
      in s\<lparr>ms_ctx := ctx\<lparr>gpu_power_on := True, gpu_clock_on := True\<rparr>,
           ms_force_shutdown := False,
           ms_gpu_clock_i_en := ms_gpu_clock_i_en s + 1,
           ms_clk_parent := gfi_clk_src mx, ms_clk_div := gfi_div_select mx,
           ms_gpu_clock_en := ms_gpu_clock_en s + 1\<rparr>)"

text \<open>Enabling and disabling the clock sources that \<open>clk_get\<close> found.\<close>

definition src_enable :: "gpu_clock_source list \<Rightarrow> int list \<Rightarrow> int list" where
  "src_enable src en = map2 (\<lambda>c n. if gcs_clk_src c = None then n else n + 1) src en"

definition src_disable :: "gpu_clock_source list \<Rightarrow> int list \<Rightarrow> int list" where
  "src_disable src en = map2 (\<lambda>c n. if gcs_clk_src c = None then n else n - 1) src en"

definition mali_power_initialize :: "mali_config \<Rightarrow> (string \<Rightarrow> nat option) \<Rightarrow> mali_state \<Rightarrow> mali_state" where
  "mali_power_initialize cfg clk_get s =
     (let src = map (\<lambda>c. c\<lparr>gcs_clk_src := clk_get (gcs_name c)\<rparr>) (ms_clk_src s);
          s1 = gpu_dfs_context_init cfg
                 (s\<lparr>ms_clk_src := src, ms_src_en := src_enable src (ms_src_en s)\<rparr>);
          s2 = s1\<lparr>ms_ctx := (ms_ctx s1)\<lparr>gpu_suspended := False\<rparr>\<rparr>;
          s3 = (if gpu_power_on (ms_ctx s2) then s2
                else mali_power_up
                       (s2\<lparr>gpu_last_set_freq := gpu_cur_freq s2,
                           gpu_cur_freq := gfi_freq (fi s2 (cur_freq_p (ms_ctx s2)))\<rparr>));
          s4 = (if gpu_clock_on (ms_ctx s3) then s3
                else s3\<lparr>ms_ctx := (ms_ctx s3)\<lparr>gpu_clock_on := True\<rparr>,
                        ms_gpu_clock_i_en := ms_gpu_clock_i_en s3 + 1,
                        ms_gpu_clock_en := ms_gpu_clock_en s3 + 1\<rparr>)
      in s4\<lparr>ms_ctx := (ms_ctx s4)\<lparr>gpu_dfs_workqueue := True\<rparr>\<rparr>)"

text \<open>The state before \<open>mali_power_initialize\<close>: the static initialiser of
  \<open>gpu_dfs_ctx\<close> (pointers not yet set, here the first list entry), the zeroed full list,
  the sysfs limits at \<open>-1\<close>, all clocks off.\<close>

definition mali_boot :: "mali_config \<Rightarrow> mali_state" where
  "mali_boot cfg =
     (let l0 = cfg_dfs_list cfg ! 0
      in \<lparr>ms_ctx = \<lparr>cur_freq_p = l0, next_freq_p = l0, cur_load = 0,
                     freq_list_len = cfg_dfs_freq_num cfg, gpu_clock_on = False,
                     gpu_power_on = False, gpu_suspended = False, dfs_min_freq_p = l0,
                     dfs_max_freq_p = l0, default_min_freq_p = l0, default_max_freq_p = l0,
                     gpu_max_freq_p = l0, gpu_min_freq_p = l0,
                     dfs_freq_list = cfg_dfs_list cfg, gpu_dfs_workqueue = False\<rparr>,
          ms_full = replicate 32 gfi_zero, ms_clk_src = cfg_clk_src cfg, gpu_level = 0,
          gpufreq_min_limit = -1, gpufreq_max_limit = -1, gpu_cur_freq = 0,
          gpu_last_set_freq = 0, ms_work_pending = False, ms_force_shutdown = True,
          ms_clk_parent = None, ms_clk_div = 1, ms_gpu_clock_en = 0, ms_gpu_clock_i_en = 0,
          ms_src_en = replicate (length (cfg_clk_src cfg)) 0\<rparr>)"

subsection \<open>Utilization callback\<close>

text \<open>The limits of the DFS window for the current \<open>gpu_level\<close> (the \<open>switch\<close> of
  \<open>mali_platform_utilization\<close>): the pair (\<open>dfs_max_freq_p\<close>, \<open>dfs_min_freq_p\<close>) and the
  new level. Levels 10, 9, 7 and 5 pin both limits to one frequency and fall back to
  level 1.\<close>

definition dfs_limits :: "mali_config \<Rightarrow> mali_state \<Rightarrow> fptr \<times> fptr \<times> int" where
  "dfs_limits cfg s =
     (let ctx = ms_ctx s; fs = dfs_freqs (ms_full s) ctx; len = freq_list_len ctx;
          imax = freq_search fs len (gpufreq_max_limit s);
          imin = freq_search fs len (gpufreq_min_limit s);
          pin = (\<lambda>dflt. let p = dfs_pick ctx imax dflt in (p, p, 1 :: int))
      in if gpu_level s = 10 then pin (gpu_max_freq_p ctx)
         else if gpu_level s = 9 then pin (default_max_freq_p ctx)
         else if gpu_level s = 7 then pin (dfs_at ctx (cfg_150m_index cfg))
         else if gpu_level s = 5 then pin (gpu_min_freq_p ctx)
         else (dfs_pick ctx imax (default_max_freq_p ctx), dfs_pick ctx imin (default_min_freq_p ctx),
               gpu_level s))"

text \<open>The correction of an inverted window.\<close>

definition dfs_fix_inversion :: "mali_config \<Rightarrow> mali_state \<Rightarrow> fptr \<Rightarrow> fptr \<Rightarrow> fptr \<times> fptr" where
  "dfs_fix_inversion cfg s pmax pmin =
     (if gfi_freq (fi s pmin) > gfi_freq (fi s pmax)
      then (if cfg_match_lower cfg then (pmax, pmax) else (pmin, pmin))
      else (pmax, pmin))"

text \<open>The next list index: the window's top at a load of at least \<open>256*UP_THRESHOLD\<close>
  (that is 230), otherwise one step down or \<open>get_next_freq\<close> at the target frequency
  \<open>cur_freq * load / 256\<close>. \<open>None\<close> is an out-of-range read.\<close>

definition dfs_next_index :: "mali_config \<Rightarrow> mali_state \<Rightarrow> fptr \<Rightarrow> fptr \<Rightarrow> int \<Rightarrow> int option" where
  "dfs_next_index cfg s pmax pmin load =
     (let ctx = ms_ctx s; len = freq_list_len ctx; idx = (\<lambda>p. gfi_index (fi s p))
      in if load \<ge> 256 * 9 div 10 then Some (idx pmax)
         else
           (let target = gfi_freq (fi s (cur_freq_p ctx)) * load div 256
            in if cfg_one_step cfg then
                 (let n0 = (if load \<le> 256 * 5 div 10 then
                              (let n = idx (cur_freq_p ctx) + 1;
                                   n = (if n \<ge> len then len - 1 else n)
                               in if gfi_up_threshold (fi s (dfs_at ctx n)) < target then n - 1 else n)
                            else idx (cur_freq_p ctx))
                  in Some (if n0 < idx pmax then idx pmax else if n0 > idx pmin then idx pmin else n0))
               else get_next_freq (dfs_ups (ms_full s) ctx) (idx pmin) (idx pmax) target))"

definition mali_platform_utilization :: "mali_config \<Rightarrow> nat \<Rightarrow> mali_state \<Rightarrow> mali_state option" where
  "mali_platform_utilization cfg load s =
     (let s0 = s\<lparr>ms_ctx := (ms_ctx s)\<lparr>cur_load := int load\<rparr>\<rparr>;
          (pmax0, pmin0, lvl) = dfs_limits cfg s0;
          (pmax, pmin) = dfs_fix_inversion cfg s0 pmax0 pmin0
      in case dfs_next_index cfg s0 pmax pmin (int load) of
           None \<Rightarrow> None
         | Some n \<Rightarrow>
             (let ctx = (ms_ctx s0)\<lparr>dfs_max_freq_p := pmax, dfs_min_freq_p := pmin,
                                   next_freq_p := dfs_at (ms_ctx s0) n\<rparr>;
                  s1 = s0\<lparr>ms_ctx := ctx, gpu_level := lvl\<rparr>
              in Some (if gfi_freq (fi s1 (next_freq_p ctx)) \<noteq> gfi_freq (fi s1 (cur_freq_p ctx))
                          \<and> gpu_dfs_workqueue ctx
                       then s1\<lparr>ms_work_pending := True\<rparr> else s1)))"

subsection \<open>The deferred frequency change\<close>

text \<open>\<open>gpu_change_freq_div\<close>, run by the work item: nothing while the GPU is off or its
  clock is gated; otherwise the clock is stopped while its parent changes (when the
  source changes), the divider is set when it changes, and the current frequency
  becomes the next one.\<close>

definition gpu_change_freq_div :: "mali_state \<Rightarrow> mali_state" where
  "gpu_change_freq_div s =
     (let ctx = ms_ctx s; cur = fi s (cur_freq_p ctx); nxt = fi s (next_freq_p ctx);
          change = (gfi_freq_select nxt \<noteq> gfi_freq_select cur)
      in if \<not> gpu_power_on ctx \<or> \<not> gpu_clock_on ctx then s
         else
           (let s1 = (if change then s\<lparr>ms_gpu_clock_en := ms_gpu_clock_en s - 1,
                                         ms_clk_parent := gfi_clk_src nxt\<rparr> else s);
                s2 = (if gfi_div_select nxt \<noteq> gfi_div_select cur
                      then s1\<lparr>ms_clk_div := gfi_div_select nxt\<rparr> else s1);
                s3 = s2\<lparr>ms_ctx := ctx\<lparr>cur_freq_p := next_freq_p ctx\<rparr>,
                        gpu_last_set_freq := gpu_cur_freq s2, gpu_cur_freq := gfi_freq nxt\<rparr>
            in if change then s3\<lparr>ms_gpu_clock_en := ms_gpu_clock_en s3 + 1\<rparr> else s3))"

definition gpu_dfs_func :: "mali_state \<Rightarrow> mali_state" where
  "gpu_dfs_func s = gpu_change_freq_div (s\<lparr>ms_work_pending := False\<rparr>)"

subsection \<open>Power modes\<close>

text \<open>Mode 0 (\<open>MALI_POWER_MODE_ON\<close>): resume the sources, power up at the maximum DFS
  frequency (the parent goes to the 256MHz source first, then to that frequency's
  source), and ungate the clock. Modes 1 and 2 (light and deep sleep) do the same:
  gate the clock, power the domain off, suspend the sources, and report frequency 0
  once the domain is shut down. Other modes change nothing.\<close>

definition mali_mode_on :: "mali_config \<Rightarrow> mali_state \<Rightarrow> mali_state" where
  "mali_mode_on cfg s =
     (let s1 = (if gpu_suspended (ms_ctx s)
                then s\<lparr>ms_ctx := (ms_ctx s)\<lparr>gpu_suspended := False\<rparr>,
                       ms_src_en := src_enable (ms_clk_src s) (ms_src_en s)\<rparr>
                else s);
          s2 = (if gpu_power_on (ms_ctx s1) then s1
                else
                  (let ctx = ms_ctx s1; mx = dfs_max_freq_p ctx
                   in mali_power_up
                        (s1\<lparr>ms_ctx := ctx\<lparr>cur_freq_p := mx\<rparr>,
                            gpu_last_set_freq := gpu_cur_freq s1,
                            gpu_cur_freq := gfi_freq (fi s1 mx),
                            ms_clk_parent := gcs_clk_src (ms_clk_src s1 ! cfg_256m_src cfg)\<rparr>)))
      in if gpu_clock_on (ms_ctx s2) then s2
         else s2\<lparr>ms_ctx := (ms_ctx s2)\<lparr>gpu_clock_on := True\<rparr>,
                 gpu_cur_freq := gfi_freq (fi s2 (cur_freq_p (ms_ctx s2))),
                 ms_gpu_clock_i_en := ms_gpu_clock_i_en s2 + 1,
                 ms_gpu_clock_en := ms_gpu_clock_en s2 + 1\<rparr>)"

definition mali_gate_clock :: "mali_state \<Rightarrow> mali_state" where
  "mali_gate_clock s =
     (if gpu_clock_on (ms_ctx s)
      then s\<lparr>ms_ctx := (ms_ctx s)\<lparr>gpu_clock_on := False\<rparr>,
             ms_gpu_clock_en := ms_gpu_clock_en s - 1, ms_gpu_clock_i_en := ms_gpu_clock_i_en s - 1\<rparr>
      else s)"

definition mali_power_down :: "mali_state \<Rightarrow> mali_state" where
  "mali_power_down s =
     (if gpu_power_on (ms_ctx s)
      then s\<lparr>ms_ctx := (ms_ctx s)\<lparr>gpu_power_on := False\<rparr>, ms_force_shutdown := True\<rparr>
      else s)"

definition mali_mode_sleep :: "mali_state \<Rightarrow> mali_state" where
  "mali_mode_sleep s =
     (let s1 = mali_power_down (mali_gate_clock s);
          s2 = (if gpu_suspended (ms_ctx s1) then s1
                else s1\<lparr>ms_ctx := (ms_ctx s1)\<lparr>gpu_suspended := True\<rparr>,
                        ms_src_en := src_disable (ms_clk_src s1) (ms_src_en s1)\<rparr>)
      in if ms_force_shutdown s2 then s2\<lparr>gpu_cur_freq := 0\<rparr> else s2)"

definition mali_platform_power_mode_change :: "mali_config \<Rightarrow> int \<Rightarrow> mali_state \<Rightarrow> mali_state" where
  "mali_platform_power_mode_change cfg mode s =
     (if mode = 0 then mali_mode_on cfg s
      else if mode = 1 \<or> mode = 2 then mali_mode_sleep s
      else s)"

text \<open>\<open>mali_platform_device_unregister\<close>: gate the clock, power down, and disable the
  sources (whatever the suspend state).\<close>

definition mali_platform_device_unregister :: "mali_state \<Rightarrow> mali_state" where
  "mali_platform_device_unregister s =
     (let s1 = mali_power_down (mali_gate_clock s)
      in s1\<lparr>ms_src_en := src_disable (ms_clk_src s1) (ms_src_en s1)\<rparr>)"

subsection \<open>The machine\<close>

text \<open>The events after \<open>mali_power_initialize\<close>: a utilization report, a power-mode
  change, the queued work running, and the sysfs writes of \<open>gpu_level\<close>,
  \<open>gpufreq_min_limit\<close> and \<open>gpufreq_max_limit\<close> by other parts of the driver.\<close>

datatype mali_event =
    Utilization nat
  | PowerMode int
  | DfsWork
  | SetLevel int
  | SetMinLimit int
  | SetMaxLimit int

fun mali_step :: "mali_config \<Rightarrow> mali_state \<Rightarrow> mali_event \<Rightarrow> mali_state option" where
  "mali_step cfg s (Utilization load) = mali_platform_utilization cfg load s"
| "mali_step cfg s (PowerMode m) = Some (mali_platform_power_mode_change cfg m s)"
| "mali_step cfg s DfsWork = Some (if ms_work_pending s then gpu_dfs_func s else s)"
| "mali_step cfg s (SetLevel l) = Some (s\<lparr>gpu_level := l\<rparr>)"
| "mali_step cfg s (SetMinLimit f) = Some (s\<lparr>gpufreq_min_limit := f\<rparr>)"
| "mali_step cfg s (SetMaxLimit f) = Some (s\<lparr>gpufreq_max_limit := f\<rparr>)"

inductive mali_reach :: "mali_config \<Rightarrow> (string \<Rightarrow> nat option) \<Rightarrow> mali_state \<Rightarrow> bool" where
  init: "mali_reach cfg clk_get (mali_power_initialize cfg clk_get (mali_boot cfg))"
| step: "mali_reach cfg clk_get s \<Longrightarrow> mali_step cfg s e = Some s' \<Longrightarrow> mali_reach cfg clk_get s'"

end
