(* ===== verification/Mali_Inv.thy ===== *)
theory Mali_Inv
  imports Mali_DVFS
begin

text \<open>
  The invariant of the Mali DVFS machine and its consequences: the shape of the
  generated frequency table, the configurations the machine is proved for, and the
  invariant every event preserves.
\<close>

subsection \<open>The generated table and the invariant\<close>

text \<open>The entry the generating loop of \<open>gpu_dfs_full_list_generate\<close> writes at position
  \<open>k\<close>: source \<open>k div 4\<close> divided by \<open>k mod 4 + 1\<close>.\<close>

definition gen_entry :: "gpu_clock_source list \<Rightarrow> nat \<Rightarrow> gpu_freq_info \<Rightarrow> gpu_freq_info" where
  "gen_entry src k e =
     (let c = src ! (k div 4); j = k mod 4
      in e\<lparr>gfi_index := int k, gfi_freq := gcs_freq c div (int j + 1),
           gfi_freq_select := gcs_freq_select c, gfi_div_select := int j + 1,
           gfi_up_threshold := gcs_freq c * 9 div 10 div (int j + 1),
           gfi_clk_src := gcs_clk_src c\<rparr>)"

text \<open>A build the machine is proved for: the list is a duplicate-free list of generated
  entries whose frequencies strictly decrease, the sources have distinct
  \<open>freq_select\<close> values, \<open>DFS_FREQ_NUM\<close> is the length of the list, and the 150MHz
  index and the 256MHz source exist.\<close>

definition mali_config_wf :: "mali_config \<Rightarrow> bool" where
  "mali_config_wf cfg =
     (let lst = cfg_dfs_list cfg; src = cfg_clk_src cfg
      in distinct lst \<and> lst \<noteq> [] \<and> cfg_dfs_freq_num cfg = int (length lst) \<and>
         list_all (\<lambda>p. p < 4 * length src \<and> p < 32) lst \<and>
         distinct (map gcs_freq_select src) \<and>
         sorted_wrt (>) (map (\<lambda>p. gcs_freq (src ! (p div 4)) div (int (p mod 4) + 1)) lst) \<and>
         0 \<le> cfg_150m_index cfg \<and> cfg_150m_index cfg < cfg_dfs_freq_num cfg \<and>
         cfg_256m_src cfg < length src)"

text \<open>The table the pointers lead into: each listed entry holds its list position as
  \<open>index\<close>, the frequencies strictly decrease along the list, and two listed entries with
  the same \<open>freq_select\<close> have the same parent clock.\<close>

definition mali_table_ok :: "fptr list \<Rightarrow> gpu_freq_info list \<Rightarrow> bool" where
  "mali_table_ok lst full =
     ((\<forall>i < length lst. gfi_index (full ! (lst ! i)) = int i) \<and>
      sorted_wrt (>) (map (\<lambda>p. gfi_freq (full ! p)) lst) \<and>
      (\<forall>p \<in> set lst. \<forall>q \<in> set lst. gfi_freq_select (full ! p) = gfi_freq_select (full ! q)
          \<longrightarrow> gfi_clk_src (full ! p) = gfi_clk_src (full ! q)))"

definition mali_ptrs :: "gpu_dfs_context \<Rightarrow> fptr list" where
  "mali_ptrs ctx = [cur_freq_p ctx, next_freq_p ctx, dfs_max_freq_p ctx, dfs_min_freq_p ctx,
     default_max_freq_p ctx, default_min_freq_p ctx, gpu_max_freq_p ctx, gpu_min_freq_p ctx]"

text \<open>The hardware agrees with the context: the clock runs exactly while the domain is
  powered, each clock is enabled once while it runs, the parent and divider are those of
  the current frequency while powered, the reported frequency is that frequency (0 when
  off), and each found source is enabled once while not suspended.\<close>

definition mali_hw_ok :: "mali_state \<Rightarrow> bool" where
  "mali_hw_ok s =
     (let ctx = ms_ctx s; cur = ms_full s ! cur_freq_p ctx
      in gpu_clock_on ctx = gpu_power_on ctx \<and> ms_force_shutdown s = (\<not> gpu_power_on ctx) \<and>
         ms_gpu_clock_en s = (if gpu_clock_on ctx then 1 else 0) \<and>
         ms_gpu_clock_i_en s = (if gpu_clock_on ctx then 1 else 0) \<and>
         (gpu_power_on ctx \<longrightarrow> ms_clk_parent s = gfi_clk_src cur \<and> ms_clk_div s = gfi_div_select cur) \<and>
         gpu_cur_freq s = (if gpu_power_on ctx then gfi_freq cur else 0) \<and>
         ms_src_en s = map (\<lambda>c. if gcs_clk_src c \<noteq> None \<and> \<not> gpu_suspended ctx then 1 else 0)
                         (ms_clk_src s))"

definition mali_inv :: "mali_config \<Rightarrow> mali_state \<Rightarrow> bool" where
  "mali_inv cfg s =
     (let ctx = ms_ctx s; lst = cfg_dfs_list cfg
      in dfs_freq_list ctx = lst \<and> freq_list_len ctx = int (length lst) \<and>
         mali_table_ok lst (ms_full s) \<and> list_all (\<lambda>p. p \<in> set lst) (mali_ptrs ctx) \<and>
         mali_hw_ok s \<and> gpu_dfs_workqueue ctx)"

subsection \<open>The generated table\<close>

lemma full_list_entry_nth:
  "j < 4 \<Longrightarrow> full_list_entry f src i j ! k =
     (if k = i * 4 + j \<and> k < length f then gen_entry src k (f ! k) else f ! k)"
  by (auto simp: full_list_entry_def gen_entry_def Let_def nth_list_update list_update_beyond)

lemma length_full_list_entry [simp]: "length (full_list_entry f src i j) = length f"
  by (simp add: full_list_entry_def Let_def)

lemma inner_fold_nth:
  "n \<le> 4 \<Longrightarrow> fold (\<lambda>j f. full_list_entry f src i j) [0..<n] f ! k =
     (if k div 4 = i \<and> k mod 4 < n \<and> k < length f then gen_entry src k (f ! k) else f ! k)"
proof (induction n arbitrary: k)
  case 0 then show ?case by simp
next
  case (Suc n)
  have l: "length (fold (\<lambda>j f. full_list_entry f src i j) [0..<n] f) = length f"
    by (induction n) simp_all
  have km: "k = i * 4 + n \<longleftrightarrow> k div 4 = i \<and> k mod 4 = n"
    using Suc.prems div_mult_mod_eq [of k 4] by auto
  show ?case
    using Suc km by (auto simp: full_list_entry_nth l less_Suc_eq)
qed

lemma length_inner_fold [simp]: "length (fold (\<lambda>j f. full_list_entry f src i j) js f) = length f"
  by (induction js arbitrary: f) simp_all

lemma outer_fold_nth:
  "fold (\<lambda>i f. fold (\<lambda>j f. full_list_entry f src i j) [0..<4] f) [0..<m] f ! k =
     (if k div 4 < m \<and> k < length f then gen_entry src k (f ! k) else f ! k)"
proof (induction m arbitrary: k)
  case 0 then show ?case by simp
next
  case (Suc m)
  have l: "length (fold (\<lambda>i f. fold (\<lambda>j f. full_list_entry f src i j) [0..<4] f) [0..<m] f) = length f"
    by (induction m) simp_all
  show ?case using Suc by (auto simp: inner_fold_nth l less_Suc_eq)
qed

lemma gpu_dfs_full_list_generate_nth:
  "gpu_dfs_full_list_generate src f ! k =
     (if k div 4 < length src \<and> k < length f then gen_entry src k (f ! k) else f ! k)"
  by (simp add: gpu_dfs_full_list_generate_def outer_fold_nth)

lemma length_gpu_dfs_full_list_generate [simp]:
  "length (gpu_dfs_full_list_generate src f) = length f"
proof -
  have "length (fold (\<lambda>i f. fold (\<lambda>j f. full_list_entry f src i j) [0..<4] f) [0..<m] f) = length f" for m
    by (induction m) simp_all
  then show ?thesis by (simp add: gpu_dfs_full_list_generate_def)
qed

lemma set_list_indices_fold_nth:
  assumes "distinct lst" "n \<le> length lst" "\<forall>p \<in> set lst. p < length f"
  shows "fold (\<lambda>i f. f[lst ! i := (f ! (lst ! i))\<lparr>gfi_index := int i\<rparr>]) [0..<n] f ! k =
     (if \<exists>i < n. lst ! i = k then (f ! k)\<lparr>gfi_index := int (THE i. i < n \<and> lst ! i = k)\<rparr> else f ! k)"
  using assms(2)
proof (induction n arbitrary: k)
  case 0 then show ?case by simp
next
  case (Suc n)
  let ?g = "fold (\<lambda>i f. f[lst ! i := (f ! (lst ! i))\<lparr>gfi_index := int i\<rparr>]) [0..<n] f"
  have l: "length ?g = length f" by (induction n) simp_all
  have lt: "lst ! n < length f" using assms(3) Suc.prems by simp
  have the_eq: "(THE i. i < m \<and> lst ! i = lst ! j) = j" if "j < m" "m \<le> length lst" for j m
    using that assms(1) by (auto intro!: the_equality simp: nth_eq_iff_index_eq)
  show ?case
  proof (cases "k = lst ! n")
    case True
    have "\<not> (\<exists>i < n. lst ! i = lst ! n)" using assms(1) Suc.prems by (auto simp: nth_eq_iff_index_eq)
    then show ?thesis using True Suc lt l the_eq [of n "Suc n"] by (auto simp: nth_list_update)
  next
    case False
    have ex: "(\<exists>i < Suc n. lst ! i = k) = (\<exists>i < n. lst ! i = k)" using False less_Suc_eq by auto
    have th: "(\<exists>i < n. lst ! i = k) \<Longrightarrow> (THE i. i < Suc n \<and> lst ! i = k) = (THE i. i < n \<and> lst ! i = k)"
      using the_eq Suc.prems by (auto)
    show ?thesis using False Suc ex th by (auto simp: nth_list_update)
  qed
qed

subsection \<open>Initialisation\<close>

lemma set_list_indices_nth:
  assumes "distinct lst" "\<forall>p \<in> set lst. p < length f" "i < length lst"
  shows "set_list_indices lst (int (length lst)) f ! (lst ! i) = (f ! (lst ! i))\<lparr>gfi_index := int i\<rparr>"
proof -
  have "(THE j. j < length lst \<and> lst ! j = lst ! i) = i"
    using assms(1,3) by (auto intro!: the_equality simp: nth_eq_iff_index_eq)
  then show ?thesis
    using set_list_indices_fold_nth [OF assms(1) order.refl assms(2), of "lst ! i"] assms(3)
    by (auto simp: set_list_indices_def)
qed

lemma length_set_list_indices [simp]: "length (set_list_indices lst len f) = length f"
proof -
  have "length (fold (\<lambda>i f. f[lst ! i := (f ! (lst ! i))\<lparr>gfi_index := int i\<rparr>]) [0..<n] f) = length f" for n
    by (induction n) simp_all
  then show ?thesis by (simp add: set_list_indices_def)
qed

lemma freq_search_range:
  "freq_search fs (int (length fs)) key = -1 \<or>
   (0 \<le> freq_search fs (int (length fs)) key \<and> nat (freq_search fs (int (length fs)) key) < length fs)"
  using freq_search_loop_sound [of fs key 0 "int (length fs) - 1"]
  by (cases "key < 0") (auto simp: freq_search_def)

lemma dfs_pick_mem:
  "dfs_freq_list ctx = lst \<Longrightarrow> dflt \<in> set lst \<Longrightarrow> i = -1 \<or> (0 \<le> i \<and> nat i < length lst) \<Longrightarrow>
   dfs_pick ctx i dflt \<in> set lst"
  by (auto simp: dfs_pick_def dfs_at_def)

lemmas mali_init_defs = mali_power_initialize_def gpu_dfs_context_init_def mali_boot_def
  mali_power_up_def Let_def fi_def

lemma mali_init_fields:
  fixes cfg :: mali_config and clk_get :: "string \<Rightarrow> nat option"
  defines "s \<equiv> mali_power_initialize cfg clk_get (mali_boot cfg)"
    and "src' \<equiv> map (\<lambda>c. c\<lparr>gcs_clk_src := clk_get (gcs_name c)\<rparr>) (cfg_clk_src cfg)"
  shows "ms_full s = set_list_indices (cfg_dfs_list cfg) (cfg_dfs_freq_num cfg)
                       (gpu_dfs_full_list_generate src' (replicate 32 gfi_zero))"
    and "ms_clk_src s = src'"
    and "dfs_freq_list (ms_ctx s) = cfg_dfs_list cfg"
    and "freq_list_len (ms_ctx s) = cfg_dfs_freq_num cfg"
    and "gpu_power_on (ms_ctx s)" "gpu_clock_on (ms_ctx s)" "\<not> gpu_suspended (ms_ctx s)"
    and "gpu_dfs_workqueue (ms_ctx s)" "\<not> ms_force_shutdown s"
    and "ms_gpu_clock_en s = 1" "ms_gpu_clock_i_en s = 1"
    and "cur_freq_p (ms_ctx s) = dfs_max_freq_p (ms_ctx s)"
    and "ms_clk_parent s = gfi_clk_src (ms_full s ! dfs_max_freq_p (ms_ctx s))"
    and "ms_clk_div s = gfi_div_select (ms_full s ! dfs_max_freq_p (ms_ctx s))"
    and "gpu_cur_freq s = gfi_freq (ms_full s ! cur_freq_p (ms_ctx s))"
    and "ms_src_en s = src_enable src' (replicate (length src') 0)"
  unfolding s_def src'_def by (simp_all add: mali_init_defs)

lemma mali_config_wfD:
  assumes "mali_config_wf cfg"
  shows "distinct (cfg_dfs_list cfg)" "cfg_dfs_list cfg \<noteq> []"
    "cfg_dfs_freq_num cfg = int (length (cfg_dfs_list cfg))"
    "p \<in> set (cfg_dfs_list cfg) \<Longrightarrow> p < 4 * length (cfg_clk_src cfg) \<and> p < 32"
    "distinct (map gcs_freq_select (cfg_clk_src cfg))"
    "sorted_wrt (>) (map (\<lambda>p. gcs_freq (cfg_clk_src cfg ! (p div 4)) div (int (p mod 4) + 1)) (cfg_dfs_list cfg))"
    "0 \<le> cfg_150m_index cfg" "cfg_150m_index cfg < cfg_dfs_freq_num cfg"
    "cfg_256m_src cfg < length (cfg_clk_src cfg)"
  using assms by (auto simp: mali_config_wf_def Let_def list_all_iff)

lemma mali_init_entry:
  fixes clk_get :: "string \<Rightarrow> nat option"
  assumes wf: "mali_config_wf cfg" and p: "p \<in> set (cfg_dfs_list cfg)"
  defines "e \<equiv> ms_full (mali_power_initialize cfg clk_get (mali_boot cfg)) ! p"
    and "c \<equiv> cfg_clk_src cfg ! (p div 4)"
  shows "gfi_freq e = gcs_freq c div (int (p mod 4) + 1)"
    and "gfi_freq_select e = gcs_freq_select c"
    and "gfi_clk_src e = clk_get (gcs_name c)"
    and "gfi_div_select e = int (p mod 4) + 1"
proof -
  obtain i where i: "i < length (cfg_dfs_list cfg)" "cfg_dfs_list cfg ! i = p"
    using p by (auto simp: in_set_conv_nth)
  have bnd: "\<forall>q \<in> set (cfg_dfs_list cfg). q < 32" "p < 32" "p div 4 < length (cfg_clk_src cfg)"
    using mali_config_wfD(4) [OF wf] p by (auto simp: div_less_iff_less_mult mult.commute)
  have "e = (gen_entry (map (\<lambda>c. c\<lparr>gcs_clk_src := clk_get (gcs_name c)\<rparr>) (cfg_clk_src cfg)) p gfi_zero)
               \<lparr>gfi_index := int i\<rparr>"
    using set_list_indices_nth [OF mali_config_wfD(1) [OF wf], of _ i] i bnd
    by (simp add: e_def mali_init_fields(1) mali_config_wfD(3) [OF wf] gpu_dfs_full_list_generate_nth)
  then show "gfi_freq e = gcs_freq c div (int (p mod 4) + 1)"
    and "gfi_freq_select e = gcs_freq_select c"
    and "gfi_clk_src e = clk_get (gcs_name c)"
    and "gfi_div_select e = int (p mod 4) + 1"
    using bnd by (simp_all add: gen_entry_def c_def Let_def)
qed

lemma mali_init_table:
  assumes wf: "mali_config_wf cfg"
  shows "mali_table_ok (cfg_dfs_list cfg) (ms_full (mali_power_initialize cfg clk_get (mali_boot cfg)))"
proof -
  let ?lst = "cfg_dfs_list cfg" and ?src = "cfg_clk_src cfg"
  let ?full = "ms_full (mali_power_initialize cfg clk_get (mali_boot cfg))"
  have bnd: "p \<in> set ?lst \<Longrightarrow> p div 4 < length ?src \<and> p < 32" for p
    using mali_config_wfD(4) [OF wf] by (auto simp: div_less_iff_less_mult mult.commute)
  have idx: "gfi_index (?full ! (?lst ! i)) = int i" if "i < length ?lst" for i
    using set_list_indices_nth [OF mali_config_wfD(1) [OF wf], of _ i] that bnd
    by (simp add: mali_init_fields(1) mali_config_wfD(3) [OF wf])
  have eq: "map (\<lambda>p. gfi_freq (?full ! p)) ?lst =
        map (\<lambda>p. gcs_freq (?src ! (p div 4)) div (int (p mod 4) + 1)) ?lst"
    using mali_init_entry(1) [OF wf] by (rule map_cong [OF refl])
  have sorted: "sorted_wrt (>) (map (\<lambda>p. gfi_freq (?full ! p)) ?lst)"
    unfolding eq by (rule mali_config_wfD(6) [OF wf])
  have sel: "gfi_clk_src (?full ! p) = gfi_clk_src (?full ! q)"
    if "p \<in> set ?lst" "q \<in> set ?lst" "gfi_freq_select (?full ! p) = gfi_freq_select (?full ! q)" for p q
  proof -
    have "gcs_freq_select (?src ! (p div 4)) = gcs_freq_select (?src ! (q div 4))"
      using that(3) unfolding mali_init_entry(2) [OF wf that(1)] mali_init_entry(2) [OF wf that(2)] .
    then have "map gcs_freq_select ?src ! (p div 4) = map gcs_freq_select ?src ! (q div 4)"
      using bnd [OF that(1)] bnd [OF that(2)] by simp
    then have "p div 4 = q div 4"
      using bnd [OF that(1)] bnd [OF that(2)]
      by (intro nth_eq_iff_index_eq [THEN iffD1, OF mali_config_wfD(5) [OF wf]]) simp_all
    then show ?thesis
      unfolding mali_init_entry(3) [OF wf that(1)] mali_init_entry(3) [OF wf that(2)] by simp
  qed
  show ?thesis using idx sorted sel unfolding mali_table_ok_def by blast
qed

lemma length_dfs_freqs [simp]: "length (dfs_freqs full ctx) = min (nat (freq_list_len ctx)) (length (dfs_freq_list ctx))"
  by (simp add: dfs_freqs_def)

lemma dfs_pick_search_mem:
  assumes "freq_list_len ctx = int (length (dfs_freq_list ctx))" "dflt \<in> set (dfs_freq_list ctx)"
  shows "dfs_pick ctx (freq_search (dfs_freqs full ctx) (freq_list_len ctx) key) dflt \<in> set (dfs_freq_list ctx)"
proof -
  have "freq_list_len ctx = int (length (dfs_freqs full ctx))" using assms(1) by simp
  then show ?thesis
    using freq_search_range [of "dfs_freqs full ctx" key] assms
    by (intro dfs_pick_mem) auto
qed

lemma dfs_at_mem:
  "0 \<le> i \<Longrightarrow> i < int (length (dfs_freq_list ctx)) \<Longrightarrow> dfs_at ctx i \<in> set (dfs_freq_list ctx)"
  by (simp add: dfs_at_def)

lemma src_enable_zero:
  "length src = n \<Longrightarrow>
   src_enable src (replicate n 0) = map (\<lambda>c. if gcs_clk_src c \<noteq> None then 1 else 0) src"
  by (induction src arbitrary: n) (auto simp: src_enable_def)

lemma mali_init_inv:
  assumes wf: "mali_config_wf cfg"
  shows "mali_inv cfg (mali_power_initialize cfg clk_get (mali_boot cfg))"
proof -
  let ?s = "mali_power_initialize cfg clk_get (mali_boot cfg)" and ?lst = "cfg_dfs_list cfg"
  have len: "freq_list_len (ms_ctx (mali_boot cfg)) = int (length (dfs_freq_list (ms_ctx (mali_boot cfg))))"
    using mali_config_wfD(3) [OF wf] by (simp add: mali_boot_def Let_def)
  have ends: "dfs_at (ms_ctx (mali_boot cfg)) 0 \<in> set ?lst"
    "dfs_at (ms_ctx (mali_boot cfg)) (cfg_dfs_freq_num cfg - 1) \<in> set ?lst"
    using mali_config_wfD(2,3) [OF wf] dfs_at_mem [of _ "ms_ctx (mali_boot cfg)"]
    by (simp_all add: mali_boot_def Let_def)
  have ptrs: "list_all (\<lambda>p. p \<in> set ?lst) (mali_ptrs (ms_ctx ?s))"
    using dfs_pick_search_mem [OF len] ends
    by (simp add: mali_ptrs_def mali_power_initialize_def gpu_dfs_context_init_def mali_power_up_def
                  Let_def mali_boot_def)
  have hw: "mali_hw_ok ?s"
    unfolding mali_hw_ok_def Let_def
    by (simp add: mali_init_fields(2-16) src_enable_zero)
  show ?thesis
    using mali_init_table [OF wf] ptrs hw
    by (simp add: mali_inv_def mali_init_fields(3,4,8) mali_config_wfD(3) [OF wf])
qed

subsection \<open>Preservation by the events\<close>

lemma src_enable_map: "src_enable src (map f src) = map (\<lambda>c. if gcs_clk_src c = None then f c else f c + 1) src"
  by (induction src) (simp_all add: src_enable_def)

lemma src_disable_map: "src_disable src (map f src) = map (\<lambda>c. if gcs_clk_src c = None then f c else f c - 1) src"
  by (induction src) (simp_all add: src_disable_def)

lemmas mali_inv_defs = mali_inv_def mali_hw_ok_def mali_ptrs_def Let_def

lemma mali_inv_sleep:
  "mali_inv cfg s \<Longrightarrow> mali_inv cfg (mali_mode_sleep s)"
  unfolding mali_mode_sleep_def mali_power_down_def mali_gate_clock_def
  by (auto simp: mali_inv_defs src_disable_map intro!: map_cong)

lemma mali_inv_on:
  "mali_inv cfg s \<Longrightarrow> mali_inv cfg (mali_mode_on cfg s)"
  unfolding mali_mode_on_def mali_power_up_def fi_def
  by (auto simp: mali_inv_defs src_enable_map intro!: map_cong)

lemma mali_inv_power_mode:
  "mali_inv cfg s \<Longrightarrow> mali_inv cfg (mali_platform_power_mode_change cfg m s)"
  by (simp add: mali_platform_power_mode_change_def mali_inv_sleep mali_inv_on)

lemma mali_table_ok_clk_src:
  "mali_table_ok lst full \<Longrightarrow> p \<in> set lst \<Longrightarrow> q \<in> set lst \<Longrightarrow>
   gfi_freq_select (full ! p) = gfi_freq_select (full ! q) \<Longrightarrow> gfi_clk_src (full ! p) = gfi_clk_src (full ! q)"
  unfolding mali_table_ok_def by blast

lemma gpu_change_freq_div_on:
  assumes "gpu_power_on (ms_ctx s)" "gpu_clock_on (ms_ctx s)"
  defines "cur \<equiv> ms_full s ! cur_freq_p (ms_ctx s)" and "nxt \<equiv> ms_full s ! next_freq_p (ms_ctx s)"
  shows "gpu_change_freq_div s =
     s\<lparr>ms_ctx := (ms_ctx s)\<lparr>cur_freq_p := next_freq_p (ms_ctx s)\<rparr>,
       gpu_last_set_freq := gpu_cur_freq s, gpu_cur_freq := gfi_freq nxt,
       ms_clk_parent := (if gfi_freq_select nxt \<noteq> gfi_freq_select cur then gfi_clk_src nxt
                         else ms_clk_parent s),
       ms_clk_div := (if gfi_div_select nxt \<noteq> gfi_div_select cur then gfi_div_select nxt
                      else ms_clk_div s)\<rparr>"
  using assms(1,2) unfolding gpu_change_freq_div_def fi_def cur_def nxt_def Let_def
  by (cases s) auto

lemma mali_inv_change_freq_div:
  assumes inv: "mali_inv cfg s"
  shows "mali_inv cfg (gpu_change_freq_div s)"
proof (cases "gpu_power_on (ms_ctx s) \<and> gpu_clock_on (ms_ctx s)")
  case False
  then show ?thesis using inv by (auto simp: gpu_change_freq_div_def)
next
  case True
  let ?ctx = "ms_ctx s" and ?full = "ms_full s"
  have "gfi_freq_select (?full ! next_freq_p ?ctx) = gfi_freq_select (?full ! cur_freq_p ?ctx) \<Longrightarrow>
        gfi_clk_src (?full ! next_freq_p ?ctx) = gfi_clk_src (?full ! cur_freq_p ?ctx)"
    using inv mali_table_ok_clk_src [of "cfg_dfs_list cfg" ?full] by (simp add: mali_inv_defs)
  then show ?thesis
    using inv True by (simp add: gpu_change_freq_div_on mali_inv_defs)
qed

lemma mali_inv_dfs_work:
  "mali_inv cfg s \<Longrightarrow> mali_inv cfg (if ms_work_pending s then gpu_dfs_func s else s)"
  using mali_inv_change_freq_div [of cfg "s\<lparr>ms_work_pending := False\<rparr>"]
  by (simp add: gpu_dfs_func_def mali_inv_defs)

lemma mali_table_ok_idx:
  assumes "mali_table_ok lst full" "p \<in> set lst"
  shows "0 \<le> gfi_index (full ! p) \<and> nat (gfi_index (full ! p)) < length lst \<and>
         lst ! nat (gfi_index (full ! p)) = p"
proof -
  obtain i where "i < length lst" "lst ! i = p" using assms(2) by (auto simp: in_set_conv_nth)
  then show ?thesis using assms(1) by (auto simp: mali_table_ok_def)
qed

lemma mali_table_ok_freq_less:
  assumes ok: "mali_table_ok lst full" and "p \<in> set lst" "q \<in> set lst"
    and lt: "gfi_index (full ! p) < gfi_index (full ! q)"
  shows "gfi_freq (full ! q) < gfi_freq (full ! p)"
proof -
  let ?i = "nat (gfi_index (full ! p))" and ?j = "nat (gfi_index (full ! q))"
  have ij: "?i < ?j" "?j < length lst" "lst ! ?i = p" "lst ! ?j = q" "?i < length lst"
    using mali_table_ok_idx [OF ok assms(2)] mali_table_ok_idx [OF ok assms(3)] lt by auto
  have "sorted_wrt (>) (map (\<lambda>p. gfi_freq (full ! p)) lst)" using ok by (simp add: mali_table_ok_def)
  from sorted_wrt_nth_less [OF this ij(1)] ij(2,5)
  have "gfi_freq (full ! (lst ! ?j)) < gfi_freq (full ! (lst ! ?i))" by simp
  then show ?thesis using ij(3,4) by simp
qed

lemma mali_table_ok_idx_le:
  "mali_table_ok lst full \<Longrightarrow> p \<in> set lst \<Longrightarrow> q \<in> set lst \<Longrightarrow>
   gfi_freq (full ! q) \<le> gfi_freq (full ! p) \<Longrightarrow> gfi_index (full ! p) \<le> gfi_index (full ! q)"
  using mali_table_ok_freq_less [of lst full q p] by force

lemma mali_table_ok_freq_le:
  "mali_table_ok lst full \<Longrightarrow> p \<in> set lst \<Longrightarrow> q \<in> set lst \<Longrightarrow>
   gfi_index (full ! p) \<le> gfi_index (full ! q) \<Longrightarrow> gfi_freq (full ! q) \<le> gfi_freq (full ! p)"
proof (cases "gfi_index (full ! p) = gfi_index (full ! q)")
  case True
  assume "mali_table_ok lst full" "p \<in> set lst" "q \<in> set lst"
  then have "p = q" using True mali_table_ok_idx by metis
  then show ?thesis by simp
next
  case False
  assume "mali_table_ok lst full" "p \<in> set lst" "q \<in> set lst"
    "gfi_index (full ! p) \<le> gfi_index (full ! q)"
  then show ?thesis using False mali_table_ok_freq_less [of lst full p q] by simp
qed

lemma mali_inv_ctx:
  assumes "mali_inv cfg s"
  shows "dfs_freq_list (ms_ctx s) = cfg_dfs_list cfg"
    "freq_list_len (ms_ctx s) = int (length (dfs_freq_list (ms_ctx s)))"
    "mali_table_ok (cfg_dfs_list cfg) (ms_full s)"
    "list_all (\<lambda>p. p \<in> set (cfg_dfs_list cfg)) (mali_ptrs (ms_ctx s))"
  using assms by (simp_all add: mali_inv_def Let_def)

lemma dfs_limits_mem:
  assumes wf: "mali_config_wf cfg" and inv: "mali_inv cfg s"
  shows "fst (dfs_limits cfg s) \<in> set (cfg_dfs_list cfg) \<and> fst (snd (dfs_limits cfg s)) \<in> set (cfg_dfs_list cfg)"
proof -
  let ?ctx = "ms_ctx s"
  have m150: "dfs_at ?ctx (cfg_150m_index cfg) \<in> set (cfg_dfs_list cfg)"
    using mali_config_wfD(3,7,8) [OF wf] mali_inv_ctx(1) [OF inv] dfs_at_mem [of "cfg_150m_index cfg" ?ctx]
    by simp
  show ?thesis
    using dfs_pick_search_mem [OF mali_inv_ctx(2) [OF inv]] mali_inv_ctx(1,4) [OF inv] m150
    unfolding dfs_limits_def Let_def by (simp add: mali_ptrs_def)
qed

lemma dfs_fix_inversion_result:
  "dfs_fix_inversion cfg s a b = (x, y) \<Longrightarrow>
   x \<in> {a, b} \<and> y \<in> {a, b} \<and> gfi_freq (fi s y) \<le> gfi_freq (fi s x)"
  by (auto simp: dfs_fix_inversion_def split: if_splits)

lemma length_dfs_ups [simp]: "length (dfs_ups full ctx) = min (nat (freq_list_len ctx)) (length (dfs_freq_list ctx))"
  by (simp add: dfs_ups_def)

lemma dfs_next_index_window:
  assumes inv: "mali_inv cfg s" and p: "pmax \<in> set (cfg_dfs_list cfg)" "pmin \<in> set (cfg_dfs_list cfg)"
    and le: "gfi_index (ms_full s ! pmax) \<le> gfi_index (ms_full s ! pmin)"
  shows "\<exists>n. dfs_next_index cfg s pmax pmin load = Some n \<and>
            gfi_index (ms_full s ! pmax) \<le> n \<and> n \<le> gfi_index (ms_full s ! pmin)"
proof -
  let ?ctx = "ms_ctx s" and ?lo = "gfi_index (ms_full s ! pmax)" and ?hi = "gfi_index (ms_full s ! pmin)"
  have lo: "0 \<le> ?lo" and hi: "?hi < int (length (dfs_ups (ms_full s) ?ctx))"
    using mali_table_ok_idx [OF mali_inv_ctx(3) [OF inv] p(1)] mali_table_ok_idx [OF mali_inv_ctx(3) [OF inv] p(2)]
      mali_inv_ctx(1,2) [OF inv] by auto
  have gnf: "\<exists>r. get_next_freq (dfs_ups (ms_full s) ?ctx) ?hi ?lo key = Some r \<and> ?lo \<le> r \<and> r \<le> ?hi" for key
    unfolding get_next_freq_def using get_next_freq_loop_bounds [OF lo hi order.refl order.refl] le by simp
  show ?thesis
    unfolding dfs_next_index_def Let_def fi_def using le gnf by auto
qed

lemma mali_platform_utilization_ok:
  assumes wf: "mali_config_wf cfg" and inv: "mali_inv cfg s"
  shows "\<exists>s'. mali_platform_utilization cfg load s = Some s' \<and> mali_inv cfg s' \<and>
           gfi_freq (ms_full s' ! dfs_min_freq_p (ms_ctx s')) \<le> gfi_freq (ms_full s' ! next_freq_p (ms_ctx s')) \<and>
           gfi_freq (ms_full s' ! next_freq_p (ms_ctx s')) \<le> gfi_freq (ms_full s' ! dfs_max_freq_p (ms_ctx s'))"
proof -
  define s0 where "s0 = s\<lparr>ms_ctx := (ms_ctx s)\<lparr>cur_load := int load\<rparr>\<rparr>"
  let ?lst = "cfg_dfs_list cfg" and ?full = "ms_full s"
  have inv0: "mali_inv cfg s0" using inv by (simp add: s0_def mali_inv_defs)
  have ok: "mali_table_ok ?lst ?full" using mali_inv_ctx(3) [OF inv] .
  obtain pmax0 pmin0 lvl where lim: "dfs_limits cfg s0 = (pmax0, pmin0, lvl)" by (cases "dfs_limits cfg s0") auto
  have m0: "pmax0 \<in> set ?lst" "pmin0 \<in> set ?lst" using dfs_limits_mem [OF wf inv0] lim by auto
  obtain pmax pmin where fx: "dfs_fix_inversion cfg s0 pmax0 pmin0 = (pmax, pmin)"
    by (cases "dfs_fix_inversion cfg s0 pmax0 pmin0") auto
  have m: "pmax \<in> set ?lst" "pmin \<in> set ?lst" and fle: "gfi_freq (?full ! pmin) \<le> gfi_freq (?full ! pmax)"
    using dfs_fix_inversion_result [OF fx] m0 by (auto simp: fi_def s0_def)
  have ile: "gfi_index (?full ! pmax) \<le> gfi_index (?full ! pmin)"
    using mali_table_ok_idx_le [OF ok m fle] .
  obtain n where nidx: "dfs_next_index cfg s0 pmax pmin (int load) = Some n"
    and nlo: "gfi_index (?full ! pmax) \<le> n" and nhi: "n \<le> gfi_index (?full ! pmin)"
    using dfs_next_index_window [OF inv0, of pmax pmin "int load"] m ile by (auto simp: s0_def)
  let ?nx = "dfs_at (ms_ctx s0) n"
  have nx: "?nx = ?lst ! nat n" "0 \<le> n" "nat n < length ?lst"
    using mali_table_ok_idx [OF ok m(1)] mali_table_ok_idx [OF ok m(2)] nlo nhi mali_inv_ctx(1) [OF inv]
    by (auto simp: dfs_at_def s0_def)
  have nxm: "?nx \<in> set ?lst" using nx by simp
  have nxi: "gfi_index (?full ! ?nx) = n" using ok nx by (simp add: mali_table_ok_def)
  have win: "gfi_freq (?full ! pmin) \<le> gfi_freq (?full ! ?nx)" "gfi_freq (?full ! ?nx) \<le> gfi_freq (?full ! pmax)"
    using mali_table_ok_freq_le [OF ok nxm m(2)] mali_table_ok_freq_le [OF ok m(1) nxm] nxi nlo nhi by auto
  define s1 where "s1 = s0\<lparr>ms_ctx := (ms_ctx s0)\<lparr>dfs_max_freq_p := pmax, dfs_min_freq_p := pmin,
                                              next_freq_p := ?nx\<rparr>, gpu_level := lvl\<rparr>"
  have u: "mali_platform_utilization cfg load s =
           Some (if gfi_freq (fi s1 (next_freq_p (ms_ctx s1))) \<noteq> gfi_freq (fi s1 (cur_freq_p (ms_ctx s1)))
                    \<and> gpu_dfs_workqueue (ms_ctx s1) then s1\<lparr>ms_work_pending := True\<rparr> else s1)"
    using lim fx nidx unfolding mali_platform_utilization_def s1_def s0_def Let_def by simp
  have inv1: "mali_inv cfg s1" using inv0 m nxm by (simp add: s1_def mali_inv_defs)
  show ?thesis
    using u inv1 win by (auto simp: mali_inv_defs s1_def s0_def)
qed

lemma mali_step_inv:
  assumes wf: "mali_config_wf cfg" and inv: "mali_inv cfg s"
  shows "\<exists>s'. mali_step cfg s e = Some s' \<and> mali_inv cfg s'"
proof (cases e)
  case (Utilization load)
  then show ?thesis using mali_platform_utilization_ok [OF wf inv, of load] by auto
next
  case (PowerMode m)
  then show ?thesis using mali_inv_power_mode [OF inv] by simp
next
  case DfsWork
  then show ?thesis using mali_inv_dfs_work [OF inv] by simp
qed (use inv in \<open>simp_all add: mali_inv_defs\<close>)

lemma mali_inv_reachable:
  "mali_reach cfg clk_get s \<Longrightarrow> mali_config_wf cfg \<Longrightarrow> mali_inv cfg s"
proof (induction rule: mali_reach.induct)
  case (init cfg clk_get)
  then show ?case by (rule mali_init_inv)
next
  case (step cfg clk_get s e s')
  then show ?case using mali_step_inv [of cfg s e] by auto
qed

subsection \<open>Properties of the machine\<close>

text \<open>C24: On every reachable state of the machine of a well-formed build, the
  invariant holds: the pointers stay in the frequency list, the table keeps its shape,
  and the clocks, the power domain and the reported frequency agree with the context.\<close>

theorem mali_reach_inv:
  "mali_config_wf cfg \<Longrightarrow> mali_reach cfg clk_get s \<Longrightarrow> mali_inv cfg s"
  using mali_inv_reachable by blast

text \<open>C25: No event fails on a reachable state: \<open>mali_platform_utilization\<close> never reads
  outside the frequency list, so every event has a successor state.\<close>

theorem mali_step_total:
  "mali_config_wf cfg \<Longrightarrow> mali_reach cfg clk_get s \<Longrightarrow>
   \<exists>s'. mali_step cfg s e = Some s' \<and> mali_reach cfg clk_get s'"
  using mali_step_inv [of cfg s e] mali_inv_reachable [of cfg clk_get s] mali_reach.step by blast

text \<open>C26: The utilization callback chooses a next frequency inside the window it sets:
  at most the frequency of \<open>dfs_max_freq_p\<close> and at least that of \<open>dfs_min_freq_p\<close>.\<close>

theorem mali_utilization_window:
  "mali_config_wf cfg \<Longrightarrow> mali_reach cfg clk_get s \<Longrightarrow>
   \<exists>s'. mali_platform_utilization cfg load s = Some s' \<and>
     next_freq_p (ms_ctx s') \<in> set (cfg_dfs_list cfg) \<and>
     gfi_freq (ms_full s' ! dfs_min_freq_p (ms_ctx s')) \<le> gfi_freq (ms_full s' ! next_freq_p (ms_ctx s')) \<and>
     gfi_freq (ms_full s' ! next_freq_p (ms_ctx s')) \<le> gfi_freq (ms_full s' ! dfs_max_freq_p (ms_ctx s'))"
  using mali_platform_utilization_ok [of cfg s load] mali_inv_reachable [of cfg clk_get s]
  by (force simp: mali_inv_defs)

text \<open>C27: While the domain is powered, the clock's parent and divider are those of the
  current frequency and the reported frequency is that frequency; while it is not, the
  domain is forced off and the reported frequency is 0.\<close>

theorem mali_hw_matches_cur:
  "mali_config_wf cfg \<Longrightarrow> mali_reach cfg clk_get s \<Longrightarrow>
   (let cur = ms_full s ! cur_freq_p (ms_ctx s)
    in if gpu_power_on (ms_ctx s)
       then ms_clk_parent s = gfi_clk_src cur \<and> ms_clk_div s = gfi_div_select cur \<and>
            gpu_cur_freq s = gfi_freq cur \<and> \<not> ms_force_shutdown s
       else ms_force_shutdown s \<and> gpu_cur_freq s = 0)"
  using mali_inv_reachable [of cfg clk_get s] by (simp add: mali_inv_defs)

text \<open>C28: The enable counts stay balanced: \<open>gpu_clock\<close> and \<open>gpu_clock_i\<close> are enabled
  exactly once while the clock is on and not at all while it is off, and each source is
  enabled at most once.\<close>

theorem mali_clock_balance:
  "mali_config_wf cfg \<Longrightarrow> mali_reach cfg clk_get s \<Longrightarrow>
   ms_gpu_clock_en s = ms_gpu_clock_i_en s \<and>
   ms_gpu_clock_en s = (if gpu_clock_on (ms_ctx s) then 1 else 0) \<and>
   gpu_clock_on (ms_ctx s) = gpu_power_on (ms_ctx s) \<and>
   list_all (\<lambda>n. n = 0 \<or> n = 1) (ms_src_en s)"
  using mali_inv_reachable [of cfg clk_get s] by (auto simp: mali_inv_defs list_all_iff)

text \<open>C29: A frequency change the utilization callback queued takes effect when the work
  runs: while powered, the next \<open>DfsWork\<close> event makes the next frequency current,
  switches the clock's parent and divider to it, and reports it.\<close>

theorem mali_dfs_work_reaches_next:
  "mali_config_wf cfg \<Longrightarrow> mali_reach cfg clk_get s \<Longrightarrow> ms_work_pending s \<Longrightarrow>
   gpu_power_on (ms_ctx s) \<Longrightarrow>
   \<exists>s'. mali_step cfg s DfsWork = Some s' \<and> cur_freq_p (ms_ctx s') = next_freq_p (ms_ctx s) \<and>
     ms_clk_parent s' = gfi_clk_src (ms_full s ! next_freq_p (ms_ctx s)) \<and>
     ms_clk_div s' = gfi_div_select (ms_full s ! next_freq_p (ms_ctx s)) \<and>
     gpu_cur_freq s' = gfi_freq (ms_full s ! next_freq_p (ms_ctx s)) \<and> \<not> ms_work_pending s'"
proof -
  assume wf: "mali_config_wf cfg" and r: "mali_reach cfg clk_get s" and p: "ms_work_pending s"
    and on: "gpu_power_on (ms_ctx s)"
  have inv: "mali_inv cfg s" using mali_inv_reachable [OF r wf] .
  let ?ctx = "ms_ctx s" and ?full = "ms_full s"
  have sel: "gfi_freq_select (?full ! next_freq_p ?ctx) = gfi_freq_select (?full ! cur_freq_p ?ctx) \<Longrightarrow>
        gfi_clk_src (?full ! next_freq_p ?ctx) = gfi_clk_src (?full ! cur_freq_p ?ctx)"
    using inv mali_table_ok_clk_src [of "cfg_dfs_list cfg" ?full] by (simp add: mali_inv_defs)
  have "gpu_clock_on ?ctx" using inv on by (simp add: mali_inv_defs)
  then show ?thesis
    using inv on p sel by (simp add: gpu_dfs_func_def gpu_change_freq_div_on mali_inv_defs)
qed

text \<open>The generating loop of \<open>gpu_dfs_full_list_generate\<close> fills entry \<open>k\<close> of the
  full list from source \<open>k div 4\<close> divided by \<open>k mod 4 + 1\<close>: its index is \<open>k\<close>, its
  frequency and up threshold (90 percent of the source frequency) are divided by that divider,
  and it takes the source's select value and clock; the down threshold is left as it was.\<close>

theorem gpu_dfs_full_list_entries:
  "k < length f \<Longrightarrow> k div 4 < length src \<Longrightarrow>
   (let e = gpu_dfs_full_list_generate src f ! k; c = src ! (k div 4); d = int (k mod 4) + 1
    in gfi_index e = int k \<and> gfi_freq e = gcs_freq c div d \<and> gfi_div_select e = d \<and>
       gfi_up_threshold e = gcs_freq c * 9 div 10 div d \<and> gfi_freq_select e = gcs_freq_select c \<and>
       gfi_clk_src e = gcs_clk_src c \<and> gfi_down_threshold e = gfi_down_threshold (f ! k))"
  by (simp add: gpu_dfs_full_list_generate_nth gen_entry_def Let_def)

text \<open>The three builds without \<open>CONFIG_OF\<close> are well-formed, whatever their
  \<open>DFS_MAX_FREQ\<close>, \<open>DFS_MIN_FREQ\<close> and scaling switches: their lists are duplicate-free,
  point into the generated part of the table, and list strictly decreasing frequencies.\<close>

theorem mali_builds_wf:
  "mali_config_wf (mali_cfg_shark dmax dmin a b) \<and> mali_config_wf (mali_cfg_scx30g dmax dmin a b) \<and>
   mali_config_wf (mali_cfg_scx35l dmax dmin a b)"
  by (simp add: mali_config_wf_def mali_cfg_shark_def gpu_clk_src_shark_def dfs_list_shark_def
    mali_cfg_scx30g_def gpu_clk_src_scx30g_def dfs_list_scx30g_def mali_cfg_scx35l_def
    gpu_clk_src_scx35l_def dfs_list_scx35l_def clk_source_def)

text \<open>\<open>mali_platform_device_unregister\<close> disables every found clock source even when
  the sources are already disabled by a sleep: after a sleep it leaves each found
  source's enable count at -1, an unbalanced \<open>clk_disable\<close>.\<close>

theorem mali_unregister_after_sleep:
  "mali_config_wf cfg \<Longrightarrow> mali_reach cfg clk_get s \<Longrightarrow> gpu_suspended (ms_ctx s) \<Longrightarrow>
   ms_src_en (mali_platform_device_unregister s) =
     map (\<lambda>c. if gcs_clk_src c \<noteq> None then -1 else 0) (ms_clk_src s)"
  using mali_inv_reachable [of cfg clk_get s]
  by (auto simp: mali_inv_defs mali_platform_device_unregister_def mali_power_down_def
    mali_gate_clock_def src_disable_map)

subsection \<open>The properties at concrete inputs\<close>

lemmas mali_shark_defs = mali_cfg_shark_def gpu_clk_src_shark_def dfs_list_shark_def clk_source_def

theorem mali_reach_inv_witness:
  "mali_config_wf (mali_cfg_shark 312000 64000 False False) \<and>
   mali_reach (mali_cfg_shark 312000 64000 False False) (\<lambda>_. Some 1)
     (mali_power_initialize (mali_cfg_shark 312000 64000 False False) (\<lambda>_. Some 1)
        (mali_boot (mali_cfg_shark 312000 64000 False False))) \<and>
   mali_inv (mali_cfg_shark 312000 64000 False False)
     (mali_power_initialize (mali_cfg_shark 312000 64000 False False) (\<lambda>_. Some 1)
        (mali_boot (mali_cfg_shark 312000 64000 False False)))"
proof -
  have wf: "mali_config_wf (mali_cfg_shark 312000 64000 False False)"
    by (simp add: mali_config_wf_def mali_shark_defs)
  have r0: "mali_reach (mali_cfg_shark 312000 64000 False False) (\<lambda>_. Some 1) (mali_power_initialize (mali_cfg_shark 312000 64000 False False) (\<lambda>_. Some 1) (mali_boot (mali_cfg_shark 312000 64000 False False)))" by (rule mali_reach.init)
  show ?thesis using wf mali_reach_inv [OF wf r0] r0 by blast
qed

theorem gpu_dfs_full_list_entries_witness:
  "9 < length (replicate 32 gfi_zero) \<and> 9 div 4 < length gpu_clk_src_shark \<and>
   gfi_freq (gpu_dfs_full_list_generate gpu_clk_src_shark (replicate 32 gfi_zero) ! 9) = 104000"
  using gpu_dfs_full_list_entries [of 9 "replicate 32 gfi_zero" gpu_clk_src_shark]
  by (simp add: gpu_clk_src_shark_def clk_source_def Let_def)

theorem mali_step_total_witness:
  "mali_config_wf (mali_cfg_shark 312000 64000 False False) \<and> mali_reach (mali_cfg_shark 312000 64000 False False) (\<lambda>_. Some 1) (mali_power_initialize (mali_cfg_shark 312000 64000 False False) (\<lambda>_. Some 1) (mali_boot (mali_cfg_shark 312000 64000 False False))) \<and>
   (\<exists>s'. mali_step (mali_cfg_shark 312000 64000 False False) (mali_power_initialize (mali_cfg_shark 312000 64000 False False) (\<lambda>_. Some 1) (mali_boot (mali_cfg_shark 312000 64000 False False))) (Utilization 100) = Some s' \<and> mali_reach (mali_cfg_shark 312000 64000 False False) (\<lambda>_. Some 1) s')"
proof -
  have wf: "mali_config_wf (mali_cfg_shark 312000 64000 False False)" by (simp add: mali_config_wf_def mali_shark_defs)
  have r0: "mali_reach (mali_cfg_shark 312000 64000 False False) (\<lambda>_. Some 1) (mali_power_initialize (mali_cfg_shark 312000 64000 False False) (\<lambda>_. Some 1) (mali_boot (mali_cfg_shark 312000 64000 False False)))" by (rule mali_reach.init)
  show ?thesis using wf mali_step_total [OF wf r0] r0 by blast
qed

theorem mali_utilization_window_witness:
  "mali_config_wf (mali_cfg_shark 312000 64000 False False) \<and> mali_reach (mali_cfg_shark 312000 64000 False False) (\<lambda>_. Some 1) (mali_power_initialize (mali_cfg_shark 312000 64000 False False) (\<lambda>_. Some 1) (mali_boot (mali_cfg_shark 312000 64000 False False))) \<and>
   (\<exists>s'. mali_platform_utilization (mali_cfg_shark 312000 64000 False False) 100 (mali_power_initialize (mali_cfg_shark 312000 64000 False False) (\<lambda>_. Some 1) (mali_boot (mali_cfg_shark 312000 64000 False False))) = Some s' \<and>
     next_freq_p (ms_ctx s') \<in> set (cfg_dfs_list (mali_cfg_shark 312000 64000 False False)) \<and>
     gfi_freq (ms_full s' ! dfs_min_freq_p (ms_ctx s')) \<le> gfi_freq (ms_full s' ! next_freq_p (ms_ctx s')) \<and>
     gfi_freq (ms_full s' ! next_freq_p (ms_ctx s')) \<le> gfi_freq (ms_full s' ! dfs_max_freq_p (ms_ctx s')))"
proof -
  have wf: "mali_config_wf (mali_cfg_shark 312000 64000 False False)" by (simp add: mali_config_wf_def mali_shark_defs)
  have r0: "mali_reach (mali_cfg_shark 312000 64000 False False) (\<lambda>_. Some 1) (mali_power_initialize (mali_cfg_shark 312000 64000 False False) (\<lambda>_. Some 1) (mali_boot (mali_cfg_shark 312000 64000 False False)))" by (rule mali_reach.init)
  show ?thesis using wf mali_utilization_window [OF wf r0] r0 by blast
qed

theorem mali_hw_matches_cur_witness:
  "mali_config_wf (mali_cfg_shark 312000 64000 False False) \<and> mali_reach (mali_cfg_shark 312000 64000 False False) (\<lambda>_. Some 1) (mali_power_initialize (mali_cfg_shark 312000 64000 False False) (\<lambda>_. Some 1) (mali_boot (mali_cfg_shark 312000 64000 False False))) \<and>
   ms_clk_parent (mali_power_initialize (mali_cfg_shark 312000 64000 False False) (\<lambda>_. Some 1) (mali_boot (mali_cfg_shark 312000 64000 False False))) = gfi_clk_src (ms_full (mali_power_initialize (mali_cfg_shark 312000 64000 False False) (\<lambda>_. Some 1) (mali_boot (mali_cfg_shark 312000 64000 False False))) ! cur_freq_p (ms_ctx (mali_power_initialize (mali_cfg_shark 312000 64000 False False) (\<lambda>_. Some 1) (mali_boot (mali_cfg_shark 312000 64000 False False))))) \<and>
   gpu_cur_freq (mali_power_initialize (mali_cfg_shark 312000 64000 False False) (\<lambda>_. Some 1) (mali_boot (mali_cfg_shark 312000 64000 False False))) = 312000"
proof -
  have wf: "mali_config_wf (mali_cfg_shark 312000 64000 False False)" by (simp add: mali_config_wf_def mali_shark_defs)
  have r0: "mali_reach (mali_cfg_shark 312000 64000 False False) (\<lambda>_. Some 1) (mali_power_initialize (mali_cfg_shark 312000 64000 False False) (\<lambda>_. Some 1) (mali_boot (mali_cfg_shark 312000 64000 False False)))" by (rule mali_reach.init)
  have on: "gpu_power_on (ms_ctx (mali_power_initialize (mali_cfg_shark 312000 64000 False False) (\<lambda>_. Some 1) (mali_boot (mali_cfg_shark 312000 64000 False False))))" by (simp add: mali_init_fields)
  have f: "gfi_freq (ms_full (mali_power_initialize (mali_cfg_shark 312000 64000 False False) (\<lambda>_. Some 1) (mali_boot (mali_cfg_shark 312000 64000 False False))) ! cur_freq_p (ms_ctx (mali_power_initialize (mali_cfg_shark 312000 64000 False False) (\<lambda>_. Some 1) (mali_boot (mali_cfg_shark 312000 64000 False False))))) = 312000" by code_simp
  show ?thesis
    using wf mali_hw_matches_cur [OF wf r0] r0 on f by (simp add: Let_def)
qed

theorem mali_clock_balance_witness:
  "mali_config_wf (mali_cfg_shark 312000 64000 False False) \<and> mali_reach (mali_cfg_shark 312000 64000 False False) (\<lambda>_. Some 1) (mali_power_initialize (mali_cfg_shark 312000 64000 False False) (\<lambda>_. Some 1) (mali_boot (mali_cfg_shark 312000 64000 False False))) \<and> ms_gpu_clock_en (mali_power_initialize (mali_cfg_shark 312000 64000 False False) (\<lambda>_. Some 1) (mali_boot (mali_cfg_shark 312000 64000 False False))) = 1"
proof -
  have wf: "mali_config_wf (mali_cfg_shark 312000 64000 False False)" by (simp add: mali_config_wf_def mali_shark_defs)
  have r0: "mali_reach (mali_cfg_shark 312000 64000 False False) (\<lambda>_. Some 1) (mali_power_initialize (mali_cfg_shark 312000 64000 False False) (\<lambda>_. Some 1) (mali_boot (mali_cfg_shark 312000 64000 False False)))" by (rule mali_reach.init)
  have on: "gpu_clock_on (ms_ctx (mali_power_initialize (mali_cfg_shark 312000 64000 False False) (\<lambda>_. Some 1) (mali_boot (mali_cfg_shark 312000 64000 False False))))" by (simp add: mali_init_fields)
  have "ms_gpu_clock_en (mali_power_initialize (mali_cfg_shark 312000 64000 False False) (\<lambda>_. Some 1) (mali_boot (mali_cfg_shark 312000 64000 False False))) = (if gpu_clock_on (ms_ctx (mali_power_initialize (mali_cfg_shark 312000 64000 False False) (\<lambda>_. Some 1) (mali_boot (mali_cfg_shark 312000 64000 False False)))) then 1 else 0)"
    using mali_clock_balance [OF wf r0] by blast
  then show ?thesis using wf r0 on by simp
qed

theorem mali_dfs_work_reaches_next_witness:
  "mali_config_wf (mali_cfg_shark 312000 64000 False False) \<and> mali_reach (mali_cfg_shark 312000 64000 False False) (\<lambda>_. Some 1) (the (mali_platform_utilization (mali_cfg_shark 312000 64000 False False) 100 (mali_power_initialize (mali_cfg_shark 312000 64000 False False) (\<lambda>_. Some 1) (mali_boot (mali_cfg_shark 312000 64000 False False))))) \<and> ms_work_pending (the (mali_platform_utilization (mali_cfg_shark 312000 64000 False False) 100 (mali_power_initialize (mali_cfg_shark 312000 64000 False False) (\<lambda>_. Some 1) (mali_boot (mali_cfg_shark 312000 64000 False False))))) \<and>
   gpu_power_on (ms_ctx (the (mali_platform_utilization (mali_cfg_shark 312000 64000 False False) 100 (mali_power_initialize (mali_cfg_shark 312000 64000 False False) (\<lambda>_. Some 1) (mali_boot (mali_cfg_shark 312000 64000 False False)))))) \<and>
   (\<exists>s'. mali_step (mali_cfg_shark 312000 64000 False False) (the (mali_platform_utilization (mali_cfg_shark 312000 64000 False False) 100 (mali_power_initialize (mali_cfg_shark 312000 64000 False False) (\<lambda>_. Some 1) (mali_boot (mali_cfg_shark 312000 64000 False False))))) DfsWork = Some s' \<and> cur_freq_p (ms_ctx s') = next_freq_p (ms_ctx (the (mali_platform_utilization (mali_cfg_shark 312000 64000 False False) 100 (mali_power_initialize (mali_cfg_shark 312000 64000 False False) (\<lambda>_. Some 1) (mali_boot (mali_cfg_shark 312000 64000 False False)))))) \<and>
     gpu_cur_freq s' = gfi_freq (ms_full (the (mali_platform_utilization (mali_cfg_shark 312000 64000 False False) 100 (mali_power_initialize (mali_cfg_shark 312000 64000 False False) (\<lambda>_. Some 1) (mali_boot (mali_cfg_shark 312000 64000 False False))))) ! next_freq_p (ms_ctx (the (mali_platform_utilization (mali_cfg_shark 312000 64000 False False) 100 (mali_power_initialize (mali_cfg_shark 312000 64000 False False) (\<lambda>_. Some 1) (mali_boot (mali_cfg_shark 312000 64000 False False))))))))"
proof -
  have wf: "mali_config_wf (mali_cfg_shark 312000 64000 False False)" by (simp add: mali_config_wf_def mali_shark_defs)
  have r0: "mali_reach (mali_cfg_shark 312000 64000 False False) (\<lambda>_. Some 1) (mali_power_initialize (mali_cfg_shark 312000 64000 False False) (\<lambda>_. Some 1) (mali_boot (mali_cfg_shark 312000 64000 False False)))" by (rule mali_reach.init)
  have u: "mali_step (mali_cfg_shark 312000 64000 False False) (mali_power_initialize (mali_cfg_shark 312000 64000 False False) (\<lambda>_. Some 1) (mali_boot (mali_cfg_shark 312000 64000 False False))) (Utilization 100) = Some (the (mali_platform_utilization (mali_cfg_shark 312000 64000 False False) 100 (mali_power_initialize (mali_cfg_shark 312000 64000 False False) (\<lambda>_. Some 1) (mali_boot (mali_cfg_shark 312000 64000 False False)))))" by code_simp
  have r: "mali_reach (mali_cfg_shark 312000 64000 False False) (\<lambda>_. Some 1) (the (mali_platform_utilization (mali_cfg_shark 312000 64000 False False) 100 (mali_power_initialize (mali_cfg_shark 312000 64000 False False) (\<lambda>_. Some 1) (mali_boot (mali_cfg_shark 312000 64000 False False)))))" using mali_reach.step [OF r0 u] .
  have p: "ms_work_pending (the (mali_platform_utilization (mali_cfg_shark 312000 64000 False False) 100 (mali_power_initialize (mali_cfg_shark 312000 64000 False False) (\<lambda>_. Some 1) (mali_boot (mali_cfg_shark 312000 64000 False False)))))" by code_simp
  have on: "gpu_power_on (ms_ctx (the (mali_platform_utilization (mali_cfg_shark 312000 64000 False False) 100 (mali_power_initialize (mali_cfg_shark 312000 64000 False False) (\<lambda>_. Some 1) (mali_boot (mali_cfg_shark 312000 64000 False False))))))" by code_simp
  show ?thesis using wf r p on mali_dfs_work_reaches_next [OF wf r p on] by blast
qed

theorem mali_unregister_after_sleep_witness:
  "mali_config_wf (mali_cfg_shark 312000 64000 False False) \<and> mali_reach (mali_cfg_shark 312000 64000 False False) (\<lambda>_. Some 1) (mali_platform_power_mode_change (mali_cfg_shark 312000 64000 False False) 1 (mali_power_initialize (mali_cfg_shark 312000 64000 False False) (\<lambda>_. Some 1) (mali_boot (mali_cfg_shark 312000 64000 False False)))) \<and> gpu_suspended (ms_ctx (mali_platform_power_mode_change (mali_cfg_shark 312000 64000 False False) 1 (mali_power_initialize (mali_cfg_shark 312000 64000 False False) (\<lambda>_. Some 1) (mali_boot (mali_cfg_shark 312000 64000 False False))))) \<and>
   ms_src_en (mali_platform_device_unregister (mali_platform_power_mode_change (mali_cfg_shark 312000 64000 False False) 1 (mali_power_initialize (mali_cfg_shark 312000 64000 False False) (\<lambda>_. Some 1) (mali_boot (mali_cfg_shark 312000 64000 False False))))) = [-1, -1, -1]"
proof -
  have wf: "mali_config_wf (mali_cfg_shark 312000 64000 False False)" by (simp add: mali_config_wf_def mali_shark_defs)
  have r0: "mali_reach (mali_cfg_shark 312000 64000 False False) (\<lambda>_. Some 1) (mali_power_initialize (mali_cfg_shark 312000 64000 False False) (\<lambda>_. Some 1) (mali_boot (mali_cfg_shark 312000 64000 False False)))" by (rule mali_reach.init)
  have u: "mali_step (mali_cfg_shark 312000 64000 False False) (mali_power_initialize (mali_cfg_shark 312000 64000 False False) (\<lambda>_. Some 1) (mali_boot (mali_cfg_shark 312000 64000 False False))) (PowerMode 1) = Some (mali_platform_power_mode_change (mali_cfg_shark 312000 64000 False False) 1 (mali_power_initialize (mali_cfg_shark 312000 64000 False False) (\<lambda>_. Some 1) (mali_boot (mali_cfg_shark 312000 64000 False False))))" by simp
  have r: "mali_reach (mali_cfg_shark 312000 64000 False False) (\<lambda>_. Some 1) (mali_platform_power_mode_change (mali_cfg_shark 312000 64000 False False) 1 (mali_power_initialize (mali_cfg_shark 312000 64000 False False) (\<lambda>_. Some 1) (mali_boot (mali_cfg_shark 312000 64000 False False))))" using mali_reach.step [OF r0 u] .
  have sp: "gpu_suspended (ms_ctx (mali_platform_power_mode_change (mali_cfg_shark 312000 64000 False False) 1 (mali_power_initialize (mali_cfg_shark 312000 64000 False False) (\<lambda>_. Some 1) (mali_boot (mali_cfg_shark 312000 64000 False False)))))" by code_simp
  have src: "ms_clk_src (mali_platform_power_mode_change (mali_cfg_shark 312000 64000 False False) 1 (mali_power_initialize (mali_cfg_shark 312000 64000 False False) (\<lambda>_. Some 1) (mali_boot (mali_cfg_shark 312000 64000 False False)))) = map (\<lambda>c. c\<lparr>gcs_clk_src := Some 1\<rparr>) gpu_clk_src_shark" by code_simp
  show ?thesis
    using wf r sp mali_unregister_after_sleep [OF wf r sp] src by (simp add: gpu_clk_src_shark_def)
qed

end
