(* ===== verification/Input_Bridge.thy ===== *)
theory Input_Bridge
  imports Prelude
begin

text \<open>
  The Samsung input bridge of \<open>drivers/input/sec-input-bridge.c\<close>: an input handler
  that watches the volume, power and menu keys, matches the key sequence of the
  log-dump map (\<open>input_bridge_check_logdump\<close>), detects a long press of the safe-mode key
  with a five-second timer (\<open>input_bridge_check_safemode\<close>,
  \<open>input_bridge_safemode_timer\<close>), and sends the maps' uevents from a work item
  (\<open>input_bridge_work\<close>). The platform data come from the device tree
  (\<open>sec_input_bridge_parse_dt\<close>) or the board file; \<open>sec_input_bridge_probe\<close> builds
  the handler's device-id table (\<open>input_bridge_set_ids\<close>) and registers it.
  Handler, timer and work run one at a time here: each is a step of the machine
  \<open>ib_step\<close>. A read outside an array of the platform data is the value \<open>None\<close>, as is
  a \<open>sprintf\<close> past the 16-byte \<open>env_str\<close>.
\<close>

unbundle bit_operations_syntax

subsection \<open>Input constants and device ids\<close>

text \<open>Event types and key codes of \<open>include/uapi/linux/input.h\<close>, and the match flags of
  \<open>mod_devicetable.h\<close>.\<close>

definition EV_KEY :: nat where "EV_KEY = 1"
definition EV_REL :: nat where "EV_REL = 2"
definition EV_ABS :: nat where "EV_ABS = 3"
definition EV_MSC :: nat where "EV_MSC = 4"
definition EV_SW :: nat where "EV_SW = 5"
definition EV_LED :: nat where "EV_LED = 17"
definition EV_SND :: nat where "EV_SND = 18"
definition EV_REP :: nat where "EV_REP = 20"
definition EV_FF :: nat where "EV_FF = 21"
definition EV_PWR :: nat where "EV_PWR = 22"

definition KEY_VOLUMEDOWN :: nat where "KEY_VOLUMEDOWN = 114"
definition KEY_VOLUMEUP :: nat where "KEY_VOLUMEUP = 115"
definition KEY_POWER :: nat where "KEY_POWER = 116"
definition KEY_MENU :: nat where "KEY_MENU = 139"

definition INPUT_DEVICE_ID_MATCH_EVBIT :: nat where "INPUT_DEVICE_ID_MATCH_EVBIT = 16"
definition INPUT_DEVICE_ID_MATCH_KEYBIT :: nat where "INPUT_DEVICE_ID_MATCH_KEYBIT = 32"
definition INPUT_DEVICE_ID_MATCH_RELBIT :: nat where "INPUT_DEVICE_ID_MATCH_RELBIT = 64"
definition INPUT_DEVICE_ID_MATCH_ABSBIT :: nat where "INPUT_DEVICE_ID_MATCH_ABSBIT = 128"
definition INPUT_DEVICE_ID_MATCH_MSCIT :: nat where "INPUT_DEVICE_ID_MATCH_MSCIT = 256"
definition INPUT_DEVICE_ID_MATCH_LEDBIT :: nat where "INPUT_DEVICE_ID_MATCH_LEDBIT = 512"
definition INPUT_DEVICE_ID_MATCH_SNDBIT :: nat where "INPUT_DEVICE_ID_MATCH_SNDBIT = 1024"
definition INPUT_DEVICE_ID_MATCH_FFBIT :: nat where "INPUT_DEVICE_ID_MATCH_FFBIT = 2048"
definition INPUT_DEVICE_ID_MATCH_SWBIT :: nat where "INPUT_DEVICE_ID_MATCH_SWBIT = 4096"

text \<open>\<open>struct input_device_id\<close>: the match flags and the bitmaps as sets of bit numbers.\<close>

record input_device_id =
  id_flags :: nat
  id_evbit :: "nat set"
  id_keybit :: "nat set"
  id_relbit :: "nat set"
  id_absbit :: "nat set"
  id_mscbit :: "nat set"
  id_ledbit :: "nat set"
  id_sndbit :: "nat set"
  id_ffbit :: "nat set"
  id_swbit :: "nat set"

definition input_device_id_zero :: input_device_id where
  "input_device_id_zero = \<lparr>id_flags = 0, id_evbit = {}, id_keybit = {}, id_relbit = {},
     id_absbit = {}, id_mscbit = {}, id_ledbit = {}, id_sndbit = {}, id_ffbit = {}, id_swbit = {}\<rparr>"

text \<open>\<open>input_bridge_set_ids\<close>: the flag of the type's bitmap replaces the flags and the code's
  bit is set; \<open>EV_PWR\<close> keeps the flags; an unknown type leaves the entry untouched.
  Then the event-type bit is added.\<close>

definition input_bridge_set_ids :: "input_device_id \<Rightarrow> nat \<Rightarrow> nat \<Rightarrow> input_device_id" where
  "input_bridge_set_ids ids type code =
     (let r = (if type = EV_KEY then Some (ids\<lparr>id_flags := INPUT_DEVICE_ID_MATCH_KEYBIT,
                                              id_keybit := insert code (id_keybit ids)\<rparr>)
               else if type = EV_REL then Some (ids\<lparr>id_flags := INPUT_DEVICE_ID_MATCH_RELBIT,
                                                   id_relbit := insert code (id_relbit ids)\<rparr>)
               else if type = EV_ABS then Some (ids\<lparr>id_flags := INPUT_DEVICE_ID_MATCH_ABSBIT,
                                                   id_absbit := insert code (id_absbit ids)\<rparr>)
               else if type = EV_MSC then Some (ids\<lparr>id_flags := INPUT_DEVICE_ID_MATCH_MSCIT,
                                                   id_mscbit := insert code (id_mscbit ids)\<rparr>)
               else if type = EV_SW then Some (ids\<lparr>id_flags := INPUT_DEVICE_ID_MATCH_SWBIT,
                                                  id_swbit := insert code (id_swbit ids)\<rparr>)
               else if type = EV_LED then Some (ids\<lparr>id_flags := INPUT_DEVICE_ID_MATCH_LEDBIT,
                                                   id_ledbit := insert code (id_ledbit ids)\<rparr>)
               else if type = EV_SND then Some (ids\<lparr>id_flags := INPUT_DEVICE_ID_MATCH_SNDBIT,
                                                   id_sndbit := insert code (id_sndbit ids)\<rparr>)
               else if type = EV_FF then Some (ids\<lparr>id_flags := INPUT_DEVICE_ID_MATCH_FFBIT,
                                                  id_ffbit := insert code (id_ffbit ids)\<rparr>)
               else if type = EV_PWR then Some ids
               else None)
      in case r of
           None \<Rightarrow> ids
         | Some ids' \<Rightarrow> ids'\<lparr>id_flags := id_flags ids' OR INPUT_DEVICE_ID_MATCH_EVBIT,
                             id_evbit := insert type (id_evbit ids')\<rparr>)"

subsection \<open>Platform data and bridge state\<close>

text \<open>\<open>struct sec_input_bridge_mkey\<close>, \<open>struct sec_input_bridge_mmap\<close> and
  \<open>struct sec_input_bridge_platform_data\<close> (\<open>linux/input/sec-input-bridge.h\<close>); a
  function pointer is modelled by whether it is set.\<close>

record ib_mkey =
  mk_type :: nat
  mk_code :: nat

record ib_mmap =
  mm_mkey_map :: "ib_mkey list"
  mm_num_mkey :: int
  mm_uevent_env_str :: string
  mm_uevent_env_value :: string
  mm_enable_uevent :: bool
  mm_uevent_action :: nat
  mm_pre_event_func :: bool

record ib_pdata =
  pd_mmap :: "ib_mmap list"
  pd_num_map :: int
  pd_num_dev :: int
  pd_support_dev_name :: "string list"
  pd_lcd_warning_func :: bool

text \<open>\<open>struct sec_input_bridge\<close> with the two function-local statics of
  \<open>input_bridge_check_safemode\<close>, whether the work is queued and whether the timer is
  armed.\<close>

record ib_state =
  send_uevent_flag :: u32
  check_index :: "u8 list"
  safemode_flag :: u32
  ib_work_pending :: bool
  ib_timer_armed :: bool
  first_power_press :: bool
  first_power_release :: bool

definition SAFEMODE_INIT :: u32 where "SAFEMODE_INIT = 0xcafecafe"
definition INPUT_LOGDUMP :: nat where "INPUT_LOGDUMP = 0"
definition INPUT_SAFEMODE :: nat where "INPUT_SAFEMODE = 1"

text \<open>The bridge as \<open>sec_input_bridge_probe\<close> leaves it (\<open>kzalloc\<close> zeroes
  \<open>check_index\<close>; the statics start \<open>true\<close>).\<close>

definition ib_init :: ib_state where
  "ib_init = \<lparr>send_uevent_flag = 0, check_index = replicate 32 0, safemode_flag = SAFEMODE_INIT,
     ib_work_pending = False, ib_timer_armed = False, first_power_press = True,
     first_power_release = True\<rparr>"

subsection \<open>Key handling\<close>

text \<open>\<open>input_bridge_check_safemode\<close>: the first power-key press and release after probe
  are ignored; otherwise an event other than the first key of the safe-mode map (code
  and value) clears \<open>safemode_flag\<close>, and that key (re)arms the timer.\<close>

definition input_bridge_check_safemode :: "ib_pdata \<Rightarrow> ib_state \<Rightarrow> nat \<Rightarrow> int \<Rightarrow> ib_state option" where
  "input_bridge_check_safemode pd s code value =
     (case nth_opt (pd_mmap pd) (int INPUT_SAFEMODE) of
        None \<Rightarrow> None
      | Some mm \<Rightarrow>
          if code = KEY_POWER \<and> first_power_press s \<and> value = 1
          then Some (s\<lparr>first_power_press := False\<rparr>)
          else if code = KEY_POWER \<and> first_power_release s \<and> value = 0
          then Some (s\<lparr>first_power_press := False\<rparr>)
          else (case nth_opt (mm_mkey_map mm) 0 of
                  None \<Rightarrow> None
                | Some k0 \<Rightarrow>
                    if code \<noteq> mk_code k0 \<or> value \<noteq> int (mk_type k0)
                    then Some (s\<lparr>safemode_flag := 0\<rparr>)
                    else Some (s\<lparr>ib_timer_armed := True\<rparr>)))"

text \<open>\<open>input_bridge_check_logdump\<close>: \<open>check_index[0]\<close> counts the keys of the log-dump
  sequence matched so far. A matching key advances it, and the last one sets bit 0 of
  \<open>send_uevent_flag\<close>, queues the work and restarts; a mismatch restarts at 1 if the key
  is the first of the sequence, else at 0.\<close>

definition input_bridge_check_logdump :: "ib_pdata \<Rightarrow> ib_state \<Rightarrow> nat \<Rightarrow> ib_state option" where
  "input_bridge_check_logdump pd s code =
     (case nth_opt (pd_mmap pd) (int INPUT_LOGDUMP) of
        None \<Rightarrow> None
      | Some mm \<Rightarrow>
          (let idx = check_index s ! INPUT_LOGDUMP;
               set_idx = (\<lambda>v. (check_index s)[INPUT_LOGDUMP := v])
           in if int (unat idx) > mm_num_mkey mm then Some (s\<lparr>check_index := set_idx 0\<rparr>)
              else (case nth_opt (mm_mkey_map mm) (int (unat idx)) of
                      None \<Rightarrow> None
                    | Some k \<Rightarrow>
                        if mk_code k = code then
                          (if int (unat (idx + 1)) \<ge> mm_num_mkey mm
                           then Some (s\<lparr>send_uevent_flag := send_uevent_flag s OR push_bit INPUT_LOGDUMP 1,
                                        ib_work_pending := True, check_index := set_idx 0\<rparr>)
                           else Some (s\<lparr>check_index := set_idx (idx + 1)\<rparr>))
                        else (case nth_opt (mm_mkey_map mm) 0 of
                                None \<Rightarrow> None
                              | Some k0 \<Rightarrow>
                                  Some (s\<lparr>check_index := set_idx (if mk_code k0 = code then 1 else 0)\<rparr>)))))"

text \<open>\<open>input_bridge_event\<close>: only the four keys are looked at. \<open>rep\<close> is whether the
  handler's id table has \<open>EV_REP\<close>; a key event whose value has a bit of
  \<open>(rep << 1) | 1\<close> goes to the log-dump matcher, and every key event to the safe-mode
  check while \<open>safemode_flag\<close> is still \<open>SAFEMODE_INIT\<close>.\<close>

definition input_bridge_event :: "ib_pdata \<Rightarrow> bool \<Rightarrow> ib_state \<Rightarrow> nat \<Rightarrow> nat \<Rightarrow> int \<Rightarrow> ib_state option" where
  "input_bridge_event pd rep s type code value =
     (if code \<noteq> KEY_VOLUMEDOWN \<and> code \<noteq> KEY_VOLUMEUP \<and> code \<noteq> KEY_POWER \<and> code \<noteq> KEY_MENU
      then Some s
      else if type = EV_KEY then
        (let rep_check = push_bit 1 (if rep then 1 else 0) OR (1 :: int);
             r1 = (if value AND rep_check \<noteq> 0 then input_bridge_check_logdump pd s code else Some s)
         in case r1 of
              None \<Rightarrow> None
            | Some s1 \<Rightarrow>
                if safemode_flag s1 = SAFEMODE_INIT then input_bridge_check_safemode pd s1 code value
                else Some s1)
      else Some s)"

subsection \<open>Timer and work\<close>

text \<open>\<open>input_bridge_safemode_timer\<close>: five seconds after the last arming, a
  \<open>safemode_flag\<close> still at \<open>SAFEMODE_INIT\<close> means the key was held: bit 1 of
  \<open>send_uevent_flag\<close> is set and the work queued.\<close>

definition input_bridge_safemode_timer :: "ib_state \<Rightarrow> ib_state" where
  "input_bridge_safemode_timer s =
     (if safemode_flag s \<noteq> SAFEMODE_INIT then s\<lparr>ib_timer_armed := False\<rparr>
      else s\<lparr>send_uevent_flag := send_uevent_flag s OR push_bit INPUT_SAFEMODE 1,
             ib_work_pending := True, ib_timer_armed := False\<rparr>)"

text \<open>What the work does, in order: a uevent (action and environment string), a call of a
  map's \<open>pre_event_func\<close>, a call of \<open>lcd_warning_func\<close>.\<close>

datatype ib_action = Uevent nat string | PreEvent nat | LcdWarning

text \<open>\<open>sprintf(env_str, "%s=%s", ...)\<close> into \<open>char env_str[16]\<close>: \<open>None\<close> when the string
  and its NUL do not fit.\<close>

definition uevent_env_string :: "string \<Rightarrow> string \<Rightarrow> string option" where
  "uevent_env_string str v = (let e = str @ ''='' @ v in if length e + 1 \<le> 16 then Some e else None)"

fun input_bridge_work_loop :: "ib_pdata \<Rightarrow> nat list \<Rightarrow> u32 \<Rightarrow> (ib_action list \<times> u32) option" where
  "input_bridge_work_loop pd [] fl = Some ([], fl)"
| "input_bridge_work_loop pd (i # is) fl =
     (if fl AND push_bit i 1 = 0 then input_bridge_work_loop pd is fl
      else (case nth_opt (pd_mmap pd) (int i) of
              None \<Rightarrow> None
            | Some mm \<Rightarrow>
                (let ue = (if mm_enable_uevent mm
                           then map_option (\<lambda>e. [Uevent (mm_uevent_action mm) e])
                                  (uevent_env_string (mm_uevent_env_str mm) (mm_uevent_env_value mm))
                           else Some [])
                 in case ue of
                      None \<Rightarrow> None
                    | Some a \<Rightarrow>
                        map_option (\<lambda>(as, fl'). (a @ (if mm_pre_event_func mm then [PreEvent i] else []) @ as, fl'))
                          (input_bridge_work_loop pd is (fl AND NOT (push_bit i 1))))))"

definition input_bridge_work :: "ib_pdata \<Rightarrow> ib_state \<Rightarrow> (ib_action list \<times> ib_state) option" where
  "input_bridge_work pd s =
     map_option (\<lambda>(as, fl). (as @ (if pd_lcd_warning_func pd then [LcdWarning] else []),
                             s\<lparr>send_uevent_flag := fl, ib_work_pending := False\<rparr>))
       (input_bridge_work_loop pd [0..<nat (pd_num_map pd)] (send_uevent_flag s))"

subsection \<open>Connecting input devices\<close>

text \<open>\<open>input_bridge_check_support_dev\<close>: \<open>-1\<close> while the class device does not exist;
  otherwise 0 as soon as \<open>strncmp(dev->name, support_dev_name[i], strlen(dev->name))\<close>
  is 0, that is when the device name is a prefix of a supported name.\<close>

fun ib_support_loop :: "string list \<Rightarrow> string \<Rightarrow> nat list \<Rightarrow> int option" where
  "ib_support_loop names name [] = Some (-1)"
| "ib_support_loop names name (i # is) =
     (case nth_opt names (int i) of
        None \<Rightarrow> None
      | Some n \<Rightarrow> if take (length name) n = name then Some 0 else ib_support_loop names name is)"

definition input_bridge_check_support_dev :: "ib_pdata option \<Rightarrow> string \<Rightarrow> int option" where
  "input_bridge_check_support_dev bridge name =
     (case bridge of
        None \<Rightarrow> Some (-1)
      | Some pd \<Rightarrow> ib_support_loop (pd_support_dev_name pd) name [0..<nat (pd_num_dev pd)])"

text \<open>\<open>input_bridge_connect\<close> over the list of names of the devices the bridge holds an
  open handle on: \<open>alloc\<close> is the outcome of \<open>kzalloc\<close>, \<open>reg\<close> and \<open>opn\<close> the results
  of \<open>input_register_handle\<close> and \<open>input_open_device\<close>.\<close>

definition input_bridge_connect ::
  "ib_pdata option \<Rightarrow> bool \<Rightarrow> int \<Rightarrow> int \<Rightarrow> string \<Rightarrow> string list \<Rightarrow> (int \<times> string list) option" where
  "input_bridge_connect bridge alloc reg opn name hs =
     (case input_bridge_check_support_dev bridge name of
        None \<Rightarrow> None
      | Some r \<Rightarrow>
          Some (if r \<noteq> 0 then (- ENODEV, hs)
                else if \<not> alloc then (- ENOMEM, hs)
                else if reg \<noteq> 0 then (reg, hs)
                else if opn \<noteq> 0 then (opn, hs)
                else (0, name # hs)))"

definition input_bridge_disconnect :: "string \<Rightarrow> string list \<Rightarrow> string list" where
  "input_bridge_disconnect name hs = remove1 name hs"

subsection \<open>Device-tree parsing\<close>

text \<open>The device tree as the accessors \<open>sec_input_bridge_parse_dt\<close> calls: a \<open>u32\<close>
  property or an error code, the \<open>i\<close>-th string of a string-list property or an error
  code, the cells of a property (\<open>of_find_property\<close> and
  \<open>of_property_read_u32_array\<close>), and a boolean property. \<open>mem\<close> is the outcome of the
  \<open>devm_kzalloc\<close> calls.\<close>

record ib_dt =
  dt_u32 :: "string \<Rightarrow> int + nat"
  dt_string :: "string \<Rightarrow> nat \<Rightarrow> int + string"
  dt_cells :: "string \<Rightarrow> nat list option"
  dt_bool :: "string \<Rightarrow> bool"

text \<open>A \<open>u32\<close> read through an \<open>(unsigned int * )\<close> cast into an \<open>int\<close> field.\<close>

definition int_of_u32 :: "nat \<Rightarrow> int" where
  "int_of_u32 v = sint (word_of_nat v :: u32)"

text \<open>One iteration of the map loop of \<open>sec_input_bridge_parse_dt\<close>.\<close>

definition ib_parse_map :: "ib_dt \<Rightarrow> nat \<Rightarrow> bool \<Rightarrow> nat \<Rightarrow> int + ib_mmap" where
  "ib_parse_map dt opt mem i =
     (case dt_string dt ''input_bridge,map_codes'' i of
        Inl rc \<Rightarrow> Inl rc
      | Inr out_prop \<Rightarrow>
          (case dt_cells dt out_prop of
             None \<Rightarrow> Inl (- EINVAL)
           | Some cells \<Rightarrow>
               if \<not> mem then Inl (- ENOMEM)
               else
                 (case dt_string dt ''input_bridge,env_str'' i of
                    Inl rc \<Rightarrow> Inl rc
                  | Inr env_str \<Rightarrow>
                      (case dt_string dt ''input_bridge,env_value'' i of
                         Inl rc \<Rightarrow> Inl rc
                       | Inr env_value \<Rightarrow>
                           (case dt_u32 dt ''input_bridge,uevent_action'' of
                              Inl rc \<Rightarrow> Inl rc
                            | Inr act \<Rightarrow>
                                Inr \<lparr>mm_mkey_map = map (\<lambda>c. \<lparr>mk_type = opt, mk_code = c\<rparr>) cells,
                                     mm_num_mkey = int (length cells),
                                     mm_uevent_env_str = env_str, mm_uevent_env_value = env_value,
                                     mm_enable_uevent = dt_bool dt ''input_bridge,enable_uevent'',
                                     mm_uevent_action = act, mm_pre_event_func = False\<rparr>)))))"

fun ib_parse_maps :: "ib_dt \<Rightarrow> nat \<Rightarrow> bool \<Rightarrow> nat list \<Rightarrow> int + ib_mmap list" where
  "ib_parse_maps dt opt mem [] = Inr []"
| "ib_parse_maps dt opt mem (i # is) =
     (case ib_parse_map dt opt mem i of
        Inl rc \<Rightarrow> Inl rc
      | Inr mm \<Rightarrow> (case ib_parse_maps dt opt mem is of Inl rc \<Rightarrow> Inl rc | Inr ms \<Rightarrow> Inr (mm # ms)))"

fun ib_parse_names :: "ib_dt \<Rightarrow> nat list \<Rightarrow> int + string list" where
  "ib_parse_names dt [] = Inr []"
| "ib_parse_names dt (i # is) =
     (case dt_string dt ''input_bridge,dev_name_str'' i of
        Inl rc \<Rightarrow> Inl rc
      | Inr n \<Rightarrow> (case ib_parse_names dt is of Inl rc \<Rightarrow> Inl rc | Inr ns \<Rightarrow> Inr (n # ns)))"

definition sec_input_bridge_parse_dt :: "ib_dt \<Rightarrow> bool \<Rightarrow> int + ib_pdata" where
  "sec_input_bridge_parse_dt dt mem =
     (case dt_u32 dt ''input_bridge,num_map'' of
        Inl rc \<Rightarrow> Inl rc
      | Inr nm \<Rightarrow>
          (case dt_u32 dt ''input_bridge,map_key'' of
             Inl rc \<Rightarrow> Inl rc
           | Inr opt \<Rightarrow>
               if \<not> mem then Inl (- ENOMEM)
               else
                 (let num_map = int_of_u32 nm
                  in case ib_parse_maps dt opt mem [0..<nat num_map] of
                       Inl rc \<Rightarrow> Inl rc
                     | Inr maps \<Rightarrow>
                         (case dt_u32 dt ''input_bridge,num_dev'' of
                            Inl rc \<Rightarrow> Inl rc
                          | Inr nd \<Rightarrow>
                              (let num_dev = int_of_u32 nd
                               in case ib_parse_names dt [0..<nat num_dev] of
                                    Inl rc \<Rightarrow> Inl rc
                                  | Inr names \<Rightarrow>
                                      Inr \<lparr>pd_mmap = maps, pd_num_map = num_map, pd_num_dev = num_dev,
                                           pd_support_dev_name = names, pd_lcd_warning_func = False\<rparr>)))))"

subsection \<open>Probe and remove\<close>

text \<open>The device-id table \<open>sec_input_bridge_probe\<close> builds: one entry per key of each map,
  in order, and the zero terminator. Reads outside \<open>mmap\<close> or a \<open>mkey_map\<close> are
  \<open>None\<close>.\<close>

fun ib_map_ids :: "ib_mkey list \<Rightarrow> nat list \<Rightarrow> input_device_id list option" where
  "ib_map_ids ks [] = Some []"
| "ib_map_ids ks (j # js) =
     (case nth_opt ks (int j) of
        None \<Rightarrow> None
      | Some k \<Rightarrow> map_option (\<lambda>ids. input_bridge_set_ids input_device_id_zero (mk_type k) (mk_code k) # ids)
                     (ib_map_ids ks js))"

fun ib_build_ids :: "ib_mmap list \<Rightarrow> nat list \<Rightarrow> input_device_id list option" where
  "ib_build_ids ms [] = Some [input_device_id_zero]"
| "ib_build_ids ms (i # is) =
     (case nth_opt ms (int i) of
        None \<Rightarrow> None
      | Some mm \<Rightarrow>
          (case ib_map_ids (mm_mkey_map mm) [0..<nat (mm_num_mkey mm)] of
             None \<Rightarrow> None
           | Some ids \<Rightarrow> map_option (\<lambda>rest. ids @ rest) (ib_build_ids ms is)))"

text \<open>The environment of a probe: the device-tree node (if any) or the board's platform data,
  the outcomes of the allocations, of \<open>input_register_handler\<close> and of \<open>device_create\<close>.
  The result: the return value and what is left registered or allocated.\<close>

record ib_probe_env =
  pe_of_node :: "ib_dt option"
  pe_platform_data :: "ib_pdata option"
  pe_alloc_pdata :: bool
  pe_alloc_dt :: bool
  pe_alloc_bridge :: bool
  pe_alloc_ids :: bool
  pe_register :: int
  pe_device_create :: bool

record ib_probe_result =
  pr_rc :: int
  pr_handler_registered :: bool
  pr_bridge :: "ib_state option"
  pr_ids :: "input_device_id list option"
  pr_class_device :: bool

definition ib_fail :: "int \<Rightarrow> ib_probe_result" where
  "ib_fail rc = \<lparr>pr_rc = rc, pr_handler_registered = False, pr_bridge = None, pr_ids = None,
                 pr_class_device = False\<rparr>"

definition sec_input_bridge_probe :: "ib_probe_env \<Rightarrow> (ib_pdata \<times> ib_probe_result) option" where
  "sec_input_bridge_probe pe =
     (let pdata = (case pe_of_node pe of
                     Some dt \<Rightarrow> if \<not> pe_alloc_pdata pe then Inl (- ENOMEM)
                                else sec_input_bridge_parse_dt dt (pe_alloc_dt pe)
                   | None \<Rightarrow> (case pe_platform_data pe of None \<Rightarrow> Inl (- ENOMEM) | Some pd \<Rightarrow> Inr pd))
      in case pdata of
           Inl rc \<Rightarrow> Some (undefined, ib_fail rc)
         | Inr pd \<Rightarrow>
             if pd_num_map pd = 0 then Some (pd, ib_fail (- EINVAL))
             else if \<not> pe_alloc_bridge pe then Some (pd, ib_fail (- ENOMEM))
             else if \<not> pe_alloc_ids pe then Some (pd, ib_fail (- ENOMEM))
             else
               (case ib_build_ids (pd_mmap pd) [0..<nat (pd_num_map pd)] of
                  None \<Rightarrow> None
                | Some ids \<Rightarrow>
                    Some (pd,
                      if pe_register pe \<noteq> 0 then ib_fail (pe_register pe)
                      else if \<not> pe_device_create pe
                      then \<lparr>pr_rc = pe_register pe, pr_handler_registered = True, pr_bridge = None,
                            pr_ids = None, pr_class_device = False\<rparr>
                      else \<lparr>pr_rc = 0, pr_handler_registered = True, pr_bridge = Some ib_init,
                            pr_ids = Some ids, pr_class_device = True\<rparr>)))"

text \<open>\<open>sec_input_bridge_remove\<close>: the work is cancelled, the id table freed, the handler
  unregistered and the bridge freed.\<close>

definition sec_input_bridge_remove :: "ib_probe_result \<Rightarrow> ib_probe_result" where
  "sec_input_bridge_remove r = r\<lparr>pr_handler_registered := False, pr_bridge := None, pr_ids := None\<rparr>"

subsection \<open>The machine\<close>

datatype ib_event = KeyEvent nat nat int | SafemodeTimer | BridgeWork

fun ib_step :: "ib_pdata \<Rightarrow> bool \<Rightarrow> ib_state \<Rightarrow> ib_event \<Rightarrow> (ib_action list \<times> ib_state) option" where
  "ib_step pd rep s (KeyEvent type code value) =
     map_option (\<lambda>s'. ([], s')) (input_bridge_event pd rep s type code value)"
| "ib_step pd rep s SafemodeTimer =
     Some ([], if ib_timer_armed s then input_bridge_safemode_timer s else s)"
| "ib_step pd rep s BridgeWork =
     (if ib_work_pending s then input_bridge_work pd s else Some ([], s))"

subsection \<open>Runs and the log-dump specification\<close>

text \<open>Sequences of steps: the log-dump matcher over a list of key codes, and the machine over a
  list of events (the actions of the steps concatenated).\<close>

fun ib_logdump_run :: "ib_pdata \<Rightarrow> ib_state \<Rightarrow> nat list \<Rightarrow> ib_state option" where
  "ib_logdump_run pd s [] = Some s"
| "ib_logdump_run pd s (c # cs) =
     (case input_bridge_check_logdump pd s c of None \<Rightarrow> None | Some s' \<Rightarrow> ib_logdump_run pd s' cs)"

fun ib_run :: "ib_pdata \<Rightarrow> bool \<Rightarrow> ib_state \<Rightarrow> ib_event list \<Rightarrow> (ib_action list \<times> ib_state) option" where
  "ib_run pd rep s [] = Some ([], s)"
| "ib_run pd rep s (e # es) =
     (case ib_step pd rep s e of
        None \<Rightarrow> None
      | Some (as, s') \<Rightarrow> map_option (\<lambda>(bs, s''). (as @ bs, s'')) (ib_run pd rep s' es))"

text \<open>A log-dump map the matcher is proved for: \<open>num_mkey\<close> is the length of a non-empty
  key list short enough for the \<open>u8\<close> index; the invariant says \<open>check_index[0]\<close> is
  the length of the prefix of the key sequence that the history ends with.\<close>

definition ib_logdump_wf :: "ib_pdata \<Rightarrow> bool" where
  "ib_logdump_wf pd =
     (case nth_opt (pd_mmap pd) (int INPUT_LOGDUMP) of
        None \<Rightarrow> False
      | Some mm \<Rightarrow> mm_num_mkey mm = int (length (mm_mkey_map mm)) \<and>
                   0 < length (mm_mkey_map mm) \<and> length (mm_mkey_map mm) < 256)"

definition ib_logdump_keys :: "ib_pdata \<Rightarrow> nat list" where
  "ib_logdump_keys pd = map mk_code (mm_mkey_map (pd_mmap pd ! INPUT_LOGDUMP))"

definition ib_logdump_inv :: "ib_pdata \<Rightarrow> nat list \<Rightarrow> ib_state \<Rightarrow> bool" where
  "ib_logdump_inv pd hist s =
     (let ks = ib_logdump_keys pd; k = unat (check_index s ! INPUT_LOGDUMP)
      in length (check_index s) = 32 \<and> k < length ks \<and> k \<le> length hist \<and>
         drop (length hist - k) hist = take k ks)"

subsection \<open>Properties\<close>

lemma drop_append_snoc_take:
  assumes "drop (length xs - k) xs = take k ks" "k \<le> length xs" "k < length ks" "ks ! k = c"
  shows "drop (length (xs @ [c]) - Suc k) (xs @ [c]) = take (Suc k) ks"
  using assms by (simp add: take_Suc_conv_app_nth Suc_diff_le)

lemma ib_logdump_wfD:
  assumes "ib_logdump_wf pd"
  obtains mm where "nth_opt (pd_mmap pd) 0 = Some mm" "pd_mmap pd ! 0 = mm"
    "mm_num_mkey mm = int (length (mm_mkey_map mm))" "0 < length (mm_mkey_map mm)"
    "length (mm_mkey_map mm) < 256"
  using assms by (auto simp: ib_logdump_wf_def INPUT_LOGDUMP_def nth_opt_def split: option.splits if_splits)

lemma unat_u8_Suc: "unat (k :: u8) + 1 < 256 \<Longrightarrow> unat (k + 1) = unat k + 1"
  by (simp add: unat_word_ariths(1) mod_less)

lemma check_logdump_step:
  assumes wf: "ib_logdump_wf pd" and inv: "ib_logdump_inv pd hist s"
  shows "\<exists>s'. input_bridge_check_logdump pd s c = Some s' \<and> ib_logdump_inv pd (hist @ [c]) s' \<and>
           (\<not> bit (send_uevent_flag s) 0 \<and> bit (send_uevent_flag s') 0 \<longrightarrow>
              drop (Suc (length hist) - length (ib_logdump_keys pd)) (hist @ [c]) = ib_logdump_keys pd)"
proof -
  obtain mm where mm: "nth_opt (pd_mmap pd) 0 = Some mm" "pd_mmap pd ! 0 = mm"
    "mm_num_mkey mm = int (length (mm_mkey_map mm))" "0 < length (mm_mkey_map mm)"
    "length (mm_mkey_map mm) < 256" using ib_logdump_wfD [OF wf] by metis
  define k where "k = unat (check_index s ! 0)"
  define ks where "ks = map mk_code (mm_mkey_map mm)"
  have ksd: "ib_logdump_keys pd = ks" by (simp add: ib_logdump_keys_def ks_def mm INPUT_LOGDUMP_def)
  have i: "length (check_index s) = 32" "k < length ks" "k \<le> length hist"
    "drop (length hist - k) hist = take k ks"
    using inv by (simp_all add: ib_logdump_inv_def ksd k_def INPUT_LOGDUMP_def Let_def)
  have ksne: "ks \<noteq> []" using i(2) by auto
  have nth: "nth_opt (mm_mkey_map mm) (int k) = Some (mm_mkey_map mm ! k)"
    using i(2) by (simp add: ks_def)
  have nth0: "nth_opt (mm_mkey_map mm) 0 = Some (mm_mkey_map mm ! 0)" using mm(4) by simp
  show ?thesis
  proof (cases "mk_code (mm_mkey_map mm ! k) = c")
    case True
    have kc: "ks ! k = c" using True i(2) by (simp add: ks_def)
    have suc: "unat (check_index s ! 0 + 1) = k + 1"
      using i(2) mm(5) unat_u8_Suc [of "check_index s ! 0"] by (simp add: k_def ks_def)
    have d: "drop (length (hist @ [c]) - Suc k) (hist @ [c]) = take (Suc k) ks"
      using drop_append_snoc_take [OF i(4) i(3) i(2) kc] .
    show ?thesis
    proof (cases "int (k + 1) \<ge> mm_num_mkey mm")
      case fire: True
      have "Suc k = length ks" using fire i(2) mm(3) by (simp add: ks_def)
      then show ?thesis using d i mm nth True suc fire ksne
        unfolding input_bridge_check_logdump_def
        by (simp add: ib_logdump_inv_def ksd INPUT_LOGDUMP_def Let_def k_def [symmetric] bit_or_iff)
    next
      case nofire: False
      then have "Suc k < length ks" using mm(3) by (simp add: ks_def)
      then show ?thesis using d i mm nth True suc nofire ksne
        unfolding input_bridge_check_logdump_def
        by (simp add: ib_logdump_inv_def ksd INPUT_LOGDUMP_def Let_def k_def [symmetric])
    qed
  next
    case False
    have z: "0 < length ks" using mm(4) by (simp add: ks_def)
    have k0: "mk_code (mm_mkey_map mm ! 0) = c \<Longrightarrow> Suc 0 < length ks"
      using False i(2) by (cases k) auto
    show ?thesis using i mm nth nth0 False z k0
      unfolding input_bridge_check_logdump_def
      by (auto simp: ib_logdump_inv_def ksd INPUT_LOGDUMP_def Let_def k_def [symmetric] ks_def
                     take_Suc_conv_app_nth)
  qed
qed

lemma ib_logdump_inv_init: "ib_logdump_wf pd \<Longrightarrow> ib_logdump_inv pd [] ib_init"
  by (erule ib_logdump_wfD) (simp add: ib_logdump_inv_def ib_init_def ib_logdump_keys_def INPUT_LOGDUMP_def)

text \<open>C37: When \<open>device_create\<close> fails, \<open>sec_input_bridge_probe\<close> jumps to
  \<open>error_3\<close> with \<open>state\<close> still 0: it frees the id table and the bridge but returns
  success, leaving the input handler registered with the freed bridge as its private
  data and the freed table as its id table.\<close>

theorem sec_input_bridge_probe_devcreate_fail:
  "pe_of_node pe = None \<Longrightarrow> pe_platform_data pe = Some pd \<Longrightarrow> pd_num_map pd \<noteq> 0 \<Longrightarrow>
   pe_alloc_bridge pe \<Longrightarrow> pe_alloc_ids pe \<Longrightarrow>
   ib_build_ids (pd_mmap pd) [0..<nat (pd_num_map pd)] \<noteq> None \<Longrightarrow>
   pe_register pe = 0 \<Longrightarrow> \<not> pe_device_create pe \<Longrightarrow>
   \<exists>r. sec_input_bridge_probe pe = Some (pd, r) \<and> pr_rc r = 0 \<and> pr_handler_registered r \<and>
        pr_bridge r = None \<and> pr_ids r = None"
  by (auto simp: sec_input_bridge_probe_def)

lemma check_safemode_first_power_release:
  "input_bridge_check_safemode pd s code v = Some s' \<Longrightarrow> first_power_release s' = first_power_release s"
  by (auto simp: input_bridge_check_safemode_def split: option.splits if_splits)

lemma check_logdump_first_power_release:
  "input_bridge_check_logdump pd s code = Some s' \<Longrightarrow> first_power_release s' = first_power_release s"
  by (auto simp: input_bridge_check_logdump_def Let_def split: option.splits if_splits)

lemma input_bridge_event_first_power_release:
  "input_bridge_event pd rep s t code v = Some s' \<Longrightarrow> first_power_release s' = first_power_release s"
  unfolding input_bridge_event_def Let_def
  by (auto dest!: check_safemode_first_power_release check_logdump_first_power_release
           split: option.splits if_splits)

lemma ib_step_first_power_release:
  "ib_step pd rep s e = Some (as, s') \<Longrightarrow> first_power_release s' = first_power_release s"
  by (cases e)
     (auto dest: input_bridge_event_first_power_release
           simp: input_bridge_safemode_timer_def input_bridge_work_def split: if_splits)

lemma ib_support_loop_iff:
  "set ixs \<subseteq> {..<length names} \<Longrightarrow>
   ib_support_loop names name ixs = Some (if \<exists>i \<in> set ixs. take (length name) (names ! i) = name then 0 else -1)"
  by (induction ixs) auto

lemma input_bridge_set_ids_key:
  "input_bridge_set_ids ids EV_KEY code =
     ids\<lparr>id_flags := INPUT_DEVICE_ID_MATCH_KEYBIT OR INPUT_DEVICE_ID_MATCH_EVBIT,
         id_keybit := insert code (id_keybit ids), id_evbit := insert EV_KEY (id_evbit ids)\<rparr>"
  by (simp add: input_bridge_set_ids_def)

lemma input_bridge_set_ids_unknown:
  "type \<notin> {EV_KEY, EV_REL, EV_ABS, EV_MSC, EV_SW, EV_LED, EV_SND, EV_FF, EV_PWR} \<Longrightarrow>
   input_bridge_set_ids ids type code = ids"
  by (simp add: input_bridge_set_ids_def)

lemma ib_map_ids_length:
  "set js \<subseteq> {..<length ks} \<Longrightarrow> ib_map_ids ks js = Some (map (\<lambda>j. input_bridge_set_ids input_device_id_zero (mk_type (ks ! j)) (mk_code (ks ! j))) js)"
  by (induction js) auto

text \<open>C36: The log-dump matcher is sound and never reads outside its map: on a
  well-formed map, running \<open>input_bridge_check_logdump\<close> over any key sequence from the
  probed state succeeds and keeps \<open>check_index[0]\<close> equal to the length of a prefix of
  the map that the last keys match; and when a key raises bit 0 of
  \<open>send_uevent_flag\<close>, the last keys pressed are exactly the map's key sequence.\<close>

theorem input_bridge_logdump_sound:
  assumes wf: "ib_logdump_wf pd"
  shows "\<exists>s. ib_logdump_run pd ib_init cs = Some s \<and> ib_logdump_inv pd cs s \<and>
           (\<forall>c s'. input_bridge_check_logdump pd s c = Some s' \<longrightarrow>
              \<not> bit (send_uevent_flag s) 0 \<longrightarrow> bit (send_uevent_flag s') 0 \<longrightarrow>
              drop (Suc (length cs) - length (ib_logdump_keys pd)) (cs @ [c]) = ib_logdump_keys pd)"
proof -
  have "ib_logdump_inv pd hist s \<Longrightarrow> \<exists>s'. ib_logdump_run pd s cs = Some s' \<and> ib_logdump_inv pd (hist @ cs) s'"
    for hist s
  proof (induction cs arbitrary: hist s)
    case Nil then show ?case by simp
  next
    case (Cons c cs)
    obtain s1 where "input_bridge_check_logdump pd s c = Some s1" "ib_logdump_inv pd (hist @ [c]) s1"
      using check_logdump_step [OF wf Cons.prems] by blast
    then show ?case using Cons.IH [of "hist @ [c]" s1] by simp
  qed
  from this [OF ib_logdump_inv_init [OF wf]]
  obtain s where s: "ib_logdump_run pd ib_init cs = Some s" "ib_logdump_inv pd cs s" by auto
  have "input_bridge_check_logdump pd s c = Some s' \<Longrightarrow> \<not> bit (send_uevent_flag s) 0 \<Longrightarrow>
        bit (send_uevent_flag s') 0 \<Longrightarrow>
        drop (Suc (length cs) - length (ib_logdump_keys pd)) (cs @ [c]) = ib_logdump_keys pd" for c s'
    using check_logdump_step [OF wf s(2), of c] by auto
  then show ?thesis using s by blast
qed

text \<open>\<open>input_bridge_check_safemode\<close> clears \<open>first_power_press\<close> where it means
  \<open>first_power_release\<close>, so every later release of the power key is ignored: with the
  power key as safe-mode key, a short tap after boot (press, release) is reported as a
  long press by the timer, and the work sends the safe-mode uevent.\<close>

theorem ib_power_tap_safemode:
  "ib_run \<lparr>pd_mmap = [\<lparr>mm_mkey_map = [\<lparr>mk_type = 1, mk_code = 115\<rparr>, \<lparr>mk_type = 1, mk_code = 114\<rparr>],
      mm_num_mkey = 2, mm_uevent_env_str = ''LOG'', mm_uevent_env_value = ''ON'', mm_enable_uevent = True,
      mm_uevent_action = 2, mm_pre_event_func = False\<rparr>,
     \<lparr>mm_mkey_map = [\<lparr>mk_type = 1, mk_code = 116\<rparr>],
      mm_num_mkey = 1, mm_uevent_env_str = ''SAFE'', mm_uevent_env_value = ''ON'', mm_enable_uevent = True,
      mm_uevent_action = 2, mm_pre_event_func = False\<rparr>],
    pd_num_map = 2, pd_num_dev = 0, pd_support_dev_name = [], pd_lcd_warning_func = False\<rparr> False ib_init
     [KeyEvent EV_KEY KEY_POWER 1, KeyEvent EV_KEY KEY_POWER 0,
      KeyEvent EV_KEY KEY_POWER 1, KeyEvent EV_KEY KEY_POWER 0, SafemodeTimer, BridgeWork] =
   Some ([Uevent 2 ''SAFE=ON''], ib_init\<lparr>first_power_press := False, check_index := (replicate 32 0)[0 := 0]\<rparr>)"
  by code_simp

text \<open>The matcher is not complete: after a mismatch it restarts at the first key only, so
  for the sequence up, up, down the keys up, up, up, down do not trigger it although they
  end with the sequence.\<close>

lemma ib_logdump_overlap_missed:
  "map_option (\<lambda>s. send_uevent_flag s) (ib_logdump_run \<lparr>pd_mmap = [\<lparr>mm_mkey_map = [\<lparr>mk_type = 1, mk_code = 115\<rparr>, \<lparr>mk_type = 1, mk_code = 115\<rparr>, \<lparr>mk_type = 1, mk_code = 114\<rparr>],
      mm_num_mkey = 3, mm_uevent_env_str = ''LOG'', mm_uevent_env_value = ''ON'', mm_enable_uevent = True,
      mm_uevent_action = 2, mm_pre_event_func = False\<rparr>],
    pd_num_map = 1, pd_num_dev = 0, pd_support_dev_name = [], pd_lcd_warning_func = False\<rparr> ib_init [115, 115, 115, 114]) = Some 0"
  by code_simp

subsection \<open>The properties at concrete inputs\<close>

lemma input_bridge_logdump_sound_witness:
  "ib_logdump_wf \<lparr>pd_mmap = [\<lparr>mm_mkey_map = [\<lparr>mk_type = 1, mk_code = 115\<rparr>, \<lparr>mk_type = 1, mk_code = 114\<rparr>, \<lparr>mk_type = 1, mk_code = 116\<rparr>],
      mm_num_mkey = 3, mm_uevent_env_str = ''APPS_LOG'', mm_uevent_env_value = ''ON'', mm_enable_uevent = True,
      mm_uevent_action = 2, mm_pre_event_func = False\<rparr>],
    pd_num_map = 1, pd_num_dev = 0, pd_support_dev_name = [], pd_lcd_warning_func = False\<rparr> \<and>
   (\<exists>s. ib_logdump_run \<lparr>pd_mmap = [\<lparr>mm_mkey_map = [\<lparr>mk_type = 1, mk_code = 115\<rparr>, \<lparr>mk_type = 1, mk_code = 114\<rparr>, \<lparr>mk_type = 1, mk_code = 116\<rparr>],
      mm_num_mkey = 3, mm_uevent_env_str = ''APPS_LOG'', mm_uevent_env_value = ''ON'', mm_enable_uevent = True,
      mm_uevent_action = 2, mm_pre_event_func = False\<rparr>],
    pd_num_map = 1, pd_num_dev = 0, pd_support_dev_name = [], pd_lcd_warning_func = False\<rparr> ib_init [115, 114] = Some s \<and> ib_logdump_inv \<lparr>pd_mmap = [\<lparr>mm_mkey_map = [\<lparr>mk_type = 1, mk_code = 115\<rparr>, \<lparr>mk_type = 1, mk_code = 114\<rparr>, \<lparr>mk_type = 1, mk_code = 116\<rparr>],
      mm_num_mkey = 3, mm_uevent_env_str = ''APPS_LOG'', mm_uevent_env_value = ''ON'', mm_enable_uevent = True,
      mm_uevent_action = 2, mm_pre_event_func = False\<rparr>],
    pd_num_map = 1, pd_num_dev = 0, pd_support_dev_name = [], pd_lcd_warning_func = False\<rparr> [115, 114] s \<and>
      (\<forall>c s'. input_bridge_check_logdump \<lparr>pd_mmap = [\<lparr>mm_mkey_map = [\<lparr>mk_type = 1, mk_code = 115\<rparr>, \<lparr>mk_type = 1, mk_code = 114\<rparr>, \<lparr>mk_type = 1, mk_code = 116\<rparr>],
      mm_num_mkey = 3, mm_uevent_env_str = ''APPS_LOG'', mm_uevent_env_value = ''ON'', mm_enable_uevent = True,
      mm_uevent_action = 2, mm_pre_event_func = False\<rparr>],
    pd_num_map = 1, pd_num_dev = 0, pd_support_dev_name = [], pd_lcd_warning_func = False\<rparr> s c = Some s' \<longrightarrow>
         \<not> bit (send_uevent_flag s) 0 \<longrightarrow> bit (send_uevent_flag s') 0 \<longrightarrow>
         drop (Suc (length [115, 114 :: nat]) - length (ib_logdump_keys \<lparr>pd_mmap = [\<lparr>mm_mkey_map = [\<lparr>mk_type = 1, mk_code = 115\<rparr>, \<lparr>mk_type = 1, mk_code = 114\<rparr>, \<lparr>mk_type = 1, mk_code = 116\<rparr>],
      mm_num_mkey = 3, mm_uevent_env_str = ''APPS_LOG'', mm_uevent_env_value = ''ON'', mm_enable_uevent = True,
      mm_uevent_action = 2, mm_pre_event_func = False\<rparr>],
    pd_num_map = 1, pd_num_dev = 0, pd_support_dev_name = [], pd_lcd_warning_func = False\<rparr>)) ([115, 114] @ [c]) =
           ib_logdump_keys \<lparr>pd_mmap = [\<lparr>mm_mkey_map = [\<lparr>mk_type = 1, mk_code = 115\<rparr>, \<lparr>mk_type = 1, mk_code = 114\<rparr>, \<lparr>mk_type = 1, mk_code = 116\<rparr>],
      mm_num_mkey = 3, mm_uevent_env_str = ''APPS_LOG'', mm_uevent_env_value = ''ON'', mm_enable_uevent = True,
      mm_uevent_action = 2, mm_pre_event_func = False\<rparr>],
    pd_num_map = 1, pd_num_dev = 0, pd_support_dev_name = [], pd_lcd_warning_func = False\<rparr>))"
proof -
  have wf: "ib_logdump_wf \<lparr>pd_mmap = [\<lparr>mm_mkey_map = [\<lparr>mk_type = 1, mk_code = 115\<rparr>, \<lparr>mk_type = 1, mk_code = 114\<rparr>, \<lparr>mk_type = 1, mk_code = 116\<rparr>],
      mm_num_mkey = 3, mm_uevent_env_str = ''APPS_LOG'', mm_uevent_env_value = ''ON'', mm_enable_uevent = True,
      mm_uevent_action = 2, mm_pre_event_func = False\<rparr>],
    pd_num_map = 1, pd_num_dev = 0, pd_support_dev_name = [], pd_lcd_warning_func = False\<rparr>" by (simp add: ib_logdump_wf_def INPUT_LOGDUMP_def)
  show ?thesis using wf input_bridge_logdump_sound [OF wf, of "[115, 114]"] by blast
qed

lemma sec_input_bridge_probe_devcreate_fail_witness:
  "pe_of_node \<lparr>pe_of_node = None, pe_platform_data = Some \<lparr>pd_mmap = [\<lparr>mm_mkey_map = [\<lparr>mk_type = 1, mk_code = 115\<rparr>, \<lparr>mk_type = 1, mk_code = 114\<rparr>, \<lparr>mk_type = 1, mk_code = 116\<rparr>],
      mm_num_mkey = 3, mm_uevent_env_str = ''APPS_LOG'', mm_uevent_env_value = ''ON'', mm_enable_uevent = True,
      mm_uevent_action = 2, mm_pre_event_func = False\<rparr>],
    pd_num_map = 1, pd_num_dev = 0, pd_support_dev_name = [], pd_lcd_warning_func = False\<rparr>, pe_alloc_pdata = True, pe_alloc_dt = True,
       pe_alloc_bridge = True, pe_alloc_ids = True, pe_register = 0, pe_device_create = False\<rparr> = None \<and>
   (\<exists>r. sec_input_bridge_probe \<lparr>pe_of_node = None, pe_platform_data = Some \<lparr>pd_mmap = [\<lparr>mm_mkey_map = [\<lparr>mk_type = 1, mk_code = 115\<rparr>, \<lparr>mk_type = 1, mk_code = 114\<rparr>, \<lparr>mk_type = 1, mk_code = 116\<rparr>],
      mm_num_mkey = 3, mm_uevent_env_str = ''APPS_LOG'', mm_uevent_env_value = ''ON'', mm_enable_uevent = True,
      mm_uevent_action = 2, mm_pre_event_func = False\<rparr>],
    pd_num_map = 1, pd_num_dev = 0, pd_support_dev_name = [], pd_lcd_warning_func = False\<rparr>, pe_alloc_pdata = True,
          pe_alloc_dt = True, pe_alloc_bridge = True, pe_alloc_ids = True, pe_register = 0,
          pe_device_create = False\<rparr> = Some (\<lparr>pd_mmap = [\<lparr>mm_mkey_map = [\<lparr>mk_type = 1, mk_code = 115\<rparr>, \<lparr>mk_type = 1, mk_code = 114\<rparr>, \<lparr>mk_type = 1, mk_code = 116\<rparr>],
      mm_num_mkey = 3, mm_uevent_env_str = ''APPS_LOG'', mm_uevent_env_value = ''ON'', mm_enable_uevent = True,
      mm_uevent_action = 2, mm_pre_event_func = False\<rparr>],
    pd_num_map = 1, pd_num_dev = 0, pd_support_dev_name = [], pd_lcd_warning_func = False\<rparr>, r) \<and>
        pr_rc r = 0 \<and> pr_handler_registered r \<and> pr_bridge r = None \<and> pr_ids r = None)"
proof -
  have ids: "ib_build_ids (pd_mmap \<lparr>pd_mmap = [\<lparr>mm_mkey_map = [\<lparr>mk_type = 1, mk_code = 115\<rparr>, \<lparr>mk_type = 1, mk_code = 114\<rparr>, \<lparr>mk_type = 1, mk_code = 116\<rparr>],
      mm_num_mkey = 3, mm_uevent_env_str = ''APPS_LOG'', mm_uevent_env_value = ''ON'', mm_enable_uevent = True,
      mm_uevent_action = 2, mm_pre_event_func = False\<rparr>],
    pd_num_map = 1, pd_num_dev = 0, pd_support_dev_name = [], pd_lcd_warning_func = False\<rparr>) [0..<nat (pd_num_map \<lparr>pd_mmap = [\<lparr>mm_mkey_map = [\<lparr>mk_type = 1, mk_code = 115\<rparr>, \<lparr>mk_type = 1, mk_code = 114\<rparr>, \<lparr>mk_type = 1, mk_code = 116\<rparr>],
      mm_num_mkey = 3, mm_uevent_env_str = ''APPS_LOG'', mm_uevent_env_value = ''ON'', mm_enable_uevent = True,
      mm_uevent_action = 2, mm_pre_event_func = False\<rparr>],
    pd_num_map = 1, pd_num_dev = 0, pd_support_dev_name = [], pd_lcd_warning_func = False\<rparr>)] \<noteq> None"
    by (simp add: upt_rec)
  show ?thesis
    using sec_input_bridge_probe_devcreate_fail [of "\<lparr>pe_of_node = None, pe_platform_data = Some \<lparr>pd_mmap = [\<lparr>mm_mkey_map = [\<lparr>mk_type = 1, mk_code = 115\<rparr>, \<lparr>mk_type = 1, mk_code = 114\<rparr>, \<lparr>mk_type = 1, mk_code = 116\<rparr>],
      mm_num_mkey = 3, mm_uevent_env_str = ''APPS_LOG'', mm_uevent_env_value = ''ON'', mm_enable_uevent = True,
      mm_uevent_action = 2, mm_pre_event_func = False\<rparr>],
    pd_num_map = 1, pd_num_dev = 0, pd_support_dev_name = [], pd_lcd_warning_func = False\<rparr>,
      pe_alloc_pdata = True, pe_alloc_dt = True, pe_alloc_bridge = True, pe_alloc_ids = True, pe_register = 0,
      pe_device_create = False\<rparr>" "\<lparr>pd_mmap = [\<lparr>mm_mkey_map = [\<lparr>mk_type = 1, mk_code = 115\<rparr>, \<lparr>mk_type = 1, mk_code = 114\<rparr>, \<lparr>mk_type = 1, mk_code = 116\<rparr>],
      mm_num_mkey = 3, mm_uevent_env_str = ''APPS_LOG'', mm_uevent_env_value = ''ON'', mm_enable_uevent = True,
      mm_uevent_action = 2, mm_pre_event_func = False\<rparr>],
    pd_num_map = 1, pd_num_dev = 0, pd_support_dev_name = [], pd_lcd_warning_func = False\<rparr>"] ids
    by simp
qed

end
