(* ===== verification/Fuel_Gauge.thy ===== *)
theory Fuel_Gauge
  imports Prelude
begin

text \<open>
  The Samsung fuel-gauge driver of \<open>drivers/power/sec_fuelgauge.c\<close>: the power-supply
  properties it reports (\<open>sec_fg_get_property\<close>, with the capacity scaled, clamped to
  0..100 percent and smoothed by \<open>sec_fg_get_scaled_capacity\<close> and
  \<open>sec_fg_get_atomic_capacity\<close>), the properties it accepts (\<open>sec_fg_set_property\<close>,
  with its fall-through cases), the dynamic rescaling of the full capacity, the fuel
  alert interrupt and its work, the attribute files, probe, suspend and resume. The
  chip itself is behind the \<open>sec_hal_fg_*\<close> functions of another file: their results
  are inputs of the operations. A C division by zero is the value \<open>None\<close>.
\<close>

unbundle bit_operations_syntax

subsection \<open>Constants and data\<close>

text \<open>The capacity calculation types of \<open>sec_charging_common.h\<close>; \<open>RESET\<close> and \<open>RAW\<close> are
  also the values a caller passes in \<open>val->intval\<close>.\<close>

definition SEC_FUELGAUGE_CAPACITY_TYPE_RESET :: int where "SEC_FUELGAUGE_CAPACITY_TYPE_RESET = -1"
definition SEC_FUELGAUGE_CAPACITY_TYPE_RAW :: int where "SEC_FUELGAUGE_CAPACITY_TYPE_RAW = 1"
definition SEC_FUELGAUGE_CAPACITY_TYPE_SCALE :: int where "SEC_FUELGAUGE_CAPACITY_TYPE_SCALE = 2"
definition SEC_FUELGAUGE_CAPACITY_TYPE_DYNAMIC_SCALE :: int where
  "SEC_FUELGAUGE_CAPACITY_TYPE_DYNAMIC_SCALE = 4"
definition SEC_FUELGAUGE_CAPACITY_TYPE_ATOMIC :: int where "SEC_FUELGAUGE_CAPACITY_TYPE_ATOMIC = 8"
definition SEC_FUELGAUGE_CAPACITY_TYPE_SKIP_ABNORMAL :: int where
  "SEC_FUELGAUGE_CAPACITY_TYPE_SKIP_ABNORMAL = 16"

definition POWER_SUPPLY_STATUS_FULL :: int where "POWER_SUPPLY_STATUS_FULL = 4"
definition POWER_SUPPLY_TYPE_BATTERY :: int where "POWER_SUPPLY_TYPE_BATTERY = 1"

text \<open>The properties of \<open>enum power_supply_property\<close> the driver distinguishes; every
  other one is \<open>POWER_SUPPLY_PROP_OTHER\<close>.\<close>

datatype power_supply_property =
    POWER_SUPPLY_PROP_STATUS
  | POWER_SUPPLY_PROP_CHARGE_FULL
  | POWER_SUPPLY_PROP_PRESENT
  | POWER_SUPPLY_PROP_TEMP_AMBIENT
  | POWER_SUPPLY_PROP_TEMP
  | POWER_SUPPLY_PROP_ENERGY_NOW
  | POWER_SUPPLY_PROP_VOLTAGE_NOW
  | POWER_SUPPLY_PROP_VOLTAGE_AVG
  | POWER_SUPPLY_PROP_CURRENT_NOW
  | POWER_SUPPLY_PROP_CURRENT_AVG
  | POWER_SUPPLY_PROP_CAPACITY
  | POWER_SUPPLY_PROP_ONLINE
  | POWER_SUPPLY_PROP_OTHER

text \<open>The fields of \<open>sec_battery_platform_data_t\<close> the driver reads (function pointers
  as whether they are set).\<close>

record fg_pdata =
  capacity_min :: int
  pd_capacity_max :: int
  capacity_max_margin :: int
  capacity_calculation_type :: int
  fuel_alert_soc :: int
  repeated_fuelalert :: bool
  fg_irq :: int
  fuelalert_process :: bool

text \<open>The fields of \<open>struct sec_fuelgauge_info\<close> the driver changes, with whether
  \<open>fuel_alert_wake_lock\<close> is held and \<open>isr_work\<close> is queued.\<close>

record fg_state =
  capacity_max :: int
  capacity_old :: int
  is_charging :: bool
  is_fuel_alerted :: bool
  initial_update_of_soc :: bool
  cable_type :: int
  fg_wake_locked :: bool
  fg_isr_pending :: bool

text \<open>What a \<open>sec_hal_fg_*\<close> call returns: whether it succeeded and the value it wrote
  into \<open>val->intval\<close>.\<close>

type_synonym hal_read = "bool \<times> int"

definition has_type :: "fg_pdata \<Rightarrow> int \<Rightarrow> bool" where
  "has_type pd t = (capacity_calculation_type pd AND t \<noteq> 0)"

subsection \<open>Capacity\<close>

text \<open>\<open>sec_fg_get_scaled_capacity\<close> (0.1 percent units): below \<open>capacity_min\<close> it is 0,
  above it the reading is scaled to the range up to \<open>capacity_max\<close>.\<close>

definition sec_fg_get_scaled_capacity :: "fg_pdata \<Rightarrow> fg_state \<Rightarrow> int \<Rightarrow> int option" where
  "sec_fg_get_scaled_capacity pd s v =
     (if v < capacity_min pd then Some 0
      else if capacity_max s - capacity_min pd = 0 then None
      else Some (c_div ((v - capacity_min pd) * 1000) (capacity_max s - capacity_min pd)))"

text \<open>\<open>sec_fg_get_atomic_capacity\<close> (percent): with \<open>ATOMIC\<close> the capacity moves by at most
  one step from the last reported one; with \<open>SKIP_ABNORMAL\<close> it may not fall while
  charging nor rise while discharging. The result becomes \<open>capacity_old\<close>.\<close>

definition sec_fg_get_atomic_capacity :: "fg_pdata \<Rightarrow> fg_state \<Rightarrow> int \<Rightarrow> int \<times> fg_state" where
  "sec_fg_get_atomic_capacity pd s v =
     (let old = capacity_old s;
          v1 = (if has_type pd SEC_FUELGAUGE_CAPACITY_TYPE_ATOMIC
                then (if old < v then old + 1 else if old > v then old - 1 else v) else v);
          v2 = (if has_type pd SEC_FUELGAUGE_CAPACITY_TYPE_SKIP_ABNORMAL \<and>
                   ((is_charging s \<and> old > v1) \<or> (\<not> is_charging s \<and> old < v1))
                then old else v1)
      in (v2, s\<lparr>capacity_old := v2\<rparr>))"

text \<open>The capacity branch of \<open>sec_fg_get_property\<close> after a successful chip read \<open>v\<close>:
  raw readings pass through; otherwise scale, clamp to 0..1000, take the integer
  percent, release the fuel-alert wake lock once above the alert level, and smooth
  (the first reading after probe or resume is taken as it is).\<close>

definition fg_capacity :: "fg_pdata \<Rightarrow> fg_state \<Rightarrow> int \<Rightarrow> int \<Rightarrow> (int \<times> fg_state) option" where
  "fg_capacity pd s soc_type v =
     (if soc_type = SEC_FUELGAUGE_CAPACITY_TYPE_RAW then Some (v, s)
      else
        (let sc = (if has_type pd (SEC_FUELGAUGE_CAPACITY_TYPE_SCALE OR SEC_FUELGAUGE_CAPACITY_TYPE_DYNAMIC_SCALE)
                   then sec_fg_get_scaled_capacity pd s v else Some v)
         in case sc of
              None \<Rightarrow> None
            | Some v1 \<Rightarrow>
                (let v2 = (if v1 > 1000 then 1000 else v1);
                     v3 = (if v2 < 0 then 0 else v2);
                     v4 = c_div v3 10;
                     s1 = (if v4 > fuel_alert_soc pd \<and> is_fuel_alerted s
                           then s\<lparr>fg_wake_locked := False\<rparr> else s)
                 in if initial_update_of_soc s1
                    then Some (v4, s1\<lparr>capacity_old := v4, initial_update_of_soc := False\<rparr>)
                    else if has_type pd (SEC_FUELGAUGE_CAPACITY_TYPE_ATOMIC OR SEC_FUELGAUGE_CAPACITY_TYPE_SKIP_ABNORMAL)
                    then Some (sec_fg_get_atomic_capacity pd s1 v4)
                    else Some (v4, s1))))"

text \<open>\<open>sec_fg_get_property\<close>: the return value, \<open>val->intval\<close> (which holds the
  requested capacity type on entry) and the new state. \<open>STATUS\<close> and \<open>PRESENT\<close>
  return the positive values \<open>true\<close> and 1 without a reading.\<close>

definition sec_fg_get_property ::
  "fg_pdata \<Rightarrow> hal_read \<Rightarrow> power_supply_property \<Rightarrow> int \<Rightarrow> fg_state \<Rightarrow> (int \<times> int \<times> fg_state) option" where
  "sec_fg_get_property pd hal psp soc_type s =
     (case psp of
        POWER_SUPPLY_PROP_STATUS \<Rightarrow> Some (1, soc_type, s)
      | POWER_SUPPLY_PROP_CHARGE_FULL \<Rightarrow> Some (- ENODATA, soc_type, s)
      | POWER_SUPPLY_PROP_PRESENT \<Rightarrow> Some (1, soc_type, s)
      | POWER_SUPPLY_PROP_TEMP_AMBIENT \<Rightarrow> Some (- ENODATA, soc_type, s)
      | POWER_SUPPLY_PROP_TEMP \<Rightarrow> Some (- ENODATA, soc_type, s)
      | POWER_SUPPLY_PROP_ENERGY_NOW \<Rightarrow> Some (- ENODATA, soc_type, s)
      | POWER_SUPPLY_PROP_ONLINE \<Rightarrow> Some (- EINVAL, soc_type, s)
      | POWER_SUPPLY_PROP_OTHER \<Rightarrow> Some (- EINVAL, soc_type, s)
      | _ \<Rightarrow>
          (if \<not> fst hal then Some (- EINVAL, snd hal, s)
           else if psp = POWER_SUPPLY_PROP_CAPACITY
           then map_option (\<lambda>(v, s'). (0, v, s')) (fg_capacity pd s soc_type (snd hal))
           else Some (0, snd hal, s)))"

text \<open>\<open>sec_fg_calculate_dynamic_scale\<close>: the raw capacity, kept within the margin around
  the platform's \<open>capacity_max\<close>, times 0.99 becomes the full capacity.\<close>

definition sec_fg_calculate_dynamic_scale :: "fg_pdata \<Rightarrow> hal_read \<Rightarrow> fg_state \<Rightarrow> int \<times> fg_state" where
  "sec_fg_calculate_dynamic_scale pd hal s =
     (if \<not> fst hal then (- EINVAL, s)
      else
        (let raw = c_div (snd hal) 10;
             lo = pd_capacity_max pd - capacity_max_margin pd;
             hi = pd_capacity_max pd + capacity_max_margin pd;
             cm = (if raw < lo then lo else if raw > hi then hi else raw);
             cm' = c_div (cm * 99) 100
         in (cm', s\<lparr>capacity_max := cm'\<rparr>)))"

subsection \<open>Setting properties\<close>

text \<open>The tail of \<open>sec_fg_set_property\<close> from the \<open>CAPACITY\<close> label down, which
  \<open>ONLINE\<close> falls into: a reset request resets the chip, anything else reaches the
  \<open>TEMP\<close> label and is passed to the chip. \<open>reset_ok\<close> and \<open>set_ok\<close> are the results of
  \<open>sec_hal_fg_reset\<close> and \<open>sec_hal_fg_set_property\<close>.\<close>

definition fg_set_from_capacity :: "bool \<Rightarrow> bool \<Rightarrow> int \<Rightarrow> int" where
  "fg_set_from_capacity reset_ok set_ok v =
     (if v = SEC_FUELGAUGE_CAPACITY_TYPE_RESET then (if reset_ok then 0 else - EINVAL)
      else if set_ok then 0 else - EINVAL)"

definition sec_fg_set_property ::
  "fg_pdata \<Rightarrow> hal_read \<Rightarrow> bool \<Rightarrow> bool \<Rightarrow> power_supply_property \<Rightarrow> int \<Rightarrow> fg_state \<Rightarrow> int \<times> fg_state" where
  "sec_fg_set_property pd hal reset_ok set_ok psp v s =
     (case psp of
        POWER_SUPPLY_PROP_STATUS \<Rightarrow> (0, s)
      | POWER_SUPPLY_PROP_CHARGE_FULL \<Rightarrow>
          (if v = POWER_SUPPLY_TYPE_BATTERY \<and> has_type pd SEC_FUELGAUGE_CAPACITY_TYPE_DYNAMIC_SCALE
           then (0, snd (sec_fg_calculate_dynamic_scale pd hal s)) else (0, s))
      | POWER_SUPPLY_PROP_ONLINE \<Rightarrow>
          (fg_set_from_capacity reset_ok set_ok v,
           s\<lparr>cable_type := v, is_charging := (v \<noteq> POWER_SUPPLY_TYPE_BATTERY)\<rparr>)
      | POWER_SUPPLY_PROP_CAPACITY \<Rightarrow> (fg_set_from_capacity reset_ok set_ok v, s)
      | POWER_SUPPLY_PROP_TEMP \<Rightarrow> (if set_ok then 0 else - EINVAL, s)
      | POWER_SUPPLY_PROP_TEMP_AMBIENT \<Rightarrow> (if set_ok then 0 else - EINVAL, s)
      | _ \<Rightarrow> (- EINVAL, s))"

subsection \<open>Fuel alert\<close>

text \<open>\<open>sec_fg_irq_thread\<close> with the chip's answer \<open>alerted\<close>: a repeated alert state is
  ignored unless \<open>repeated_fuelalert\<close>; otherwise the wake lock follows the alert, the
  work is queued and the state recorded.\<close>

definition sec_fg_irq_thread :: "fg_pdata \<Rightarrow> bool \<Rightarrow> fg_state \<Rightarrow> fg_state" where
  "sec_fg_irq_thread pd alerted s =
     (if fuel_alert_soc pd \<ge> 0 then
        (if alerted = is_fuel_alerted s \<and> \<not> repeated_fuelalert pd then s
         else s\<lparr>fg_wake_locked := alerted, fg_isr_pending := True, is_fuel_alerted := alerted\<rparr>)
      else s)"

text \<open>\<open>sec_fg_isr_work\<close> hands the alert to the chip and to the platform callback; neither
  changes the driver's state.\<close>

definition sec_fg_isr_work :: "fg_state \<Rightarrow> fg_state" where
  "sec_fg_isr_work s = s\<lparr>fg_isr_pending := False\<rparr>"

subsection \<open>Attribute files\<close>

definition FG_REG :: int where "FG_REG = 0"
definition FG_DATA :: int where "FG_DATA = 1"
definition FG_REGS :: int where "FG_REGS = 2"

text \<open>\<open>sec_fg_create_attrs\<close> over the results of \<open>device_create_file\<close> for the three
  attributes: the return value and the attributes left created (all of them, or none
  after the rollback of \<open>while (i--)\<close>).\<close>

fun fg_create_attrs_loop :: "int list \<Rightarrow> nat \<Rightarrow> int \<times> nat" where
  "fg_create_attrs_loop [] i = (0, i)"
| "fg_create_attrs_loop (rc # rcs) i = (if rc \<noteq> 0 then (rc, 0) else fg_create_attrs_loop rcs (Suc i))"

definition sec_fg_create_attrs :: "int list \<Rightarrow> int \<times> nat" where
  "sec_fg_create_attrs rcs = fg_create_attrs_loop (take 3 rcs) 0"

definition sec_fg_show_attrs :: "int \<Rightarrow> int" where
  "sec_fg_show_attrs offset = (if offset = FG_REG \<or> offset = FG_DATA \<or> offset = FG_REGS then 0 else - EINVAL)"

definition sec_fg_store_attrs :: "int \<Rightarrow> int" where
  "sec_fg_store_attrs offset = (if offset = FG_REG \<or> offset = FG_DATA then 0 else - EINVAL)"

subsection \<open>Probe, suspend and resume\<close>

text \<open>The environment of a probe: the allocations, the device-tree node, the chip's raw
  capacity, the results of \<open>fg_gpio_init\<close>, \<open>sec_hal_fg_init\<close>,
  \<open>power_supply_register\<close>, \<open>sec_hal_fg_fuelalert_init\<close> and \<open>device_create_file\<close>, and
  (for the I2C variant) of \<open>i2c_check_functionality\<close>.\<close>

record fg_probe_env =
  fpe_alloc :: bool
  fpe_of_node :: bool
  fpe_alloc_dt :: bool
  fpe_raw_soc :: hal_read
  fpe_gpio_init :: bool
  fpe_hal_init :: bool
  fpe_register :: int
  fpe_fuelalert_init :: bool
  fpe_attr_rcs :: "int list"
  fpe_i2c_func :: bool

text \<open>The outcome: the return value, the driver data if it is still allocated, whether the
  power supply is registered and the wake lock initialised, whether \<open>free_irq\<close> was
  called on an interrupt never requested, and the attribute files left.\<close>

record fg_probe_result =
  fpr_rc :: int
  fpr_state :: "fg_state option"
  fpr_psy_registered :: bool
  fpr_wake_lock :: bool
  fpr_free_unrequested_irq :: bool
  fpr_attrs :: nat

definition fg_probe_fail :: "int \<Rightarrow> fg_probe_result" where
  "fg_probe_fail rc = \<lparr>fpr_rc = rc, fpr_state = None, fpr_psy_registered = False,
     fpr_wake_lock = False, fpr_free_unrequested_irq = False, fpr_attrs = 0\<rparr>"

text \<open>The driver data after the allocation and the power-supply set-up: \<open>kzalloc\<close> zeroes
  it, \<open>capacity_max\<close> comes from the platform data and is rescaled when the raw capacity
  is above it.\<close>

definition fg_initial_state :: "fg_pdata \<Rightarrow> hal_read \<Rightarrow> fg_state" where
  "fg_initial_state pd raw =
     (let s0 = \<lparr>capacity_max = pd_capacity_max pd, capacity_old = 0, is_charging = False,
                is_fuel_alerted = False, initial_update_of_soc = False, cable_type = 0,
                fg_wake_locked = False, fg_isr_pending = False\<rparr>
      in if c_div (snd raw) 10 > pd_capacity_max pd then snd (sec_fg_calculate_dynamic_scale pd raw s0)
         else s0)"

text \<open>\<open>sec_fuelgauge_probe\<close> of the platform driver (\<open>CONFIG_FUELGAUGE_SPRD4SAMSUNG27X3\<close>,
  so without the interrupt request). The failures of \<open>fg_gpio_init\<close>,
  \<open>sec_hal_fg_init\<close> and of the fuel-alert set-up jump to the error labels with \<open>ret\<close>
  still 0.\<close>

definition sec_fuelgauge_probe :: "fg_pdata \<Rightarrow> fg_probe_env \<Rightarrow> fg_probe_result" where
  "sec_fuelgauge_probe pd pe =
     (if \<not> fpe_alloc pe then fg_probe_fail (- ENOMEM)
      else if fpe_of_node pe \<and> \<not> fpe_alloc_dt pe then fg_probe_fail (- ENOMEM)
      else
        (let s = fg_initial_state pd (fpe_raw_soc pe)
         in if \<not> fpe_gpio_init pe then fg_probe_fail 0
            else if \<not> fpe_hal_init pe then fg_probe_fail 0
            else if fpe_register pe \<noteq> 0 then fg_probe_fail (fpe_register pe)
            else
              (let alert = (fuel_alert_soc pd \<ge> 0);
                   err_irq = (\<lambda>rc. (fg_probe_fail rc)\<lparr>fpr_free_unrequested_irq := (fg_irq pd \<noteq> 0)\<rparr>)
               in if alert \<and> \<not> fpe_fuelalert_init pe then err_irq 0
                  else
                    (let (rc, n) = sec_fg_create_attrs (fpe_attr_rcs pe)
                     in if rc \<noteq> 0 then err_irq rc
                        else \<lparr>fpr_rc = 0, fpr_state = Some (s\<lparr>initial_update_of_soc := True\<rparr>),
                              fpr_psy_registered = True, fpr_wake_lock = alert,
                              fpr_free_unrequested_irq = False, fpr_attrs = n\<rparr>))))"

text \<open>\<open>sec_fuelgauge_probe\<close> of the I2C driver (the variant without
  \<open>CONFIG_FUELGAUGE_MFD\<close> and \<open>CONFIG_FUELGAUGE_SPRD4SAMSUNG27X3\<close>), whose fuel-alert
  and interrupt set-up is compiled out by \<open>#if 0\<close>.\<close>

definition sec_fuelgauge_probe_i2c :: "fg_pdata \<Rightarrow> fg_probe_env \<Rightarrow> fg_probe_result" where
  "sec_fuelgauge_probe_i2c pd pe =
     (if \<not> fpe_i2c_func pe then fg_probe_fail (- EIO)
      else if \<not> fpe_alloc pe then fg_probe_fail (- ENOMEM)
      else
        (let s = fg_initial_state pd (fpe_raw_soc pe)
         in if \<not> fpe_gpio_init pe then fg_probe_fail 0
            else if \<not> fpe_hal_init pe then fg_probe_fail 0
            else if fpe_register pe \<noteq> 0 then fg_probe_fail (fpe_register pe)
            else
              (let (rc, n) = sec_fg_create_attrs (fpe_attr_rcs pe)
               in if rc \<noteq> 0 then (fg_probe_fail rc)\<lparr>fpr_free_unrequested_irq := (fg_irq pd \<noteq> 0)\<rparr>
                  else \<lparr>fpr_rc = 0, fpr_state = Some (s\<lparr>initial_update_of_soc := True\<rparr>),
                        fpr_psy_registered = True, fpr_wake_lock = False,
                        fpr_free_unrequested_irq = False, fpr_attrs = n\<rparr>)))"

text \<open>\<open>sec_fuelgauge_resume\<close>: with \<open>ATOMIC\<close> the next capacity reading is taken as it is.
  \<open>sec_fuelgauge_suspend\<close> only tells the chip.\<close>

definition sec_fuelgauge_resume :: "fg_pdata \<Rightarrow> fg_state \<Rightarrow> fg_state" where
  "sec_fuelgauge_resume pd s =
     (if has_type pd SEC_FUELGAUGE_CAPACITY_TYPE_ATOMIC then s\<lparr>initial_update_of_soc := True\<rparr> else s)"

definition sec_fuelgauge_suspend :: "fg_state \<Rightarrow> fg_state" where
  "sec_fuelgauge_suspend s = s"

subsection \<open>The machine\<close>

text \<open>The calls the power-supply core, the interrupt, the work queue and the PM core make
  on a probed driver, each with the chip's answers.\<close>

datatype fg_event =
    GetProp power_supply_property int hal_read
  | SetProp power_supply_property int hal_read bool bool
  | FuelIrq bool
  | FuelIsrWork
  | FgSuspend
  | FgResume

fun fg_step :: "fg_pdata \<Rightarrow> fg_state \<Rightarrow> fg_event \<Rightarrow> (int \<times> int \<times> fg_state) option" where
  "fg_step pd s (GetProp psp t hal) = sec_fg_get_property pd hal psp t s"
| "fg_step pd s (SetProp psp v hal rok sok) =
     (let (rc, s') = sec_fg_set_property pd hal rok sok psp v s in Some (rc, v, s'))"
| "fg_step pd s (FuelIrq a) = Some (1, 0, sec_fg_irq_thread pd a s)"
| "fg_step pd s FuelIsrWork = Some (0, 0, sec_fg_isr_work s)"
| "fg_step pd s FgSuspend = Some (0, 0, sec_fuelgauge_suspend s)"
| "fg_step pd s FgResume = Some (0, 0, sec_fuelgauge_resume pd s)"

inductive fg_reach :: "fg_pdata \<Rightarrow> fg_state \<Rightarrow> bool" where
  probe: "fpr_rc (sec_fuelgauge_probe pd pe) = 0 \<Longrightarrow> fpr_state (sec_fuelgauge_probe pd pe) = Some s \<Longrightarrow>
          fg_reach pd s"
| step: "fg_reach pd s \<Longrightarrow> fg_step pd s e = Some (rc, v, s') \<Longrightarrow> fg_reach pd s'"

subsection \<open>The capacity invariant\<close>

text \<open>The last capacity the driver reported, which the atomic smoothing starts from, is a
  percentage.\<close>

definition fg_capacity_ok :: "fg_state \<Rightarrow> bool" where
  "fg_capacity_ok s = (0 \<le> capacity_old s \<and> capacity_old s \<le> 100)"

subsection \<open>Properties\<close>

lemma sec_fg_get_atomic_capacity_bounds:
  assumes "0 \<le> capacity_old s" "capacity_old s \<le> 100" "0 \<le> v" "v \<le> 100"
  shows "0 \<le> fst (sec_fg_get_atomic_capacity pd s v) \<and> fst (sec_fg_get_atomic_capacity pd s v) \<le> 100 \<and>
         capacity_old (snd (sec_fg_get_atomic_capacity pd s v)) = fst (sec_fg_get_atomic_capacity pd s v)"
  using assms by (simp add: sec_fg_get_atomic_capacity_def Let_def)

lemma c_div_10_bounds: "0 \<le> v \<Longrightarrow> v \<le> 1000 \<Longrightarrow> 0 \<le> c_div v 10 \<and> c_div v 10 \<le> 100"
  using zdiv_mono1 [of v 1000 10] by simp

lemma fg_capacity_bounds:
  assumes r: "fg_capacity pd s t v = Some (r, s')" and t: "t \<noteq> SEC_FUELGAUGE_CAPACITY_TYPE_RAW"
    and ok: "fg_capacity_ok s"
  shows "0 \<le> r \<and> r \<le> 100 \<and> fg_capacity_ok s'"
proof -
  obtain v1 where v1: "(if has_type pd (SEC_FUELGAUGE_CAPACITY_TYPE_SCALE OR SEC_FUELGAUGE_CAPACITY_TYPE_DYNAMIC_SCALE)
                   then sec_fg_get_scaled_capacity pd s v else Some v) = Some v1"
    using r t by (auto simp: fg_capacity_def Let_def split: option.splits)
  define v4 where "v4 = c_div (if (if v1 > 1000 then 1000 else v1) < 0 then 0 else (if v1 > 1000 then 1000 else v1)) 10"
  define s1 where "s1 = (if v4 > fuel_alert_soc pd \<and> is_fuel_alerted s then s\<lparr>fg_wake_locked := False\<rparr> else s)"
  have b: "0 \<le> v4" "v4 \<le> 100" unfolding v4_def using c_div_10_bounds by auto
  have o1: "0 \<le> capacity_old s1" "capacity_old s1 \<le> 100" using ok by (auto simp: s1_def fg_capacity_ok_def)
  have eq: "fg_capacity pd s t v =
     (if initial_update_of_soc s1 then Some (v4, s1\<lparr>capacity_old := v4, initial_update_of_soc := False\<rparr>)
      else if has_type pd (SEC_FUELGAUGE_CAPACITY_TYPE_ATOMIC OR SEC_FUELGAUGE_CAPACITY_TYPE_SKIP_ABNORMAL)
      then Some (sec_fg_get_atomic_capacity pd s1 v4) else Some (v4, s1))"
    unfolding fg_capacity_def Let_def s1_def v4_def using t v1 by (simp only: if_False if_True option.case refl)
  show ?thesis
  proof (cases "initial_update_of_soc s1")
    case True then show ?thesis using r b unfolding eq by (auto simp: fg_capacity_ok_def)
  next
    case False
    show ?thesis
    proof (cases "has_type pd (SEC_FUELGAUGE_CAPACITY_TYPE_ATOMIC OR SEC_FUELGAUGE_CAPACITY_TYPE_SKIP_ABNORMAL)")
      case True
      then have "sec_fg_get_atomic_capacity pd s1 v4 = (r, s')" using r False unfolding eq by simp
      then show ?thesis using sec_fg_get_atomic_capacity_bounds [OF o1 b, of pd]
        by (auto simp: fg_capacity_ok_def)
    next
      case f2: False
      then show ?thesis using r b o1 False unfolding eq by (auto simp: fg_capacity_ok_def s1_def)
    qed
  qed
qed

lemma fg_step_capacity_ok:
  assumes "fg_capacity_ok s" "fg_step pd s e = Some (rc, v, s')"
  shows "fg_capacity_ok s'"
proof (cases e)
  case (GetProp psp t hal)
  show ?thesis
  proof (cases "psp = POWER_SUPPLY_PROP_CAPACITY \<and> fst hal \<and> t \<noteq> SEC_FUELGAUGE_CAPACITY_TYPE_RAW")
    case True
    then obtain r where "fg_capacity pd s t (snd hal) = Some (r, s')"
      using assms(2) GetProp by (auto simp: sec_fg_get_property_def split: prod.splits)
    then show ?thesis using fg_capacity_bounds True assms(1) by blast
  next
    case False
    then show ?thesis using assms GetProp
      by (auto simp: sec_fg_get_property_def fg_capacity_def
               split: if_splits prod.splits power_supply_property.splits)
  qed
next
  case (SetProp psp x hal rok sok)
  then show ?thesis using assms
    by (cases psp)
       (auto simp: sec_fg_set_property_def sec_fg_calculate_dynamic_scale_def fg_capacity_ok_def Let_def
             split: if_splits)
qed (use assms in \<open>auto simp: sec_fg_irq_thread_def sec_fg_isr_work_def sec_fuelgauge_resume_def
                                sec_fuelgauge_suspend_def fg_capacity_ok_def\<close>)

lemma fg_probe_capacity_ok:
  "fpr_state (sec_fuelgauge_probe pd pe) = Some s \<Longrightarrow> fg_capacity_ok s"
  by (auto simp: sec_fuelgauge_probe_def fg_probe_fail_def fg_initial_state_def fg_capacity_ok_def
                 sec_fg_calculate_dynamic_scale_def Let_def split: if_splits prod.splits)

lemma fg_reach_capacity_ok: "fg_reach pd s \<Longrightarrow> fg_capacity_ok s"
  by (induction rule: fg_reach.induct) (auto intro: fg_probe_capacity_ok fg_step_capacity_ok)

text \<open>C39: in every state the fuel gauge reaches from a successful probe, a capacity
  read that succeeds with a scaled, clamped or smoothed type (anything but \<open>RAW\<close>)
  reports a percentage between 0 and 100, and the smoothing state it keeps stays in
  that range.\<close>

theorem fg_capacity_reported_bounds:
  "fg_reach pd s \<Longrightarrow> fg_step pd s (GetProp POWER_SUPPLY_PROP_CAPACITY t hal) = Some (rc, v, s') \<Longrightarrow>
   t \<noteq> SEC_FUELGAUGE_CAPACITY_TYPE_RAW \<Longrightarrow> rc = 0 \<Longrightarrow>
   0 \<le> v \<and> v \<le> 100 \<and> 0 \<le> capacity_old s' \<and> capacity_old s' \<le> 100"
  using fg_reach_capacity_ok [of pd s] fg_capacity_bounds [of pd s t "snd hal" v s']
  by (auto simp: sec_fg_get_property_def fg_capacity_ok_def EINVAL_def split: if_splits)

lemma sec_fuelgauge_probe_gpio_fail:
  "fpe_alloc pe \<Longrightarrow> \<not> (fpe_of_node pe \<and> \<not> fpe_alloc_dt pe) \<Longrightarrow> \<not> fpe_gpio_init pe \<Longrightarrow>
   fpr_rc (sec_fuelgauge_probe pd pe) = 0 \<and> fpr_state (sec_fuelgauge_probe pd pe) = None \<and>
   \<not> fpr_psy_registered (sec_fuelgauge_probe pd pe)"
  by (auto simp: sec_fuelgauge_probe_def fg_probe_fail_def Let_def)

lemma sec_fuelgauge_probe_fuelalert_fail:
  "fpe_alloc pe \<Longrightarrow> \<not> (fpe_of_node pe \<and> \<not> fpe_alloc_dt pe) \<Longrightarrow> fpe_gpio_init pe \<Longrightarrow>
   fpe_hal_init pe \<Longrightarrow> fpe_register pe = 0 \<Longrightarrow> 0 \<le> fuel_alert_soc pd \<Longrightarrow> \<not> fpe_fuelalert_init pe \<Longrightarrow>
   fpr_rc (sec_fuelgauge_probe pd pe) = 0 \<and> fpr_state (sec_fuelgauge_probe pd pe) = None \<and>
   fpr_free_unrequested_irq (sec_fuelgauge_probe pd pe) = (fg_irq pd \<noteq> 0)"
  by (auto simp: sec_fuelgauge_probe_def fg_probe_fail_def Let_def)

lemma sec_fg_set_property_online_reset:
  "sec_fg_set_property pd hal rok sok POWER_SUPPLY_PROP_ONLINE SEC_FUELGAUGE_CAPACITY_TYPE_RESET s =
     (if rok then 0 else - EINVAL,
      s\<lparr>cable_type := SEC_FUELGAUGE_CAPACITY_TYPE_RESET, is_charging := True\<rparr>)"
  by (simp add: sec_fg_set_property_def fg_set_from_capacity_def SEC_FUELGAUGE_CAPACITY_TYPE_RESET_def
                POWER_SUPPLY_TYPE_BATTERY_def)

lemma fg_create_attrs_loop_result:
  "fg_create_attrs_loop rcs i = (if \<forall>rc \<in> set rcs. rc = 0 then (0, i + length rcs)
                                  else (hd (filter (\<lambda>rc. rc \<noteq> 0) rcs), 0))"
  by (induction rcs arbitrary: i) auto

lemma sec_fg_get_atomic_capacity_step:
  "has_type pd SEC_FUELGAUGE_CAPACITY_TYPE_ATOMIC \<Longrightarrow>
   \<bar>fst (sec_fg_get_atomic_capacity pd s v) - capacity_old s\<bar> \<le> 1"
  by (auto simp: sec_fg_get_atomic_capacity_def Let_def)

subsection \<open>Witnesses\<close>

lemma fg_capacity_reported_bounds_witness:
  "fg_reach \<lparr>capacity_min = 0, pd_capacity_max = 1000, capacity_max_margin = 0, capacity_calculation_type = 8, fuel_alert_soc = -1, repeated_fuelalert = False, fg_irq = 0, fuelalert_process = False\<rparr> (the (fpr_state (sec_fuelgauge_probe \<lparr>capacity_min = 0, pd_capacity_max = 1000, capacity_max_margin = 0, capacity_calculation_type = 8, fuel_alert_soc = -1, repeated_fuelalert = False, fg_irq = 0, fuelalert_process = False\<rparr> \<lparr>fpe_alloc = True, fpe_of_node = False, fpe_alloc_dt = True, fpe_raw_soc = (True, 500), fpe_gpio_init = True, fpe_hal_init = True, fpe_register = 0, fpe_fuelalert_init = True, fpe_attr_rcs = [0, 0, 0], fpe_i2c_func = True\<rparr>))) \<and>
   fg_step \<lparr>capacity_min = 0, pd_capacity_max = 1000, capacity_max_margin = 0, capacity_calculation_type = 8, fuel_alert_soc = -1, repeated_fuelalert = False, fg_irq = 0, fuelalert_process = False\<rparr> (the (fpr_state (sec_fuelgauge_probe \<lparr>capacity_min = 0, pd_capacity_max = 1000, capacity_max_margin = 0, capacity_calculation_type = 8, fuel_alert_soc = -1, repeated_fuelalert = False, fg_irq = 0, fuelalert_process = False\<rparr> \<lparr>fpe_alloc = True, fpe_of_node = False, fpe_alloc_dt = True, fpe_raw_soc = (True, 500), fpe_gpio_init = True, fpe_hal_init = True, fpe_register = 0, fpe_fuelalert_init = True, fpe_attr_rcs = [0, 0, 0], fpe_i2c_func = True\<rparr>))) (GetProp POWER_SUPPLY_PROP_CAPACITY 0 (True, 505)) =
     Some (0, 50, (the (fpr_state (sec_fuelgauge_probe \<lparr>capacity_min = 0, pd_capacity_max = 1000, capacity_max_margin = 0, capacity_calculation_type = 8, fuel_alert_soc = -1, repeated_fuelalert = False, fg_irq = 0, fuelalert_process = False\<rparr> \<lparr>fpe_alloc = True, fpe_of_node = False, fpe_alloc_dt = True, fpe_raw_soc = (True, 500), fpe_gpio_init = True, fpe_hal_init = True, fpe_register = 0, fpe_fuelalert_init = True, fpe_attr_rcs = [0, 0, 0], fpe_i2c_func = True\<rparr>)))\<lparr>capacity_old := 50, initial_update_of_soc := False\<rparr>) \<and>
   0 \<le> (50::int) \<and> (50::int) \<le> 100"
proof -
  have p: "fpr_rc (sec_fuelgauge_probe \<lparr>capacity_min = 0, pd_capacity_max = 1000, capacity_max_margin = 0, capacity_calculation_type = 8, fuel_alert_soc = -1, repeated_fuelalert = False, fg_irq = 0, fuelalert_process = False\<rparr> \<lparr>fpe_alloc = True, fpe_of_node = False, fpe_alloc_dt = True, fpe_raw_soc = (True, 500), fpe_gpio_init = True, fpe_hal_init = True, fpe_register = 0, fpe_fuelalert_init = True, fpe_attr_rcs = [0, 0, 0], fpe_i2c_func = True\<rparr>) = 0" by code_simp
  have q: "fpr_state (sec_fuelgauge_probe \<lparr>capacity_min = 0, pd_capacity_max = 1000, capacity_max_margin = 0, capacity_calculation_type = 8, fuel_alert_soc = -1, repeated_fuelalert = False, fg_irq = 0, fuelalert_process = False\<rparr> \<lparr>fpe_alloc = True, fpe_of_node = False, fpe_alloc_dt = True, fpe_raw_soc = (True, 500), fpe_gpio_init = True, fpe_hal_init = True, fpe_register = 0, fpe_fuelalert_init = True, fpe_attr_rcs = [0, 0, 0], fpe_i2c_func = True\<rparr>) = Some (the (fpr_state (sec_fuelgauge_probe \<lparr>capacity_min = 0, pd_capacity_max = 1000, capacity_max_margin = 0, capacity_calculation_type = 8, fuel_alert_soc = -1, repeated_fuelalert = False, fg_irq = 0, fuelalert_process = False\<rparr> \<lparr>fpe_alloc = True, fpe_of_node = False, fpe_alloc_dt = True, fpe_raw_soc = (True, 500), fpe_gpio_init = True, fpe_hal_init = True, fpe_register = 0, fpe_fuelalert_init = True, fpe_attr_rcs = [0, 0, 0], fpe_i2c_func = True\<rparr>)))"
    by code_simp
  have r: "fg_reach \<lparr>capacity_min = 0, pd_capacity_max = 1000, capacity_max_margin = 0, capacity_calculation_type = 8, fuel_alert_soc = -1, repeated_fuelalert = False, fg_irq = 0, fuelalert_process = False\<rparr> (the (fpr_state (sec_fuelgauge_probe \<lparr>capacity_min = 0, pd_capacity_max = 1000, capacity_max_margin = 0, capacity_calculation_type = 8, fuel_alert_soc = -1, repeated_fuelalert = False, fg_irq = 0, fuelalert_process = False\<rparr> \<lparr>fpe_alloc = True, fpe_of_node = False, fpe_alloc_dt = True, fpe_raw_soc = (True, 500), fpe_gpio_init = True, fpe_hal_init = True, fpe_register = 0, fpe_fuelalert_init = True, fpe_attr_rcs = [0, 0, 0], fpe_i2c_func = True\<rparr>)))" using fg_reach.probe [OF p q] .
  have st: "fg_step \<lparr>capacity_min = 0, pd_capacity_max = 1000, capacity_max_margin = 0, capacity_calculation_type = 8, fuel_alert_soc = -1, repeated_fuelalert = False, fg_irq = 0, fuelalert_process = False\<rparr> (the (fpr_state (sec_fuelgauge_probe \<lparr>capacity_min = 0, pd_capacity_max = 1000, capacity_max_margin = 0, capacity_calculation_type = 8, fuel_alert_soc = -1, repeated_fuelalert = False, fg_irq = 0, fuelalert_process = False\<rparr> \<lparr>fpe_alloc = True, fpe_of_node = False, fpe_alloc_dt = True, fpe_raw_soc = (True, 500), fpe_gpio_init = True, fpe_hal_init = True, fpe_register = 0, fpe_fuelalert_init = True, fpe_attr_rcs = [0, 0, 0], fpe_i2c_func = True\<rparr>))) (GetProp POWER_SUPPLY_PROP_CAPACITY 0 (True, 505)) =
     Some (0, 50, (the (fpr_state (sec_fuelgauge_probe \<lparr>capacity_min = 0, pd_capacity_max = 1000, capacity_max_margin = 0, capacity_calculation_type = 8, fuel_alert_soc = -1, repeated_fuelalert = False, fg_irq = 0, fuelalert_process = False\<rparr> \<lparr>fpe_alloc = True, fpe_of_node = False, fpe_alloc_dt = True, fpe_raw_soc = (True, 500), fpe_gpio_init = True, fpe_hal_init = True, fpe_register = 0, fpe_fuelalert_init = True, fpe_attr_rcs = [0, 0, 0], fpe_i2c_func = True\<rparr>)))\<lparr>capacity_old := 50, initial_update_of_soc := False\<rparr>)"
    by code_simp
  show ?thesis using r st fg_capacity_reported_bounds [OF r st] by (simp add: SEC_FUELGAUGE_CAPACITY_TYPE_RAW_def)
qed

end
