(* ===== verification/Swap.thy ===== *)
theory Swap
  imports Prelude
begin

text \<open>
  The SWAP (System-Wide Analyzer of Performance) sources of \<open>kernel/swap\<close>: the message
  entry point of the parser module (\<open>parser/swap_msg_parser.c\<close>), the debugfs task list
  of the user-space manager (\<open>us_manager/debugfs_us_manager.c\<close>,
  \<open>us_manager/helper.h\<close>) and the symbol-lookup macros of the kprobe module
  (\<open>kprobe/swap_kprobes_deps.h\<close>). The command handlers behind the parser
  (\<open>msg_cmd.c\<close>), the process list of \<open>sspt_proc.c\<close> and \<open>swap_ksyms\<close> are in other
  files: their results are parameters.
\<close>

unbundle bit_operations_syntax

subsection \<open>User memory and little-endian fields\<close>

text \<open>The bytes readable from user space at the message address. \<open>copy_from_user\<close>
  copies what it can and returns the number of bytes it could not copy.\<close>

definition copy_from_user :: "u8 list \<Rightarrow> nat \<Rightarrow> nat \<Rightarrow> nat \<times> u8 list" where
  "copy_from_user u off n = (let c = min n (length u - off) in (n - c, take c (drop off u)))"

text \<open>A packed \<open>u32\<close> field of a message as the ARM target stores it (least significant
  byte first), and the encoding the daemon writes.\<close>

fun le_val :: "u8 list \<Rightarrow> nat" where
  "le_val [] = 0"
| "le_val (b # bs) = unat b + 256 * le_val bs"

definition le32 :: "u8 list \<Rightarrow> u32" where
  "le32 bs = of_nat (le_val (take 4 bs))"

fun le_bytes :: "nat \<Rightarrow> nat \<Rightarrow> u8 list" where
  "le_bytes 0 v = []"
| "le_bytes (Suc k) v = of_nat (v mod 256) # le_bytes k (v div 256)"

subsection \<open>The message handler\<close>

definition MSG_KEEP_ALIVE :: u32 where "MSG_KEEP_ALIVE = 0x0001"
definition MSG_START :: u32 where "MSG_START = 0x0002"
definition MSG_STOP :: u32 where "MSG_STOP = 0x0003"
definition MSG_CONFIG :: u32 where "MSG_CONFIG = 0x0004"
definition MSG_SWAP_INST_ADD :: u32 where "MSG_SWAP_INST_ADD = 0x0008"
definition MSG_SWAP_INST_REMOVE :: u32 where "MSG_SWAP_INST_REMOVE = 0x0009"

definition msg_known :: "u32 \<Rightarrow> bool" where
  "msg_known i = (i = MSG_KEEP_ALIVE \<or> i = MSG_START \<or> i = MSG_STOP \<or> i = MSG_CONFIG \<or>
                  i = MSG_SWAP_INST_ADD \<or> i = MSG_SWAP_INST_REMOVE)"

text \<open>\<open>sizeof(struct basic_msg_fmt)\<close> (packed: \<open>msg_id\<close>, then \<open>len\<close>) and \<open>size_max\<close>.\<close>

definition BASIC_MSG_FMT_SIZE :: nat where "BASIC_MSG_FMT_SIZE = 8"
definition size_max :: nat where "size_max = 128 * 1024 * 1024"

text \<open>What \<open>msg_handler\<close> does, in order: allocate the message buffer (\<open>init_mb\<close>), take
  the non-boot CPUs down, call a command handler, bring the CPUs back, free the buffer.\<close>

datatype swap_action = InitMb nat | UninitMb | CpusLock | Handle u32 | CpusUnlock

text \<open>The environment of one call: the user bytes at \<open>msg\<close>, the result of \<open>init_mb\<close>,
  and the command handlers of \<open>msg_cmd.c\<close> (\<open>msg_keep_alive\<close>, \<open>msg_start\<close>, \<open>msg_stop\<close>,
  \<open>msg_config\<close>, \<open>msg_swap_inst_add\<close>, \<open>msg_swap_inst_remove\<close>) as one function of the
  message id and the payload.\<close>

record swap_msg_env =
  sme_user :: "u8 list"
  sme_init_mb :: int
  sme_handler :: "u32 \<Rightarrow> u8 list \<Rightarrow> int"

definition msg_handler :: "swap_msg_env \<Rightarrow> int \<times> swap_action list" where
  "msg_handler env =
     (let (r, hdr) = copy_from_user (sme_user env) 0 BASIC_MSG_FMT_SIZE in
      if r \<noteq> 0 then (int r, [])
      else
        (let msg_id = le32 hdr; size = le32 (drop 4 hdr) in
         if unat size \<ge> size_max then (- ENOMEM, [])
         else if sme_init_mb env \<noteq> 0 then (sme_init_mb env, [])
         else
           (let (r2, payload) = (if size \<noteq> 0
                                 then copy_from_user (sme_user env) BASIC_MSG_FMT_SIZE (unat size)
                                 else (0, []))
            in if r2 \<noteq> 0 then (int r2, [InitMb (unat size), UninitMb])
               else if msg_id = MSG_STOP
               then (sme_handler env msg_id payload,
                     [InitMb (unat size), CpusLock, Handle msg_id, CpusUnlock, UninitMb])
               else if msg_known msg_id
               then (sme_handler env msg_id payload, [InitMb (unat size), Handle msg_id, UninitMb])
               else (- EINVAL, [InitMb (unat size), UninitMb]))))"

text \<open>Module init and exit: \<open>msg_handler\<close> is installed in the driver between
  \<open>init_cpu_deps\<close> and \<open>init_cmd\<close>, whose results are inputs.\<close>

record parser_state =
  ps_handler_set :: bool
  ps_cmd_inited :: bool

definition swap_parser_init :: "int \<Rightarrow> int \<Rightarrow> parser_state \<Rightarrow> int \<times> parser_state" where
  "swap_parser_init cpu_deps_rc cmd_rc s =
     (if cpu_deps_rc \<noteq> 0 then (cpu_deps_rc, s)
      else (cmd_rc, s\<lparr>ps_handler_set := True, ps_cmd_inited := (cmd_rc = 0)\<rparr>))"

definition swap_parser_exit :: "parser_state \<Rightarrow> parser_state" where
  "swap_parser_exit s = s\<lparr>ps_cmd_inited := False, ps_handler_set := False\<rparr>"

subsection \<open>The debugfs task list\<close>

definition MAX_APPS_COUNT :: nat where "MAX_APPS_COUNT = 8"
definition PID_STRING :: nat where "PID_STRING = 21"

text \<open>The read buffer holds \<open>PID_STRING * MAX_APPS_COUNT\<close> bytes; the model keeps the bytes
  between \<open>begin\<close> and \<open>ptr\<close>. A pid that does not fit with its separator and one
  more byte is skipped.\<close>

definition on_each_proc_callback :: "s32 \<Rightarrow> string \<Rightarrow> string" where
  "on_each_proc_callback tgid rb =
     (let pid_str = sprintf_d (sint tgid); len = length pid_str
      in if int (PID_STRING * MAX_APPS_COUNT) - int (length rb) < int len + 2 then rb
         else rb @ pid_str @ '' '')"

text \<open>The buffer \<open>read_tasks\<close> builds over the processes of \<open>on_each_proc_no_lock\<close>, in
  their order: the last separator is stepped back over and overwritten by the newline,
  and the returned length \<open>ptr - begin\<close> stops before it.\<close>

definition read_tasks_buf :: "s32 list \<Rightarrow> string \<times> string" where
  "read_tasks_buf procs =
     (let rb = fold on_each_proc_callback procs [];
          rb' = (if rb \<noteq> [] then butlast rb else rb)
      in (rb' @ ''\<newline>'', rb'))"

text \<open>\<open>simple_read_from_buffer\<close> over the returned bytes: the result, the bytes copied,
  and the new file position.\<close>

text \<open>The text the callbacks write for a list of processes when none is skipped.\<close>

definition pid_list :: "s32 list \<Rightarrow> string" where
  "pid_list procs = concat (map (\<lambda>t. sprintf_d (sint t) @ '' '') procs)"

definition simple_read_from_buffer :: "nat \<Rightarrow> int \<Rightarrow> string \<Rightarrow> int \<times> string \<times> int" where
  "simple_read_from_buffer count pos buf =
     (if pos < 0 then (- EINVAL, [], pos)
      else if nat pos \<ge> length buf \<or> count = 0 then (0, [], pos)
      else (let c = min count (length buf - nat pos)
            in (int c, take c (drop (nat pos) buf), pos + int c)))"

definition read_tasks :: "s32 list \<Rightarrow> nat \<Rightarrow> int \<Rightarrow> int \<times> string \<times> int" where
  "read_tasks procs count ppos = simple_read_from_buffer count ppos (snd (read_tasks_buf procs))"

text \<open>The debugfs directory and its \<open>tasks\<close> file, and the outcomes of
  \<open>get_swap_debugfs_dir\<close>, \<open>debugfs_create_dir\<close> and \<open>debugfs_create_file\<close>.\<close>

record us_dfs_state =
  us_manager_dir :: bool
  us_tasks_file :: bool

record us_dfs_env =
  ude_swap_dir :: bool
  ude_create_dir :: bool
  ude_create_file :: bool

definition exit_debugfs_us_manager :: "us_dfs_state \<Rightarrow> us_dfs_state" where
  "exit_debugfs_us_manager s = s\<lparr>us_manager_dir := False, us_tasks_file := False\<rparr>"

definition init_debugfs_us_manager :: "us_dfs_env \<Rightarrow> us_dfs_state \<Rightarrow> int \<times> us_dfs_state" where
  "init_debugfs_us_manager e s =
     (if \<not> ude_swap_dir e then (- ENOENT, s)
      else if \<not> ude_create_dir e then (- ENOMEM, s\<lparr>us_manager_dir := False\<rparr>)
      else if \<not> ude_create_file e then (- ENOMEM, exit_debugfs_us_manager (s\<lparr>us_manager_dir := True\<rparr>))
      else (0, s\<lparr>us_manager_dir := True, us_tasks_file := True\<rparr>))"

text \<open>\<open>is_kthread\<close> of \<open>helper.h\<close>: a task without a memory map.\<close>

definition is_kthread :: "'mm option \<Rightarrow> bool" where
  "is_kthread mm = (mm = None)"

subsection \<open>Kprobe module dependencies\<close>

text \<open>\<open>INIT_MOD_DEP_VAR(dep, name)\<close> stores the address \<open>swap_ksyms\<close> finds for \<open>name\<close>
  (0 when there is none) in \<open>__ref_dep\<close> and makes the enclosing function return
  \<open>-ESRCH\<close> when it is 0; \<open>INIT_MOD_DEP_CB\<close> does the same for a callback pointer.
  \<open>None\<close> is "continue".\<close>

definition INIT_MOD_DEP_VAR ::
  "(string \<Rightarrow> nat) \<Rightarrow> string \<Rightarrow> string \<Rightarrow> (string \<Rightarrow> nat) \<Rightarrow> int option \<times> (string \<Rightarrow> nat)" where
  "INIT_MOD_DEP_VAR ksyms dep name refs =
     (let refs' = refs(dep := ksyms name) in (if refs' dep = 0 then Some (- ESRCH) else None, refs'))"

text \<open>\<open>init_module_dependencies\<close> is a sequence of these lookups.\<close>

fun init_module_dependencies ::
  "(string \<Rightarrow> nat) \<Rightarrow> (string \<times> string) list \<Rightarrow> (string \<Rightarrow> nat) \<Rightarrow> int \<times> (string \<Rightarrow> nat)" where
  "init_module_dependencies ksyms [] refs = (0, refs)"
| "init_module_dependencies ksyms ((dep, name) # ds) refs =
     (case INIT_MOD_DEP_VAR ksyms dep name refs of
        (Some rc, refs') \<Rightarrow> (rc, refs')
      | (None, refs') \<Rightarrow> init_module_dependencies ksyms ds refs')"

subsection \<open>Properties\<close>

lemma le_val_le_bytes: "le_val (le_bytes k v) = v mod 256 ^ k"
proof (induction k arbitrary: v)
  case (Suc k)
  have "unat (of_nat (v mod 256) :: u8) = v mod 256"
    by (simp add: unat_of_nat)
  then show ?case using Suc by (simp add: mod_mult2_eq)
qed simp

lemma length_le_bytes [simp]: "length (le_bytes k v) = k"
  by (induction k arbitrary: v) auto

lemma le32_le_bytes: "v < 2 ^ 32 \<Longrightarrow> unat (le32 (le_bytes 4 v @ rest)) = v"
  by (simp add: le32_def le_val_le_bytes unat_of_nat del: le_bytes.simps)

lemma le32_le_bytes_word: "le32 (le_bytes 4 (unat w) @ rest) = w"
proof -
  have "unat w < 4294967296" using unsigned_less [of w] by simp
  then show ?thesis by (simp add: le32_def le_val_le_bytes del: le_bytes.simps)
qed

text \<open>C15: A message the daemon writes in the packed layout of \<open>struct basic_msg_fmt\<close>
  (the id, then the payload length, both little-endian \<open>u32\<close>, then the payload)
  with a known id and a payload below \<open>size_max\<close> reaches the command handler for that
  id with exactly that payload, and the handler's result is returned; the message
  buffer is allocated before and freed after, and \<open>MSG_STOP\<close> runs with the non-boot
  CPUs taken down and brought back.\<close>

lemma msg_handler_roundtrip:
  assumes "msg_known i" "length p < size_max" "sme_init_mb env = 0"
    and u: "sme_user env = le_bytes 4 (unat i) @ le_bytes 4 (length p) @ p @ rest"
  shows "msg_handler env =
           (sme_handler env i p,
            if i = MSG_STOP then [InitMb (length p), CpusLock, Handle i, CpusUnlock, UninitMb]
            else [InitMb (length p), Handle i, UninitMb])"
proof -
  have lp: "length p < 2 ^ 32" using assms(2) by (simp add: size_max_def)
  define hdr8 where "hdr8 = le_bytes 4 (unat i) @ le_bytes 4 (length p)"
  have hdr: "copy_from_user (sme_user env) 0 BASIC_MSG_FMT_SIZE = (0, hdr8)"
    using u by (simp add: copy_from_user_def BASIC_MSG_FMT_SIZE_def hdr8_def)
  have hid: "le32 hdr8 = i" unfolding hdr8_def by (rule le32_le_bytes_word)
  have sz: "unat (le32 (drop 4 hdr8)) = length p"
    using le32_le_bytes [OF lp, of "[]"] by (simp add: hdr8_def)
  have pl: "(if le32 (drop 4 hdr8) \<noteq> 0
             then copy_from_user (sme_user env) BASIC_MSG_FMT_SIZE (length p) else (0, [])) = (0, p)"
    using u sz by (auto simp: copy_from_user_def BASIC_MSG_FMT_SIZE_def unat_eq_zero hdr8_def)
  have big: "\<not> size_max \<le> length p" using assms(2) by simp
  show ?thesis
    unfolding msg_handler_def Let_def hdr prod.case
    using assms(1,3) big by (simp only: hid sz pl prod.case if_False if_True refl not_True_eq_False
                                   simp_thms) (simp add: msg_known_def)
qed

lemma msg_handler_trace:
  "snd (msg_handler env) = [] \<or> (\<exists>n. snd (msg_handler env) = [InitMb n, UninitMb]) \<or>
   (\<exists>n i. msg_known i \<and> i \<noteq> MSG_STOP \<and> snd (msg_handler env) = [InitMb n, Handle i, UninitMb]) \<or>
   (\<exists>n. snd (msg_handler env) = [InitMb n, CpusLock, Handle MSG_STOP, CpusUnlock, UninitMb])"
  by (auto simp: msg_handler_def Let_def split: prod.splits)

lemma msg_handler_short_header:
  "length (sme_user env) < BASIC_MSG_FMT_SIZE \<Longrightarrow>
   msg_handler env = (int (BASIC_MSG_FMT_SIZE - length (sme_user env)), []) \<and> 0 < fst (msg_handler env)"
  by (simp add: msg_handler_def copy_from_user_def Let_def)

lemma swap_parser_init_cmd_fail:
  "cmd_rc \<noteq> 0 \<Longrightarrow> swap_parser_init 0 cmd_rc s = (cmd_rc, s\<lparr>ps_handler_set := True, ps_cmd_inited := False\<rparr>)"
  by (simp add: swap_parser_init_def)

lemma on_each_proc_callback_bound:
  "length rb \<le> 167 \<Longrightarrow> length (on_each_proc_callback t rb) \<le> 167"
  by (simp add: on_each_proc_callback_def Let_def PID_STRING_def MAX_APPS_COUNT_def)

lemma fold_on_each_proc_callback_bound:
  "length rb \<le> 167 \<Longrightarrow> length (fold on_each_proc_callback procs rb) \<le> 167"
  by (induction procs arbitrary: rb) (simp_all add: on_each_proc_callback_bound)

lemma read_tasks_buf_bound: "length (fst (read_tasks_buf procs)) \<le> PID_STRING * MAX_APPS_COUNT"
  using fold_on_each_proc_callback_bound [of "[]" procs]
  by (auto simp: read_tasks_buf_def Let_def PID_STRING_def MAX_APPS_COUNT_def)

lemma fold_on_each_proc_callback_all:
  "length rb + 12 * length procs \<le> 96 \<Longrightarrow> fold on_each_proc_callback procs rb = rb @ pid_list procs"
proof (induction procs arbitrary: rb)
  case (Cons t procs)
  have "length (sprintf_d (sint t)) \<le> 11" by (rule length_sprintf_d_sint)
  then have "on_each_proc_callback t rb = rb @ sprintf_d (sint t) @ '' ''"
    using Cons.prems by (simp add: on_each_proc_callback_def PID_STRING_def MAX_APPS_COUNT_def)
  moreover have "length (rb @ sprintf_d (sint t) @ '' '') + 12 * length procs \<le> 96"
    using Cons.prems \<open>length (sprintf_d (sint t)) \<le> 11\<close> by simp
  ultimately show ?case using Cons.IH by (simp add: pid_list_def)
qed (simp add: pid_list_def)

lemma read_tasks_all_listed:
  "length procs \<le> MAX_APPS_COUNT \<Longrightarrow> read_tasks_buf procs = (butlast (pid_list procs) @ ''\<newline>'', butlast (pid_list procs))"
  using fold_on_each_proc_callback_all [of "[]" procs]
  by (simp add: read_tasks_buf_def Let_def MAX_APPS_COUNT_def)

lemma newline_notin_pid_list: "CHR ''\<newline>'' \<notin> set (pid_list procs)"
  using newline_notin_sprintf_d by (auto simp: pid_list_def)

lemma read_tasks_no_newline:
  "length procs \<le> MAX_APPS_COUNT \<Longrightarrow> PID_STRING * MAX_APPS_COUNT \<le> count \<Longrightarrow>
   read_tasks procs count 0 = (int (length (butlast (pid_list procs))), butlast (pid_list procs),
                              int (length (butlast (pid_list procs)))) \<and>
   CHR ''\<newline>'' \<notin> set (fst (snd (read_tasks procs count 0)))"
proof -
  assume a: "length procs \<le> MAX_APPS_COUNT" "PID_STRING * MAX_APPS_COUNT \<le> count"
  define B where "B = butlast (pid_list procs)"
  have rb: "snd (read_tasks_buf procs) = B" using read_tasks_all_listed [OF a(1)] by (simp add: B_def)
  have l: "length B < count"
    using read_tasks_buf_bound [of procs] read_tasks_all_listed [OF a(1)] a(2) by (simp add: B_def)
  have nl: "CHR ''\<newline>'' \<notin> set B"
    using newline_notin_pid_list [of procs] in_set_butlastD unfolding B_def by metis
  have "read_tasks procs count 0 = (int (length B), B, int (length B))"
  proof (cases "B = []")
    case False
    have "min count (length B) = length B" using l by simp
    then show ?thesis using False l unfolding read_tasks_def rb simple_read_from_buffer_def by (simp add: Let_def)
  qed (simp add: read_tasks_def rb simple_read_from_buffer_def)
  then show ?thesis using nl by (simp add: B_def)
qed

lemma init_debugfs_us_manager_result:
  "\<not> us_tasks_file s \<Longrightarrow> init_debugfs_us_manager e s = (rc, s') \<Longrightarrow>
   (rc = 0 \<longleftrightarrow> ude_swap_dir e \<and> ude_create_dir e \<and> ude_create_file e) \<and>
   (rc = 0 \<longrightarrow> us_manager_dir s' \<and> us_tasks_file s') \<and>
   (rc \<noteq> 0 \<longrightarrow> \<not> us_tasks_file s' \<and> (ude_swap_dir e \<longrightarrow> \<not> us_manager_dir s'))"
  by (auto simp: init_debugfs_us_manager_def exit_debugfs_us_manager_def c_defs split: if_splits)

lemma init_module_dependencies_ok:
  "fst (init_module_dependencies ksyms ds refs) = 0 \<longleftrightarrow> (\<forall>(d, n) \<in> set ds. ksyms n \<noteq> 0)"
  by (induction ds arbitrary: refs) (auto simp: INIT_MOD_DEP_VAR_def Let_def ESRCH_def split: prod.splits)

lemma init_module_dependencies_refs:
  "fst (init_module_dependencies ksyms ds refs) = 0 \<Longrightarrow>
   (d \<in> fst ` set ds \<longrightarrow> snd (init_module_dependencies ksyms ds refs) d \<noteq> 0) \<and>
   (d \<notin> fst ` set ds \<longrightarrow> snd (init_module_dependencies ksyms ds refs) d = refs d)"
proof (induction ds arbitrary: refs)
  case (Cons a ds)
  obtain d' n' where a: "a = (d', n')" by fastforce
  have k: "ksyms n' \<noteq> 0" using Cons.prems by (auto simp: a INIT_MOD_DEP_VAR_def ESRCH_def split: if_splits)
  then have eq: "init_module_dependencies ksyms (a # ds) refs = init_module_dependencies ksyms ds (refs(d' := ksyms n'))"
    by (simp add: a INIT_MOD_DEP_VAR_def)
  define r' where "r' = refs(d' := ksyms n')"
  have p: "fst (init_module_dependencies ksyms ds r') = 0" using Cons.prems eq by (simp add: r'_def)
  have r1: "r' d' = ksyms n'" and r2: "d \<noteq> d' \<Longrightarrow> r' d = refs d" by (simp_all add: r'_def)
  note ih = Cons.IH [OF p]
  have goal: "(d \<in> fst ` set (a # ds) \<longrightarrow> snd (init_module_dependencies ksyms ds r') d \<noteq> 0) \<and>
              (d \<notin> fst ` set (a # ds) \<longrightarrow> snd (init_module_dependencies ksyms ds r') d = refs d)"
  proof (cases "d = d'")
    case True
    then show ?thesis using ih r1 k by (cases "d' \<in> fst ` set ds") (auto simp: a)
  next
    case False
    then show ?thesis using ih r2 by (auto simp: a)
  qed
  show ?case using goal by (simp only: eq r'_def)
qed simp

subsection \<open>Witnesses\<close>

lemma msg_handler_roundtrip_witness:
  "msg_known 3 \<and> length [7, 9 :: u8] < size_max \<and>
   sme_init_mb \<lparr>sme_user = le_bytes 4 (unat (3 :: u32)) @ le_bytes 4 (length [7, 9 :: u8]) @ [7, 9] @ [],
                sme_init_mb = 0, sme_handler = (\<lambda>i p. int (length p))\<rparr> = 0 \<and>
   msg_handler \<lparr>sme_user = le_bytes 4 (unat (3 :: u32)) @ le_bytes 4 (length [7, 9 :: u8]) @ [7, 9] @ [],
                sme_init_mb = 0, sme_handler = (\<lambda>i p. int (length p))\<rparr> =
     (2, [InitMb 2, CpusLock, Handle 3, CpusUnlock, UninitMb])"
  using msg_handler_roundtrip [of 3 "[7, 9]"
      "\<lparr>sme_user = le_bytes 4 (unat (3 :: u32)) @ le_bytes 4 (length [7, 9 :: u8]) @ [7, 9] @ [],
         sme_init_mb = 0, sme_handler = (\<lambda>i p. int (length p))\<rparr>" "[]"]
  by (simp add: msg_known_def MSG_STOP_def size_max_def del: le_bytes.simps)

end
