(* ===== verification/Headset.thy ===== *)
theory Headset
  imports Prelude
begin

text \<open>
  The headset and button detection driver of the SC2723 analog die
  (\<open>drivers/input/misc/headset_sprd_sc2723.c\<close>). Plug detection and the hook button are
  two GPIO interrupts whose handlers only record the GPIO level and queue work; the work
  functions debounce (the level must not have changed), classify the headset by the
  microphone ADC, report the switch state and key events, and re-arm the interrupts.
  The registers of the analog die the driver touches are a register file indexed by
  \<open>adi_reg\<close>; the GPIO levels and ADC samples each step reads are inputs of the step. The
  function-local \<open>static\<close> flags are fields of the state.
\<close>

unbundle bit_operations_syntax

subsection \<open>Constants\<close>

definition NO_MIC_RETRY_COUNT :: nat where "NO_MIC_RETRY_COUNT = 1"
definition ADC_GND :: int where "ADC_GND = 100"
definition SCI_ADC_GET_VALUE_COUNT :: nat where "SCI_ADC_GET_VALUE_COUNT = 50"

definition DBNC_CNT3_VALUE :: u32 where "DBNC_CNT3_VALUE = 30"
definition DBNC_CNT3_SHIFT :: nat where "DBNC_CNT3_SHIFT = 0"
definition DBNC_CNT3_MASK :: u32 where "DBNC_CNT3_MASK = 0xFFF"
definition DBNC_CNT8_VALUE :: u32 where "DBNC_CNT8_VALUE = 25"
definition DBNC_CNT8_SHIFT :: nat where "DBNC_CNT8_SHIFT = 0"
definition DBNC_CNT8_MASK :: u32 where "DBNC_CNT8_MASK = 0xFFF"

definition CLK_AUD_HID_EN :: u32 where "CLK_AUD_HID_EN = 0x10"
definition CLK_AUD_HBD_EN :: u32 where "CLK_AUD_HBD_EN = 0x8"
definition HDT_EN :: u32 where "HDT_EN = 0x20"
definition AUD_EN :: u32 where "AUD_EN = 0x10"
definition AUDIO_PMUR1 :: u32 where "AUDIO_PMUR1 = 0x1"

definition AUDIO_ADPGAR_BYP_SHIFT :: nat where "AUDIO_ADPGAR_BYP_SHIFT = 10"
definition AUDIO_ADPGAR_BYP_MASK :: u32 where "AUDIO_ADPGAR_BYP_MASK = push_bit 10 0x3"
definition AUDIO_ADPGAR_BYP_NORMAL :: u32 where "AUDIO_ADPGAR_BYP_NORMAL = 0"
definition AUDIO_ADPGAR_BYP_HEADMIC_2_ADCR :: u32 where "AUDIO_ADPGAR_BYP_HEADMIC_2_ADCR = 2"

definition AUDIO_HEAD_SDET_SHIFT :: nat where "AUDIO_HEAD_SDET_SHIFT = 5"
definition AUDIO_HEAD_SDET_MASK :: u32 where "AUDIO_HEAD_SDET_MASK = push_bit 5 0x3"
definition AUDIO_HEAD_SDET_2P5 :: u32 where "AUDIO_HEAD_SDET_2P5 = 1"
definition AUDIO_HEAD_INS_VREF_SHIFT :: nat where "AUDIO_HEAD_INS_VREF_SHIFT = 8"
definition AUDIO_HEAD_INS_VREF_MASK :: u32 where "AUDIO_HEAD_INS_VREF_MASK = push_bit 8 0x3"
definition AUDIO_HEAD_INS_VREF_2P1 :: u32 where "AUDIO_HEAD_INS_VREF_2P1 = 3"
definition AUDIO_HEAD_SBUT_SHIFT :: nat where "AUDIO_HEAD_SBUT_SHIFT = 1"
definition AUDIO_HEAD_SBUT_MASK :: u32 where "AUDIO_HEAD_SBUT_MASK = push_bit 1 0xF"
definition AUDIO_HEAD_INS_PD :: u32 where "AUDIO_HEAD_INS_PD = 0x400"
definition AUDIO_HEADDETECT_PD :: u32 where "AUDIO_HEADDETECT_PD = 0x80"
definition AUDIO_V2ADC_EN :: u32 where "AUDIO_V2ADC_EN = 0x8000"
definition AUDIO_HEAD2ADC_SEL_SHIFT :: nat where "AUDIO_HEAD2ADC_SEL_SHIFT = 11"
definition AUDIO_HEAD2ADC_SEL_MASK :: u32 where "AUDIO_HEAD2ADC_SEL_MASK = push_bit 11 0xF"
definition AUDIO_HEAD2ADC_SEL_DISABLE :: u32 where "AUDIO_HEAD2ADC_SEL_DISABLE = 0"
definition AUDIO_HEAD2ADC_SEL_HEADMIC_IN :: u32 where "AUDIO_HEAD2ADC_SEL_HEADMIC_IN = 1"
definition AUDIO_HEAD2ADC_SEL_HEADSET_L_INT :: u32 where "AUDIO_HEAD2ADC_SEL_HEADSET_L_INT = 3"

text \<open>The switch states of \<open>linux/headset_sprd_sc2723.h\<close>, the key code \<open>KEY_RESERVED\<close>
  and the trigger types of \<open>linux/interrupt.h\<close>.\<close>

definition BIT_HEADSET_OUT :: int where "BIT_HEADSET_OUT = 0"
definition BIT_HEADSET_MIC :: int where "BIT_HEADSET_MIC = 1"
definition BIT_HEADSET_NO_MIC :: int where "BIT_HEADSET_NO_MIC = 2"
definition KEY_RESERVED :: int where "KEY_RESERVED = 0"
definition IRQF_TRIGGER_HIGH :: int where "IRQF_TRIGGER_HIGH = 4"
definition IRQF_TRIGGER_LOW :: int where "IRQF_TRIGGER_LOW = 8"

datatype sprd_headset_type =
  HEADSET_NORMAL | HEADSET_NO_MIC | HEADSET_NORTH_AMERICA | HEADSET_APPLE | HEADSET_TYPE_ERR

subsection \<open>Analog-die registers\<close>

text \<open>The registers the driver reads and writes: \<open>HEADMIC_DETECT_REG(ANA_HDT0)\<close>,
  \<open>(ANA_PMU0)\<close>, \<open>(ANA_PMU1)\<close>, \<open>(ANA_CDC1)\<close>, the two words of
  \<open>HEADMIC_DETECT_GLB_REG\<close>, and the two EIC de-bounce controls.\<close>

datatype adi_reg = ANA_HDT0 | ANA_PMU0 | ANA_PMU1 | ANA_CDC1 | GLB_REG0 | GLB_REG4
  | EIC3_DBNC_CTRL | EIC8_DBNC_CTRL

type_synonym adi_regs = "adi_reg \<Rightarrow> u32"

definition headset_reg_set_val :: "adi_reg \<Rightarrow> u32 \<Rightarrow> u32 \<Rightarrow> nat \<Rightarrow> adi_regs \<Rightarrow> adi_regs" where
  "headset_reg_set_val a v msk shift r = r(a := (r a AND NOT msk) OR push_bit shift v)"

definition headset_reg_clr_bit :: "adi_reg \<Rightarrow> u32 \<Rightarrow> adi_regs \<Rightarrow> adi_regs" where
  "headset_reg_clr_bit a b r = r(a := r a AND NOT b)"

definition headset_reg_set_bit :: "adi_reg \<Rightarrow> u32 \<Rightarrow> adi_regs \<Rightarrow> adi_regs" where
  "headset_reg_set_bit a b r = r(a := r a OR b)"

definition headset_reg_get_bit :: "adi_reg \<Rightarrow> u32 \<Rightarrow> adi_regs \<Rightarrow> u32" where
  "headset_reg_get_bit a b r = r a AND b"

definition headset_detect_circuit :: "bool \<Rightarrow> adi_regs \<Rightarrow> adi_regs" where
  "headset_detect_circuit on r =
     (if on then headset_reg_clr_bit ANA_HDT0 AUDIO_HEADDETECT_PD (headset_reg_clr_bit ANA_HDT0 AUDIO_HEAD_INS_PD r)
      else headset_reg_set_bit ANA_HDT0 AUDIO_HEADDETECT_PD (headset_reg_set_bit ANA_HDT0 AUDIO_HEAD_INS_PD r))"

definition headset_detect_clk_en :: "adi_regs \<Rightarrow> adi_regs" where
  "headset_detect_clk_en r =
     headset_reg_set_bit GLB_REG4 (CLK_AUD_HID_EN OR CLK_AUD_HBD_EN) (headset_reg_set_bit GLB_REG0 (HDT_EN OR AUD_EN) r)"

definition headset_detect_init :: "adi_regs \<Rightarrow> adi_regs" where
  "headset_detect_init r =
     headset_reg_set_val ANA_HDT0 AUDIO_HEAD_INS_VREF_2P1 AUDIO_HEAD_INS_VREF_MASK AUDIO_HEAD_INS_VREF_SHIFT
       (headset_reg_set_val ANA_HDT0 AUDIO_HEAD_SDET_2P5 AUDIO_HEAD_SDET_MASK AUDIO_HEAD_SDET_SHIFT
         (headset_reg_set_bit ANA_PMU1 AUDIO_PMUR1 (headset_detect_clk_en r)))"

subsection \<open>Platform data and state\<close>

record headset_buttons =
  adc_min :: int
  adc_max :: int
  hb_code :: int

record hs_pdata =
  gpio_switch :: int
  irq_trigger_level_detect :: int
  irq_trigger_level_button :: int
  adc_threshold_3pole_detect :: int
  irq_threshold_buttont :: u32
  nbuttons :: int
  hs_buttons :: "headset_buttons list"
  external_headmicbias :: bool

text \<open>The driver's globals (\<open>plug_state_last\<close>, \<open>button_state_last\<close>,
  \<open>current_key_code\<close>, the last GPIO levels, \<open>headset\<close>'s \<open>headphone\<close> and \<open>type\<close>), the
  function-local statics (\<open>current_irq_state\<close> of the two interrupt enables,
  \<open>current_power_state\<close> of \<open>headmic_sleep_disable\<close> and \<open>headmicbias_power_on\<close>),
  the disable depth the IRQ core keeps for each line, the regulator enable counts of
  \<open>HEADMICBIAS\<close> and \<open>VBO\<close>, whether the audio block keeps \<open>VCOM_BUF\<close> on, the
  switch devices, the trigger types, the \<open>gpio_switch\<close> output, the key events
  reported so far, and the queued work items.\<close>

record hs_state =
  hs_regs :: adi_regs
  plug_state_last :: int
  button_state_last :: int
  current_key_code :: int
  gpio_detect_value_last :: int
  gpio_button_value_last :: int
  hs_headphone :: int
  hs_type :: int
  btn_irq_state :: bool
  btn_irq_depth :: nat
  det_irq_state :: bool
  det_irq_depth :: nat
  btn_irq_type :: int
  det_irq_type :: int
  sleep_dis_state :: bool
  micbias_state :: bool
  head_mic_ok :: bool
  head_mic_en :: int
  head_mic_normal :: bool
  vbo_en :: int
  vcom_buf_on :: bool
  sdev_state :: int
  sendend_state :: int
  gpio_switch_out :: int
  hs_events :: "(int \<times> int) list"
  button_work_pending :: bool
  detect_work_pending :: bool
  press_verify_pending :: bool
  adpgar_pending :: bool
  bug_fix_stage :: bool
  debug_level :: int
  reg_dump_pending :: bool

subsection \<open>Power and interrupt helpers\<close>

text \<open>\<open>sprd_headset_audio_block_is_running\<close>, and the two regulator switches; the
  regulator calls succeed.\<close>

definition sprd_headset_audio_block_is_running :: "hs_state \<Rightarrow> bool" where
  "sprd_headset_audio_block_is_running s = (vcom_buf_on s \<or> vbo_en s > 0)"

definition sprd_headset_audio_headmic_sleep_disable :: "bool \<Rightarrow> hs_state \<Rightarrow> int \<times> hs_state" where
  "sprd_headset_audio_headmic_sleep_disable on s =
     (if \<not> head_mic_ok s then (-1, s)
      else if on then (0, s\<lparr>vbo_en := vbo_en s + 1, head_mic_normal := True\<rparr>)
      else (let s1 = s\<lparr>vbo_en := vbo_en s - 1\<rparr>
            in (0, s1\<lparr>head_mic_normal := sprd_headset_audio_block_is_running s1\<rparr>)))"

definition sprd_headset_headmic_bias_control :: "bool \<Rightarrow> hs_state \<Rightarrow> int \<times> hs_state" where
  "sprd_headset_headmic_bias_control on s =
     (if \<not> head_mic_ok s then (-1, s)
      else (let s1 = s\<lparr>head_mic_en := head_mic_en s + (if on then 1 else -1)\<rparr>
            in (0, s1\<lparr>head_mic_normal := sprd_headset_audio_block_is_running s1\<rparr>)))"

definition headmic_sleep_disable :: "bool \<Rightarrow> hs_state \<Rightarrow> hs_state" where
  "headmic_sleep_disable on s =
     (if on then (if \<not> sleep_dis_state s
                  then (snd (sprd_headset_audio_headmic_sleep_disable True s))\<lparr>sleep_dis_state := True\<rparr> else s)
      else (if sleep_dis_state s
            then (snd (sprd_headset_audio_headmic_sleep_disable False s))\<lparr>sleep_dis_state := False\<rparr> else s))"

definition headmicbias_power_on :: "bool \<Rightarrow> hs_state \<Rightarrow> hs_state" where
  "headmicbias_power_on on s =
     (if on then (if \<not> micbias_state s
                  then (snd (sprd_headset_headmic_bias_control True s))\<lparr>micbias_state := True\<rparr> else s)
      else (if micbias_state s
            then (snd (sprd_headset_headmic_bias_control False s))\<lparr>micbias_state := False\<rparr> else s))"

text \<open>\<open>headset_adc_en\<close> (above \<open>debug_level\<close> 2 the ADC path is left connected for
  debugging) and \<open>set_adc_to_headmic\<close>.\<close>

definition headset_adc_en :: "bool \<Rightarrow> hs_state \<Rightarrow> hs_state" where
  "headset_adc_en en s =
     (if en then headmic_sleep_disable True
                   (s\<lparr>hs_regs := headset_reg_set_val ANA_HDT0 AUDIO_HEAD2ADC_SEL_HEADMIC_IN AUDIO_HEAD2ADC_SEL_MASK
                                   AUDIO_HEAD2ADC_SEL_SHIFT (headset_reg_set_bit ANA_HDT0 AUDIO_V2ADC_EN (hs_regs s))\<rparr>)
      else headmic_sleep_disable False
             (if debug_level s \<le> 2
              then s\<lparr>hs_regs := headset_reg_set_val ANA_HDT0 AUDIO_HEAD2ADC_SEL_DISABLE AUDIO_HEAD2ADC_SEL_MASK
                               AUDIO_HEAD2ADC_SEL_SHIFT (headset_reg_clr_bit ANA_HDT0 AUDIO_V2ADC_EN (hs_regs s))\<rparr>
              else s))"

definition set_adc_to_headmic :: "bool \<Rightarrow> hs_state \<Rightarrow> hs_state" where
  "set_adc_to_headmic is_set s =
     (let s1 = headset_adc_en True s
      in s1\<lparr>hs_regs := headset_reg_set_val ANA_HDT0
                         (if is_set then AUDIO_HEAD2ADC_SEL_HEADMIC_IN else AUDIO_HEAD2ADC_SEL_HEADSET_L_INT)
                         AUDIO_HEAD2ADC_SEL_MASK AUDIO_HEAD2ADC_SEL_SHIFT (hs_regs s1)\<rparr>)"

definition headset_button_irq_threshold :: "hs_pdata \<Rightarrow> bool \<Rightarrow> hs_state \<Rightarrow> hs_state" where
  "headset_button_irq_threshold pd en s =
     s\<lparr>hs_regs := headset_reg_set_val ANA_HDT0 (if en then irq_threshold_buttont pd else 0xF)
                    AUDIO_HEAD_SBUT_MASK AUDIO_HEAD_SBUT_SHIFT (hs_regs s)\<rparr>"

text \<open>The two interrupt enables: the static flag keeps \<open>enable_irq\<close> and
  \<open>disable_irq_nosync\<close> from being called twice in a row.\<close>

definition headset_irq_button_enable :: "bool \<Rightarrow> hs_state \<Rightarrow> hs_state" where
  "headset_irq_button_enable en s =
     (if en then (if \<not> btn_irq_state s then s\<lparr>btn_irq_depth := btn_irq_depth s - 1, btn_irq_state := True\<rparr> else s)
      else (if btn_irq_state s then s\<lparr>btn_irq_depth := btn_irq_depth s + 1, btn_irq_state := False\<rparr> else s))"

definition headset_irq_detect_enable :: "bool \<Rightarrow> hs_state \<Rightarrow> hs_state" where
  "headset_irq_detect_enable en s =
     (if en then (if \<not> det_irq_state s then s\<lparr>det_irq_depth := det_irq_depth s - 1, det_irq_state := True\<rparr> else s)
      else (if det_irq_state s then s\<lparr>det_irq_depth := det_irq_depth s + 1, det_irq_state := False\<rparr> else s))"

definition trigger_of :: "int \<Rightarrow> bool \<Rightarrow> int" where
  "trigger_of level active = (if (level = 1) = active then IRQF_TRIGGER_HIGH else IRQF_TRIGGER_LOW)"

subsection \<open>ADC readings and headset classification\<close>

text \<open>\<open>wrap_sci_adc_get_value\<close>: the average of \<open>SCI_ADC_GET_VALUE_COUNT\<close> samples of
  \<open>sci_adc_get_value\<close>, sample \<open>i\<close> being \<open>smp i\<close>.\<close>

definition wrap_sci_adc_get_value :: "(nat \<Rightarrow> int) \<Rightarrow> int" where
  "wrap_sci_adc_get_value smp =
     c_div (sum_list (map smp [0..<SCI_ADC_GET_VALUE_COUNT])) (int SCI_ADC_GET_VALUE_COUNT)"

text \<open>\<open>adc_get_average\<close> (the \<open>#if 1\<close> branch, at \<open>debug_level\<close> below 3): \<open>-1\<close>
  when the GPIO level \<open>gpio_now\<close> is no longer \<open>gpio_value\<close>.\<close>

definition adc_get_average :: "int \<Rightarrow> int \<Rightarrow> (nat \<Rightarrow> int) \<Rightarrow> int" where
  "adc_get_average gpio_now gpio_value smp =
     (if gpio_now \<noteq> gpio_value then -1 else wrap_sci_adc_get_value smp)"

definition headset_button_valid :: "hs_pdata \<Rightarrow> int \<Rightarrow> bool" where
  "headset_button_valid pd g = (if irq_trigger_level_detect pd = 1 then g = 1 else g = 0)"

definition headset_gpio_2_button_state :: "hs_pdata \<Rightarrow> int \<Rightarrow> int" where
  "headset_gpio_2_button_state pd g =
     (if irq_trigger_level_button pd = 1 then (if g = 1 then 1 else 0) else (if g = 0 then 1 else 0))"

text \<open>What one pass of the classification loop reads: the detect GPIO inside
  \<open>adc_get_average\<close>, the ADC samples, and the detect GPIO after.\<close>

record hs_sample =
  smp_gpio_adc :: int
  smp_adc :: "nat \<Rightarrow> int"
  smp_gpio_after :: int

text \<open>The loop of \<open>headset_type_detect\<close> from the label \<open>no_mic_retry\<close>: pass \<open>k\<close>
  reads \<open>smp k\<close>; the counter \<open>no_mic_retry_count\<close> bounds the jumps back. The left
  channel measurement is compiled out (\<open>#if 0\<close>), so \<open>adc_left_average\<close> stays 0.
  The result is the type and the number of passes made.\<close>

partial_function (option) headset_type_detect_loop ::
  "hs_pdata \<Rightarrow> (nat \<Rightarrow> hs_sample) \<Rightarrow> int \<Rightarrow> nat \<Rightarrow> nat \<Rightarrow> hs_state \<Rightarrow>
   (sprd_headset_type \<times> nat \<times> hs_state) option" where
  "headset_type_detect_loop pd smp lastv k cnt s =
     (let s1 = set_adc_to_headmic True s;
          a = smp k;
          adc_left_average = (0 :: int);
          adc_mic_average = adc_get_average (smp_gpio_adc a) lastv (smp_adc a)
      in if adc_mic_average = -1 then Some (HEADSET_TYPE_ERR, Suc k, s1)
         else if smp_gpio_after a \<noteq> lastv then Some (HEADSET_TYPE_ERR, Suc k, s1)
         else if adc_left_average < ADC_GND \<and> adc_mic_average < adc_threshold_3pole_detect pd
         then (if cnt \<noteq> 0 then headset_type_detect_loop pd smp lastv (Suc k) (cnt - 1) s1
               else Some (HEADSET_NO_MIC, Suc k, s1))
         else if adc_left_average < ADC_GND \<and> adc_mic_average > ADC_GND then Some (HEADSET_NORMAL, Suc k, s1)
         else if adc_left_average > ADC_GND \<and> adc_mic_average > ADC_GND \<and>
                 \<bar>adc_mic_average - adc_left_average\<bar> < ADC_GND
         then Some (HEADSET_NORTH_AMERICA, Suc k, s1)
         else Some (HEADSET_TYPE_ERR, Suc k, s1))"

declare headset_type_detect_loop.simps [code]

definition headset_type_detect ::
  "hs_pdata \<Rightarrow> (nat \<Rightarrow> hs_sample) \<Rightarrow> int \<Rightarrow> hs_state \<Rightarrow> (sprd_headset_type \<times> nat \<times> hs_state) option" where
  "headset_type_detect pd smp lastv s =
     (let s1 = (if gpio_switch pd \<noteq> 0 then s\<lparr>gpio_switch_out := 0\<rparr> else s);
          s2 = headset_button_irq_threshold pd True s1;
          s3 = s2\<lparr>hs_regs := headset_detect_circuit True (headset_detect_init (hs_regs s2))\<rparr>
      in headset_type_detect_loop pd smp lastv 0 NO_MIC_RETRY_COUNT s3)"

subsection \<open>Button events\<close>

definition input_key :: "int \<Rightarrow> hs_state \<Rightarrow> hs_state" where
  "input_key v s = s\<lparr>hs_events := hs_events s @ [(current_key_code s, v)], sendend_state := v,
                     button_state_last := v\<rparr>"

definition button_release_verify :: "hs_pdata \<Rightarrow> hs_state \<Rightarrow> hs_state" where
  "button_release_verify pd s =
     (if button_state_last s = 1
      then (input_key 0 s)\<lparr>btn_irq_type := trigger_of (irq_trigger_level_button pd) True\<rparr>
      else s)"

definition button_press_verify_func :: "hs_state \<Rightarrow> hs_state" where
  "button_press_verify_func s =
     (if plug_state_last s \<noteq> 0
      then (if button_state_last s = 0 then input_key 1 s else s\<lparr>adpgar_pending := True\<rparr>)
      else s)"

text \<open>The key lookup of \<open>headset_button_work_func\<close>: the first button whose ADC range
  holds the reading; every button passed over sets \<open>KEY_RESERVED\<close>.\<close>

fun hs_key_lookup :: "headset_buttons list \<Rightarrow> int \<Rightarrow> int \<Rightarrow> int" where
  "hs_key_lookup [] adc cur = cur"
| "hs_key_lookup (b # bs) adc cur =
     (if adc \<ge> adc_min b \<and> adc < adc_max b then hb_code b else hs_key_lookup bs adc KEY_RESERVED)"

text \<open>What the button work reads: the button GPIO, the button GPIO inside
  \<open>adc_get_average\<close>, and the ADC samples.\<close>

record hs_button_hw =
  bhw_gpio :: int
  bhw_gpio_adc :: int
  bhw_adc :: "nat \<Rightarrow> int"

definition headset_button_work_func :: "hs_pdata \<Rightarrow> hs_button_hw \<Rightarrow> hs_state \<Rightarrow> hs_state" where
  "headset_button_work_func pd hw s =
     (let s1 = set_adc_to_headmic True s;
          out = (\<lambda>t. headset_irq_button_enable True (headset_adc_en False t));
          g = bhw_gpio hw
      in if g \<noteq> gpio_button_value_last s1 then out (s1\<lparr>adpgar_pending := True\<rparr>)
         else if headset_gpio_2_button_state pd g = 1 then
           (if nbuttons pd > 0 \<and>
               adc_get_average (bhw_gpio_adc hw) (gpio_button_value_last s1) (bhw_adc hw) = -1
            then out (s1\<lparr>adpgar_pending := True\<rparr>)
            else
              (let adc = adc_get_average (bhw_gpio_adc hw) (gpio_button_value_last s1) (bhw_adc hw);
                   s2 = (if nbuttons pd > 0
                         then s1\<lparr>current_key_code :=
                                   hs_key_lookup (take (nat (nbuttons pd)) (hs_buttons pd)) adc (current_key_code s1)\<rparr>
                         else s1);
                   s3 = s2\<lparr>press_verify_pending := True,
                           btn_irq_type := trigger_of (irq_trigger_level_button pd) False\<rparr>
               in out (headset_irq_button_enable True s3)))
         else
           (let s2 = (if button_state_last s1 = 1 then input_key 0 s1 else s1);
                s3 = s2\<lparr>btn_irq_type := trigger_of (irq_trigger_level_button pd) True\<rparr>
            in out (headset_irq_button_enable True s3)))"

subsection \<open>Plug detection\<close>

text \<open>What the detect work reads: the detect GPIO and the passes of the
  classification.\<close>

record hs_detect_hw =
  dhw_gpio :: int
  dhw_samples :: "nat \<Rightarrow> hs_sample"

definition hs_plugged_in ::
  "hs_pdata \<Rightarrow> sprd_headset_type \<Rightarrow> hs_state \<Rightarrow> hs_state" where
  "hs_plugged_in pd t s =
     (let s1 = (case t of
                  HEADSET_NORTH_AMERICA \<Rightarrow> if gpio_switch pd \<noteq> 0 then s\<lparr>gpio_switch_out := 1\<rparr> else s
                | HEADSET_NORMAL \<Rightarrow> if gpio_switch pd \<noteq> 0 then s\<lparr>gpio_switch_out := 0\<rparr> else s
                | HEADSET_NO_MIC \<Rightarrow> if gpio_switch pd \<noteq> 0 then s\<lparr>gpio_switch_out := 0\<rparr> else s
                | _ \<Rightarrow> s);
          s2 = s1\<lparr>hs_headphone := (if t = HEADSET_NO_MIC then 1 else 0)\<rparr>;
          s3 = (if t = HEADSET_NO_MIC
                then (let u = headset_irq_button_enable False (headset_button_irq_threshold pd False s2)
                      in (headmicbias_power_on False (u\<lparr>hs_type := BIT_HEADSET_NO_MIC\<rparr>))
                           \<lparr>sdev_state := BIT_HEADSET_NO_MIC\<rparr>)
                else (let u = headset_button_irq_threshold pd True s2;
                          v = (if t = HEADSET_NORTH_AMERICA \<and> gpio_switch pd = 0
                               then headset_irq_button_enable False u
                               else headset_irq_button_enable True
                                      (u\<lparr>btn_irq_type := trigger_of (irq_trigger_level_button pd) True\<rparr>))
                      in v\<lparr>hs_type := BIT_HEADSET_MIC, sdev_state := BIT_HEADSET_MIC, adpgar_pending := True\<rparr>));
          s4 = s3\<lparr>plug_state_last := 1, det_irq_type := trigger_of (irq_trigger_level_detect pd) False\<rparr>
      in headset_irq_detect_enable True s4)"

definition hs_plugged_out :: "hs_pdata \<Rightarrow> hs_state \<Rightarrow> hs_state" where
  "hs_plugged_out pd s =
     (let s1 = button_release_verify pd (headset_irq_button_enable False s);
          s2 = s1\<lparr>hs_type := BIT_HEADSET_OUT, sdev_state := BIT_HEADSET_OUT, plug_state_last := 0,
                  det_irq_type := trigger_of (irq_trigger_level_detect pd) True\<rparr>
      in headset_irq_detect_enable True s2)"

text \<open>The tail of \<open>headset_detect_work_func\<close>: label \<open>out\<close> powers the microphone bias
  down when unplugged and falls into \<open>out_1\<close>, which re-enables the detect
  interrupt.\<close>

definition hs_detect_out :: "bool \<Rightarrow> hs_state \<Rightarrow> hs_state" where
  "hs_detect_out skip_out s =
     headset_irq_detect_enable True
       (if \<not> skip_out \<and> plug_state_last s = 0 then headmicbias_power_on False s else s)"

definition headset_detect_work_func ::
  "hs_pdata \<Rightarrow> hs_detect_hw \<Rightarrow> hs_state \<Rightarrow> hs_state option" where
  "headset_detect_work_func pd hw s =
     (let s1 = (if plug_state_last s = 0 then headmicbias_power_on True s else s);
          g = dhw_gpio hw
      in if plug_state_last s1 = 0 \<and> g \<noteq> gpio_detect_value_last s1 then Some (hs_detect_out False s1)
         else
           (let plug_state_current =
                  (if plug_state_last s1 = 0
                   then (if irq_trigger_level_detect pd = 1 then (if g = 1 then 1 else 0)
                         else (if g = 0 then 1 else 0))
                   else (0 :: int))
            in if plug_state_current = 1 \<and> plug_state_last s1 = 0 then
                 (case headset_type_detect pd (dhw_samples hw) (gpio_detect_value_last s1) s1 of
                    None \<Rightarrow> None
                  | Some (t, _, s2) \<Rightarrow>
                      (let s3 = headset_adc_en False s2
                       in if t = HEADSET_TYPE_ERR then Some (hs_detect_out False s3)
                          else Some (hs_detect_out False (hs_plugged_in pd t s3))))
               else if plug_state_current = 0 \<and> plug_state_last s1 = 1 then
                 (let s2 = hs_plugged_out pd s1 in Some (hs_detect_out (hs_headphone s2 \<noteq> 0) s2))
               else Some (hs_detect_out False s1)))"

subsection \<open>Interrupt handlers and the remaining work\<close>

definition headset_button_hardware_bug_fix :: "hs_state \<Rightarrow> hs_state" where
  "headset_button_hardware_bug_fix s = (if bug_fix_stage s then headset_irq_button_enable False s else s)"

definition headset_button_irq_handler :: "hs_pdata \<Rightarrow> int \<Rightarrow> int \<Rightarrow> hs_state \<Rightarrow> hs_state" where
  "headset_button_irq_handler pd g_det g_btn s =
     (if hs_type s \<noteq> BIT_HEADSET_MIC then headset_irq_button_enable False s
      else if \<not> headset_button_valid pd g_det then
        (let s1 = headset_button_hardware_bug_fix s
         in if plug_state_last s1 = 0 then headset_irq_button_enable False s1 else s1)
      else
        (let bsc = headset_gpio_2_button_state pd g_btn;
             s1 = (if bsc = 0 then s\<lparr>adpgar_pending := True\<rparr> else s)
         in if bsc = button_state_last s1 then s1
            else (headset_irq_button_enable False s1)\<lparr>gpio_button_value_last := g_btn,
                                                      button_work_pending := True\<rparr>))"

definition headset_detect_irq_handler :: "int \<Rightarrow> hs_state \<Rightarrow> hs_state" where
  "headset_detect_irq_handler g_det s =
     (headset_irq_detect_enable False (headset_irq_button_enable False s))
       \<lparr>gpio_detect_value_last := g_det, detect_work_pending := True\<rparr>"

text \<open>\<open>adpgar_byp_select_func\<close> routes the headset microphone to the right ADC for 100 ms
  and back.\<close>

definition adpgar_byp_select_func :: "hs_state \<Rightarrow> hs_state" where
  "adpgar_byp_select_func s =
     s\<lparr>hs_regs := headset_reg_set_val ANA_CDC1 AUDIO_ADPGAR_BYP_NORMAL AUDIO_ADPGAR_BYP_MASK AUDIO_ADPGAR_BYP_SHIFT
                    (headset_reg_set_val ANA_CDC1 AUDIO_ADPGAR_BYP_HEADMIC_2_ADCR AUDIO_ADPGAR_BYP_MASK
                       AUDIO_ADPGAR_BYP_SHIFT (hs_regs s))\<rparr>"

subsection \<open>Power-up, sysfs and device tree\<close>

text \<open>\<open>sprd_headset_power_get\<close> on an unrequested regulator: when \<open>regulator_get\<close>
  fails (\<open>ok\<close> false) it clears the pointer and returns \<open>PTR_ERR\<close> of the cleared
  pointer, which is 0. The second component is whether the regulator is held.\<close>

definition sprd_headset_power_get :: "bool \<Rightarrow> int \<times> bool" where
  "sprd_headset_power_get ok = (if ok then (0, True) else (0, False))"

text \<open>\<open>sprd_headset_power_init\<close> over the outcomes of the three \<open>regulator_get\<close> calls:
  the result and whether \<open>HEADMICBIAS\<close> is held.\<close>

definition sprd_headset_power_init :: "bool \<Rightarrow> bool \<Rightarrow> bool \<Rightarrow> int \<times> bool" where
  "sprd_headset_power_init mic vcom vbo =
     (let (r1, m) = sprd_headset_power_get mic
      in if r1 \<noteq> 0 \<or> \<not> m then (r1, False)
         else (let (r2, _) = sprd_headset_power_get vcom
               in if r2 \<noteq> 0 then (r2, False)
                  else (let (r3, _) = sprd_headset_power_get vbo in if r3 \<noteq> 0 then (r3, False) else (r3, True))))"

text \<open>\<open>key_state_onoff_show\<close>: \<open>snprintf(buf, 4, "%d\n", button_state_last)\<close>, at most
  three characters and the NUL.\<close>

definition key_state_onoff_show :: "hs_state \<Rightarrow> string" where
  "key_state_onoff_show s = take 3 (sprintf_d (button_state_last s) @ ''\<newline>'')"

definition headset_debug_sysfs_init :: "bool \<Rightarrow> int \<Rightarrow> int" where
  "headset_debug_sysfs_init kobj_ok sysfs_rc = (if \<not> kobj_ok then - ENOMEM else sysfs_rc)"

text \<open>The resources \<open>headset_detect_probe\<close> acquires, in order.\<close>

datatype hs_resource = GpioSwitch | GpioDetect | GpioButton | SwitchSdev | SwitchSendend | InputDev
  | WqButton | WqDetect | WqRegDump | WqAdpgar | IrqButton | IrqDetect

record hs_probe_env =
  pe_regs :: adi_regs
  pe_reg_mic :: bool
  pe_reg_vcom :: bool
  pe_reg_vbo :: bool
  pe_gpio_switch :: int
  pe_gpio_detect :: int
  pe_gpio_button :: int
  pe_sdev :: int
  pe_sendend :: int
  pe_input_alloc :: bool
  pe_input_register :: int
  pe_devfile :: int
  pe_wq :: "hs_resource \<Rightarrow> bool"
  pe_irq_button :: int
  pe_irq_detect :: int
  pe_kobj :: bool
  pe_sysfs :: int

record hs_probe_result =
  hpr_rc :: int
  hpr_state :: "hs_state option"
  hpr_held :: "hs_resource list"

definition hs_probe_fail :: "int \<Rightarrow> hs_resource list \<Rightarrow> hs_probe_result" where
  "hs_probe_fail rc held = \<lparr>hpr_rc = rc, hpr_state = None, hpr_held = held\<rparr>"

text \<open>The state after a probe that got through: the button interrupt is requested
  enabled and then disabled, the detect interrupt stays enabled.\<close>

definition hs_initial_state :: "hs_pdata \<Rightarrow> hs_probe_env \<Rightarrow> bool \<Rightarrow> hs_state" where
  "hs_initial_state pd pe mic_ok =
     (let r = headset_reg_set_val EIC8_DBNC_CTRL DBNC_CNT8_VALUE DBNC_CNT8_MASK DBNC_CNT8_SHIFT
                (headset_reg_set_val EIC3_DBNC_CTRL DBNC_CNT3_VALUE DBNC_CNT3_MASK DBNC_CNT3_SHIFT
                  (headset_detect_init (pe_regs pe)))
      in \<lparr>hs_regs = r, plug_state_last = 0, button_state_last = 0, current_key_code = KEY_RESERVED,
          gpio_detect_value_last = 0, gpio_button_value_last = 0, hs_headphone = 0, hs_type = BIT_HEADSET_OUT,
          btn_irq_state = False, btn_irq_depth = 1, det_irq_state = True, det_irq_depth = 0,
          btn_irq_type = trigger_of (irq_trigger_level_button pd) True,
          det_irq_type = trigger_of (irq_trigger_level_detect pd) True,
          sleep_dis_state = False, micbias_state = False, head_mic_ok = mic_ok, head_mic_en = 0,
          head_mic_normal = False, vbo_en = 0, vcom_buf_on = False, sdev_state = BIT_HEADSET_OUT,
          sendend_state = 0, gpio_switch_out = 0, hs_events = [], button_work_pending = False,
          detect_work_pending = False, press_verify_pending = False, adpgar_pending = False,
          bug_fix_stage = False, debug_level = 0, reg_dump_pending = False\<rparr>)"

definition hs_all_resources :: "hs_pdata \<Rightarrow> hs_resource list" where
  "hs_all_resources pd =
     (if gpio_switch pd \<noteq> 0 then [GpioSwitch] else []) @
     [GpioDetect, GpioButton, SwitchSdev, SwitchSendend, InputDev, WqButton, WqDetect, WqRegDump, WqAdpgar,
      IrqButton, IrqDetect]"

text \<open>\<open>headset_detect_probe\<close>: \<open>None\<close> platform data is the failed
  \<open>headset_detect_parse_dt\<close>. Every \<open>goto\<close> releases what was acquired before the
  failing step, except the failure of the second \<open>switch_dev_register\<close>, which jumps
  past the release of the first. A failed \<open>create_singlethread_workqueue\<close> leaves
  \<open>ret\<close> at the result of \<open>device_create_file\<close> (only printed when it fails), and the
  result of
  \<open>headset_debug_sysfs_init\<close> is returned with everything still registered.\<close>

definition headset_detect_probe :: "hs_pdata option \<Rightarrow> hs_probe_env \<Rightarrow> hs_probe_result" where
  "headset_detect_probe pdo pe =
     (case pdo of None \<Rightarrow> hs_probe_fail (- EINVAL) []
      | Some pd \<Rightarrow>
        (let (prc, mic_ok) = sprd_headset_power_init (pe_reg_mic pe) (pe_reg_vcom pe) (pe_reg_vbo pe)
         in if prc \<noteq> 0 then hs_probe_fail prc []
            else if gpio_switch pd \<noteq> 0 \<and> pe_gpio_switch pe < 0 then hs_probe_fail (pe_gpio_switch pe) []
            else if pe_gpio_detect pe < 0 then hs_probe_fail (pe_gpio_detect pe) []
            else if pe_gpio_button pe < 0 then hs_probe_fail (pe_gpio_button pe) []
            else if pe_sdev pe < 0 then hs_probe_fail (pe_sdev pe) []
            else if pe_sendend pe < 0 then hs_probe_fail (pe_sendend pe) [SwitchSdev]
            else if \<not> pe_input_alloc pe then hs_probe_fail (- ENOMEM) []
            else if pe_input_register pe \<noteq> 0 then hs_probe_fail (pe_input_register pe) []
            else if \<not> pe_wq pe WqButton \<or> \<not> pe_wq pe WqDetect \<or> \<not> pe_wq pe WqRegDump \<or> \<not> pe_wq pe WqAdpgar
            then hs_probe_fail (pe_devfile pe) []
            else if pe_irq_button pe \<noteq> 0 then hs_probe_fail (pe_irq_button pe) []
            else if pe_irq_detect pe < 0 then hs_probe_fail (pe_irq_detect pe) []
            else \<lparr>hpr_rc = headset_debug_sysfs_init (pe_kobj pe) (pe_sysfs pe),
                  hpr_state = Some (hs_initial_state pd pe mic_ok), hpr_held = hs_all_resources pd\<rparr>))"

text \<open>\<open>get_hp_plug_state\<close>, exported to the audio driver.\<close>

definition get_hp_plug_state :: "hs_state \<Rightarrow> int" where
  "get_hp_plug_state s = (if plug_state_last s \<noteq> 0 then 1 else 0)"

text \<open>\<open>simple_strtoul(buff, NULL, 10)\<close>: the value of the leading decimal digits.\<close>

definition c_isdigit :: "char \<Rightarrow> bool" where
  "c_isdigit c = (48 \<le> (of_char c :: nat) \<and> (of_char c :: nat) < 58)"

definition simple_strtoul :: "string \<Rightarrow> nat" where
  "simple_strtoul str = foldl (\<lambda>acc c. 10 * acc + (of_char c - 48)) 0 (takeWhile c_isdigit str)"

definition headset_debug_level_show :: "hs_state \<Rightarrow> string" where
  "headset_debug_level_show s = sprintf_d (debug_level s) @ ''\<newline>''"

text \<open>\<open>headset_debug_level_store\<close>: the \<open>unsigned long\<close> is stored in the \<open>int\<close>
  \<open>debug_level\<close>, keeping its low 32 bits.\<close>

definition headset_debug_level_store :: "string \<Rightarrow> hs_state \<Rightarrow> nat \<times> hs_state" where
  "headset_debug_level_store buff s =
     (let lvl = sint (word_of_nat (simple_strtoul buff) :: s32);
          s1 = s\<lparr>debug_level := lvl\<rparr>
      in (length buff, if lvl \<ge> 2 then s1\<lparr>reg_dump_pending := True\<rparr> else s1))"

text \<open>\<open>reg_dump_func\<close> only reads and prints; it queues itself again while
  \<open>debug_level\<close> is at least 2.\<close>

definition reg_dump_func :: "hs_state \<Rightarrow> hs_state" where
  "reg_dump_func s = (if debug_level s \<ge> 2 then s\<lparr>reg_dump_pending := True\<rparr> else s)"

text \<open>\<open>headset_suspend\<close> and \<open>headset_resume\<close> only print; \<open>sprd_headset_power_deinit\<close>
  releases the three regulators at module exit.\<close>

definition headset_suspend :: "hs_state \<Rightarrow> int \<times> hs_state" where
  "headset_suspend s = (0, s)"

definition headset_resume :: "hs_state \<Rightarrow> int \<times> hs_state" where
  "headset_resume s = (0, s)"

definition sprd_headset_power_deinit :: "hs_state \<Rightarrow> hs_state" where
  "sprd_headset_power_deinit s = s\<lparr>head_mic_ok := False\<rparr>"

text \<open>\<open>headset_detect_parse_dt\<close> over the device-tree accessors: \<open>dt_prop\<close> is
  \<open>of_property_read_u32\<close> on the node, \<open>dt_children\<close> the same on each child node, and
  the two \<open>kzalloc\<close> outcomes. Besides the platform data, the result says whether a
  child was written past the \<open>nbuttons\<close> entries allocated, and whether \<open>kfree\<close> was
  given the advanced pointer \<open>buttons_data\<close> instead of the allocated one.\<close>

record hs_dt =
  dt_prop :: "string \<Rightarrow> u32 option"
  dt_children :: "(string \<Rightarrow> u32 option) list"
  dt_alloc_pdata :: bool
  dt_alloc_buttons :: bool

record hs_dt_result =
  dtr_pdata :: "hs_pdata option"
  dtr_overflow :: bool
  dtr_bad_free :: bool

definition hs_dt_props :: "string list" where
  "hs_dt_props = [''gpio_switch'', ''gpio_detect'', ''gpio_button'', ''irq_trigger_level_detect'',
     ''irq_trigger_level_button'', ''adc_threshold_3pole_detect'', ''adc_threshold_4pole_detect'',
     ''irq_threshold_buttont'', ''voltage_headmicbias'', ''delay'', ''nbuttons'']"

fun hs_parse_buttons ::
  "(string \<Rightarrow> u32 option) list \<Rightarrow> nat \<Rightarrow> headset_buttons list \<Rightarrow> (headset_buttons list, nat) sum" where
  "hs_parse_buttons [] i acc = Inl acc"
| "hs_parse_buttons (c # cs) i acc =
     (case (c ''adc_min'', c ''adc_max'', c ''code'', c ''type'') of
        (Some mn, Some mx, Some cd, Some _) \<Rightarrow>
          hs_parse_buttons cs (Suc i) (acc @ [\<lparr>adc_min = uint mn, adc_max = uint mx, hb_code = uint cd\<rparr>])
      | _ \<Rightarrow> Inr i)"

definition headset_detect_parse_dt :: "hs_dt \<Rightarrow> hs_dt_result" where
  "headset_detect_parse_dt dt =
     (if \<not> dt_alloc_pdata dt \<or> (\<exists>p \<in> set hs_dt_props. dt_prop dt p = None)
      then \<lparr>dtr_pdata = None, dtr_overflow = False, dtr_bad_free = False\<rparr>
      else
        (let v = (\<lambda>p. the (dt_prop dt p)); nb = uint (v ''nbuttons'')
         in if \<not> dt_alloc_buttons dt then \<lparr>dtr_pdata = None, dtr_overflow = False, dtr_bad_free = False\<rparr>
            else (case hs_parse_buttons (dt_children dt) 0 [] of
                    Inr i \<Rightarrow> \<lparr>dtr_pdata = None, dtr_overflow = (int i > nb), dtr_bad_free = (i \<noteq> 0)\<rparr>
                  | Inl bs \<Rightarrow>
                      \<lparr>dtr_pdata = Some \<lparr>gpio_switch = uint (v ''gpio_switch''),
                          irq_trigger_level_detect = uint (v ''irq_trigger_level_detect''),
                          irq_trigger_level_button = uint (v ''irq_trigger_level_button''),
                          adc_threshold_3pole_detect = uint (v ''adc_threshold_3pole_detect''),
                          irq_threshold_buttont = v ''irq_threshold_buttont'', nbuttons = nb,
                          hs_buttons = bs, external_headmicbias = False\<rparr>,
                       dtr_overflow = (int (length bs) > nb), dtr_bad_free = False\<rparr>)))"

subsection \<open>The machine\<close>

datatype hs_event =
    DetectIrq int
  | ButtonIrq int int
  | DetectWork hs_detect_hw
  | ButtonWork hs_button_hw
  | PressVerify
  | AdpgarWork
  | AudioBlock bool
  | DebugLevelStore string
  | RegDumpWork

fun hs_step :: "hs_pdata \<Rightarrow> hs_state \<Rightarrow> hs_event \<Rightarrow> hs_state option" where
  "hs_step pd s (DetectIrq g) = (if det_irq_depth s = 0 then Some (headset_detect_irq_handler g s) else None)"
| "hs_step pd s (ButtonIrq gd gb) = (if btn_irq_depth s = 0 then Some (headset_button_irq_handler pd gd gb s) else None)"
| "hs_step pd s (DetectWork hw) =
     (if detect_work_pending s then headset_detect_work_func pd hw (s\<lparr>detect_work_pending := False\<rparr>) else None)"
| "hs_step pd s (ButtonWork hw) =
     (if button_work_pending s then Some (headset_button_work_func pd hw (s\<lparr>button_work_pending := False\<rparr>))
      else None)"
| "hs_step pd s PressVerify =
     (if press_verify_pending s then Some (button_press_verify_func (s\<lparr>press_verify_pending := False\<rparr>)) else None)"
| "hs_step pd s AdpgarWork =
     (if adpgar_pending s then Some (adpgar_byp_select_func (s\<lparr>adpgar_pending := False\<rparr>)) else None)"
| "hs_step pd s (AudioBlock b) = Some (s\<lparr>vcom_buf_on := b\<rparr>)"
| "hs_step pd s (DebugLevelStore b) = Some (snd (headset_debug_level_store b s))"
| "hs_step pd s RegDumpWork = (if reg_dump_pending s then Some (reg_dump_func (s\<lparr>reg_dump_pending := False\<rparr>)) else None)"


text \<open>A sequence of events run in order; \<open>None\<close> when one of them cannot happen.\<close>

fun hs_run :: "hs_pdata \<Rightarrow> hs_state \<Rightarrow> hs_event list \<Rightarrow> hs_state option" where
  "hs_run pd s [] = Some s"
| "hs_run pd s (e # es) = (case hs_step pd s e of None \<Rightarrow> None | Some s' \<Rightarrow> hs_run pd s' es)"

inductive hs_reach :: "hs_pdata \<Rightarrow> hs_state \<Rightarrow> bool" where
  probe: "headset_detect_probe (Some pd) pe = \<lparr>hpr_rc = 0, hpr_state = Some s, hpr_held = h\<rparr> \<Longrightarrow> hs_reach pd s"
| step: "hs_reach pd s \<Longrightarrow> hs_step pd s e = Some s' \<Longrightarrow> hs_reach pd s'"

text \<open>An example board for the scenarios below: active-high detect and button lines, no
  type switch, no buttons in the table, and a probe in which every call succeeds.\<close>

definition hs_example_pdata :: hs_pdata where
  "hs_example_pdata = \<lparr>gpio_switch = 0, irq_trigger_level_detect = 1, irq_trigger_level_button = 1,
     adc_threshold_3pole_detect = 50, irq_threshold_buttont = 5, nbuttons = 0, hs_buttons = [],
     external_headmicbias = False\<rparr>"

definition hs_example_env :: hs_probe_env where
  "hs_example_env = \<lparr>pe_regs = (\<lambda>_. 0), pe_reg_mic = True, pe_reg_vcom = True, pe_reg_vbo = True,
     pe_gpio_switch = 0, pe_gpio_detect = 0, pe_gpio_button = 0, pe_sdev = 0, pe_sendend = 0,
     pe_input_alloc = True, pe_input_register = 0, pe_devfile = 0, pe_wq = (\<lambda>_. True), pe_irq_button = 0,
     pe_irq_detect = 0, pe_kobj = True, pe_sysfs = 0\<rparr>"

subsection \<open>The invariant\<close>

text \<open>The key values a sequence of presses and releases reports: 1, 0, 1, ...\<close>

definition alt_bits :: "nat \<Rightarrow> int list" where
  "alt_bits n = map (\<lambda>i. if even i then 1 else 0) [0..<n]"

text \<open>Each static flag agrees with what it guards: the interrupt disable depth, and the
  enable counts of the \<open>HEADMICBIAS\<close> and \<open>VBO\<close> regulators.\<close>

definition hs_irq_ok :: "hs_state \<Rightarrow> bool" where
  "hs_irq_ok s = (btn_irq_depth s = (if btn_irq_state s then 0 else 1) \<and>
                  det_irq_depth s = (if det_irq_state s then 0 else 1))"

definition hs_pwr_ok :: "hs_state \<Rightarrow> bool" where
  "hs_pwr_ok s = (head_mic_en s = (if head_mic_ok s \<and> micbias_state s then 1 else 0) \<and>
                  vbo_en s = (if head_mic_ok s \<and> sleep_dis_state s then 1 else 0))"

text \<open>The reported key events alternate press and release, starting with a press;
  \<open>button_state_last\<close> says whether the last one was a press, and a pressed button
  implies a plugged headset.\<close>

definition hs_key_ok :: "hs_state \<Rightarrow> bool" where
  "hs_key_ok s = (map snd (hs_events s) = alt_bits (length (hs_events s)) \<and>
                  button_state_last s = (if even (length (hs_events s)) then 0 else 1) \<and>
                  plug_state_last s \<in> {0, 1} \<and> (button_state_last s = 1 \<longrightarrow> plug_state_last s = 1))"

definition hs_inv :: "hs_state \<Rightarrow> bool" where
  "hs_inv s = (hs_irq_ok s \<and> hs_pwr_ok s \<and> hs_key_ok s)"

subsection \<open>Properties\<close>

lemma headset_type_detect_loop_bound:
  "\<exists>t k' s'. headset_type_detect_loop pd smp lastv k cnt s = Some (t, k', s') \<and> k < k' \<and> k' \<le> k + cnt + 1"
proof (induction cnt arbitrary: k s)
  case 0
  show ?case by (subst headset_type_detect_loop.simps) (simp add: Let_def)
next
  case (Suc cnt)
  obtain t k' s' where "headset_type_detect_loop pd smp lastv (Suc k) cnt (set_adc_to_headmic True s) =
      Some (t, k', s')" "Suc k < k'" "k' \<le> Suc k + cnt + 1"
    using Suc.IH by blast
  then show ?case by (subst headset_type_detect_loop.simps) (simp add: Let_def)
qed


lemma headset_type_detect_loop_state:
  assumes step: "\<And>s. Q s \<Longrightarrow> Q (set_adc_to_headmic True s)"
    and loop: "headset_type_detect_loop pd smp lastv k cnt s = Some (t, k', s')"
  shows "Q s \<Longrightarrow> Q s'"
proof -
  have "Q s \<longrightarrow> Q (snd (snd (t, k', s')))"
    by (rule headset_type_detect_loop.raw_induct [where P = "\<lambda>_ _ _ _ _ s y. Q s \<longrightarrow> Q (snd (snd y))", OF _ loop])
       (auto simp: Let_def step split: if_splits)
  then show "Q s \<Longrightarrow> Q s'" by simp
qed

lemmas hs_inv_defs = hs_inv_def hs_irq_ok_def hs_pwr_ok_def hs_key_ok_def

lemma hs_inv_irq_button_enable: "hs_inv s \<Longrightarrow> hs_inv (headset_irq_button_enable en s)"
  by (auto simp: hs_inv_defs headset_irq_button_enable_def)

lemma hs_inv_irq_detect_enable: "hs_inv s \<Longrightarrow> hs_inv (headset_irq_detect_enable en s)"
  by (auto simp: hs_inv_defs headset_irq_detect_enable_def)

lemma hs_inv_headmic_sleep_disable: "hs_inv s \<Longrightarrow> hs_inv (headmic_sleep_disable on s)"
  by (auto simp: hs_inv_defs headmic_sleep_disable_def sprd_headset_audio_headmic_sleep_disable_def Let_def)

lemma hs_inv_headmicbias_power_on: "hs_inv s \<Longrightarrow> hs_inv (headmicbias_power_on on s)"
  by (auto simp: hs_inv_defs headmicbias_power_on_def sprd_headset_headmic_bias_control_def Let_def)

lemma hs_inv_regs [simp]: "hs_inv (s\<lparr>hs_regs := r\<rparr>) = hs_inv s"
  by (simp add: hs_inv_defs)

lemma hs_inv_upd [simp]:
  "hs_inv (s\<lparr>gpio_switch_out := x0\<rparr>) = hs_inv s \<and>
   hs_inv (s\<lparr>adpgar_pending := x1\<rparr>) = hs_inv s \<and>
   hs_inv (s\<lparr>press_verify_pending := x2\<rparr>) = hs_inv s \<and>
   hs_inv (s\<lparr>button_work_pending := x3\<rparr>) = hs_inv s \<and>
   hs_inv (s\<lparr>detect_work_pending := x4\<rparr>) = hs_inv s \<and>
   hs_inv (s\<lparr>sdev_state := x5\<rparr>) = hs_inv s \<and>
   hs_inv (s\<lparr>hs_type := x6\<rparr>) = hs_inv s \<and>
   hs_inv (s\<lparr>hs_headphone := x7\<rparr>) = hs_inv s \<and>
   hs_inv (s\<lparr>btn_irq_type := x8\<rparr>) = hs_inv s \<and>
   hs_inv (s\<lparr>det_irq_type := x9\<rparr>) = hs_inv s \<and>
   hs_inv (s\<lparr>gpio_detect_value_last := x10\<rparr>) = hs_inv s \<and>
   hs_inv (s\<lparr>gpio_button_value_last := x11\<rparr>) = hs_inv s \<and>
   hs_inv (s\<lparr>current_key_code := x12\<rparr>) = hs_inv s \<and>
   hs_inv (s\<lparr>vcom_buf_on := x13\<rparr>) = hs_inv s \<and>
   hs_inv (s\<lparr>head_mic_normal := x14\<rparr>) = hs_inv s \<and>
   hs_inv (s\<lparr>bug_fix_stage := x15\<rparr>) = hs_inv s \<and>
   hs_inv (s\<lparr>debug_level := x90\<rparr>) = hs_inv s \<and>
   hs_inv (s\<lparr>reg_dump_pending := x91\<rparr>) = hs_inv s"
  by (simp add: hs_inv_defs)

lemma hs_inv_adc_en: "hs_inv s \<Longrightarrow> hs_inv (headset_adc_en en s)"
  by (simp add: headset_adc_en_def hs_inv_headmic_sleep_disable)

lemma hs_inv_set_adc_to_headmic: "hs_inv s \<Longrightarrow> hs_inv (set_adc_to_headmic b s)"
  using hs_inv_adc_en [of s True] by (simp add: set_adc_to_headmic_def Let_def)

lemma hs_inv_threshold: "hs_inv s \<Longrightarrow> hs_inv (headset_button_irq_threshold pd b s)"
  by (simp add: headset_button_irq_threshold_def)

lemma hs_inv_type_detect:
  assumes "hs_inv s" "headset_type_detect pd smp lastv s = Some (t, k, s')"
  shows "hs_inv s'"
proof -
  define s3 where "s3 = (let s1 = (if gpio_switch pd \<noteq> 0 then s\<lparr>gpio_switch_out := 0\<rparr> else s);
                            s2 = headset_button_irq_threshold pd True s1
                        in s2\<lparr>hs_regs := headset_detect_circuit True (headset_detect_init (hs_regs s2))\<rparr>)"
  have "hs_inv s3" using assms(1) by (simp add: s3_def Let_def hs_inv_threshold)
  moreover have "headset_type_detect_loop pd smp lastv 0 NO_MIC_RETRY_COUNT s3 = Some (t, k, s')"
    using assms(2) unfolding headset_type_detect_def s3_def Let_def .
  ultimately show ?thesis
    using headset_type_detect_loop_state [of hs_inv] hs_inv_set_adc_to_headmic by blast
qed


lemma alt_bits_Suc: "alt_bits (Suc n) = alt_bits n @ [if even n then 1 else 0]"
  by (simp add: alt_bits_def)

lemma hs_inv_input_key:
  assumes "hs_inv s" "button_state_last s = 1 - v" "v = 0 \<or> v = 1" "v = 1 \<longrightarrow> plug_state_last s = 1"
  shows "hs_inv (input_key v s)"
proof -
  have v: "v = (if even (length (hs_events s)) then 1 else 0)"
    using assms(1-3) unfolding hs_inv_def hs_key_ok_def by (cases "even (length (hs_events s))") auto
  show ?thesis
    using assms(1,4) v unfolding hs_inv_defs input_key_def by (simp add: alt_bits_Suc)
qed

lemma hs_inv_release_verify:
  "hs_inv s \<Longrightarrow> hs_inv (button_release_verify pd s) \<and> button_state_last (button_release_verify pd s) = 0"
  using hs_inv_input_key [of s 0]
  by (auto simp: button_release_verify_def input_key_def hs_inv_defs)

lemma hs_inv_press_verify: "hs_inv s \<Longrightarrow> hs_inv (button_press_verify_func s)"
proof -
  assume a: "hs_inv s"
  have "plug_state_last s \<noteq> 0 \<Longrightarrow> plug_state_last s = 1" using a by (auto simp: hs_inv_def hs_key_ok_def)
  then show ?thesis using a hs_inv_input_key [of s 1] by (simp add: button_press_verify_func_def)
qed

lemma plug_state_last_enables [simp]:
  "plug_state_last (headset_irq_button_enable en s) = plug_state_last s"
  "plug_state_last (headset_irq_detect_enable en s) = plug_state_last s"
  "plug_state_last (headmicbias_power_on on s) = plug_state_last s"
  "plug_state_last (headset_adc_en on s) = plug_state_last s"
  "plug_state_last (set_adc_to_headmic on s) = plug_state_last s"
  "plug_state_last (headset_button_irq_threshold pd on s) = plug_state_last s"
  by (simp_all add: headset_irq_button_enable_def headset_irq_detect_enable_def headmicbias_power_on_def
      sprd_headset_headmic_bias_control_def headset_adc_en_def headmic_sleep_disable_def
      sprd_headset_audio_headmic_sleep_disable_def set_adc_to_headmic_def headset_button_irq_threshold_def Let_def)

lemma button_state_last_enables [simp]:
  "button_state_last (headset_irq_button_enable en s) = button_state_last s"
  "button_state_last (headset_irq_detect_enable en s) = button_state_last s"
  "button_state_last (headmicbias_power_on on s) = button_state_last s"
  "button_state_last (headset_adc_en on s) = button_state_last s"
  "button_state_last (set_adc_to_headmic on s) = button_state_last s"
  by (simp_all add: headset_irq_button_enable_def headset_irq_detect_enable_def headmicbias_power_on_def
      sprd_headset_headmic_bias_control_def headset_adc_en_def headmic_sleep_disable_def
      sprd_headset_audio_headmic_sleep_disable_def set_adc_to_headmic_def Let_def)

lemmas hs_inv_helpers = hs_inv_irq_button_enable hs_inv_irq_detect_enable hs_inv_headmicbias_power_on
  hs_inv_adc_en hs_inv_set_adc_to_headmic hs_inv_threshold

lemma hs_inv_plug_fields:
  "hs_inv s \<Longrightarrow> hs_inv (s\<lparr>plug_state_last := 1\<rparr>)"
  "hs_inv s \<Longrightarrow> button_state_last s = 0 \<Longrightarrow> hs_inv (s\<lparr>plug_state_last := 0\<rparr>)"
  by (auto simp: hs_inv_defs)

lemma hs_inv_plugged_in: "hs_inv s \<Longrightarrow> hs_inv (hs_plugged_in pd t s)"
  unfolding hs_plugged_in_def Let_def
  by (auto simp: hs_inv_helpers hs_inv_plug_fields(1) split: sprd_headset_type.splits)

lemma hs_inv_plugged_out: "hs_inv s \<Longrightarrow> hs_inv (hs_plugged_out pd s)"
  unfolding hs_plugged_out_def Let_def
  using hs_inv_release_verify [OF hs_inv_irq_button_enable [of s False]]
  by (intro hs_inv_helpers) (auto intro: hs_inv_plug_fields(2))

lemma hs_inv_detect_out: "hs_inv s \<Longrightarrow> hs_inv (hs_detect_out b s)"
  by (simp add: hs_detect_out_def hs_inv_helpers)

lemma hs_inv_detect_work:
  assumes "hs_inv s" "headset_detect_work_func pd hw s = Some s'"
  shows "hs_inv s'"
proof -
  define s1 where "s1 = (if plug_state_last s = 0 then headmicbias_power_on True s else s)"
  have i1: "hs_inv s1" using assms(1) by (simp add: s1_def hs_inv_helpers)
  have td: "headset_type_detect pd smp l s1 = Some (t, k, s2) \<Longrightarrow> hs_inv (headset_adc_en False s2)"
    for smp l t k s2 using hs_inv_type_detect [OF i1] hs_inv_adc_en by blast
  show ?thesis
    using assms(2) i1 td unfolding headset_detect_work_func_def Let_def s1_def [symmetric]
    by (auto simp: hs_inv_detect_out hs_inv_plugged_in hs_inv_plugged_out split: if_splits option.splits prod.splits)
qed


lemma hs_inv_button_work: "hs_inv s \<Longrightarrow> hs_inv (headset_button_work_func pd hw s)"
proof -
  assume a: "hs_inv s"
  define s1 where "s1 = set_adc_to_headmic True s"
  have i1: "hs_inv s1" using a by (simp add: s1_def hs_inv_helpers)
  have r: "hs_inv (if button_state_last s1 = 1 then input_key 0 s1 else s1)"
    using i1 hs_inv_input_key [OF i1, of 0] by auto
  show ?thesis
    using i1 r unfolding headset_button_work_func_def Let_def s1_def [symmetric]
    by (auto simp: hs_inv_helpers)
qed

lemma hs_inv_button_irq: "hs_inv s \<Longrightarrow> hs_inv (headset_button_irq_handler pd gd gb s)"
  by (auto simp: headset_button_irq_handler_def headset_button_hardware_bug_fix_def Let_def hs_inv_helpers)

lemma hs_inv_detect_irq: "hs_inv s \<Longrightarrow> hs_inv (headset_detect_irq_handler g s)"
  by (simp add: headset_detect_irq_handler_def hs_inv_helpers)

lemma hs_inv_adpgar: "hs_inv s \<Longrightarrow> hs_inv (adpgar_byp_select_func s)"
  by (simp add: adpgar_byp_select_func_def)

lemma hs_inv_step: "hs_inv s \<Longrightarrow> hs_step pd s e = Some s' \<Longrightarrow> hs_inv s'"
proof (cases e)
  case (DetectWork hw)
  assume "hs_inv s" "hs_step pd s e = Some s'"
  then show ?thesis
    using hs_inv_detect_work [of "s\<lparr>detect_work_pending := False\<rparr>" pd hw s'] DetectWork
    by (simp split: if_splits)
qed (auto simp: hs_inv_button_irq hs_inv_detect_irq hs_inv_adpgar hs_inv_press_verify hs_inv_button_work
          headset_debug_level_store_def reg_dump_func_def Let_def split: if_splits)

lemma sprd_headset_power_init_zero:
  "sprd_headset_power_init mic vcom vbo = (0, mic)"
  by (simp add: sprd_headset_power_init_def sprd_headset_power_get_def)

lemma headset_detect_probe_state:
  "hpr_state (headset_detect_probe (Some pd) pe) = Some s \<Longrightarrow> s = hs_initial_state pd pe (pe_reg_mic pe)"
  unfolding headset_detect_probe_def sprd_headset_power_init_zero prod.case hs_probe_fail_def
  by (simp split: if_splits)

lemma hs_inv_initial_state: "hs_inv (hs_initial_state pd pe m)"
  by (simp add: hs_initial_state_def Let_def hs_inv_defs alt_bits_def)

lemma hs_inv_probe:
  "headset_detect_probe (Some pd) pe = \<lparr>hpr_rc = rc, hpr_state = Some s, hpr_held = h\<rparr> \<Longrightarrow> hs_inv s"
  using headset_detect_probe_state [of pd pe s] hs_inv_initial_state by simp

lemma hs_reach_inv: "hs_reach pd s \<Longrightarrow> hs_inv s"
  by (induction rule: hs_reach.induct) (auto intro: hs_inv_probe hs_inv_step)


lemma headset_type_detect_loop_types:
  assumes loop: "headset_type_detect_loop pd smp lastv k cnt s = Some (t, k', s')"
  shows "t \<in> {HEADSET_NORMAL, HEADSET_NO_MIC, HEADSET_TYPE_ERR}"
proof -
  have "fst (t, k', s') \<in> {HEADSET_NORMAL, HEADSET_NO_MIC, HEADSET_TYPE_ERR}"
    by (rule headset_type_detect_loop.raw_induct [where P = "\<lambda>_ _ _ _ _ _ y. fst y \<in> {HEADSET_NORMAL, HEADSET_NO_MIC, HEADSET_TYPE_ERR}", OF _ loop])
       (auto simp: Let_def ADC_GND_def split: if_splits)
  then show ?thesis by simp
qed

lemma headset_type_detect_no_north_america:
  "headset_type_detect pd smp lastv s = Some (t, k, s') \<Longrightarrow> t \<noteq> HEADSET_NORTH_AMERICA \<and> t \<noteq> HEADSET_APPLE"
  using headset_type_detect_loop_types unfolding headset_type_detect_def Let_def by fastforce

lemma headset_detect_probe_wq_fail:
  "sprd_headset_power_init (pe_reg_mic pe) (pe_reg_vcom pe) (pe_reg_vbo pe) = (0, m) \<Longrightarrow>
   \<not> (gpio_switch pd \<noteq> 0 \<and> pe_gpio_switch pe < 0) \<Longrightarrow> 0 \<le> pe_gpio_detect pe \<Longrightarrow> 0 \<le> pe_gpio_button pe \<Longrightarrow>
   0 \<le> pe_sdev pe \<Longrightarrow> 0 \<le> pe_sendend pe \<Longrightarrow> pe_input_alloc pe \<Longrightarrow> pe_input_register pe = 0 \<Longrightarrow>
   pe_devfile pe = 0 \<Longrightarrow> \<not> pe_wq pe w \<Longrightarrow> w \<in> {WqButton, WqDetect, WqRegDump, WqAdpgar} \<Longrightarrow>
   headset_detect_probe (Some pd) pe = \<lparr>hpr_rc = 0, hpr_state = None, hpr_held = []\<rparr>"
  by (auto simp: headset_detect_probe_def hs_probe_fail_def)

lemma headset_detect_probe_sendend_fail:
  "\<not> (gpio_switch pd \<noteq> 0 \<and> pe_gpio_switch pe < 0) \<Longrightarrow> 0 \<le> pe_gpio_detect pe \<Longrightarrow> 0 \<le> pe_gpio_button pe \<Longrightarrow>
   0 \<le> pe_sdev pe \<Longrightarrow> pe_sendend pe < 0 \<Longrightarrow>
   headset_detect_probe (Some pd) pe = \<lparr>hpr_rc = pe_sendend pe, hpr_state = None, hpr_held = [SwitchSdev]\<rparr>"
  by (simp add: headset_detect_probe_def hs_probe_fail_def sprd_headset_power_init_zero)

lemma headset_detect_probe_sysfs_fail:
  "\<not> (gpio_switch pd \<noteq> 0 \<and> pe_gpio_switch pe < 0) \<Longrightarrow> 0 \<le> pe_gpio_detect pe \<Longrightarrow> 0 \<le> pe_gpio_button pe \<Longrightarrow>
   0 \<le> pe_sdev pe \<Longrightarrow> 0 \<le> pe_sendend pe \<Longrightarrow> pe_input_alloc pe \<Longrightarrow> pe_input_register pe = 0 \<Longrightarrow>
   pe_wq pe WqButton \<Longrightarrow> pe_wq pe WqDetect \<Longrightarrow> pe_wq pe WqRegDump \<Longrightarrow> pe_wq pe WqAdpgar \<Longrightarrow>
   pe_irq_button pe = 0 \<Longrightarrow> 0 \<le> pe_irq_detect pe \<Longrightarrow> \<not> pe_kobj pe \<Longrightarrow>
   hpr_rc (headset_detect_probe (Some pd) pe) = - ENOMEM \<and>
   IrqButton \<in> set (hpr_held (headset_detect_probe (Some pd) pe)) \<and>
   IrqDetect \<in> set (hpr_held (headset_detect_probe (Some pd) pe))"
  by (auto simp: headset_detect_probe_def sprd_headset_power_init_zero headset_debug_sysfs_init_def
      hs_all_resources_def)


lemma hs_quick_tap_reported_pressed:
  "map_option (\<lambda>s. (hs_events s, button_state_last s))
     (hs_run hs_example_pdata (hs_initial_state hs_example_pdata hs_example_env True)
        [DetectIrq 1,
         DetectWork \<lparr>dhw_gpio = 1, dhw_samples = (\<lambda>_. \<lparr>smp_gpio_adc = 1, smp_adc = (\<lambda>_. 500), smp_gpio_after = 1\<rparr>)\<rparr>,
         ButtonIrq 1 1, ButtonWork \<lparr>bhw_gpio = 1, bhw_gpio_adc = 1, bhw_adc = (\<lambda>_. 0)\<rparr>,
         ButtonIrq 1 0, PressVerify]) = Some ([(KEY_RESERVED, 1)], 1)"
  unfolding hs_example_pdata_def hs_example_env_def by code_simp


lemma c_isdigit_dec_digits: "c \<in> set (dec_digits n) \<Longrightarrow> c_isdigit c"
  using set_dec_digits [of n] by (auto simp: c_isdigit_def)

lemma foldl_dec_digits: "foldl (\<lambda>acc c. 10 * acc + (of_char c - 48)) 0 (dec_digits n) = n"
proof (induction n rule: dec_digits.induct)
  case (1 n)
  have d: "of_char (char_of (48 + m) :: char) = 48 + m" if "m < 10" for m :: nat
    using that by (simp add: of_char_of)
  show ?case
  proof (cases "n < 10")
    case True
    then show ?thesis using d [of n] by (subst dec_digits.simps) simp
  next
    case False
    then show ?thesis using "1.IH" d [of "n mod 10"] by (subst dec_digits.simps) simp
  qed
qed

lemma simple_strtoul_dec_digits:
  "rest = [] \<or> \<not> c_isdigit (hd rest) \<Longrightarrow> simple_strtoul (dec_digits n @ rest) = n"
proof -
  assume r: "rest = [] \<or> \<not> c_isdigit (hd rest)"
  have "takeWhile c_isdigit (dec_digits n @ rest) = dec_digits n"
    using r c_isdigit_dec_digits [of _ n] by (cases rest) (auto simp: takeWhile_append2)
  then show ?thesis by (simp add: simple_strtoul_def foldl_dec_digits)
qed

text \<open>C40: Reading the \<open>debug_level\<close> attribute and writing the text back sets the
  level the attribute showed: \<open>simple_strtoul\<close> parses the decimal digits
  \<open>sprintf\<close> printed, and storing the value in the 32-bit \<open>int\<close> keeps it, for
  every level from 0 to \<open>INT_MAX\<close>.\<close>

theorem headset_debug_level_roundtrip:
  "0 \<le> debug_level s \<Longrightarrow> debug_level s < 2 ^ 31 \<Longrightarrow>
   debug_level (snd (headset_debug_level_store (headset_debug_level_show s) t)) = debug_level s"
proof -
  assume a: "0 \<le> debug_level s" "debug_level s < 2 ^ 31"
  have "\<not> c_isdigit CHR ''\<newline>''" by (simp add: c_isdigit_def)
  then have p: "simple_strtoul (headset_debug_level_show s) = nat (debug_level s)"
    using a(1) simple_strtoul_dec_digits [of "''\<newline>''" "nat (debug_level s)"]
    by (simp add: headset_debug_level_show_def sprintf_d_def)
  have "sint (word_of_nat (nat (debug_level s)) :: s32) = debug_level s"
    using a by (simp add: sint_sbintrunc' signed_take_bit_int_eq_self)
  then show ?thesis using p by (simp add: headset_debug_level_store_def Let_def)
qed

lemma headset_detect_parse_dt_overflow:
  "dt_alloc_pdata dt \<Longrightarrow> dt_alloc_buttons dt \<Longrightarrow> \<forall>p \<in> set hs_dt_props. dt_prop dt p \<noteq> None \<Longrightarrow>
   hs_parse_buttons (dt_children dt) 0 [] = Inl bs \<Longrightarrow> uint (the (dt_prop dt ''nbuttons'')) < int (length bs) \<Longrightarrow>
   dtr_overflow (headset_detect_parse_dt dt) \<and> dtr_pdata (headset_detect_parse_dt dt) \<noteq> None"
  by (auto simp: headset_detect_parse_dt_def Let_def)

subsection \<open>Termination of the classification\<close>

text \<open>C20: \<open>headset_type_detect\<close> always returns: the jump back to \<open>no_mic_retry\<close> is
  taken at most \<open>NO_MIC_RETRY_COUNT\<close> times, so whatever the GPIO and the ADC read, the
  classification ends after one to \<open>NO_MIC_RETRY_COUNT + 1\<close> passes.\<close>

theorem headset_type_detect_terminates:
  "\<exists>t k s'. headset_type_detect pd smp lastv s = Some (t, k, s') \<and> 1 \<le> k \<and> k \<le> NO_MIC_RETRY_COUNT + 1"
  using headset_type_detect_loop_bound [of pd smp lastv 0 NO_MIC_RETRY_COUNT]
  unfolding headset_type_detect_def Let_def by fastforce

subsection \<open>The invariant on reachable states\<close>

text \<open>C16: On every state reachable from a successful probe by interrupts, work items and
  audio-block changes, the key events reported alternate press and release starting
  with a press, \<open>button_state_last\<close> is 1 exactly after a press, a pressed button
  implies a plugged headset, each interrupt line is disabled at most once, and the
  \<open>HEADMICBIAS\<close> and \<open>VBO\<close> regulators are enabled at most once.\<close>

theorem hs_reach_key_balance:
  "hs_reach pd s \<Longrightarrow>
   map snd (hs_events s) = alt_bits (length (hs_events s)) \<and>
   (button_state_last s = 1 \<longleftrightarrow> odd (length (hs_events s))) \<and>
   (button_state_last s = 1 \<longrightarrow> plug_state_last s = 1) \<and>
   btn_irq_depth s \<le> 1 \<and> det_irq_depth s \<le> 1 \<and> head_mic_en s \<in> {0, 1} \<and> vbo_en s \<in> {0, 1}"
  using hs_reach_inv [of pd s] by (auto simp: hs_inv_defs)

subsection \<open>Witnesses\<close>

lemma headset_debug_level_roundtrip_witness:
  "debug_level (snd (headset_debug_level_store
     (headset_debug_level_show ((hs_initial_state hs_example_pdata hs_example_env True)\<lparr>debug_level := 5\<rparr>))
     (hs_initial_state hs_example_pdata hs_example_env True))) = 5"
  using headset_debug_level_roundtrip [of "(hs_initial_state hs_example_pdata hs_example_env True)\<lparr>debug_level := 5\<rparr>"
      "hs_initial_state hs_example_pdata hs_example_env True"] by simp

lemma hs_reach_key_balance_witness:
  "hs_reach hs_example_pdata (hs_initial_state hs_example_pdata hs_example_env True) \<and>
   map snd (hs_events (hs_initial_state hs_example_pdata hs_example_env True)) = [] \<and>
   \<not> odd (length (hs_events (hs_initial_state hs_example_pdata hs_example_env True))) \<and>
   btn_irq_depth (hs_initial_state hs_example_pdata hs_example_env True) = 1"
proof -
  have p: "headset_detect_probe (Some hs_example_pdata) hs_example_env =
      \<lparr>hpr_rc = 0, hpr_state = Some (hs_initial_state hs_example_pdata hs_example_env True), hpr_held = hs_all_resources hs_example_pdata\<rparr>"
    by (simp add: headset_detect_probe_def sprd_headset_power_init_zero headset_debug_sysfs_init_def
        hs_example_pdata_def hs_example_env_def)
  have r: "hs_reach hs_example_pdata (hs_initial_state hs_example_pdata hs_example_env True)" by (rule hs_reach.probe [OF p])
  show ?thesis using r hs_reach_key_balance [OF r] by (simp add: hs_initial_state_def Let_def)
qed

end
