(* ===== verification/U_Ether.thy ===== *)
theory U_Ether
  imports Prelude "HOL-Library.Multiset"
begin

text \<open>
  The Ethernet-over-USB link layer of the gadget stack (\<open>drivers/usb/gadget/u_ether.c\<close>):
  the device state \<open>struct eth_dev\<close> together with the fields of its \<open>net_device\<close> the
  file reads and writes, the request pools \<open>tx_reqs\<close>/\<open>rx_reqs\<close>, the receive path
  (\<open>rx_submit\<close>, \<open>rx_complete\<close>, \<open>rx_fill\<close>, \<open>eth_work\<close>), the pool allocation
  (\<open>prealloc\<close>, \<open>alloc_requests\<close>), \<open>ueth_change_mtu\<close>, the parsing of the Ethernet
  address module parameters (\<open>get_ether_addr\<close>) and \<open>gether_setup_name\<close>.
  Requests are named by numbers; an endpoint queue is the list of requests submitted to it,
  oldest first, and completes them in that order. The outcomes of the calls into the
  controller driver and the allocator are inputs (\<open>ue_env\<close>). The transmit path is
  in \<open>U_Ether_Tx\<close>.
\<close>

unbundle bit_operations_syntax

subsection \<open>Constants\<close>

definition ETH_ALEN :: nat where "ETH_ALEN = 6"
definition ETH_HLEN :: nat where "ETH_HLEN = 14"
definition ETH_DATA_LEN :: nat where "ETH_DATA_LEN = 1500"
definition ETH_FRAME_LEN :: int where "ETH_FRAME_LEN = 1514"
definition VLAN_ETH_FRAME_LEN :: nat where "VLAN_ETH_FRAME_LEN = 1518"
definition RX_EXTRA :: nat where "RX_EXTRA = 20"
definition DEFAULT_QLEN :: nat where "DEFAULT_QLEN = 2"
definition qmult :: nat where "qmult = 15"
definition EOVERFLOW :: int where "EOVERFLOW = 75"
definition ECONNABORTED :: int where "ECONNABORTED = 103"
definition ECONNRESET :: int where "ECONNRESET = 104"
definition ESHUTDOWN :: int where "ESHUTDOWN = 108"
definition USB_CDC_PACKET_TYPE_PROMISCUOUS :: u16 where "USB_CDC_PACKET_TYPE_PROMISCUOUS = 0x01"
definition USB_CDC_PACKET_TYPE_ALL_MULTICAST :: u16 where "USB_CDC_PACKET_TYPE_ALL_MULTICAST = 0x02"
definition USB_CDC_PACKET_TYPE_BROADCAST :: u16 where "USB_CDC_PACKET_TYPE_BROADCAST = 0x08"
definition NETDEV_TX_OK :: int where "NETDEV_TX_OK = 0"
definition NETDEV_TX_BUSY :: int where "NETDEV_TX_BUSY = 0x10"
definition RNDIS_MSG_MAX_SIZE :: nat where "RNDIS_MSG_MAX_SIZE = 1516 + 44"
definition RNDIS_MSG_MAX_QUEUE :: nat where "RNDIS_MSG_MAX_QUEUE = 32"
definition RNDIS_QUEUE_IDLE :: nat where "RNDIS_QUEUE_IDLE = 1"
definition RNDIS_QUEUE_GATHER :: nat where "RNDIS_QUEUE_GATHER = 2"
definition RNDIS_QUEUE_FULL :: nat where "RNDIS_QUEUE_FULL = 3"
definition RNDIS_QUEUE_SEND :: nat where "RNDIS_QUEUE_SEND = 4"

subsection \<open>Data\<close>

datatype usb_device_speed = USB_SPEED_UNKNOWN | USB_SPEED_LOW | USB_SPEED_FULL
  | USB_SPEED_HIGH | USB_SPEED_WIRELESS | USB_SPEED_SUPER

text \<open>What the file reads of \<open>struct usb_gadget\<close>.\<close>

record usb_gadget =
  gadget_is_dualspeed :: bool
  gadget_speed :: usb_device_speed
  gadget_dma32 :: bool

text \<open>A socket buffer: its identity (pointer comparison), length, destination address
  and the alignment data of \<open>gadget_dma32\<close>.\<close>

record sk_buff =
  skb_id :: nat
  skb_len :: nat
  skb_dest :: "u8 list"
  skb_align :: nat
  skb_headroom :: nat

text \<open>The link of a function driver (\<open>struct gether\<close>): endpoint packet sizes, framing
  and the \<open>wrap\<close>/\<open>unwrap\<close> callbacks. \<open>unwrap\<close> maps the length of a received buffer
  to its status and the lengths of the frames it appends to \<open>rx_frames\<close>.\<close>

record gether =
  in_maxpacket :: nat
  out_maxpacket :: nat
  is_zlp_ok :: bool
  cdc_filter :: u16
  g_header_len :: nat
  is_fixed :: bool
  fixed_in_len :: nat
  fixed_out_len :: nat
  g_wrap :: "(sk_buff \<Rightarrow> sk_buff option) option"
  g_unwrap :: "(nat \<Rightarrow> int \<times> nat list) option"

record net_stats =
  tx_packets :: nat
  tx_bytes :: nat
  tx_errors :: nat
  tx_dropped :: nat
  rx_packets :: nat
  rx_bytes :: nat
  rx_errors :: nat
  rx_length_errors :: nat
  rx_over_errors :: nat

text \<open>Calls into the rest of the kernel whose order matters.\<close>

datatype ue_call = LinkOpen | LinkClose | NetifRx nat | FreeSkb nat

text \<open>The aggregation queue of the \<open>CONFIG_USB_SPRD_DWC\<close> transmit path
  (\<open>struct pkt_msg\<close>): its state (\<open>RNDIS_QUEUE_*\<close>), the gathered bytes, the packet
  count, its index in the ring, its request, the socket buffers and the bitmap of the
  wrapped ones. The \<open>u32\<close> counters stay far below \<open>2^32\<close> and are \<open>nat\<close>s.\<close>

record pkt_msg =
  pm_state :: nat
  pm_len :: nat
  pkt_cnt :: nat
  q_idx :: nat
  pm_req :: "nat option"
  skbs :: "sk_buff option list"
  skb_idx :: nat
  bit_map :: u32

record rndis_msg =
  w_idx :: nat
  r_idx :: nat
  flow_stop :: bool
  last_sent :: nat
  last_complete :: nat
  msg_q :: "pkt_msg list"

text \<open>A request queued on the IN endpoint: its context (the queue index), length and
  \<open>zero\<close> flag.\<close>

record tx_sub =
  ts_req :: nat
  ts_ctx :: nat
  ts_length :: nat
  ts_zero :: bool

text \<open>\<open>struct eth_dev\<close> with the fields of its \<open>net_device\<close> (running, carrier, queue
  stopped, MTU, address, statistics), the endpoints' queues and enable states, the
  global \<open>s_rndis_msg\<close>, the next fresh request number and the requests freed.\<close>

record eth_dev =
  port_usb :: "gether option"
  gadget :: usb_gadget
  net_running :: bool
  carrier_ok :: bool
  txq_stopped :: bool
  mtu :: nat
  net_dev_addr :: "u8 list"
  host_mac :: "u8 list"
  registered :: bool
  tx_reqs :: "nat list"
  rx_reqs :: "nat list"
  in_ep_q :: "tx_sub list"
  out_ep_q :: "(nat \<times> nat) list"
  in_ep_enabled :: bool
  out_ep_enabled :: bool
  tx_qlen :: int
  rx_frames :: "nat list"
  header_len :: nat
  wrap :: "(sk_buff \<Rightarrow> sk_buff option) option"
  unwrap :: "(nat \<Rightarrow> int \<times> nat list) option"
  todo :: bool
  work_pending :: bool
  zlp :: bool
  stats :: net_stats
  next_req :: nat
  freed_reqs :: "nat list"
  ue_trace :: "ue_call list"
  rmsg :: rndis_msg

text \<open>Outcomes of the calls a step makes: \<open>alloc_skb\<close> for a receive request,
  \<open>usb_ep_queue\<close> on an enabled endpoint (0 or an error number), and
  \<open>usb_ep_alloc_request\<close> for a fresh request number, and \<open>usb_ep_enable\<close> of the IN
  (\<open>True\<close>) and OUT endpoint (0 or an error number).\<close>

record ue_env =
  env_skb_ok :: "nat \<Rightarrow> bool"
  env_ep_errno :: "nat \<Rightarrow> nat"
  env_alloc_ok :: "nat \<Rightarrow> bool"
  env_enable_errno :: "bool \<Rightarrow> nat"

subsection \<open>Helpers\<close>

definition qlen :: "usb_gadget \<Rightarrow> nat" where
  "qlen g = (if gadget_is_dualspeed g \<and> (gadget_speed g = USB_SPEED_HIGH \<or> gadget_speed g = USB_SPEED_SUPER)
             then qmult * DEFAULT_QLEN else DEFAULT_QLEN)"

definition ueth_change_mtu :: "int \<Rightarrow> eth_dev \<Rightarrow> int \<times> eth_dev" where
  "ueth_change_mtu new_mtu dev =
     (if port_usb dev \<noteq> None then (- EBUSY, dev)
      else if new_mtu \<le> int ETH_HLEN \<or> new_mtu > ETH_FRAME_LEN then (- ERANGE, dev)
      else (0, dev\<lparr>mtu := nat new_mtu\<rparr>))"

definition defer_kevent :: "eth_dev \<Rightarrow> eth_dev" where
  "defer_kevent dev = (if todo dev then dev else dev\<lparr>todo := True, work_pending := True\<rparr>)"

text \<open>\<open>usb_ep_queue\<close>: a disabled endpoint refuses the request with \<open>-ESHUTDOWN\<close>.\<close>

definition usb_ep_queue :: "ue_env \<Rightarrow> bool \<Rightarrow> nat \<Rightarrow> int" where
  "usb_ep_queue env enabled req = (if enabled then - int (env_ep_errno env req) else - ESHUTDOWN)"

definition is_promisc :: "u16 \<Rightarrow> bool" where
  "is_promisc f = (f AND USB_CDC_PACKET_TYPE_PROMISCUOUS \<noteq> 0)"

definition stats_upd :: "(net_stats \<Rightarrow> net_stats) \<Rightarrow> eth_dev \<Rightarrow> eth_dev" where
  "stats_upd f dev = dev\<lparr>stats := f (stats dev)\<rparr>"

subsection \<open>Receive path\<close>

text \<open>The buffer size of \<open>rx_submit\<close>: header, MTU and slack rounded up to the packet
  size, at least the fixed length, times \<open>RNDIS_MSG_MAX_NUM\<close> (the parameter \<open>N\<close>).\<close>

definition rx_size :: "nat \<Rightarrow> nat \<Rightarrow> gether \<Rightarrow> nat" where
  "rx_size N m l =
     (let size = ETH_HLEN + m + RX_EXTRA + g_header_len l;
          size = size + (out_maxpacket l - 1);
          size = size - size mod out_maxpacket l;
          size = (if is_fixed l then max size (fixed_out_len l) else size)
      in size * N)"

definition rx_submit :: "nat \<Rightarrow> ue_env \<Rightarrow> nat \<Rightarrow> eth_dev \<Rightarrow> int \<times> eth_dev" where
  "rx_submit N env req dev =
     (case port_usb dev of
        None \<Rightarrow> (- ENOTCONN, dev)
      | Some l \<Rightarrow>
          (let size = rx_size N (mtu dev) l in
           if \<not> env_skb_ok env req
           then (let dev1 = defer_kevent dev in (- ENOMEM, dev1\<lparr>rx_reqs := req # rx_reqs dev1\<rparr>))
           else (let retval = usb_ep_queue env (out_ep_enabled dev) req;
                     dev1 = (if retval = - ENOMEM then defer_kevent dev else dev)
                 in if retval \<noteq> 0 then (retval, dev1\<lparr>rx_reqs := req # rx_reqs dev1\<rparr>)
                    else (0, dev\<lparr>out_ep_q := out_ep_q dev @ [(req, size)]\<rparr>))))"

text \<open>The frame loop of \<open>rx_complete\<close>: frames with a bad length (or all, after a failed
  \<open>unwrap\<close>) count as length errors, the others go to \<open>netif_rx\<close>, whose result
  (\<open>NET_RX_SUCCESS\<close> or \<open>NET_RX_DROP\<close>) is never negative.\<close>

fun rx_frames_loop :: "int \<Rightarrow> nat list \<Rightarrow> eth_dev \<Rightarrow> eth_dev" where
  "rx_frames_loop status [] dev = dev"
| "rx_frames_loop status (len # rest) dev =
     (if status < 0 \<or> ETH_HLEN > len \<or> len > VLAN_ETH_FRAME_LEN
      then rx_frames_loop status rest
             (stats_upd (\<lambda>st. st\<lparr>rx_errors := Suc (rx_errors st),
                                 rx_length_errors := Suc (rx_length_errors st)\<rparr>) dev)
      else rx_frames_loop 0 rest
             ((stats_upd (\<lambda>st. st\<lparr>rx_packets := Suc (rx_packets st), rx_bytes := rx_bytes st + len\<rparr>) dev)
                \<lparr>ue_trace := ue_trace dev @ [NetifRx len]\<rparr>))"

text \<open>The tail of \<open>rx_complete\<close>: back to the pool when the interface is down, else
  resubmitted.\<close>

definition rx_requeue :: "nat \<Rightarrow> ue_env \<Rightarrow> nat \<Rightarrow> eth_dev \<Rightarrow> eth_dev" where
  "rx_requeue N env req dev =
     (if \<not> net_running dev then dev\<lparr>rx_reqs := req # rx_reqs dev\<rparr> else snd (rx_submit N env req dev))"

definition rx_complete :: "nat \<Rightarrow> ue_env \<Rightarrow> nat \<Rightarrow> int \<Rightarrow> nat \<Rightarrow> eth_dev \<Rightarrow> eth_dev" where
  "rx_complete N env req status actual dev =
     (if status = 0 then
        (let (st, dev1) =
           (case unwrap dev of
              Some f \<Rightarrow> (if port_usb dev \<noteq> None
                         then (case f actual of (st, fr) \<Rightarrow> (st, dev\<lparr>rx_frames := rx_frames dev @ fr\<rparr>))
                         else (- ENOTCONN, dev))
            | None \<Rightarrow> (0, dev\<lparr>rx_frames := rx_frames dev @ [actual]\<rparr>));
             dev2 = (rx_frames_loop st (rx_frames dev1) dev1)\<lparr>rx_frames := []\<rparr>
         in rx_requeue N env req dev2)
      else if status = - ECONNRESET \<or> status = - ESHUTDOWN then dev\<lparr>rx_reqs := req # rx_reqs dev\<rparr>
      else if status = - ECONNABORTED
      then (let dev1 = defer_kevent dev in dev1\<lparr>rx_reqs := req # rx_reqs dev1\<rparr>)
      else if status = - EOVERFLOW
      then rx_requeue N env req
             (stats_upd (\<lambda>st. st\<lparr>rx_over_errors := Suc (rx_over_errors st), rx_errors := Suc (rx_errors st)\<rparr>) dev)
      else rx_requeue N env req (stats_upd (\<lambda>st. st\<lparr>rx_errors := Suc (rx_errors st)\<rparr>) dev))"

text \<open>\<open>rx_fill\<close> submits the pool's requests one by one and stops at the first failure;
  every successful submission takes a request off the pool, which bounds the loop.\<close>

function rx_fill :: "nat \<Rightarrow> ue_env \<Rightarrow> eth_dev \<Rightarrow> eth_dev" where
  "rx_fill N env dev =
     (case rx_reqs dev of
        [] \<Rightarrow> dev
      | req # rest \<Rightarrow>
          (let (rc, dev1) = rx_submit N env req (dev\<lparr>rx_reqs := rest\<rparr>)
           in if rc < 0 then defer_kevent dev1 else rx_fill N env dev1))"
  by pat_completeness auto
termination
  by (relation "measure (\<lambda>(N, env, dev). length (rx_reqs dev))")
     (auto simp: rx_submit_def usb_ep_queue_def Let_def ENOTCONN_def ENOMEM_def ESHUTDOWN_def split: option.splits if_splits)

definition eth_work :: "nat \<Rightarrow> ue_env \<Rightarrow> eth_dev \<Rightarrow> eth_dev" where
  "eth_work N env dev =
     (let dev0 = dev\<lparr>work_pending := False\<rparr>
      in if todo dev0
         then (let dev1 = dev0\<lparr>todo := False\<rparr> in if net_running dev1 then rx_fill N env dev1 else dev1)
         else dev0)"

subsection \<open>Request pools\<close>

text \<open>\<open>prealloc\<close> keeps the first \<open>n\<close> requests of a pool and frees the rest, or allocates
  the missing ones (each \<open>list_add\<close> at the head); a failed allocation stops it, with
  \<open>-ENOMEM\<close> only when the pool is still empty. The results are the status, the pool,
  the next fresh request number and the requests freed.\<close>

fun prealloc_alloc :: "(nat \<Rightarrow> bool) \<Rightarrow> nat \<Rightarrow> nat list \<Rightarrow> nat \<Rightarrow> int \<times> nat list \<times> nat" where
  "prealloc_alloc ok 0 l nx = (0, l, nx)"
| "prealloc_alloc ok (Suc i) l nx =
     (if ok nx then prealloc_alloc ok i (nx # l) (Suc nx)
      else ((if l = [] then - ENOMEM else 0), l, nx))"

definition prealloc :: "(nat \<Rightarrow> bool) \<Rightarrow> nat list \<Rightarrow> nat \<Rightarrow> nat \<Rightarrow> int \<times> nat list \<times> nat \<times> nat list" where
  "prealloc ok l n nx =
     (if n = 0 then (- ENOMEM, l, nx, [])
      else if n \<le> length l then (0, take n l, nx, drop n l)
      else (case prealloc_alloc ok (n - length l) l nx of (rc, l', nx') \<Rightarrow> (rc, l', nx', [])))"

definition alloc_requests :: "ue_env \<Rightarrow> nat \<Rightarrow> eth_dev \<Rightarrow> int \<times> eth_dev" where
  "alloc_requests env n dev =
     (case prealloc (env_alloc_ok env) (tx_reqs dev) n (next_req dev) of (st, l, nx, fr) \<Rightarrow>
      let dev1 = dev\<lparr>tx_reqs := l, next_req := nx, freed_reqs := freed_reqs dev @ fr\<rparr>
      in if st < 0 then (st, dev1)
         else (case prealloc (env_alloc_ok env) (rx_reqs dev1) n (next_req dev1) of (st2, l2, nx2, fr2) \<Rightarrow>
               (st2, dev1\<lparr>rx_reqs := l2, next_req := nx2, freed_reqs := freed_reqs dev1 @ fr2\<rparr>)))"

subsection \<open>Ethernet addresses\<close>

text \<open>\<open>hex_to_bin\<close> of \<open>lib/hexdump.c\<close>: a hexadecimal digit of either case, else -1.\<close>

definition hex_to_bin :: "char \<Rightarrow> int" where
  "hex_to_bin ch =
     (let c = (of_char ch :: nat)
      in if 48 \<le> c \<and> c \<le> 57 then int c - 48
         else (let l = (if 65 \<le> c \<and> c \<le> 90 then c + 32 else c)
               in if 97 \<le> l \<and> l \<le> 102 then int l - 87 else -1))"

text \<open>Reading the parameter string: index \<open>length s\<close> is its NUL, an index beyond it is
  outside the string (\<open>None\<close>).\<close>

definition str_read :: "string \<Rightarrow> nat \<Rightarrow> char option" where
  "str_read s p = (if p < length s then Some (s ! p) else if p = length s then Some (CHR 0x00) else None)"

text \<open>\<open>num = hex_to_bin(c1) << 4; num |= hex_to_bin(c2);\<close> on an \<open>unsigned char\<close>: a
  non-digit (-1) sets all bits of its nibble and, in the low nibble, the whole byte.\<close>

definition hex_byte :: "char \<Rightarrow> char \<Rightarrow> u8" where
  "hex_byte h l = push_bit 4 (word_of_int (hex_to_bin h)) OR word_of_int (hex_to_bin l)"

fun get_ether_bytes :: "string \<Rightarrow> nat \<Rightarrow> nat \<Rightarrow> u8 list option" where
  "get_ether_bytes s p 0 = Some []"
| "get_ether_bytes s p (Suc k) =
     (case str_read s p of
        None \<Rightarrow> None
      | Some c \<Rightarrow>
          (let p1 = (if c = CHR ''.'' \<or> c = CHR '':'' then Suc p else p)
           in case (str_read s p1, str_read s (Suc p1)) of
                (Some h, Some l) \<Rightarrow> map_option (\<lambda>bs. hex_byte h l # bs) (get_ether_bytes s (p1 + 2) k)
              | _ \<Rightarrow> None))"

definition is_valid_ether_addr :: "u8 list \<Rightarrow> bool" where
  "is_valid_ether_addr a = (a ! 0 AND 1 = 0 \<and> a \<noteq> replicate ETH_ALEN 0)"

definition eth_random_addr :: "u8 list \<Rightarrow> u8 list" where
  "eth_random_addr rnd = ((rnd ! 0 AND 0xfe) OR 0x02) # tl rnd"

text \<open>\<open>get_ether_addr\<close>: the address and 0, or a random address (the random bytes are
  the parameter \<open>rnd\<close>) and 1; \<open>None\<close> when it reads past the string's NUL.\<close>

definition get_ether_addr :: "string option \<Rightarrow> u8 list \<Rightarrow> (int \<times> u8 list) option" where
  "get_ether_addr str rnd =
     (case str of
        None \<Rightarrow> Some (1, eth_random_addr rnd)
      | Some s \<Rightarrow> (case get_ether_bytes s 0 ETH_ALEN of
                    None \<Rightarrow> None
                  | Some a \<Rightarrow> if is_valid_ether_addr a then Some (0, a) else Some (1, eth_random_addr rnd)))"

text \<open>The text \<open>xx:xx:xx:xx:xx:xx\<close> of an address, as \<open>%pM\<close> prints it.\<close>

definition hex_digit :: "nat \<Rightarrow> char" where
  "hex_digit n = char_of (if n < 10 then 48 + n else 87 + n)"

definition hex2 :: "u8 \<Rightarrow> string" where
  "hex2 b = [hex_digit (unat b div 16), hex_digit (unat b mod 16)]"

definition mac_text :: "u8 list \<Rightarrow> string" where
  "mac_text a = (case a of [] \<Rightarrow> [] | b # bs \<Rightarrow> hex2 b @ concat (map (\<lambda>b. CHR '':'' # hex2 b) bs))"

subsection \<open>Device setup\<close>

text \<open>The static \<open>s_rndis_msg\<close> before \<open>rndis_msg_init\<close>: all zero.\<close>

definition pkt_msg_zero :: "nat \<Rightarrow> pkt_msg" where
  "pkt_msg_zero N = \<lparr>pm_state = 0, pm_len = 0, pkt_cnt = 0, q_idx = 0, pm_req = None,
                     skbs = replicate N None, skb_idx = 0, bit_map = 0\<rparr>"

definition rndis_msg_zero :: "nat \<Rightarrow> rndis_msg" where
  "rndis_msg_zero N = \<lparr>w_idx = 0, r_idx = 0, flow_stop = False, last_sent = 0, last_complete = 0,
                       msg_q = replicate RNDIS_MSG_MAX_QUEUE (pkt_msg_zero N)\<rparr>"

definition net_stats_zero :: net_stats where
  "net_stats_zero = \<lparr>tx_packets = 0, tx_bytes = 0, tx_errors = 0, tx_dropped = 0, rx_packets = 0,
                     rx_bytes = 0, rx_errors = 0, rx_length_errors = 0, rx_over_errors = 0\<rparr>"

text \<open>The device \<open>gether_setup_name\<close> registers: \<open>alloc_etherdev\<close> (MTU
  \<open>ETH_DATA_LEN\<close>), empty pools and frame list, the two addresses, carrier off.\<close>

definition ue_initial :: "nat \<Rightarrow> usb_gadget \<Rightarrow> u8 list \<Rightarrow> u8 list \<Rightarrow> eth_dev" where
  "ue_initial N g a h =
     \<lparr>port_usb = None, gadget = g, net_running = False, carrier_ok = False, txq_stopped = False,
      mtu = ETH_DATA_LEN, net_dev_addr = a, host_mac = h, registered = True, tx_reqs = [], rx_reqs = [],
      in_ep_q = [], out_ep_q = [], in_ep_enabled = False, out_ep_enabled = False, tx_qlen = 0,
      rx_frames = [], header_len = 0, wrap = None, unwrap = None, todo = False, work_pending = False,
      zlp = False, stats = net_stats_zero, next_req = 0, freed_reqs = [], ue_trace = [],
      rmsg = rndis_msg_zero N\<rparr>"

text \<open>Inputs of \<open>gether_setup_name\<close>: \<open>alloc_etherdev\<close>, the module parameters
  \<open>dev_addr\<close> and \<open>host_addr\<close>, the random bytes for each address, and the result of
  \<open>register_netdev\<close>.\<close>

record ue_setup_env =
  su_alloc_ok :: bool
  su_dev_addr :: "string option"
  su_host_addr :: "string option"
  su_random_self :: "u8 list"
  su_random_host :: "u8 list"
  su_register_rc :: int

definition gether_setup_name :: "nat \<Rightarrow> usb_gadget \<Rightarrow> ue_setup_env \<Rightarrow> (int + eth_dev) option" where
  "gether_setup_name N g se =
     (if \<not> su_alloc_ok se then Some (Inl (- ENOMEM))
      else (case get_ether_addr (su_dev_addr se) (su_random_self se) of
              None \<Rightarrow> None
            | Some (_, a) \<Rightarrow>
                (case get_ether_addr (su_host_addr se) (su_random_host se) of
                   None \<Rightarrow> None
                 | Some (_, h) \<Rightarrow>
                     if su_register_rc se < 0 then Some (Inl (su_register_rc se))
                     else Some (Inr (ue_initial N g a h)))))"

text \<open>The receive requests the device owns: its pool and those queued on the OUT
  endpoint.\<close>

definition rx_owned :: "eth_dev \<Rightarrow> nat multiset" where
  "rx_owned dev = mset (rx_reqs dev) + mset (map fst (out_ep_q dev))"

subsection \<open>Example inputs\<close>

text \<open>A controller that accepts every request and an allocator that never fails.\<close>

definition ex_env :: ue_env where
  "ex_env = \<lparr>env_skb_ok = (\<lambda>_. True), env_ep_errno = (\<lambda>_. 0), env_alloc_ok = (\<lambda>_. True),
     env_enable_errno = (\<lambda>_. 0)\<rparr>"

text \<open>Module parameters left unset: both addresses random.\<close>

definition ex_setup :: ue_setup_env where
  "ex_setup = \<lparr>su_alloc_ok = True, su_dev_addr = None, su_host_addr = None,
     su_random_self = [2, 0, 0, 0, 0, 1], su_random_host = [2, 0, 0, 0, 0, 2], su_register_rc = 0\<rparr>"

definition ex_gadget :: usb_gadget where
  "ex_gadget = \<lparr>gadget_is_dualspeed = True, gadget_speed = USB_SPEED_HIGH, gadget_dma32 = False\<rparr>"

definition ex_skb :: "nat \<Rightarrow> sk_buff" where
  "ex_skb i = \<lparr>skb_id = i, skb_len = 100, skb_dest = [2, 0, 0, 0, 0, 9], skb_align = 0, skb_headroom = 64\<rparr>"

text \<open>An RNDIS-like link whose \<open>wrap\<close> fails for the packet numbered 3.\<close>

definition ex_link :: gether where
  "ex_link = \<lparr>in_maxpacket = 512, out_maxpacket = 512, is_zlp_ok = True, cdc_filter = 0, g_header_len = 44,
     is_fixed = False, fixed_in_len = 0, fixed_out_len = 0,
     g_wrap = Some (\<lambda>s. if skb_id s = 3 then None else Some s), g_unwrap = None\<rparr>"

subsection \<open>Properties\<close>

lemma nat_bit_small: "(m::nat) < 2 ^ k \<Longrightarrow> k \<le> n \<Longrightarrow> \<not> bit m n"
  by (simp add: bit_iff_odd div_less order_less_le_trans)

lemma nibbles_or: "lo < 16 \<Longrightarrow> (push_bit 4 (word_of_nat hi) OR word_of_nat lo :: u8) = word_of_nat (16 * hi + lo)"
proof -
  assume lo: "lo < 16"
  have "push_bit 4 (word_of_nat hi) + word_of_nat lo = (push_bit 4 (word_of_nat hi) OR word_of_nat lo :: u8)"
  proof (rule disjunctive_add)
    fix n
    show "\<not> bit (push_bit 4 (word_of_nat hi) :: u8) n \<or> \<not> bit (word_of_nat lo :: u8) n"
      using nat_bit_small [of lo 4 n] lo by (auto simp: bit_push_bit_iff bit_of_nat_iff)
  qed
  then show ?thesis by (simp add: push_bit_eq_mult mult.commute)
qed

lemma of_char_hex_digit: "n < 16 \<Longrightarrow> (of_char (hex_digit n) :: nat) = (if n < 10 then 48 + n else 87 + n)"
  by (simp add: hex_digit_def of_char_of)

lemma hex_digit_not_sep: "n < 16 \<Longrightarrow> hex_digit n \<noteq> CHR ''.'' \<and> hex_digit n \<noteq> CHR '':''"
proof -
  assume n: "n < 16"
  have "(of_char (hex_digit n) :: nat) \<noteq> 46 \<and> (of_char (hex_digit n) :: nat) \<noteq> 58"
    using of_char_hex_digit [OF n] by simp
  then show ?thesis by auto
qed

lemma hex_to_bin_digit: "n < 16 \<Longrightarrow> hex_to_bin (hex_digit n) = int n"
  using of_char_hex_digit [of n] by (simp add: hex_to_bin_def Let_def)

lemma unat_u8_div16: "unat (b :: u8) div 16 < 16"
proof -
  have "unat b < 256" using unsigned_less [of b] by simp
  then show ?thesis by simp
qed

lemma hex_byte_hex2: "hex_byte (hex_digit (unat b div 16)) (hex_digit (unat b mod 16)) = b"
proof -
  have u: "unat b < 256" using unsigned_less [of b] by simp
  then have "unat b div 16 < 16" by simp
  then have "hex_byte (hex_digit (unat b div 16)) (hex_digit (unat b mod 16)) =
      push_bit 4 (word_of_nat (unat b div 16)) OR word_of_nat (unat b mod 16)"
    by (simp add: hex_byte_def hex_to_bin_digit)
  also have "\<dots> = word_of_nat (16 * (unat b div 16) + unat b mod 16)" by (rule nibbles_or) simp
  also have "\<dots> = b" by simp
  finally show ?thesis .
qed

lemma str_read_append: "i < length ys \<Longrightarrow> str_read (xs @ ys) (length xs + i) = Some (ys ! i)"
  by (simp add: str_read_def nth_append)

lemma get_ether_bytes_seps:
  "get_ether_bytes (pre @ concat (map (\<lambda>b. CHR '':'' # hex2 b) bs)) (length pre) (length bs) = Some bs"
proof (induction bs arbitrary: pre)
  case Nil
  show ?case by simp
next
  case (Cons b bs)
  define pre' where "pre' = pre @ CHR '':'' # hex2 b"
  define s where "s = pre' @ concat (map (\<lambda>b. CHR '':'' # hex2 b) bs)"
  have eq: "pre @ concat (map (\<lambda>b. CHR '':'' # hex2 b) (b # bs)) = s" by (simp add: s_def pre'_def)
  have lt: "unat b div 16 < 16" by (rule unat_u8_div16)
  have r0: "str_read s (length pre) = Some (CHR '':'')"
    using str_read_append [of 0 "CHR '':'' # hex2 b @ concat (map (\<lambda>b. CHR '':'' # hex2 b) bs)" pre]
    by (simp add: s_def pre'_def)
  have r1: "str_read s (Suc (length pre)) = Some (hex_digit (unat b div 16))"
    using str_read_append [of 1 "CHR '':'' # hex2 b @ concat (map (\<lambda>b. CHR '':'' # hex2 b) bs)" pre]
    by (simp add: s_def pre'_def hex2_def)
  have r2: "str_read s (Suc (Suc (length pre))) = Some (hex_digit (unat b mod 16))"
    using str_read_append [of 2 "CHR '':'' # hex2 b @ concat (map (\<lambda>b. CHR '':'' # hex2 b) bs)" pre]
    by (simp add: s_def pre'_def hex2_def)
  have step: "get_ether_bytes s (length pre) (Suc (length bs)) = map_option (Cons b) (get_ether_bytes s (length pre') (length bs))"
    using r0 r1 r2 by (simp add: hex_byte_hex2 pre'_def hex2_def numeral_3_eq_3)
  have "get_ether_bytes s (length pre') (length bs) = Some bs" using Cons.IH [of pre'] by (simp add: s_def)
  then show ?case unfolding eq using step by (simp del: get_ether_bytes.simps)
qed

lemma get_ether_bytes_mac_text:
  "get_ether_bytes (mac_text (b # bs)) 0 (Suc (length bs)) = Some (b # bs)"
proof -
  define s where "s = mac_text (b # bs)"
  have s: "s = hex2 b @ concat (map (\<lambda>b. CHR '':'' # hex2 b) bs)" by (simp add: s_def mac_text_def)
  have lt: "unat b div 16 < 16" by (rule unat_u8_div16)
  have r0: "str_read s 0 = Some (hex_digit (unat b div 16))" and r1: "str_read s 1 = Some (hex_digit (unat b mod 16))"
    by (simp_all add: s str_read_def hex2_def)
  have step: "get_ether_bytes s 0 (Suc (length bs)) = map_option (Cons b) (get_ether_bytes s 2 (length bs))"
    using r0 r1 hex_digit_not_sep [OF lt] by (simp add: hex_byte_hex2 numeral_2_eq_2)
  have "get_ether_bytes s 2 (length bs) = Some bs"
    using get_ether_bytes_seps [of "hex2 b" bs] by (simp add: s hex2_def numeral_2_eq_2)
  then show ?thesis using step by (simp add: s_def del: get_ether_bytes.simps)
qed

text \<open>C18: Parsing the text that \<open>%pM\<close> prints for a valid Ethernet address, as the
  module parameters \<open>dev_addr\<close>/\<open>host_addr\<close> are given, yields that address with
  status 0.\<close>

lemma get_ether_addr_roundtrip:
  "length a = ETH_ALEN \<Longrightarrow> is_valid_ether_addr a \<Longrightarrow> get_ether_addr (Some (mac_text a)) rnd = Some (0, a)"
  using get_ether_bytes_mac_text [of "hd a" "tl a"]
  by (cases a) (simp_all add: get_ether_addr_def ETH_ALEN_def)

lemma get_ether_addr_roundtrip_witness:
  "length [2, 0x11, 0x22, 0x33, 0x44, 0x55 :: u8] = ETH_ALEN \<and> is_valid_ether_addr [2, 0x11, 0x22, 0x33, 0x44, 0x55] \<and>
   get_ether_addr (Some (mac_text [2, 0x11, 0x22, 0x33, 0x44, 0x55])) [] = Some (0, [2, 0x11, 0x22, 0x33, 0x44, 0x55])"
  using get_ether_addr_roundtrip [of "[2, 0x11, 0x22, 0x33, 0x44, 0x55]" "[]"]
  by (simp add: ETH_ALEN_def is_valid_ether_addr_def numeral_eq_Suc)

lemma prealloc_alloc_mset:
  "prealloc_alloc ok i l nx = (rc, l', nx') \<Longrightarrow>
   mset l' = mset [nx..<nx'] + mset l \<and> nx \<le> nx' \<and> nx' \<le> nx + i \<and> (rc = 0 \<or> rc = - ENOMEM \<and> l' = [])"
proof (induction i arbitrary: l nx)
  case 0
  then show ?case by simp
next
  case (Suc i)
  show ?case
  proof (cases "ok nx")
    case True
    then have "prealloc_alloc ok i (nx # l) (Suc nx) = (rc, l', nx')" using Suc.prems by simp
    from Suc.IH [OF this] show ?thesis by (auto simp: upt_conv_Cons)
  next
    case False
    then show ?thesis using Suc.prems by (auto split: if_splits)
  qed
qed

lemma prealloc_alloc_all:
  "prealloc_alloc (\<lambda>_. True) i l nx = (0, rev [nx..<nx + i] @ l, nx + i)"
  by (induction i arbitrary: l nx) (simp_all add: upt_rec)

text \<open>C33: When every allocation succeeds, \<open>prealloc\<close> leaves exactly \<open>n\<close> requests in
  the list and returns 0, and the requests kept and freed are the old ones and the
  newly allocated ones, none lost or duplicated.\<close>

lemma prealloc_full:
  assumes "0 < n" and "prealloc (\<lambda>_. True) l n nx = (rc, l', nx', fr)"
  shows "rc = 0 \<and> length l' = n \<and> mset l' + mset fr = mset l + mset [nx..<nx']"
  using assms prealloc_alloc_all [of "n - length l" l nx] mset_append [of "take n l" "drop n l", symmetric]
  by (auto simp: prealloc_def split: if_splits)

lemma prealloc_full_witness:
  "0 < (3::nat) \<and> prealloc (\<lambda>_. True) [7] 3 10 = (0, [11, 10, 7], 12, []) \<and>
   length [11, 10, 7 :: nat] = 3 \<and> mset [11, 10, 7 :: nat] + mset [] = mset [7] + mset [10..<12]"
  using prealloc_full [of 3 "[7]" 10 0 "[11, 10, 7]" 12 "[]"]
  by (simp add: prealloc_def numeral_eq_Suc)

lemma rx_submit_owned:
  assumes "port_usb dev \<noteq> None" and "rx_submit N env req dev = (rc, dev')"
  shows "rx_owned dev' = rx_owned dev + {#req#} \<and> port_usb dev' = port_usb dev \<and> net_running dev' = net_running dev \<and>
         (rc < 0 \<or> rc = 0 \<and> rx_reqs dev' = rx_reqs dev)"
  using assms
  by (auto simp: rx_submit_def rx_owned_def defer_kevent_def usb_ep_queue_def Let_def ENOMEM_def ESHUTDOWN_def
           split: option.splits if_splits)

text \<open>C22: \<open>rx_fill\<close> neither loses nor duplicates a receive request: the multiset of
  requests in the pool and on the OUT endpoint is unchanged, and it stops with the pool
  empty or with the refill deferred to \<open>eth_work\<close>.\<close>

lemma rx_fill_owned:
  "port_usb dev \<noteq> None \<Longrightarrow>
   rx_owned (rx_fill N env dev) = rx_owned dev \<and> port_usb (rx_fill N env dev) = port_usb dev \<and>
   (rx_reqs (rx_fill N env dev) = [] \<or> todo (rx_fill N env dev))"
proof (induction N env dev rule: rx_fill.induct)
  case (1 N env dev)
  show ?case
  proof (cases "rx_reqs dev")
    case Nil
    then show ?thesis by (subst rx_fill.simps) simp
  next
    case (Cons req rest)
    obtain rc dev1 where sub: "rx_submit N env req (dev\<lparr>rx_reqs := rest\<rparr>) = (rc, dev1)" by fastforce
    have o: "rx_owned dev = rx_owned (dev\<lparr>rx_reqs := rest\<rparr>) + {#req#}" using Cons by (simp add: rx_owned_def)
    from rx_submit_owned [OF _ sub] "1.prems"
    have s: "rx_owned dev1 = rx_owned dev" "port_usb dev1 = port_usb dev" "rc < 0 \<or> rc = 0"
      by (auto simp: o)
    show ?thesis
    proof (cases "rc < 0")
      case True
      then show ?thesis using Cons sub s by (subst rx_fill.simps) (simp add: defer_kevent_def rx_owned_def)
    next
      case False
      then have "rx_fill N env dev = rx_fill N env dev1" using Cons sub by (subst rx_fill.simps) simp
      moreover have "rx_owned (rx_fill N env dev1) = rx_owned dev1 \<and> port_usb (rx_fill N env dev1) = port_usb dev1 \<and>
          (rx_reqs (rx_fill N env dev1) = [] \<or> todo (rx_fill N env dev1))"
        using "1.IH" [OF Cons sub [symmetric] _ False] s "1.prems" by auto
      ultimately show ?thesis using s by simp
    qed
  qed
qed

lemma rx_fill_owned_witness:
  "port_usb ((ue_initial 3 ex_gadget [2, 0, 0, 0, 0, 1] [2, 0, 0, 0, 0, 2])\<lparr>port_usb := Some ex_link, rx_reqs := [1, 2]\<rparr>) \<noteq> None \<and>
   rx_owned (rx_fill 3 ex_env ((ue_initial 3 ex_gadget [2, 0, 0, 0, 0, 1] [2, 0, 0, 0, 0, 2])
     \<lparr>port_usb := Some ex_link, rx_reqs := [1, 2]\<rparr>)) = {#1, 2#}"
  using rx_fill_owned [of "(ue_initial 3 ex_gadget [2, 0, 0, 0, 0, 1] [2, 0, 0, 0, 0, 2])
     \<lparr>port_usb := Some ex_link, rx_reqs := [1, 2]\<rparr>" 3 ex_env]
  by (simp add: ue_initial_def rx_owned_def del: rx_fill.simps)

lemma rx_frames_loop_counts:
  "rx_packets (stats (rx_frames_loop st fs dev)) + rx_length_errors (stats (rx_frames_loop st fs dev)) =
     rx_packets (stats dev) + rx_length_errors (stats dev) + length fs \<and>
   (\<exists>tr. ue_trace (rx_frames_loop st fs dev) = ue_trace dev @ map NetifRx tr \<and>
         (\<forall>len \<in> set tr. ETH_HLEN \<le> len \<and> len \<le> VLAN_ETH_FRAME_LEN) \<and> (st < 0 \<longrightarrow> tr = []))"
proof (induction st fs dev rule: rx_frames_loop.induct)
  case (1 status dev)
  then show ?case by simp
next
  case (2 status len rest dev)
  show ?case
  proof (cases "status < 0 \<or> ETH_HLEN > len \<or> len > VLAN_ETH_FRAME_LEN")
    case True
    then show ?thesis using "2.IH"(1) [OF True] by (simp add: stats_upd_def)
  next
    case False
    then obtain tr where "ue_trace (rx_frames_loop 0 rest ((stats_upd (\<lambda>st. st\<lparr>rx_packets := Suc (rx_packets st), rx_bytes := rx_bytes st + len\<rparr>) dev)
                \<lparr>ue_trace := ue_trace dev @ [NetifRx len]\<rparr>)) = (ue_trace dev @ [NetifRx len]) @ map NetifRx tr"
        "\<forall>len \<in> set tr. ETH_HLEN \<le> len \<and> len \<le> VLAN_ETH_FRAME_LEN"
      using "2.IH"(2) [OF False] by (auto simp: stats_upd_def)
    then show ?thesis using "2.IH"(2) [OF False] False
      by (simp add: stats_upd_def) (rule exI [of _ "len # tr"], auto)
  qed
qed

lemma ueth_change_mtu_result:
  "ueth_change_mtu m dev =
     (if port_usb dev \<noteq> None then (- EBUSY, dev)
      else if 14 < m \<and> m \<le> 1514 then (0, dev\<lparr>mtu := nat m\<rparr>) else (- ERANGE, dev))"
  by (auto simp: ueth_change_mtu_def ETH_HLEN_def ETH_FRAME_LEN_def)

end
