(* ===== verification/U_Ether_Tx.thy ===== *)
theory U_Ether_Tx
  imports U_Ether
begin

text \<open>
  The transmit path of \<open>u_ether.c\<close> in the \<open>CONFIG_USB_SPRD_DWC\<close> build, which gathers
  up to \<open>RNDIS_MSG_MAX_NUM\<close> (the parameter \<open>N\<close>) packets into one USB transfer: the
  ring \<open>s_rndis_msg\<close> of \<open>RNDIS_MSG_MAX_QUEUE\<close> queues (\<open>pkt_msg_clean\<close>,
  \<open>rndis_msg_init\<close>, \<open>pkt_msg_send\<close>, \<open>tx_complete\<close>, \<open>eth_alloc_req\<close>,
  \<open>save_to_queue\<close>, \<open>update_sbks_in_queue\<close>, \<open>eth_start_xmit\<close>), the entry points
  that start and stop the link (\<open>eth_start\<close>, \<open>eth_open\<close>, \<open>eth_stop\<close>,
  \<open>gether_connect\<close>, \<open>gether_disconnect\<close>, \<open>gether_cleanup\<close>), and the machine
  \<open>ue_step\<close> over the events of the network stack, the function driver and the
  controller. A NULL dereference or an access outside an array is the value \<open>None\<close>.
\<close>

unbundle bit_operations_syntax

subsection \<open>The aggregation ring\<close>

definition FULL_BIT_MAP :: "nat \<Rightarrow> u32" where
  "FULL_BIT_MAP N = push_bit N 1 - 1"

definition idx_add_one :: "nat \<Rightarrow> nat" where
  "idx_add_one n = (n + 1) mod RNDIS_MSG_MAX_QUEUE"

definition qat :: "eth_dev \<Rightarrow> nat \<Rightarrow> pkt_msg" where
  "qat dev i = msg_q (rmsg dev) ! i"

definition msg_upd :: "(rndis_msg \<Rightarrow> rndis_msg) \<Rightarrow> eth_dev \<Rightarrow> eth_dev" where
  "msg_upd f dev = dev\<lparr>rmsg := f (rmsg dev)\<rparr>"

definition q_upd :: "nat \<Rightarrow> (pkt_msg \<Rightarrow> pkt_msg) \<Rightarrow> eth_dev \<Rightarrow> eth_dev" where
  "q_upd i f dev = msg_upd (\<lambda>m. m\<lparr>msg_q := (msg_q m)[i := f (msg_q m ! i)]\<rparr>) dev"

definition is_multicast_ether_addr :: "u8 list \<Rightarrow> bool" where
  "is_multicast_ether_addr a = (a ! 0 AND 1 \<noteq> 0)"

definition is_broadcast_ether_addr :: "u8 list \<Rightarrow> bool" where
  "is_broadcast_ether_addr a = (take ETH_ALEN a = replicate ETH_ALEN 0xff)"

definition free_skb :: "sk_buff \<Rightarrow> eth_dev \<Rightarrow> eth_dev" where
  "free_skb s dev = dev\<lparr>ue_trace := ue_trace dev @ [FreeSkb (skb_id s)]\<rparr>"

text \<open>\<open>pkt_msg_clean\<close>: frees the buffers still in the queue and makes it idle; the
  second result lists the buffers freed.\<close>

definition pkt_msg_clean :: "pkt_msg \<Rightarrow> pkt_msg \<times> nat list" where
  "pkt_msg_clean q =
     (q\<lparr>pm_len := 0, pkt_cnt := 0, pm_req := None, skb_idx := 0, bit_map := 0,
        skbs := map (\<lambda>_. None) (skbs q), pm_state := RNDIS_QUEUE_IDLE\<rparr>,
      map skb_id (List.map_filter id (skbs q)))"

definition clean_q :: "nat \<Rightarrow> eth_dev \<Rightarrow> eth_dev" where
  "clean_q i dev =
     (case pkt_msg_clean (qat dev i) of
        (q', fr) \<Rightarrow> (q_upd i (\<lambda>_. q') dev)\<lparr>ue_trace := ue_trace dev @ map FreeSkb fr\<rparr>)"

text \<open>\<open>rndis_msg_init\<close> clears the buffer pointers with \<open>memset\<close> before
  \<open>pkt_msg_clean\<close>, which therefore frees nothing.\<close>

definition rndis_msg_init :: "nat \<Rightarrow> eth_dev \<Rightarrow> eth_dev" where
  "rndis_msg_init N dev =
     msg_upd (\<lambda>m. m\<lparr>w_idx := 0, r_idx := 0,
                    msg_q := map (\<lambda>i. fst (pkt_msg_clean ((msg_q m ! i)\<lparr>q_idx := i, skbs := replicate N None\<rparr>)))
                               [0..<RNDIS_MSG_MAX_QUEUE]\<rparr>) dev"

text \<open>A transmit request goes back to the pool, waking the queue if the pool was
  empty.\<close>

definition tx_req_release :: "nat \<Rightarrow> eth_dev \<Rightarrow> eth_dev" where
  "tx_req_release req dev =
     (if tx_reqs dev = [] then dev\<lparr>txq_stopped := False\<rparr> else dev)\<lparr>tx_reqs := req # tx_reqs dev\<rparr>"

definition tx_flow_stop :: "eth_dev \<Rightarrow> eth_dev" where
  "tx_flow_stop dev = msg_upd (\<lambda>m. m\<lparr>flow_stop := True\<rparr>) (dev\<lparr>txq_stopped := True\<rparr>)"

text \<open>A queue that holds \<open>N\<close> packets becomes full and the write index moves on, unless
  the next queue is the read index: then the network queue stops.\<close>

definition rndis_queue_full :: "nat \<Rightarrow> eth_dev \<Rightarrow> eth_dev" where
  "rndis_queue_full w dev =
     (let dev1 = q_upd w (\<lambda>q. q\<lparr>pm_state := RNDIS_QUEUE_FULL\<rparr>) dev; next = idx_add_one w
      in if r_idx (rmsg dev1) = next then tx_flow_stop dev1 else msg_upd (\<lambda>m. m\<lparr>w_idx := next\<rparr>) dev1)"

text \<open>\<open>pkt_msg_send\<close>: several buffers are copied behind each other into the queue's
  area, a single one is sent in place; a transfer that ends on a packet boundary and
  is not the fixed length gets a zero-length packet, or one byte more when the link
  does not accept those. The IRQ throttling flag \<open>no_interrupt\<close> is not modelled.\<close>

definition pkt_msg_send :: "ue_env \<Rightarrow> nat \<Rightarrow> eth_dev \<Rightarrow> eth_dev option" where
  "pkt_msg_send env i dev =
     (let q = qat dev i in
      case (port_usb dev, pm_req q) of
        (Some l, Some req) \<Rightarrow>
          (let buf = (if skb_idx q > 1 then those (take (skb_idx q) (skbs q))
                      else (case skbs q of [] \<Rightarrow> None | s0 # _ \<Rightarrow> map_option (\<lambda>s. [s]) s0))
           in case buf of
                None \<Rightarrow> None
              | Some bs \<Rightarrow>
                  (let len_q = (if skb_idx q > 1 then pm_len q + sum_list (map skb_len bs) else pm_len q);
                       length = (if skb_idx q > 1 then len_q else skb_len (hd bs));
                       zero = \<not> (is_fixed l \<and> length = fixed_in_len l \<and> length mod in_maxpacket l = 0);
                       length = (if zero \<and> \<not> zlp dev \<and> length mod in_maxpacket l = 0 then length + 1 else length);
                       dev1 = q_upd i (\<lambda>q. q\<lparr>pm_len := len_q, bit_map := 0\<rparr>) dev;
                       retval = usb_ep_queue env (in_ep_enabled dev) req
                   in if retval = 0
                      then Some (dev1\<lparr>in_ep_q := in_ep_q dev1 @ [\<lparr>ts_req = req, ts_ctx = i, ts_length = length, ts_zero = zero\<rparr>],
                                      tx_qlen := tx_qlen dev1 + 1\<rparr>)
                      else (let dev2 = clean_q i (stats_upd (\<lambda>st. st\<lparr>tx_dropped := tx_dropped st + skb_idx q\<rparr>) dev1);
                                dev3 = (if tx_reqs dev2 = [] then msg_upd (\<lambda>m. m\<lparr>flow_stop := False\<rparr>) (dev2\<lparr>txq_stopped := False\<rparr>)
                                        else dev2)
                            in Some (dev3\<lparr>tx_reqs := req # tx_reqs dev3\<rparr>))))
      | _ \<Rightarrow> None)"

text \<open>Marking a queue as being sent and sending it, as the four call sites of
  \<open>pkt_msg_send\<close> do.\<close>

definition tx_send_q :: "ue_env \<Rightarrow> nat \<Rightarrow> eth_dev \<Rightarrow> eth_dev option" where
  "tx_send_q env i dev =
     pkt_msg_send env i (q_upd i (\<lambda>q. q\<lparr>pm_state := RNDIS_QUEUE_SEND\<rparr>)
                           (msg_upd (\<lambda>m. m\<lparr>last_sent := q_idx (qat dev i)\<rparr>) dev))"

text \<open>The bookkeeping of \<open>tx_complete\<close> for a finished transfer: statistics, the queue
  cleaned, the read index past it (unless it is the write queue), the request back to
  the pool.\<close>

definition tx_complete_account :: "int \<Rightarrow> tx_sub \<Rightarrow> eth_dev \<Rightarrow> eth_dev" where
  "tx_complete_account status t dev =
     (let i = ts_ctx t; q = qat dev i;
          dev2 = stats_upd (\<lambda>st. if status = 0 then st\<lparr>tx_bytes := tx_bytes st + pm_len q\<rparr>
                                 else if status = - ECONNRESET \<or> status = - ESHUTDOWN then st
                                 else st\<lparr>tx_errors := Suc (tx_errors st)\<rparr>) dev;
          dev3 = stats_upd (\<lambda>st. st\<lparr>tx_packets := tx_packets st + skb_idx q\<rparr>) dev2;
          dev4 = clean_q i (msg_upd (\<lambda>m. m\<lparr>last_complete := q_idx q\<rparr>) dev3);
          dev5 = (if q_idx q \<noteq> w_idx (rmsg dev4) then msg_upd (\<lambda>m. m\<lparr>r_idx := idx_add_one (q_idx q)\<rparr>) dev4
                  else dev4);
          dev6 = dev5\<lparr>tx_qlen := tx_qlen dev5 - 1\<rparr>;
          dev7 = (if carrier_ok dev6 then dev6\<lparr>txq_stopped := False\<rparr> else dev6)
      in dev7\<lparr>tx_reqs := ts_req t # tx_reqs dev7\<rparr>)"

text \<open>\<open>tx_complete\<close> for the oldest request of the IN endpoint; afterwards the write
  queue is sent if the ring is otherwise empty and its packets are all wrapped.\<close>

definition tx_complete :: "ue_env \<Rightarrow> int \<Rightarrow> eth_dev \<Rightarrow> eth_dev option" where
  "tx_complete env status dev =
     (case in_ep_q dev of
        [] \<Rightarrow> Some dev
      | t # rest \<Rightarrow>
          (let dev8 = tx_complete_account status t (dev\<lparr>in_ep_q := rest\<rparr>);
               w = w_idx (rmsg dev8); wq = qat dev8 w
           in if w = r_idx (rmsg dev8) \<and> pm_state wq = RNDIS_QUEUE_GATHER \<and> skb_idx wq = pkt_cnt wq
              then tx_send_q env w dev8
              else Some dev8))"

text \<open>\<open>eth_alloc_req\<close>: a packet for a gathering queue joins it and uses the queue's
  request; otherwise a request is taken from the pool. The results are the status,
  the request, the queue joined and the device.\<close>

definition eth_alloc_req :: "nat \<Rightarrow> sk_buff \<Rightarrow> eth_dev \<Rightarrow> (int \<times> nat option \<times> nat option \<times> eth_dev) option" where
  "eth_alloc_req N skb dev =
     (let w = w_idx (rmsg dev); q = qat dev w in
      if pm_state q = RNDIS_QUEUE_GATHER then
        (if pkt_cnt q < length (skbs q) then
           (let dev1 = q_upd w (\<lambda>q. q\<lparr>skbs := (skbs q)[pkt_cnt q := Some skb], pkt_cnt := Suc (pkt_cnt q)\<rparr>) dev;
                dev2 = (if Suc (pkt_cnt q) \<ge> N then rndis_queue_full w dev1 else dev1)
            in Some (NETDEV_TX_OK, pm_req q, Some w, dev2))
         else None)
      else (case tx_reqs dev of
              [] \<Rightarrow> Some (NETDEV_TX_BUSY, None, None, dev)
            | req # rest \<Rightarrow>
                (let dev1 = dev\<lparr>tx_reqs := rest\<rparr>
                 in Some (NETDEV_TX_OK, Some req, None, if rest = [] then tx_flow_stop dev1 else dev1))))"

text \<open>Storing a packet in the next slot of a queue and marking it in the bitmap.\<close>

definition store_skb :: "sk_buff \<Rightarrow> pkt_msg \<Rightarrow> pkt_msg" where
  "store_skb s q = q\<lparr>skbs := (skbs q)[skb_idx q := Some s], bit_map := bit_map q OR push_bit (skb_idx q) 1,
                     skb_idx := Suc (skb_idx q), pkt_cnt := Suc (pkt_cnt q)\<rparr>"

text \<open>The end of \<open>save_to_queue\<close>: the packet goes into the next slot of queue \<open>w\<close>
  unless it holds \<open>N\<close> packets already, and the queue is marked gathering, or full
  when it holds \<open>N\<close>. The results are the queue the packet went into and the device.\<close>

definition queue_store :: "nat \<Rightarrow> sk_buff \<Rightarrow> nat \<Rightarrow> eth_dev \<Rightarrow> (nat option \<times> eth_dev) option" where
  "queue_store N skb w dev =
     (let wq = qat dev w in
      if pkt_cnt wq < N \<and> \<not> skb_idx wq < length (skbs wq) then None
      else
        (let (qo, dev1) = (if pkt_cnt wq < N then (Some w, q_upd w (store_skb skb) dev) else (None, dev));
             dev2 = (if pkt_cnt (qat dev1 w) \<ge> N then rndis_queue_full w dev1
                     else q_upd w (\<lambda>q. q\<lparr>pm_state := RNDIS_QUEUE_GATHER\<rparr>) dev1)
         in Some (qo, dev2)))"

text \<open>\<open>save_to_queue\<close>: stores a packet that came with a pool request into the write
  queue, moving past a full or sending queue first; a queue that already has a request
  returns the new one to the pool. The results are the status (1 when the ring is
  full), the queue used and the device.\<close>

definition save_to_queue :: "nat \<Rightarrow> sk_buff \<Rightarrow> nat \<Rightarrow> eth_dev \<Rightarrow> (int \<times> nat option \<times> eth_dev) option" where
  "save_to_queue N skb req dev =
     (let w = w_idx (rmsg dev); next = idx_add_one w in
      if r_idx (rmsg dev) = next then Some (1, None, dev)
      else
        (let (w1, dev1) = (if pm_state (qat dev w) \<ge> RNDIS_QUEUE_FULL
                           then (next, msg_upd (\<lambda>m. m\<lparr>w_idx := next\<rparr>) dev) else (w, dev));
             wq = qat dev1 w1;
             dev2 = (if pm_state wq = RNDIS_QUEUE_IDLE then q_upd w1 (\<lambda>q. q\<lparr>pm_req := Some req\<rparr>) dev1
                     else if pm_req wq \<noteq> Some req then tx_req_release req dev1 else dev1)
         in map_option (\<lambda>(qo, d). (0, qo, d)) (queue_store N skb w1 dev2)))"

text \<open>\<open>update_sbks_in_queue\<close>: the wrapped buffer replaces the original in the queue
  and is marked in the bitmap.\<close>

function update_sbks_loop :: "nat \<Rightarrow> sk_buff \<Rightarrow> sk_buff \<Rightarrow> pkt_msg \<Rightarrow> pkt_msg option" where
  "update_sbks_loop i new old q =
     (if i < pkt_cnt q then
        (if i < length (skbs q) then
           (if skbs q ! i = Some old
            then Some (q\<lparr>skbs := (skbs q)[i := Some new], bit_map := bit_map q OR push_bit i 1,
                         skb_idx := Suc (skb_idx q)\<rparr>)
            else update_sbks_loop (Suc i) new old q)
         else None)
      else Some q)"
  by pat_completeness auto
termination by (relation "measure (\<lambda>(i, _, _, q). pkt_cnt q - i)") auto

definition update_sbks_in_queue :: "nat \<Rightarrow> sk_buff \<Rightarrow> sk_buff \<Rightarrow> eth_dev \<Rightarrow> eth_dev option" where
  "update_sbks_in_queue i new old dev =
     map_option (\<lambda>q'. q_upd i (\<lambda>_. q') dev) (update_sbks_loop 0 new old (qat dev i))"

text \<open>The label \<open>drop\<close> of \<open>eth_start_xmit\<close>.\<close>

definition tx_drop :: "nat \<Rightarrow> eth_dev \<Rightarrow> eth_dev" where
  "tx_drop req dev = tx_req_release req (stats_upd (\<lambda>st. st\<lparr>tx_dropped := Suc (tx_dropped st)\<rparr>) dev)"

text \<open>The end of \<open>eth_start_xmit\<close>: the queue just used if its bitmap is full, else the
  write queue if full, else the write queue if the ring is otherwise empty and all its
  packets are wrapped.\<close>

definition tx_kick :: "nat \<Rightarrow> ue_env \<Rightarrow> nat option \<Rightarrow> eth_dev \<Rightarrow> eth_dev option" where
  "tx_kick N env wq dev =
     (if (case wq of Some j \<Rightarrow> bit_map (qat dev j) = FULL_BIT_MAP N \<and> pm_state (qat dev j) \<noteq> RNDIS_QUEUE_SEND
                   | None \<Rightarrow> False)
      then tx_send_q env (the wq) dev
      else (let w = w_idx (rmsg dev); q = qat dev w
            in if bit_map q = FULL_BIT_MAP N \<and> pm_state q \<noteq> RNDIS_QUEUE_SEND then tx_send_q env w dev
               else if w = r_idx (rmsg dev) \<and> pm_state q = RNDIS_QUEUE_GATHER \<and> skb_idx q = pkt_cnt q
               then tx_send_q env w dev
               else Some dev))"

text \<open>The outgoing CDC filter of \<open>eth_start_xmit\<close>: a multicast packet is dropped
  unless the host asked for its kind, broadcast or all multicast.\<close>

definition cdc_filter_drops :: "u16 \<Rightarrow> sk_buff \<Rightarrow> bool" where
  "cdc_filter_drops f skb =
     (let dest = skb_dest skb in
      \<not> is_promisc f \<and> is_multicast_ether_addr dest \<and>
      f AND (if is_broadcast_ether_addr dest then USB_CDC_PACKET_TYPE_BROADCAST
             else USB_CDC_PACKET_TYPE_ALL_MULTICAST) = 0)"

text \<open>\<open>eth_start_xmit\<close> once it holds the request \<open>req\<close> (and the queue \<open>wq\<close> the
  packet joined): wrap, align, queue and kick, or drop.\<close>

definition xmit_req :: "nat \<Rightarrow> ue_env \<Rightarrow> sk_buff \<Rightarrow> nat \<Rightarrow> nat option \<Rightarrow> eth_dev \<Rightarrow> (int \<times> eth_dev) option" where
  "xmit_req N env skb req wq dev1 =
     (case (case wrap dev1 of Some g \<Rightarrow> g skb | None \<Rightarrow> Some skb) of
        None \<Rightarrow> Some (NETDEV_TX_OK, tx_drop req dev1)
      | Some s \<Rightarrow>
          if gadget_dma32 (gadget dev1) \<and> skb_headroom s < skb_align s
          then Some (NETDEV_TX_OK, tx_drop req (free_skb s dev1))
          else
            (case (case wq of
                     None \<Rightarrow> save_to_queue N s req dev1
                   | Some j \<Rightarrow> if s \<noteq> skb then map_option (\<lambda>d. (0, wq, d)) (update_sbks_in_queue j s skb dev1)
                               else Some (0, wq, dev1)) of
               None \<Rightarrow> None
             | Some (retval, wq', dev2) \<Rightarrow>
                 if retval = 0 then map_option (\<lambda>d. (NETDEV_TX_OK, d)) (tx_kick N env wq' dev2)
                 else Some (NETDEV_TX_OK, tx_drop req (free_skb s dev2))))"

definition eth_start_xmit :: "nat \<Rightarrow> ue_env \<Rightarrow> sk_buff \<Rightarrow> eth_dev \<Rightarrow> (int \<times> eth_dev) option" where
  "eth_start_xmit N env skb dev =
     (case port_usb dev of
        None \<Rightarrow> Some (NETDEV_TX_OK, free_skb skb dev)
      | Some l \<Rightarrow>
          if cdc_filter_drops (cdc_filter l) skb then Some (NETDEV_TX_OK, free_skb skb dev)
          else
            (case eth_alloc_req N skb dev of
               None \<Rightarrow> None
             | Some (_, None, _, dev1) \<Rightarrow> Some (NETDEV_TX_BUSY, dev1)
             | Some (_, Some req, wq, dev1) \<Rightarrow> xmit_req N env skb req wq dev1))"

subsection \<open>Starting and stopping the link\<close>

definition eth_start :: "nat \<Rightarrow> ue_env \<Rightarrow> eth_dev \<Rightarrow> eth_dev" where
  "eth_start N env dev = rndis_msg_init N ((rx_fill N env dev)\<lparr>tx_qlen := 0, txq_stopped := False\<rparr>)"

text \<open>\<open>usb_ep_disable\<close> completes every request queued on the endpoint with
  \<open>-ESHUTDOWN\<close>, oldest first; a request submitted from a completion handler is refused,
  the endpoint being disabled already.\<close>

fun tx_complete_all :: "ue_env \<Rightarrow> nat \<Rightarrow> eth_dev \<Rightarrow> eth_dev option" where
  "tx_complete_all env 0 dev = Some dev"
| "tx_complete_all env (Suc n) dev =
     (case tx_complete env (- ESHUTDOWN) dev of None \<Rightarrow> None | Some d \<Rightarrow> tx_complete_all env n d)"

definition rx_complete_head :: "nat \<Rightarrow> ue_env \<Rightarrow> int \<Rightarrow> nat \<Rightarrow> eth_dev \<Rightarrow> eth_dev" where
  "rx_complete_head N env status actual dev =
     (case out_ep_q dev of
        [] \<Rightarrow> dev
      | (req, _) # rest \<Rightarrow> rx_complete N env req status actual (dev\<lparr>out_ep_q := rest\<rparr>))"

fun rx_complete_all :: "nat \<Rightarrow> ue_env \<Rightarrow> nat \<Rightarrow> eth_dev \<Rightarrow> eth_dev" where
  "rx_complete_all N env 0 dev = dev"
| "rx_complete_all N env (Suc n) dev = rx_complete_all N env n (rx_complete_head N env (- ESHUTDOWN) 0 dev)"

definition usb_ep_disable_in :: "ue_env \<Rightarrow> eth_dev \<Rightarrow> eth_dev option" where
  "usb_ep_disable_in env dev = tx_complete_all env (length (in_ep_q dev)) (dev\<lparr>in_ep_enabled := False\<rparr>)"

definition usb_ep_disable_out :: "nat \<Rightarrow> ue_env \<Rightarrow> eth_dev \<Rightarrow> eth_dev" where
  "usb_ep_disable_out N env dev = rx_complete_all N env (length (out_ep_q dev)) (dev\<lparr>out_ep_enabled := False\<rparr>)"

definition eth_open :: "nat \<Rightarrow> ue_env \<Rightarrow> eth_dev \<Rightarrow> int \<times> eth_dev" where
  "eth_open N env dev =
     (let dev1 = (if carrier_ok dev then eth_start N env dev else dev)
      in (0, if port_usb dev1 \<noteq> None then dev1\<lparr>ue_trace := ue_trace dev1 @ [LinkOpen]\<rparr> else dev1))"

text \<open>\<open>eth_stop\<close> aborts the transfers by disabling the endpoints and enables them again
  while the host still uses the link; the results of \<open>usb_ep_enable\<close> are ignored by
  the code.\<close>

definition eth_stop :: "nat \<Rightarrow> ue_env \<Rightarrow> eth_dev \<Rightarrow> eth_dev option" where
  "eth_stop N env dev =
     (let dev1 = dev\<lparr>txq_stopped := True\<rparr> in
      case port_usb dev1 of
        None \<Rightarrow> Some dev1
      | Some l \<Rightarrow>
          (case usb_ep_disable_in env (dev1\<lparr>ue_trace := ue_trace dev1 @ [LinkClose]\<rparr>) of
             None \<Rightarrow> None
           | Some dev2 \<Rightarrow>
               (let dev3 = usb_ep_disable_out N env dev2
                in Some (if carrier_ok dev3 then dev3\<lparr>in_ep_enabled := True, out_ep_enabled := True\<rparr> else dev3))))"

text \<open>\<open>gether_connect\<close>: the result is 0 for the network device or the error; the
  link's \<open>open\<close> or \<open>close\<close> callback is called as the interface is up or down.\<close>

definition gether_connect :: "nat \<Rightarrow> ue_env \<Rightarrow> gether \<Rightarrow> eth_dev \<Rightarrow> int \<times> eth_dev" where
  "gether_connect N env l dev =
     (let rin = - int (env_enable_errno env True) in
      if rin \<noteq> 0 then (rin, dev)
      else
        (let dev1 = dev\<lparr>in_ep_enabled := True\<rparr>; rout = - int (env_enable_errno env False) in
         if rout \<noteq> 0 then (rout, dev1\<lparr>in_ep_enabled := False\<rparr>)
         else
           (let (result, dev3) = alloc_requests env (qlen (gadget dev1)) (dev1\<lparr>out_ep_enabled := True\<rparr>)
            in if result = 0
               then (let dev4 = dev3\<lparr>zlp := is_zlp_ok l, header_len := g_header_len l, unwrap := g_unwrap l,
                                    wrap := g_wrap l, port_usb := Some l,
                                    ue_trace := ue_trace dev3 @ [if net_running dev3 then LinkOpen else LinkClose],
                                    carrier_ok := True\<rparr>
                     in (0, if net_running dev4 then eth_start N env dev4 else dev4))
               else (result, dev3\<lparr>out_ep_enabled := False, in_ep_enabled := False\<rparr>))))"

definition gether_disconnect :: "nat \<Rightarrow> ue_env \<Rightarrow> eth_dev \<Rightarrow> eth_dev option" where
  "gether_disconnect N env dev =
     (case usb_ep_disable_in env (dev\<lparr>txq_stopped := True, carrier_ok := False\<rparr>) of
        None \<Rightarrow> None
      | Some dev1 \<Rightarrow>
          (let dev2 = dev1\<lparr>freed_reqs := freed_reqs dev1 @ tx_reqs dev1, tx_reqs := []\<rparr>;
               dev3 = usb_ep_disable_out N env dev2;
               dev4 = dev3\<lparr>freed_reqs := freed_reqs dev3 @ rx_reqs dev3, rx_reqs := []\<rparr>
           in Some (dev4\<lparr>header_len := 0, unwrap := None, wrap := None, port_usb := None\<rparr>)))"

text \<open>\<open>gether_cleanup\<close>: \<open>unregister_netdev\<close> closes a running interface (calling
  \<open>eth_stop\<close>) and \<open>flush_work\<close> runs a queued \<open>eth_work\<close>.\<close>

definition gether_cleanup :: "nat \<Rightarrow> ue_env \<Rightarrow> eth_dev \<Rightarrow> eth_dev option" where
  "gether_cleanup N env dev =
     (case (if net_running dev then eth_stop N env (dev\<lparr>net_running := False\<rparr>) else Some dev) of
        None \<Rightarrow> None
      | Some dev1 \<Rightarrow> Some ((if work_pending dev1 then eth_work N env dev1 else dev1)\<lparr>registered := False\<rparr>))"

subsection \<open>The device as a machine\<close>

text \<open>Events: the interface brought up or down (the core sets \<open>netif_running\<close> and
  calls \<open>ndo_open\<close>/\<open>ndo_stop\<close>), the function driver connecting a link (only when none
  is connected) or disconnecting it, a packet from the stack (only while the interface
  runs, has carrier and its queue is not stopped), the completion of the oldest request
  of an endpoint, the work item, and an MTU change.\<close>

datatype ue_event = UeOpen | UeStop | UeConnect gether | UeDisconnect | UeXmit sk_buff
  | UeTxComplete int | UeRxComplete int nat | UeWork | UeChangeMtu int

fun ue_step :: "nat \<Rightarrow> ue_env \<Rightarrow> eth_dev \<Rightarrow> ue_event \<Rightarrow> eth_dev option" where
  "ue_step N env dev UeOpen =
     (if net_running dev then Some dev else Some (snd (eth_open N env (dev\<lparr>net_running := True\<rparr>))))"
| "ue_step N env dev UeStop =
     (if net_running dev then eth_stop N env (dev\<lparr>net_running := False\<rparr>) else Some dev)"
| "ue_step N env dev (UeConnect l) =
     (if port_usb dev = None then Some (snd (gether_connect N env l dev)) else Some dev)"
| "ue_step N env dev UeDisconnect = gether_disconnect N env dev"
| "ue_step N env dev (UeXmit skb) =
     (if net_running dev \<and> carrier_ok dev \<and> \<not> txq_stopped dev
      then map_option snd (eth_start_xmit N env skb dev) else Some dev)"
| "ue_step N env dev (UeTxComplete st) = tx_complete env st dev"
| "ue_step N env dev (UeRxComplete st actual) = Some (rx_complete_head N env st actual dev)"
| "ue_step N env dev UeWork = Some (if work_pending dev then eth_work N env dev else dev)"
| "ue_step N env dev (UeChangeMtu m) = Some (snd (ueth_change_mtu m dev))"

inductive ue_reach :: "nat \<Rightarrow> eth_dev \<Rightarrow> bool" for N :: nat where
  start: "gether_setup_name N g se = Some (Inr dev) \<Longrightarrow> ue_reach N dev"
| step: "ue_reach N dev \<Longrightarrow> ue_step N env dev e = Some dev' \<Longrightarrow> ue_reach N dev'"

fun ue_run :: "nat \<Rightarrow> ue_env \<Rightarrow> eth_dev \<Rightarrow> ue_event list \<Rightarrow> eth_dev option" where
  "ue_run N env dev [] = Some dev"
| "ue_run N env dev (e # es) = (case ue_step N env dev e of None \<Rightarrow> None | Some d \<Rightarrow> ue_run N env d es)"

subsection \<open>Invariant\<close>

text \<open>A well-formed queue: \<open>N\<close> buffer slots, the wrapped count below the packet count
  below \<open>N\<close>, an idle (or not yet initialised) queue empty, a busy queue with a request
  and its first \<open>pkt_cnt\<close> slots filled, a gathering queue not full, a full queue with
  \<open>N\<close> packets, no bitmap bit at or above the packet count, and a partly filled queue
  being sent with all its packets wrapped.\<close>

definition q_ok :: "nat \<Rightarrow> pkt_msg \<Rightarrow> bool" where
  "q_ok N q =
     (length (skbs q) = N \<and> skb_idx q \<le> pkt_cnt q \<and> pkt_cnt q \<le> N \<and> pm_state q \<le> RNDIS_QUEUE_SEND \<and>
      (pm_state q \<le> RNDIS_QUEUE_IDLE \<longrightarrow> pkt_cnt q = 0 \<and> bit_map q = 0) \<and>
      (RNDIS_QUEUE_GATHER \<le> pm_state q \<longrightarrow>
         pm_req q \<noteq> None \<and> 0 < pkt_cnt q \<and> (\<forall>k < pkt_cnt q. skbs q ! k \<noteq> None)) \<and>
      (pm_state q = RNDIS_QUEUE_GATHER \<longrightarrow> pkt_cnt q < N) \<and>
      (pm_state q = RNDIS_QUEUE_FULL \<longrightarrow> pkt_cnt q = N) \<and>
      drop_bit (pkt_cnt q) (bit_map q) = 0 \<and>
      (pm_state q = RNDIS_QUEUE_SEND \<and> pkt_cnt q < N \<longrightarrow> skb_idx q = pkt_cnt q))"

text \<open>The ring: its indices in range, every queue well formed, and only the write queue
  gathering.\<close>

definition ring_qs :: "nat \<Rightarrow> pkt_msg list \<Rightarrow> nat \<Rightarrow> bool" where
  "ring_qs N qs w =
     (length qs = RNDIS_MSG_MAX_QUEUE \<and> w < RNDIS_MSG_MAX_QUEUE \<and>
      (\<forall>i < RNDIS_MSG_MAX_QUEUE. q_ok N (qs ! i) \<and> (pm_state (qs ! i) = RNDIS_QUEUE_GATHER \<longrightarrow> i = w)))"

definition ring_ok :: "nat \<Rightarrow> pkt_msg list \<Rightarrow> nat \<Rightarrow> nat \<Rightarrow> bool" where
  "ring_ok N qs w r = (ring_qs N qs w \<and> r < RNDIS_MSG_MAX_QUEUE)"

definition ring_inited :: "pkt_msg list \<Rightarrow> bool" where
  "ring_inited qs = (\<forall>i < RNDIS_MSG_MAX_QUEUE. RNDIS_QUEUE_IDLE \<le> pm_state (qs ! i))"

text \<open>The ring of a device.\<close>

definition dev_ring_ok :: "nat \<Rightarrow> eth_dev \<Rightarrow> bool" where
  "dev_ring_ok N dev = ring_ok N (msg_q (rmsg dev)) (w_idx (rmsg dev)) (r_idx (rmsg dev))"

text \<open>The device invariant: \<open>RNDIS_MSG_MAX_NUM\<close> between 1 and the 32 bits of the
  bitmap, the ring well formed and initialised whenever packets can arrive, no transfer
  queued without a link, and every queued transfer naming a queue of the ring.\<close>

definition ue_inv :: "nat \<Rightarrow> eth_dev \<Rightarrow> bool" where
  "ue_inv N dev =
     (0 < N \<and> N \<le> 32 \<and> dev_ring_ok N dev \<and>
      (net_running dev \<and> carrier_ok dev \<longrightarrow> ring_inited (msg_q (rmsg dev))) \<and>
      (port_usb dev = None \<longrightarrow> in_ep_q dev = []) \<and>
      (\<forall>t \<in> set (in_ep_q dev). ts_ctx t < RNDIS_MSG_MAX_QUEUE))"

text \<open>A step that keeps the ring well formed (and initialised), the link and the
  interface flags, and only appends transfers naming ring queues to the IN endpoint,
  none while it is disabled.\<close>

definition ring_step :: "nat \<Rightarrow> eth_dev \<Rightarrow> eth_dev \<Rightarrow> bool" where
  "ring_step N dev d' =
     (dev_ring_ok N d' \<and> (ring_inited (msg_q (rmsg dev)) \<longrightarrow> ring_inited (msg_q (rmsg d'))) \<and>
      port_usb d' = port_usb dev \<and> net_running d' = net_running dev \<and> carrier_ok d' = carrier_ok dev \<and>
      in_ep_enabled d' = in_ep_enabled dev \<and>
      (\<exists>ts. in_ep_q d' = in_ep_q dev @ ts \<and> (\<forall>t \<in> set ts. ts_ctx t < RNDIS_MSG_MAX_QUEUE) \<and>
            (\<not> in_ep_enabled dev \<longrightarrow> ts = [])))"

text \<open>A step that leaves the transmit side alone: the ring, the IN endpoint, the link
  and the interface flags.\<close>

definition tx_same :: "eth_dev \<Rightarrow> eth_dev \<Rightarrow> bool" where
  "tx_same dev d' =
     (rmsg d' = rmsg dev \<and> in_ep_q d' = in_ep_q dev \<and> port_usb d' = port_usb dev \<and>
      net_running d' = net_running dev \<and> carrier_ok d' = carrier_ok dev \<and> in_ep_enabled d' = in_ep_enabled dev)"

end
