(* ===== verification/U_Ether_Inv.thy ===== *)
theory U_Ether_Inv
  imports U_Ether_Tx
begin

text \<open>
  The invariant of the aggregation ring of \<open>U_Ether_Tx\<close> and its preservation: the
  helper facts on the bitmap \<open>FULL_BIT_MAP\<close> and on the record updates of the ring,
  then one lemma per transmit operation stating that it keeps the ring well formed
  (\<open>ring_step\<close>) and, where the code dereferences a queue's request or indexes its
  buffers, that it returns (the value is not \<open>None\<close>).
\<close>

unbundle bit_operations_syntax

lemmas rndis_consts = RNDIS_QUEUE_IDLE_def RNDIS_QUEUE_GATHER_def RNDIS_QUEUE_FULL_def RNDIS_QUEUE_SEND_def
  RNDIS_MSG_MAX_QUEUE_def

lemma FULL_BIT_MAP_mask: "FULL_BIT_MAP N = mask N"
  by (simp add: FULL_BIT_MAP_def mask_eq_exp_minus_1 push_bit_of_1)

lemma FULL_BIT_MAP_nonzero: "0 < N \<Longrightarrow> FULL_BIT_MAP N \<noteq> 0"
proof
  assume "0 < N" "FULL_BIT_MAP N = 0"
  then have "bit (FULL_BIT_MAP N) 0" by (simp add: FULL_BIT_MAP_mask bit_mask_iff)
  with \<open>FULL_BIT_MAP N = 0\<close> show False by simp
qed

lemma drop_bit_full: "0 < N \<Longrightarrow> N \<le> 32 \<Longrightarrow> drop_bit p (FULL_BIT_MAP N) = 0 \<Longrightarrow> N \<le> p"
proof (rule ccontr)
  assume a: "0 < N" "N \<le> 32" "drop_bit p (FULL_BIT_MAP N) = 0" "\<not> N \<le> p"
  have "bit (FULL_BIT_MAP N) (p + (N - 1 - p))"
    using a by (simp add: FULL_BIT_MAP_mask bit_mask_iff)
  then have "bit (drop_bit p (FULL_BIT_MAP N)) (N - 1 - p)"
    by (simp only: bit_drop_bit_eq comp_def)
  with a(3) show False by simp
qed

lemma rmsg_q_upd [simp]:
  "rmsg (q_upd i f dev) = (rmsg dev)\<lparr>msg_q := (msg_q (rmsg dev))[i := f (msg_q (rmsg dev) ! i)]\<rparr>"
  by (simp add: q_upd_def msg_upd_def)

lemma q_upd_fields [simp]:
  "port_usb (q_upd i f dev) = port_usb dev" "in_ep_q (q_upd i f dev) = in_ep_q dev"
  "net_running (q_upd i f dev) = net_running dev" "carrier_ok (q_upd i f dev) = carrier_ok dev"
  "tx_reqs (q_upd i f dev) = tx_reqs dev" "zlp (q_upd i f dev) = zlp dev"
  "in_ep_enabled (q_upd i f dev) = in_ep_enabled dev" "wrap (q_upd i f dev) = wrap dev"
  "gadget (q_upd i f dev) = gadget dev"
  by (simp_all add: q_upd_def msg_upd_def)

lemma msg_upd_fields [simp]:
  "port_usb (msg_upd f dev) = port_usb dev" "in_ep_q (msg_upd f dev) = in_ep_q dev"
  "net_running (msg_upd f dev) = net_running dev" "carrier_ok (msg_upd f dev) = carrier_ok dev"
  "tx_reqs (msg_upd f dev) = tx_reqs dev" "zlp (msg_upd f dev) = zlp dev"
  "in_ep_enabled (msg_upd f dev) = in_ep_enabled dev" "wrap (msg_upd f dev) = wrap dev"
  "gadget (msg_upd f dev) = gadget dev" "rmsg (msg_upd f dev) = f (rmsg dev)"
  by (simp_all add: msg_upd_def)

lemma stats_upd_fields [simp]:
  "rmsg (stats_upd f dev) = rmsg dev" "port_usb (stats_upd f dev) = port_usb dev"
  "in_ep_q (stats_upd f dev) = in_ep_q dev" "net_running (stats_upd f dev) = net_running dev"
  "carrier_ok (stats_upd f dev) = carrier_ok dev" "in_ep_enabled (stats_upd f dev) = in_ep_enabled dev"
  "tx_reqs (stats_upd f dev) = tx_reqs dev" "wrap (stats_upd f dev) = wrap dev" "gadget (stats_upd f dev) = gadget dev"
  by (simp_all add: stats_upd_def)

lemma clean_q_fields [simp]:
  "port_usb (clean_q i dev) = port_usb dev" "in_ep_q (clean_q i dev) = in_ep_q dev"
  "net_running (clean_q i dev) = net_running dev" "carrier_ok (clean_q i dev) = carrier_ok dev"
  "tx_reqs (clean_q i dev) = tx_reqs dev" "in_ep_enabled (clean_q i dev) = in_ep_enabled dev"
  "rmsg (clean_q i dev) = (rmsg dev)\<lparr>msg_q := (msg_q (rmsg dev))[i := fst (pkt_msg_clean (msg_q (rmsg dev) ! i))]\<rparr>"
  by (simp_all add: clean_q_def qat_def case_prod_beta)

lemma qat_eq [simp]: "qat dev i = msg_q (rmsg dev) ! i"
  by (simp add: qat_def)

declare dev_ring_ok_def [simp]

declare ring_ok_def [simp]

lemma ring_qsD:
  "ring_qs N qs w \<Longrightarrow> i < RNDIS_MSG_MAX_QUEUE \<Longrightarrow>
   q_ok N (qs ! i) \<and> i < length qs \<and> (pm_state (qs ! i) = RNDIS_QUEUE_GATHER \<longrightarrow> i = w) \<and>
   w < RNDIS_MSG_MAX_QUEUE"
  by (simp add: ring_qs_def)

lemma ring_qs_upd:
  "ring_qs N qs w \<Longrightarrow> i < RNDIS_MSG_MAX_QUEUE \<Longrightarrow> q_ok N q \<Longrightarrow>
   (pm_state q = RNDIS_QUEUE_GATHER \<Longrightarrow> i = w) \<Longrightarrow> ring_qs N (qs[i := q]) w"
  by (auto simp: ring_qs_def nth_list_update)

lemma ring_inited_upd [simp]:
  "ring_inited qs \<Longrightarrow> RNDIS_QUEUE_IDLE \<le> pm_state q \<Longrightarrow> ring_inited (qs[i := q])"
  by (cases "i < length qs") (auto simp: ring_inited_def nth_list_update list_update_beyond)

lemma pkt_msg_clean_state [simp]: "pm_state (fst (pkt_msg_clean q)) = RNDIS_QUEUE_IDLE"
  by (simp add: pkt_msg_clean_def)

lemma q_ok_clean_len: "length (skbs q) = N \<Longrightarrow> q_ok N (fst (pkt_msg_clean q))"
  by (simp add: q_ok_def pkt_msg_clean_def rndis_consts)

lemma ring_qs_clean [simp]:
  "ring_qs N qs w \<Longrightarrow> i < RNDIS_MSG_MAX_QUEUE \<Longrightarrow> length (skbs q) = N \<Longrightarrow>
   ring_qs N (qs[i := fst (pkt_msg_clean q)]) w"
  by (auto intro!: ring_qs_upd q_ok_clean_len simp: rndis_consts)

lemma q_ok_sent: "q_ok N q \<Longrightarrow> pm_state q = RNDIS_QUEUE_SEND \<Longrightarrow> q_ok N (q\<lparr>pm_len := l, bit_map := 0\<rparr>)"
  by (simp add: q_ok_def rndis_consts)

lemma ring_qs_sent [simp]:
  "ring_qs N qs w \<Longrightarrow> i < RNDIS_MSG_MAX_QUEUE \<Longrightarrow> pm_state (qs ! i) = RNDIS_QUEUE_SEND \<Longrightarrow>
   ring_qs N (qs[i := (qs ! i)\<lparr>pm_len := l, bit_map := 0\<rparr>]) w"
  using ring_qsD [of N qs w i] q_ok_sent [of N "qs ! i" l]
  by (auto intro!: ring_qs_upd simp: rndis_consts)

lemma idx_add_one_lt [simp]: "idx_add_one n < RNDIS_MSG_MAX_QUEUE"
  by (simp add: idx_add_one_def RNDIS_MSG_MAX_QUEUE_def)

lemma those_take_Some:
  "n \<le> length xs \<Longrightarrow> (\<forall>k < n. xs ! k \<noteq> None) \<Longrightarrow> \<exists>ys. those (take n xs) = Some ys"
proof (induction xs arbitrary: n)
  case Nil
  then show ?case by simp
next
  case (Cons x xs)
  show ?case
  proof (cases n)
    case 0
    then show ?thesis by simp
  next
    case (Suc m)
    have "\<exists>ys. those (take m xs) = Some ys" using Cons.IH [of m] Cons.prems Suc by fastforce
    moreover have "x \<noteq> None" using Cons.prems Suc by fastforce
    ultimately show ?thesis using Suc by auto
  qed
qed

lemma q_ok_sendD:
  assumes "q_ok N q" "RNDIS_QUEUE_GATHER \<le> pm_state q" "0 < N"
  shows "\<exists>req. pm_req q = Some req" "\<exists>s0 rest. skbs q = s0 # rest \<and> s0 \<noteq> None"
    "\<exists>ys. those (take (skb_idx q) (skbs q)) = Some ys"
proof -
  have q: "length (skbs q) = N" "skb_idx q \<le> pkt_cnt q" "pkt_cnt q \<le> N" "pm_req q \<noteq> None" "0 < pkt_cnt q"
    "\<forall>k < pkt_cnt q. skbs q ! k \<noteq> None"
    using assms by (auto simp: q_ok_def)
  show "\<exists>req. pm_req q = Some req" using q by auto
  show "\<exists>s0 rest. skbs q = s0 # rest \<and> s0 \<noteq> None"
    using q assms(3) by (cases "skbs q") auto
  show "\<exists>ys. those (take (skb_idx q) (skbs q)) = Some ys"
    using q by (intro those_take_Some) auto
qed

lemma ring_step_refl: "dev_ring_ok N dev \<Longrightarrow> ring_step N dev dev"
  by (simp add: ring_step_def)

lemma ring_step_trans:
  assumes "ring_step N a b" "ring_step N b c"
  shows "ring_step N a c"
proof -
  obtain ts1 where t1: "in_ep_q b = in_ep_q a @ ts1" "\<forall>t\<in>set ts1. ts_ctx t < RNDIS_MSG_MAX_QUEUE"
      "\<not> in_ep_enabled a \<longrightarrow> ts1 = []"
    using assms(1) unfolding ring_step_def by blast
  obtain ts2 where t2: "in_ep_q c = in_ep_q b @ ts2" "\<forall>t\<in>set ts2. ts_ctx t < RNDIS_MSG_MAX_QUEUE"
      "\<not> in_ep_enabled b \<longrightarrow> ts2 = []"
    using assms(2) unfolding ring_step_def by blast
  have e: "in_ep_enabled b = in_ep_enabled a" using assms(1) by (simp add: ring_step_def)
  have "\<exists>ts. in_ep_q c = in_ep_q a @ ts \<and> (\<forall>t\<in>set ts. ts_ctx t < RNDIS_MSG_MAX_QUEUE) \<and>
      (\<not> in_ep_enabled a \<longrightarrow> ts = [])"
    using t1 t2 e by (intro exI [of _ "ts1 @ ts2"]) auto
  then show ?thesis using assms unfolding ring_step_def by (simp del: dev_ring_ok_def)
qed

lemma pkt_msg_send_shape:
  assumes ring: "dev_ring_ok N dev" and i: "i < RNDIS_MSG_MAX_QUEUE" and N: "0 < N"
    and st: "pm_state (qat dev i) = RNDIS_QUEUE_SEND" and port: "port_usb dev \<noteq> None"
  shows "\<exists>d'. pkt_msg_send env i dev = Some d' \<and> dev_ring_ok N d' \<and>
           (ring_inited (msg_q (rmsg dev)) \<longrightarrow> ring_inited (msg_q (rmsg d'))) \<and>
           port_usb d' = port_usb dev \<and> net_running d' = net_running dev \<and> carrier_ok d' = carrier_ok dev \<and>
           in_ep_enabled d' = in_ep_enabled dev \<and>
           (\<exists>ts. in_ep_q d' = in_ep_q dev @ ts \<and> (\<forall>t \<in> set ts. ts_ctx t = i) \<and> (\<not> in_ep_enabled dev \<longrightarrow> ts = []))"
proof -
  have qi: "q_ok N (msg_q (rmsg dev) ! i)" "i < length (msg_q (rmsg dev))" using ring_qsD [of N _ _ i] ring i by auto
  have ge: "RNDIS_QUEUE_GATHER \<le> pm_state (msg_q (rmsg dev) ! i)" using st by (simp add: rndis_consts)
  obtain req where req: "pm_req (msg_q (rmsg dev) ! i) = Some req" using q_ok_sendD(1) [OF qi(1) ge N] by auto
  obtain l where l: "port_usb dev = Some l" using port by blast
  obtain bs where bs: "(if skb_idx (msg_q (rmsg dev) ! i) > 1 then those (take (skb_idx (msg_q (rmsg dev) ! i)) (skbs (msg_q (rmsg dev) ! i)))
                       else (case skbs (msg_q (rmsg dev) ! i) of [] \<Rightarrow> None | s0 # _ \<Rightarrow> map_option (\<lambda>s. [s]) s0)) = Some bs"
    using q_ok_sendD(2,3) [OF qi(1) ge N] by (cases "1 < skb_idx (msg_q (rmsg dev) ! i)") auto
  have st': "pm_state (msg_q (rmsg dev) ! i) = RNDIS_QUEUE_SEND" using st by simp
  have len: "length (skbs (msg_q (rmsg dev) ! i)) = N" using qi by (simp add: q_ok_def)
  show ?thesis
    using ring i st' l req bs len qi(2)
    by (auto simp: pkt_msg_send_def Let_def usb_ep_queue_def ESHUTDOWN_def rndis_consts
             split: if_splits option.splits list.splits)
qed

lemma pkt_msg_send_ok:
  assumes "dev_ring_ok N dev" "i < RNDIS_MSG_MAX_QUEUE" "0 < N"
    "pm_state (qat dev i) = RNDIS_QUEUE_SEND" "port_usb dev \<noteq> None"
  shows "\<exists>d'. pkt_msg_send env i dev = Some d' \<and> ring_step N dev d'"
proof -
  obtain d' where d': "pkt_msg_send env i dev = Some d'" "dev_ring_ok N d'"
    "ring_inited (msg_q (rmsg dev)) \<longrightarrow> ring_inited (msg_q (rmsg d'))"
    "port_usb d' = port_usb dev" "net_running d' = net_running dev" "carrier_ok d' = carrier_ok dev"
    "in_ep_enabled d' = in_ep_enabled dev"
    "\<exists>ts. in_ep_q d' = in_ep_q dev @ ts \<and> (\<forall>t \<in> set ts. ts_ctx t = i) \<and> (\<not> in_ep_enabled dev \<longrightarrow> ts = [])"
    using pkt_msg_send_shape [OF assms, of env] by blast
  have "\<exists>ts. in_ep_q d' = in_ep_q dev @ ts \<and> (\<forall>t \<in> set ts. ts_ctx t < RNDIS_MSG_MAX_QUEUE) \<and>
            (\<not> in_ep_enabled dev \<longrightarrow> ts = [])"
    using d'(8) assms(2) by auto
  then show ?thesis using d' by (auto simp: ring_step_def simp del: dev_ring_ok_def)
qed

lemma q_ok_to_send:
  "q_ok N q \<Longrightarrow> RNDIS_QUEUE_GATHER \<le> pm_state q \<Longrightarrow> (pkt_cnt q < N \<longrightarrow> skb_idx q = pkt_cnt q) \<Longrightarrow>
   q_ok N (q\<lparr>pm_state := RNDIS_QUEUE_SEND\<rparr>)"
  by (simp add: q_ok_def rndis_consts)

lemma tx_send_q_ok:
  assumes ring: "dev_ring_ok N dev" and i: "i < RNDIS_MSG_MAX_QUEUE" and N: "0 < N"
    and st: "RNDIS_QUEUE_GATHER \<le> pm_state (qat dev i)"
    and sk: "pkt_cnt (qat dev i) < N \<longrightarrow> skb_idx (qat dev i) = pkt_cnt (qat dev i)"
    and port: "port_usb dev \<noteq> None"
  shows "\<exists>d'. tx_send_q env i dev = Some d' \<and> ring_step N dev d'"
proof -
  define d1 where "d1 = q_upd i (\<lambda>q. q\<lparr>pm_state := RNDIS_QUEUE_SEND\<rparr>)
                          (msg_upd (\<lambda>m. m\<lparr>last_sent := q_idx (qat dev i)\<rparr>) dev)"
  have qi: "q_ok N (msg_q (rmsg dev) ! i)" "i < length (msg_q (rmsg dev))" using ring_qsD [of N _ _ i] ring i by auto
  have r1: "dev_ring_ok N d1"
    using ring i q_ok_to_send [OF qi(1)] st sk by (auto simp: d1_def rndis_consts intro!: ring_qs_upd)
  have s1: "ring_step N dev d1"
    using r1 st qi(2) by (auto simp: ring_step_def d1_def rndis_consts simp del: dev_ring_ok_def)
  have "pm_state (qat d1 i) = RNDIS_QUEUE_SEND" using qi by (simp add: d1_def)
  moreover have "port_usb d1 \<noteq> None" using port by (simp add: d1_def)
  ultimately obtain d' where "pkt_msg_send env i d1 = Some d'" "ring_step N d1 d'"
    using pkt_msg_send_ok [OF r1 i N] by blast
  moreover have "tx_send_q env i dev = pkt_msg_send env i d1" by (simp add: tx_send_q_def d1_def)
  ultimately show ?thesis using s1 ring_step_trans by auto
qed

lemma full_bitmap_q:
  assumes "q_ok N q" "0 < N" "N \<le> 32" "bit_map q = FULL_BIT_MAP N"
  shows "pkt_cnt q = N" "RNDIS_QUEUE_GATHER \<le> pm_state q"
proof -
  have "drop_bit (pkt_cnt q) (FULL_BIT_MAP N) = 0" "pkt_cnt q \<le> N" using assms by (auto simp: q_ok_def)
  then show "pkt_cnt q = N" using drop_bit_full [OF assms(2,3)] by fastforce
  have "bit_map q \<noteq> 0" using assms(4) FULL_BIT_MAP_nonzero [OF assms(2)] by simp
  then show "RNDIS_QUEUE_GATHER \<le> pm_state q" using assms(1) by (auto simp: q_ok_def rndis_consts)
qed

lemma tx_complete_account_ok:
  assumes ring: "dev_ring_ok N dev" and i: "ts_ctx t < RNDIS_MSG_MAX_QUEUE"
  shows "ring_step N dev (tx_complete_account st t dev)"
proof -
  have qi: "q_ok N (msg_q (rmsg dev) ! ts_ctx t)" "ts_ctx t < length (msg_q (rmsg dev))"
    using ring_qsD [of N _ _ "ts_ctx t"] ring i by auto
  then have len: "length (skbs (msg_q (rmsg dev) ! ts_ctx t)) = N" by (simp add: q_ok_def)
  show ?thesis
    using ring i qi len
    by (auto simp: tx_complete_account_def ring_step_def Let_def ring_inited_def nth_list_update)
qed

lemma tx_kick_ok:
  assumes ring: "dev_ring_ok N dev" and N: "0 < N" "N \<le> 32" and port: "port_usb dev \<noteq> None"
    and wq: "\<forall>j. wq = Some j \<longrightarrow> j < RNDIS_MSG_MAX_QUEUE"
  shows "\<exists>d'. tx_kick N env wq dev = Some d' \<and> ring_step N dev d'"
proof -
  have w: "w_idx (rmsg dev) < RNDIS_MSG_MAX_QUEUE" using ring by (simp add: ring_qs_def)
  have full: "\<exists>d'. tx_send_q env j dev = Some d' \<and> ring_step N dev d'"
    if "j < RNDIS_MSG_MAX_QUEUE" "bit_map (qat dev j) = FULL_BIT_MAP N" for j
  proof -
    have "q_ok N (qat dev j)" using ring_qsD [of N _ _ j] ring that(1) by auto
    from full_bitmap_q [OF this N that(2)] show ?thesis
      by (intro tx_send_q_ok [OF ring that(1) N(1) _ _ port]) auto
  qed
  have gath: "\<exists>d'. tx_send_q env (w_idx (rmsg dev)) dev = Some d' \<and> ring_step N dev d'"
    if "pm_state (qat dev (w_idx (rmsg dev))) = RNDIS_QUEUE_GATHER"
       "skb_idx (qat dev (w_idx (rmsg dev))) = pkt_cnt (qat dev (w_idx (rmsg dev)))"
    using that by (intro tx_send_q_ok [OF ring w N(1) _ _ port]) (auto simp: rndis_consts)
  show ?thesis
    using full gath wq w ring_step_refl [OF ring]
    by (auto simp: tx_kick_def Let_def split: option.splits simp del: dev_ring_ok_def qat_eq)
qed

lemma drop_bit_push_bit_1: "i < p \<Longrightarrow> drop_bit p (push_bit i (1 :: u32)) = 0"
  by (rule bit_eqI) (simp add: bit_drop_bit_eq bit_exp_iff)

lemma drop_bit_or_bit:
  "drop_bit p (bm :: u32) = 0 \<Longrightarrow> i < p \<Longrightarrow> drop_bit p (bm OR push_bit i 1) = 0"
  using drop_bit_push_bit_1 [of i p] by (simp add: drop_bit_or)

lemma drop_bit_mono_zero: "drop_bit p (bm :: u32) = 0 \<Longrightarrow> p \<le> p' \<Longrightarrow> drop_bit p' bm = 0"
  by (metis drop_bit_drop_bit drop_bit_of_0 le_add_diff_inverse2)

lemma q_ok_skbs: "q_ok N q \<Longrightarrow> k < pkt_cnt q \<Longrightarrow> skbs q ! k \<noteq> None"
  by (cases "RNDIS_QUEUE_GATHER \<le> pm_state q") (auto simp: q_ok_def rndis_consts)

lemma q_ok_store:
  assumes q: "q_ok N q" and p: "pkt_cnt q < N" "skb_idx q = pkt_cnt q" and req: "pm_req q \<noteq> None"
    and st: "st = RNDIS_QUEUE_GATHER \<and> Suc (pkt_cnt q) < N \<or> st = RNDIS_QUEUE_FULL \<and> Suc (pkt_cnt q) = N"
  shows "q_ok N ((store_skb s q)\<lparr>pm_state := st\<rparr>)"
proof -
  have l: "length (skbs q) = N" "drop_bit (pkt_cnt q) (bit_map q) = 0" using q by (auto simp: q_ok_def)
  have "drop_bit (Suc (pkt_cnt q)) (bit_map q OR push_bit (pkt_cnt q) 1) = 0"
    using drop_bit_mono_zero [OF l(2), of "Suc (pkt_cnt q)"] by (intro drop_bit_or_bit) auto
  moreover have "\<forall>k < Suc (pkt_cnt q). (skbs q)[pkt_cnt q := Some s] ! k \<noteq> None"
    using q_ok_skbs [OF q] l(1) p by (auto simp: nth_list_update less_Suc_eq)
  ultimately show ?thesis using l p req st by (auto simp: q_ok_def store_skb_def rndis_consts)
qed

lemma q_ok_full:
  assumes q: "q_ok N q" and p: "pkt_cnt q = N" "0 < N" and req: "pm_req q \<noteq> None"
  shows "q_ok N (q\<lparr>pm_state := RNDIS_QUEUE_FULL\<rparr>)"
proof -
  have "RNDIS_QUEUE_GATHER \<le> pm_state q" using q p by (cases "RNDIS_QUEUE_GATHER \<le> pm_state q") (auto simp: q_ok_def rndis_consts)
  then show ?thesis using q p req by (auto simp: q_ok_def rndis_consts)
qed

lemma ring_qs_move:
  "ring_qs N qs w \<Longrightarrow> pm_state (qs ! w) \<noteq> RNDIS_QUEUE_GATHER \<Longrightarrow> w' < RNDIS_MSG_MAX_QUEUE \<Longrightarrow> ring_qs N qs w'"
  by (auto simp: ring_qs_def)

lemma rndis_queue_full_ok:
  assumes ring: "dev_ring_ok N dev" and w: "w = w_idx (rmsg dev)"
    and q: "q_ok N ((f (qat dev w))\<lparr>pm_state := RNDIS_QUEUE_FULL\<rparr>)"
  shows "ring_step N dev (rndis_queue_full w (q_upd w f dev))"
proof -
  define qs' where "qs' = (msg_q (rmsg dev))[w := (f (qat dev w))\<lparr>pm_state := RNDIS_QUEUE_FULL\<rparr>]"
  have wl: "w < RNDIS_MSG_MAX_QUEUE" "w < length (msg_q (rmsg dev))" using ring w by (auto simp: ring_qs_def)
  have r0: "ring_qs N (msg_q (rmsg dev)) w" using ring w by simp
  have r1: "ring_qs N qs' w" unfolding qs'_def using r0 wl q by (auto intro!: ring_qs_upd simp: rndis_consts)
  have st: "pm_state (qs' ! w) \<noteq> RNDIS_QUEUE_GATHER" using wl by (simp add: qs'_def rndis_consts)
  have e: "rmsg (q_upd w (\<lambda>q. q\<lparr>pm_state := RNDIS_QUEUE_FULL\<rparr>) (q_upd w f dev)) = (rmsg dev)\<lparr>msg_q := qs'\<rparr>"
    using wl by (simp add: qs'_def)
  have i1: "ring_inited (msg_q (rmsg dev)) \<longrightarrow> ring_inited qs'" by (simp add: qs'_def rndis_consts)
  show ?thesis
    using r1 ring_qs_move [OF r1 st, of "idx_add_one w"] i1 ring e wl w
    by (auto simp: rndis_queue_full_def ring_step_def tx_flow_stop_def Let_def simp del: qat_eq)
qed

lemma q_ok_gather_add:
  assumes q: "q_ok N q" and g: "pm_state q = RNDIS_QUEUE_GATHER"
    and st: "st = RNDIS_QUEUE_GATHER \<and> Suc (pkt_cnt q) < N \<or> st = RNDIS_QUEUE_FULL \<and> Suc (pkt_cnt q) = N"
  shows "q_ok N ((q\<lparr>skbs := (skbs q)[pkt_cnt q := Some s], pkt_cnt := Suc (pkt_cnt q)\<rparr>)\<lparr>pm_state := st\<rparr>)"
proof -
  have l: "length (skbs q) = N" "drop_bit (pkt_cnt q) (bit_map q) = 0" "pm_req q \<noteq> None" "pkt_cnt q < N"
    "skb_idx q \<le> pkt_cnt q"
    using q g by (auto simp: q_ok_def rndis_consts)
  have "drop_bit (Suc (pkt_cnt q)) (bit_map q) = 0" using drop_bit_mono_zero [OF l(2)] by simp
  moreover have "\<forall>k < Suc (pkt_cnt q). (skbs q)[pkt_cnt q := Some s] ! k \<noteq> None"
    using q_ok_skbs [OF q] l by (auto simp: nth_list_update less_Suc_eq)
  ultimately show ?thesis using l st by (auto simp: q_ok_def rndis_consts)
qed

lemma eth_alloc_req_ok:
  assumes ring: "dev_ring_ok N dev" and N: "0 < N"
  shows "\<exists>r reqo wq d1. eth_alloc_req N skb dev = Some (r, reqo, wq, d1) \<and> ring_step N dev d1 \<and>
           (case wq of
              None \<Rightarrow> pm_state (qat d1 (w_idx (rmsg d1))) \<noteq> RNDIS_QUEUE_GATHER
            | Some j \<Rightarrow> j < RNDIS_MSG_MAX_QUEUE \<and> RNDIS_QUEUE_GATHER \<le> pm_state (qat d1 j) \<and>
                       pm_state (qat d1 j) \<le> RNDIS_QUEUE_FULL \<and> skb_idx (qat d1 j) < pkt_cnt (qat d1 j))"
proof -
  define w where "w = w_idx (rmsg dev)"
  define q where "q = qat dev w"
  have wl: "w < RNDIS_MSG_MAX_QUEUE" "w < length (msg_q (rmsg dev))" using ring by (auto simp: w_def ring_qs_def)
  have qok: "q_ok N q" using ring_qsD [of N _ _ w] ring wl by (auto simp: q_def w_def)
  show ?thesis
  proof (cases "pm_state q = RNDIS_QUEUE_GATHER")
    case True
    have p: "pkt_cnt q < N" "length (skbs q) = N" "skb_idx q \<le> pkt_cnt q" using qok True by (auto simp: q_ok_def rndis_consts)
    define f where "f = (\<lambda>q::pkt_msg. q\<lparr>skbs := (skbs q)[pkt_cnt q := Some skb], pkt_cnt := Suc (pkt_cnt q)\<rparr>)"
    define d1 where "d1 = q_upd w f dev"
    have e: "eth_alloc_req N skb dev =
        Some (NETDEV_TX_OK, pm_req q, Some w, if Suc (pkt_cnt q) \<ge> N then rndis_queue_full w d1 else d1)"
      using True p by (simp add: eth_alloc_req_def Let_def w_def q_def d1_def f_def)
    show ?thesis
    proof (cases "Suc (pkt_cnt q) \<ge> N")
      case full: True
      have "q_ok N ((f (qat dev w))\<lparr>pm_state := RNDIS_QUEUE_FULL\<rparr>)"
        using q_ok_gather_add [OF qok True, of RNDIS_QUEUE_FULL] p full by (simp add: f_def q_def)
      then have s: "ring_step N dev (rndis_queue_full w d1)"
        unfolding d1_def by (rule rndis_queue_full_ok [OF ring w_def])
      have "qat (rndis_queue_full w d1) w = (f q)\<lparr>pm_state := RNDIS_QUEUE_FULL\<rparr>"
        using wl by (simp add: rndis_queue_full_def d1_def tx_flow_stop_def Let_def q_def msg_upd_def)
      then show ?thesis using e s wl p full by (simp add: f_def rndis_consts del: qat_eq)
    next
      case nf: False
      have same: "(f q)\<lparr>pm_state := RNDIS_QUEUE_GATHER\<rparr> = f q" using True by (cases q) (simp add: f_def)
      have "q_ok N ((f q)\<lparr>pm_state := RNDIS_QUEUE_GATHER\<rparr>)"
        using q_ok_gather_add [OF qok True, of RNDIS_QUEUE_GATHER skb] p nf by (simp add: f_def)
      then have "q_ok N (f q)" by (simp only: same)
      then have r1: "dev_ring_ok N d1"
        using ring wl True by (auto simp: d1_def w_def q_def f_def intro!: ring_qs_upd)
      have s: "ring_step N dev d1" using r1 wl True by (auto simp: ring_step_def d1_def q_def f_def rndis_consts)
      have "qat d1 w = f q" using wl by (simp add: d1_def q_def)
      then show ?thesis using e s wl p nf True by (simp add: f_def rndis_consts del: qat_eq)
    qed
  next
    case False
    show ?thesis
    proof (cases "tx_reqs dev")
      case Nil
      then show ?thesis using False ring_step_refl [OF ring]
        by (simp add: eth_alloc_req_def Let_def w_def q_def)
    next
      case (Cons req rest)
      then show ?thesis using False ring
        by (auto simp: eth_alloc_req_def Let_def w_def q_def tx_flow_stop_def ring_step_def)
    qed
  qed
qed

end
