(* ===== verification/U_Ether_Safe.thy ===== *)
theory U_Ether_Safe
  imports U_Ether_Inv
begin

text \<open>
  Safety of the USB Ethernet device as a whole: the transmit entry point
  \<open>eth_start_xmit\<close> (with \<open>save_to_queue\<close>, \<open>queue_store\<close> and
  \<open>update_sbks_in_queue\<close>) and \<open>tx_complete\<close> keep the ring well formed and never
  dereference a missing request or index outside a queue; \<open>usb_ep_disable\<close> on the IN
  endpoint completes every queued transfer; the receive side leaves the transmit state
  alone (\<open>tx_same\<close>); the link and interface operations keep the device invariant
  \<open>ue_inv\<close>, so every event of \<open>ue_step\<close> succeeds on a reachable state.
\<close>

unbundle bit_operations_syntax

lemma q_upd_id [simp]: "q_upd w (\<lambda>q. q) dev = dev"
  by (simp add: q_upd_def msg_upd_def)

lemma ring_stepI:
  "dev_ring_ok N d' \<Longrightarrow> (ring_inited (msg_q (rmsg dev)) \<Longrightarrow> ring_inited (msg_q (rmsg d'))) \<Longrightarrow>
   port_usb d' = port_usb dev \<Longrightarrow> net_running d' = net_running dev \<Longrightarrow> carrier_ok d' = carrier_ok dev \<Longrightarrow>
   in_ep_enabled d' = in_ep_enabled dev \<Longrightarrow> in_ep_q d' = in_ep_q dev \<Longrightarrow> ring_step N dev d'"
  unfolding ring_step_def by auto

lemma queue_store_ok:
  assumes ring: "dev_ring_ok N dev" and w: "w = w_idx (rmsg dev)" and N: "0 < N"
    and ng: "pm_state (qat dev w) \<noteq> RNDIS_QUEUE_GATHER" and req: "pm_req (qat dev w) \<noteq> None"
    and si: "pkt_cnt (qat dev w) < N \<Longrightarrow> skb_idx (qat dev w) = pkt_cnt (qat dev w)"
  shows "\<exists>qo d'. queue_store N skb w dev = Some (qo, d') \<and> ring_step N dev d' \<and>
           (\<forall>j. qo = Some j \<longrightarrow> j < RNDIS_MSG_MAX_QUEUE)"
proof -
  define q where "q = qat dev w"
  have wl: "w < RNDIS_MSG_MAX_QUEUE" "w < length (msg_q (rmsg dev))" using ring w by (auto simp: ring_qs_def)
  have qok: "q_ok N q" using ring_qsD [of N "msg_q (rmsg dev)" "w_idx (rmsg dev)" w] ring wl w by (simp add: q_def)
  have len: "length (skbs q) = N" "pkt_cnt q \<le> N" using qok by (auto simp: q_ok_def)
  show ?thesis
  proof (cases "pkt_cnt q < N")
    case lt: True
    have pq: "pkt_cnt (qat (q_upd w (store_skb skb) dev) w) = Suc (pkt_cnt q)"
      using wl by (simp add: q_def store_skb_def)
    have si': "skb_idx q = pkt_cnt q" using si lt by (simp add: q_def)
    have e: "queue_store N skb w dev =
        Some (Some w, if N \<le> Suc (pkt_cnt q) then rndis_queue_full w (q_upd w (store_skb skb) dev)
                      else q_upd w (\<lambda>q. q\<lparr>pm_state := RNDIS_QUEUE_GATHER\<rparr>) (q_upd w (store_skb skb) dev))"
      using lt len si wl pq by (simp add: queue_store_def Let_def q_def del: qat_eq)
    show ?thesis
    proof (cases "N \<le> Suc (pkt_cnt q)")
      case True
      have "q_ok N ((store_skb skb (qat dev w))\<lparr>pm_state := RNDIS_QUEUE_FULL\<rparr>)"
        using q_ok_store [OF qok lt si', of RNDIS_QUEUE_FULL skb] lt True req by (simp add: q_def)
      then show ?thesis using rndis_queue_full_ok [OF ring w] e True wl by simp
    next
      case False
      have qg: "q_ok N ((store_skb skb q)\<lparr>pm_state := RNDIS_QUEUE_GATHER\<rparr>)"
        using q_ok_store [OF qok lt si', of RNDIS_QUEUE_GATHER skb] lt False req by (simp add: q_def)
      define d' where "d' = q_upd w (\<lambda>q. q\<lparr>pm_state := RNDIS_QUEUE_GATHER\<rparr>) (q_upd w (store_skb skb) dev)"
      have r: "msg_q (rmsg d') = (msg_q (rmsg dev))[w := (store_skb skb q)\<lparr>pm_state := RNDIS_QUEUE_GATHER\<rparr>]"
        "w_idx (rmsg d') = w" "r_idx (rmsg d') = r_idx (rmsg dev)"
        using wl w by (simp_all add: d'_def q_def)
      have "dev_ring_ok N d'" using r ring wl w qg by (auto intro!: ring_qs_upd)
      moreover have "ring_inited (msg_q (rmsg dev)) \<Longrightarrow> ring_inited (msg_q (rmsg d'))"
        using r by (simp add: rndis_consts)
      ultimately have "ring_step N dev d'" by (rule ring_stepI) (simp_all add: d'_def)
      then show ?thesis using e False wl by (simp add: d'_def)
    qed
  next
    case False
    then have p: "pkt_cnt q = N" using len by simp
    have e: "queue_store N skb w dev = Some (None, rndis_queue_full w dev)"
      using False p by (simp add: queue_store_def Let_def q_def del: qat_eq)
    have "q_ok N ((qat dev w)\<lparr>pm_state := RNDIS_QUEUE_FULL\<rparr>)"
      using q_ok_full [OF qok p N] req by (simp add: q_def)
    then have "ring_step N dev (rndis_queue_full w (q_upd w (\<lambda>q. q) dev))"
      by (rule rndis_queue_full_ok [OF ring w])
    then show ?thesis using e by simp
  qed
qed

lemma idx_add_one_ne: "w < RNDIS_MSG_MAX_QUEUE \<Longrightarrow> idx_add_one w \<noteq> w"
  by (cases "Suc w = RNDIS_MSG_MAX_QUEUE") (simp_all add: idx_add_one_def RNDIS_MSG_MAX_QUEUE_def)

lemma tx_req_release_fields [simp]:
  "rmsg (tx_req_release r dev) = rmsg dev" "port_usb (tx_req_release r dev) = port_usb dev"
  "in_ep_q (tx_req_release r dev) = in_ep_q dev" "net_running (tx_req_release r dev) = net_running dev"
  "carrier_ok (tx_req_release r dev) = carrier_ok dev" "in_ep_enabled (tx_req_release r dev) = in_ep_enabled dev"
  "tx_reqs (tx_req_release r dev) = r # tx_reqs dev" "wrap (tx_req_release r dev) = wrap dev"
  "gadget (tx_req_release r dev) = gadget dev"
  by (simp_all add: tx_req_release_def)

text \<open>The write queue after the move of \<open>save_to_queue\<close>: well formed, not gathering,
  and initialised when the ring is.\<close>

lemma save_to_queue_move:
  assumes ring: "dev_ring_ok N dev" and ng: "pm_state (qat dev (w_idx (rmsg dev))) \<noteq> RNDIS_QUEUE_GATHER"
    and w1: "(w1, dev1) = (if RNDIS_QUEUE_FULL \<le> pm_state (qat dev (w_idx (rmsg dev)))
                          then (idx_add_one (w_idx (rmsg dev)), msg_upd (\<lambda>m. m\<lparr>w_idx := idx_add_one (w_idx (rmsg dev))\<rparr>) dev)
                          else (w_idx (rmsg dev), dev))"
  shows "ring_step N dev dev1 \<and> w1 = w_idx (rmsg dev1) \<and> msg_q (rmsg dev1) = msg_q (rmsg dev) \<and>
         pm_state (qat dev1 w1) \<noteq> RNDIS_QUEUE_GATHER"
proof (cases "RNDIS_QUEUE_FULL \<le> pm_state (qat dev (w_idx (rmsg dev)))")
  case True
  define w where "w = w_idx (rmsg dev)"
  have wl: "w < RNDIS_MSG_MAX_QUEUE" using ring by (simp add: w_def ring_qs_def)
  have "ring_qs N (msg_q (rmsg dev)) (idx_add_one w)"
    using ring_qs_move [of N "msg_q (rmsg dev)" w "idx_add_one w"] ring ng by (simp add: w_def)
  moreover have "pm_state (msg_q (rmsg dev) ! idx_add_one w) \<noteq> RNDIS_QUEUE_GATHER"
    using ring_qsD [of N "msg_q (rmsg dev)" w "idx_add_one w"] ring idx_add_one_ne [OF wl] by (auto simp: w_def)
  ultimately show ?thesis using True w1 ring
    by (auto simp: w_def [symmetric] ring_step_def)
next
  case False
  then show ?thesis using w1 ring ng ring_step_refl [OF ring] by simp
qed

lemma save_to_queue_ok:
  assumes ring: "dev_ring_ok N dev" and init: "ring_inited (msg_q (rmsg dev))" and N: "0 < N"
    and ng: "pm_state (qat dev (w_idx (rmsg dev))) \<noteq> RNDIS_QUEUE_GATHER"
  shows "\<exists>rv qo d'. save_to_queue N skb req dev = Some (rv, qo, d') \<and> ring_step N dev d' \<and>
           (\<forall>j. qo = Some j \<longrightarrow> j < RNDIS_MSG_MAX_QUEUE)"
proof (cases "r_idx (rmsg dev) = idx_add_one (w_idx (rmsg dev))")
  case True
  then show ?thesis using ring_step_refl [OF ring] by (simp add: save_to_queue_def)
next
  case nf: False
  obtain w1 dev1 where w1: "(w1, dev1) = (if RNDIS_QUEUE_FULL \<le> pm_state (qat dev (w_idx (rmsg dev)))
      then (idx_add_one (w_idx (rmsg dev)), msg_upd (\<lambda>m. m\<lparr>w_idx := idx_add_one (w_idx (rmsg dev))\<rparr>) dev)
      else (w_idx (rmsg dev), dev))" by metis
  have m: "ring_step N dev dev1" "w1 = w_idx (rmsg dev1)" "msg_q (rmsg dev1) = msg_q (rmsg dev)"
    "pm_state (qat dev1 w1) \<noteq> RNDIS_QUEUE_GATHER"
    using save_to_queue_move [OF ring ng w1] by auto
  have r1: "dev_ring_ok N dev1" using m(1) by (simp add: ring_step_def)
  have wl: "w1 < RNDIS_MSG_MAX_QUEUE" "w1 < length (msg_q (rmsg dev1))" using r1 m(2) by (auto simp: ring_qs_def)
  define q where "q = qat dev1 w1"
  have qok: "q_ok N q" using ring_qsD [of N "msg_q (rmsg dev1)" "w_idx (rmsg dev1)" w1] r1 wl m(2) by (simp add: q_def)
  have idle: "RNDIS_QUEUE_IDLE \<le> pm_state q" using init wl m(3) by (simp add: ring_inited_def q_def)
  define dev2 where "dev2 = (if pm_state q = RNDIS_QUEUE_IDLE then q_upd w1 (\<lambda>q. q\<lparr>pm_req := Some req\<rparr>) dev1
                     else if pm_req q \<noteq> Some req then tx_req_release req dev1 else dev1)"
  have e: "save_to_queue N skb req dev = map_option (\<lambda>(qo, d). (0, qo, d)) (queue_store N skb w1 dev2)"
    using nf w1 [symmetric] by (simp add: save_to_queue_def Let_def dev2_def q_def del: qat_eq split: prod.split)
  have s2: "ring_step N dev1 dev2 \<and> w1 = w_idx (rmsg dev2) \<and> pm_state (qat dev2 w1) \<noteq> RNDIS_QUEUE_GATHER \<and>
      pm_req (qat dev2 w1) \<noteq> None \<and> (pkt_cnt (qat dev2 w1) < N \<longrightarrow> skb_idx (qat dev2 w1) = pkt_cnt (qat dev2 w1))"
  proof (cases "pm_state q = RNDIS_QUEUE_IDLE")
    case True
    have "q_ok N (q\<lparr>pm_req := Some req\<rparr>)" using qok by (simp add: q_ok_def)
    then have "dev_ring_ok N dev2" using r1 wl True m(2) by (auto simp: dev2_def q_def rndis_consts intro!: ring_qs_upd)
    moreover have "ring_inited (msg_q (rmsg dev1)) \<Longrightarrow> ring_inited (msg_q (rmsg dev2))"
      using True by (simp add: dev2_def q_def rndis_consts)
    ultimately have "ring_step N dev1 dev2" by (rule ring_stepI) (simp_all add: dev2_def True)
    then show ?thesis using True qok wl m(2,4) by (auto simp: dev2_def q_ok_def q_def rndis_consts)
  next
    case False
    then have g: "RNDIS_QUEUE_GATHER \<le> pm_state q" "pm_state q \<noteq> RNDIS_QUEUE_GATHER"
      using idle m(4) by (auto simp: rndis_consts q_def)
    have s1: "rmsg dev2 = rmsg dev1" using False by (simp add: dev2_def)
    have same: "rmsg dev2 = rmsg dev1" "qat dev2 w1 = q" by (simp_all add: s1 q_def)
    have "ring_step N dev1 dev2" using r1 same by (intro ring_stepI) (auto simp: dev2_def)
    then show ?thesis using same qok g m(2) by (auto simp: q_ok_def rndis_consts)
  qed
  obtain qo d' where qs: "queue_store N skb w1 dev2 = Some (qo, d')" "ring_step N dev2 d'"
      "\<forall>j. qo = Some j \<longrightarrow> j < RNDIS_MSG_MAX_QUEUE"
    using queue_store_ok [of N dev2 w1 skb] s2 N by (auto simp: ring_step_def)
  have "ring_step N dev d'" using ring_step_trans [OF m(1) ring_step_trans [OF _ qs(2)]] s2 by blast
  then show ?thesis using e qs by simp
qed

lemma q_ok_mark:
  assumes q: "q_ok N q" and i: "i < pkt_cnt q" and si: "skb_idx q < pkt_cnt q"
    and st: "RNDIS_QUEUE_GATHER \<le> pm_state q" "pm_state q \<le> RNDIS_QUEUE_FULL"
  shows "q_ok N (q\<lparr>skbs := (skbs q)[i := Some s], bit_map := bit_map q OR push_bit i 1, skb_idx := Suc (skb_idx q)\<rparr>)"
proof -
  have l: "length (skbs q) = N" "drop_bit (pkt_cnt q) (bit_map q) = 0" using q by (auto simp: q_ok_def)
  have il: "i < length (skbs q)" using q i by (auto simp: q_ok_def)
  have "drop_bit (pkt_cnt q) (bit_map q OR push_bit i 1) = 0" using l(2) i by (rule drop_bit_or_bit)
  moreover have "\<forall>k < pkt_cnt q. (skbs q)[i := Some s] ! k \<noteq> None"
    using q_ok_skbs [OF q] il by (auto simp: nth_list_update)
  ultimately show ?thesis using q si st by (auto simp: q_ok_def rndis_consts)
qed

lemma update_sbks_loop_ok:
  "q_ok N q \<Longrightarrow> skb_idx q < pkt_cnt q \<Longrightarrow> RNDIS_QUEUE_GATHER \<le> pm_state q \<Longrightarrow> pm_state q \<le> RNDIS_QUEUE_FULL \<Longrightarrow>
   \<exists>q'. update_sbks_loop i new old q = Some q' \<and> q_ok N q' \<and> pm_state q' = pm_state q"
proof (induction i new old q rule: update_sbks_loop.induct)
  case (1 i new old q)
  have len: "length (skbs q) = N" "pkt_cnt q \<le> N" using "1.prems"(1) by (auto simp: q_ok_def)
  show ?case
  proof (cases "i < pkt_cnt q")
    case True
    show ?thesis
    proof (cases "skbs q ! i = Some old")
      case True
      then show ?thesis using \<open>i < pkt_cnt q\<close> len q_ok_mark [OF "1.prems"(1) \<open>i < pkt_cnt q\<close> "1.prems"(2-4)]
        by simp
    next
      case False
      then show ?thesis using "1.IH" [OF \<open>i < pkt_cnt q\<close> _ False "1.prems"] \<open>i < pkt_cnt q\<close> len by simp
    qed
  next
    case False
    then show ?thesis using "1.prems" by simp
  qed
qed

lemma update_sbks_in_queue_ok:
  assumes ring: "dev_ring_ok N dev" and j: "j < RNDIS_MSG_MAX_QUEUE"
    and q: "skb_idx (qat dev j) < pkt_cnt (qat dev j)" "RNDIS_QUEUE_GATHER \<le> pm_state (qat dev j)"
      "pm_state (qat dev j) \<le> RNDIS_QUEUE_FULL"
  shows "\<exists>d'. update_sbks_in_queue j new old dev = Some d' \<and> ring_step N dev d'"
proof -
  have jl: "j < length (msg_q (rmsg dev))" using ring j by (simp add: ring_qs_def)
  have qok: "q_ok N (qat dev j)" using ring_qsD [of N "msg_q (rmsg dev)" "w_idx (rmsg dev)" j] ring j by simp
  obtain q' where q': "update_sbks_loop 0 new old (qat dev j) = Some q'" "q_ok N q'" "pm_state q' = pm_state (qat dev j)"
    using update_sbks_loop_ok [OF qok q] by blast
  define d' where "d' = q_upd j (\<lambda>_. q') dev"
  have gw: "pm_state q' = RNDIS_QUEUE_GATHER \<Longrightarrow> j = w_idx (rmsg dev)"
    using ring_qsD [of N "msg_q (rmsg dev)" "w_idx (rmsg dev)" j] ring j q'(3) by simp
  have "dev_ring_ok N d'" using ring j q'(2) gw by (auto simp: d'_def intro!: ring_qs_upd)
  moreover have "ring_inited (msg_q (rmsg dev)) \<Longrightarrow> ring_inited (msg_q (rmsg d'))"
    using q'(3) q(2) by (simp add: d'_def rndis_consts)
  ultimately have "ring_step N dev d'" by (rule ring_stepI) (simp_all add: d'_def)
  then show ?thesis using q'(1) by (simp add: update_sbks_in_queue_def d'_def)
qed

lemma free_skb_fields [simp]:
  "rmsg (free_skb s dev) = rmsg dev" "port_usb (free_skb s dev) = port_usb dev"
  "in_ep_q (free_skb s dev) = in_ep_q dev" "net_running (free_skb s dev) = net_running dev"
  "carrier_ok (free_skb s dev) = carrier_ok dev" "in_ep_enabled (free_skb s dev) = in_ep_enabled dev"
  "tx_reqs (free_skb s dev) = tx_reqs dev" "wrap (free_skb s dev) = wrap dev" "gadget (free_skb s dev) = gadget dev"
  by (simp_all add: free_skb_def)

lemma free_skb_ok: "dev_ring_ok N dev \<Longrightarrow> ring_step N dev (free_skb s dev)"
  by (rule ring_stepI) simp_all

lemma tx_drop_ok: "dev_ring_ok N dev \<Longrightarrow> ring_step N dev (tx_drop r dev)"
  by (rule ring_stepI) (simp_all add: tx_drop_def)

lemma tx_drop_free_ok: "dev_ring_ok N dev \<Longrightarrow> ring_step N dev (tx_drop r (free_skb s dev))"
  by (rule ring_stepI) (simp_all add: tx_drop_def)

lemma ring_step_inited: "ring_step N dev d' \<Longrightarrow> ring_inited (msg_q (rmsg dev)) \<Longrightarrow> ring_inited (msg_q (rmsg d'))"
  by (simp add: ring_step_def)

lemma ring_step_ring: "ring_step N dev d' \<Longrightarrow> dev_ring_ok N d'"
  by (simp add: ring_step_def)

text \<open>The part of \<open>eth_start_xmit\<close> after the request is taken.\<close>

lemma eth_start_xmit_queue_ok:
  assumes r1: "dev_ring_ok N dev1" and i1: "ring_inited (msg_q (rmsg dev1))" and N: "0 < N" "N \<le> 32"
    and p1: "port_usb dev1 \<noteq> None"
    and c: "case wq of
              None \<Rightarrow> pm_state (qat dev1 (w_idx (rmsg dev1))) \<noteq> RNDIS_QUEUE_GATHER
            | Some j \<Rightarrow> j < RNDIS_MSG_MAX_QUEUE \<and> RNDIS_QUEUE_GATHER \<le> pm_state (qat dev1 j) \<and>
                       pm_state (qat dev1 j) \<le> RNDIS_QUEUE_FULL \<and> skb_idx (qat dev1 j) < pkt_cnt (qat dev1 j)"
  shows "\<exists>rv wq' dev2. (case wq of
                            None \<Rightarrow> save_to_queue N s req dev1
                          | Some j \<Rightarrow> if s \<noteq> skb then map_option (\<lambda>d. (0, wq, d)) (update_sbks_in_queue j s skb dev1)
                                      else Some (0, wq, dev1)) = Some (rv, wq', dev2) \<and>
           ring_step N dev1 dev2 \<and> (\<forall>j. wq' = Some j \<longrightarrow> j < RNDIS_MSG_MAX_QUEUE)"
proof (cases wq)
  case None
  then show ?thesis using save_to_queue_ok [OF r1 i1 N(1), of s req] c by simp
next
  case (Some j)
  show ?thesis
  proof (cases "s \<noteq> skb")
    case True
    then show ?thesis using update_sbks_in_queue_ok [OF r1, of j s skb] c Some by auto
  next
    case False
    then show ?thesis using ring_step_refl [OF r1] c Some by simp
  qed
qed

lemma xmit_req_ok:
  assumes r1: "dev_ring_ok N dev1" and i1: "ring_inited (msg_q (rmsg dev1))" and N: "0 < N" "N \<le> 32"
    and p1: "port_usb dev1 \<noteq> None"
    and c: "case wq of
              None \<Rightarrow> pm_state (qat dev1 (w_idx (rmsg dev1))) \<noteq> RNDIS_QUEUE_GATHER
            | Some j \<Rightarrow> j < RNDIS_MSG_MAX_QUEUE \<and> RNDIS_QUEUE_GATHER \<le> pm_state (qat dev1 j) \<and>
                       pm_state (qat dev1 j) \<le> RNDIS_QUEUE_FULL \<and> skb_idx (qat dev1 j) < pkt_cnt (qat dev1 j)"
  shows "\<exists>r d'. xmit_req N env skb req wq dev1 = Some (r, d') \<and> ring_step N dev1 d'"
proof (cases "case wrap dev1 of Some g \<Rightarrow> g skb | None \<Rightarrow> Some skb")
  case None
  then show ?thesis using tx_drop_ok [OF r1] by (simp add: xmit_req_def)
next
  case (Some s)
  show ?thesis
  proof (cases "gadget_dma32 (gadget dev1) \<and> skb_headroom s < skb_align s")
    case True
    then show ?thesis using Some tx_drop_free_ok [OF r1] by (simp add: xmit_req_def)
  next
    case False
    obtain rv wq' dev2 where q: "(case wq of
                      None \<Rightarrow> save_to_queue N s req dev1
                    | Some j \<Rightarrow> if s \<noteq> skb then map_option (\<lambda>d. (0, wq, d)) (update_sbks_in_queue j s skb dev1)
                                else Some (0, wq, dev1)) = Some (rv, wq', dev2)"
        and s2: "ring_step N dev1 dev2" and b: "\<forall>j. wq' = Some j \<longrightarrow> j < RNDIS_MSG_MAX_QUEUE"
      using eth_start_xmit_queue_ok [OF r1 i1 N p1 c, of s req skb] by blast
    have e: "xmit_req N env skb req wq dev1 =
        (if rv = 0 then map_option (\<lambda>d. (NETDEV_TX_OK, d)) (tx_kick N env wq' dev2)
         else Some (NETDEV_TX_OK, tx_drop req (free_skb s dev2)))"
      by (simp only: xmit_req_def Some option.simps if_not_P [OF False] q prod.case)
    have r2: "dev_ring_ok N dev2" and p2: "port_usb dev2 \<noteq> None"
      using s2 p1 by (auto simp: ring_step_def simp del: dev_ring_ok_def)
    show ?thesis
    proof (cases "rv = 0")
      case True
      obtain d' where "tx_kick N env wq' dev2 = Some d'" "ring_step N dev2 d'"
        using tx_kick_ok [OF r2 N p2 b] by blast
      then show ?thesis using e True ring_step_trans [OF s2] by simp
    next
      case False
      then show ?thesis using e ring_step_trans [OF s2 tx_drop_free_ok [OF r2]] by simp
    qed
  qed
qed

lemma eth_start_xmit_ok:
  assumes ring: "dev_ring_ok N dev" and init: "ring_inited (msg_q (rmsg dev))" and N: "0 < N" "N \<le> 32"
  shows "\<exists>r d'. eth_start_xmit N env skb dev = Some (r, d') \<and> ring_step N dev d'"
proof (cases "port_usb dev")
  case None
  then show ?thesis using free_skb_ok [OF ring] by (simp add: eth_start_xmit_def)
next
  case (Some l)
  show ?thesis
  proof (cases "cdc_filter_drops (cdc_filter l) skb")
    case True
    then show ?thesis using Some free_skb_ok [OF ring] by (simp add: eth_start_xmit_def)
  next
    case nf: False
    obtain r0 reqo wq dev1 where ea: "eth_alloc_req N skb dev = Some (r0, reqo, wq, dev1)" and s1: "ring_step N dev dev1"
      and c: "case wq of
              None \<Rightarrow> pm_state (qat dev1 (w_idx (rmsg dev1))) \<noteq> RNDIS_QUEUE_GATHER
            | Some j \<Rightarrow> j < RNDIS_MSG_MAX_QUEUE \<and> RNDIS_QUEUE_GATHER \<le> pm_state (qat dev1 j) \<and>
                       pm_state (qat dev1 j) \<le> RNDIS_QUEUE_FULL \<and> skb_idx (qat dev1 j) < pkt_cnt (qat dev1 j)"
      using eth_alloc_req_ok [OF ring N(1), of skb] by blast
    have r1: "dev_ring_ok N dev1" and i1: "ring_inited (msg_q (rmsg dev1))" and p1: "port_usb dev1 \<noteq> None"
      using s1 init Some by (auto simp: ring_step_def simp del: dev_ring_ok_def)
    have "\<exists>r d'. eth_start_xmit N env skb dev = Some (r, d') \<and> ring_step N dev1 d'"
    proof (cases reqo)
      case None
      then show ?thesis using Some nf ea ring_step_refl [OF r1] by (simp add: eth_start_xmit_def)
    next
      case (Some req)
      then show ?thesis using \<open>port_usb dev = Some l\<close> nf ea xmit_req_ok [OF r1 i1 N p1 c, of env skb req]
        by (simp add: eth_start_xmit_def)
    qed
    then show ?thesis using ring_step_trans [OF s1] by blast
  qed
qed

lemma tx_same_refl [simp]: "tx_same dev dev"
  by (simp add: tx_same_def)

lemma tx_same_trans: "tx_same a b \<Longrightarrow> tx_same b c \<Longrightarrow> tx_same a c"
  by (simp add: tx_same_def)

lemma defer_kevent_tx_same [simp]: "tx_same dev (defer_kevent dev)"
  by (simp add: tx_same_def defer_kevent_def)

lemma rx_submit_tx_same: "tx_same dev (snd (rx_submit N env req dev))"
  by (auto simp: rx_submit_def tx_same_def defer_kevent_def Let_def split: option.split)

lemma rx_frames_loop_tx_same: "tx_same dev (rx_frames_loop st fs dev)"
proof (induction st fs dev rule: rx_frames_loop.induct)
  case (2 status len rest dev)
  then show ?case by (auto simp: tx_same_def stats_upd_def)
qed simp

lemma rx_requeue_tx_same: "tx_same dev (rx_requeue N env req dev)"
  using rx_submit_tx_same [of dev N env req] by (auto simp: rx_requeue_def tx_same_def)

lemma rx_complete_tx_same: "tx_same dev (rx_complete N env req st actual dev)"
proof -
  have u: "tx_same dev (snd (case unwrap dev of
              Some f \<Rightarrow> (if port_usb dev \<noteq> None
                         then (case f actual of (st, fr) \<Rightarrow> (st, dev\<lparr>rx_frames := rx_frames dev @ fr\<rparr>))
                         else (- ENOTCONN, dev))
            | None \<Rightarrow> (0, dev\<lparr>rx_frames := rx_frames dev @ [actual]\<rparr>)))"
    by (auto simp: tx_same_def split: option.split prod.split)
  have l: "tx_same d (rx_requeue N env req ((rx_frames_loop s fs d)\<lparr>rx_frames := []\<rparr>))" for s fs d
    using rx_frames_loop_tx_same [of d s fs] rx_requeue_tx_same [of "(rx_frames_loop s fs d)\<lparr>rx_frames := []\<rparr>" N env req]
    by (auto simp: tx_same_def)
  show ?thesis
    using tx_same_trans [OF u l] rx_requeue_tx_same
    by (auto simp: rx_complete_def Let_def tx_same_def defer_kevent_def stats_upd_def case_prod_beta
             intro: tx_same_trans)
qed

lemma rx_fill_tx_same: "tx_same dev (rx_fill N env dev)"
proof (induction N env dev rule: rx_fill.induct)
  case (1 N env dev)
  show ?case
  proof (cases "rx_reqs dev")
    case Nil
    then show ?thesis by (subst rx_fill.simps) simp
  next
    case (Cons req rest)
    obtain rc dev1 where sub: "rx_submit N env req (dev\<lparr>rx_reqs := rest\<rparr>) = (rc, dev1)" by fastforce
    have s: "tx_same dev dev1"
      using rx_submit_tx_same [of "dev\<lparr>rx_reqs := rest\<rparr>" N env req] sub by (simp add: tx_same_def)
    show ?thesis
    proof (cases "rc < 0")
      case True
      then show ?thesis using Cons sub s tx_same_trans [OF s defer_kevent_tx_same] by (subst rx_fill.simps) simp
    next
      case False
      then show ?thesis using Cons sub tx_same_trans [OF s "1.IH" [OF Cons sub [symmetric] _ False]]
        by (subst rx_fill.simps) simp
    qed
  qed
qed

lemma eth_work_tx_same: "tx_same dev (eth_work N env dev)"
proof -
  have "tx_same dev (dev\<lparr>work_pending := False, todo := False\<rparr>)" by (simp add: tx_same_def)
  then show ?thesis using rx_fill_tx_same [of "dev\<lparr>work_pending := False, todo := False\<rparr>" N env]
    by (auto simp: eth_work_def Let_def tx_same_def)
qed

lemma rx_complete_all_tx_same: "tx_same dev (rx_complete_all N env n dev)"
proof (induction n arbitrary: dev)
  case (Suc n)
  have "tx_same dev (rx_complete_head N env (- ESHUTDOWN) 0 dev)"
    using rx_complete_tx_same by (auto simp: rx_complete_head_def tx_same_def split: list.split)
  then show ?case using Suc [of "rx_complete_head N env (- ESHUTDOWN) 0 dev"] by (auto intro: tx_same_trans)
qed simp

lemma usb_ep_disable_out_tx_same: "tx_same dev (usb_ep_disable_out N env dev)"
  using rx_complete_all_tx_same [of "dev\<lparr>out_ep_enabled := False\<rparr>" N env "length (out_ep_q dev)"]
  by (auto simp: usb_ep_disable_out_def tx_same_def)

lemma tx_complete_ok:
  assumes ring: "dev_ring_ok N dev" and N: "0 < N" and q: "in_ep_q dev = t # rest"
    and ctx: "ts_ctx t < RNDIS_MSG_MAX_QUEUE" and port: "port_usb dev \<noteq> None"
  shows "\<exists>d'. tx_complete env st dev = Some d' \<and> ring_step N (dev\<lparr>in_ep_q := rest\<rparr>) d'"
proof -
  define d8 where "d8 = tx_complete_account st t (dev\<lparr>in_ep_q := rest\<rparr>)"
  have s8: "ring_step N (dev\<lparr>in_ep_q := rest\<rparr>) d8"
    unfolding d8_def using ring ctx by (intro tx_complete_account_ok) simp_all
  have r8: "dev_ring_ok N d8" and p8: "port_usb d8 \<noteq> None"
    using s8 port by (auto simp: ring_step_def simp del: dev_ring_ok_def)
  have w8: "w_idx (rmsg d8) < RNDIS_MSG_MAX_QUEUE" using r8 by (simp add: ring_qs_def)
  have e: "tx_complete env st dev =
      (let w = w_idx (rmsg d8); wq = qat d8 w
       in if w = r_idx (rmsg d8) \<and> pm_state wq = RNDIS_QUEUE_GATHER \<and> skb_idx wq = pkt_cnt wq
          then tx_send_q env w d8 else Some d8)"
    by (simp only: tx_complete_def q list.case d8_def Let_def)
  show ?thesis
  proof (cases "w_idx (rmsg d8) = r_idx (rmsg d8) \<and> pm_state (qat d8 (w_idx (rmsg d8))) = RNDIS_QUEUE_GATHER \<and>
                skb_idx (qat d8 (w_idx (rmsg d8))) = pkt_cnt (qat d8 (w_idx (rmsg d8)))")
    case True
    have "\<exists>d'. tx_send_q env (w_idx (rmsg d8)) d8 = Some d' \<and> ring_step N d8 d'"
      using True by (intro tx_send_q_ok [OF r8 w8 N _ _ p8]) (auto simp: rndis_consts simp del: qat_eq)
    moreover have "tx_complete env st dev = tx_send_q env (w_idx (rmsg d8)) d8"
      unfolding e Let_def using True by (rule if_P)
    ultimately show ?thesis using ring_step_trans [OF s8] by auto
  next
    case False
    have "tx_complete env st dev = Some d8" unfolding e Let_def using False by (rule if_not_P)
    then show ?thesis using s8 by simp
  qed
qed

lemma ring_step_disabled: "ring_step N a b \<Longrightarrow> \<not> in_ep_enabled a \<Longrightarrow> in_ep_q b = in_ep_q a"
  by (auto simp: ring_step_def)

lemma ring_step_in_ep_q_upd:
  "ring_step N a b \<Longrightarrow> in_ep_q b = in_ep_q a \<Longrightarrow> ring_step N (a\<lparr>in_ep_q := x\<rparr>) (b\<lparr>in_ep_q := x\<rparr>)"
  by (simp add: ring_step_def)

lemma tx_complete_all_ok:
  "dev_ring_ok N dev \<Longrightarrow> 0 < N \<Longrightarrow> \<not> in_ep_enabled dev \<Longrightarrow> port_usb dev \<noteq> None \<Longrightarrow>
   \<forall>t \<in> set (in_ep_q dev). ts_ctx t < RNDIS_MSG_MAX_QUEUE \<Longrightarrow>
   \<exists>d'. tx_complete_all env n dev = Some d' \<and> ring_step N (dev\<lparr>in_ep_q := drop n (in_ep_q dev)\<rparr>) d'"
proof (induction n arbitrary: dev)
  case 0
  then show ?case using ring_step_refl [of N dev] by simp
next
  case (Suc n)
  show ?case
  proof (cases "in_ep_q dev")
    case Nil
    then show ?thesis using Suc.IH [OF Suc.prems] by (simp add: tx_complete_def)
  next
    case (Cons t rest)
    have ctx: "ts_ctx t < RNDIS_MSG_MAX_QUEUE" using Suc.prems(5) Cons by simp
    obtain d1 where d1: "tx_complete env (- ESHUTDOWN) dev = Some d1" "ring_step N (dev\<lparr>in_ep_q := rest\<rparr>) d1"
      using tx_complete_ok [OF Suc.prems(1,2) Cons ctx Suc.prems(4), where env = env and st = "- ESHUTDOWN"] by blast
    have q1: "in_ep_q d1 = rest" using ring_step_disabled [OF d1(2)] Suc.prems(3) by simp
    have f1: "dev_ring_ok N d1" "\<not> in_ep_enabled d1" "port_usb d1 \<noteq> None"
      using d1(2) Suc.prems(3,4) by (auto simp: ring_step_def simp del: dev_ring_ok_def)
    obtain d' where d': "tx_complete_all env n d1 = Some d'" "ring_step N (d1\<lparr>in_ep_q := drop n (in_ep_q d1)\<rparr>) d'"
      using Suc.IH [OF f1(1) Suc.prems(2) f1(2,3)] q1 Suc.prems(5) Cons by auto
    have "ring_step N (dev\<lparr>in_ep_q := drop n rest\<rparr>) (d1\<lparr>in_ep_q := drop n rest\<rparr>)"
      using ring_step_in_ep_q_upd [OF d1(2), of "drop n rest"] q1 by simp
    then show ?thesis using d' d1(1) q1 Cons ring_step_trans by fastforce
  qed
qed

lemma usb_ep_disable_in_ok:
  assumes "dev_ring_ok N dev" "0 < N" "port_usb dev = None \<Longrightarrow> in_ep_q dev = []"
    "\<forall>t \<in> set (in_ep_q dev). ts_ctx t < RNDIS_MSG_MAX_QUEUE"
  shows "\<exists>d'. usb_ep_disable_in env dev = Some d' \<and> ring_step N (dev\<lparr>in_ep_enabled := False, in_ep_q := []\<rparr>) d'"
proof (cases "port_usb dev")
  case None
  have "ring_step N (dev\<lparr>in_ep_enabled := False, in_ep_q := []\<rparr>) (dev\<lparr>in_ep_enabled := False\<rparr>)"
    using assms None by (intro ring_stepI) simp_all
  then show ?thesis using None assms by (simp add: usb_ep_disable_in_def)
next
  case (Some l)
  then show ?thesis using tx_complete_all_ok [of N "dev\<lparr>in_ep_enabled := False\<rparr>" env "length (in_ep_q dev)"] assms
    by (simp add: usb_ep_disable_in_def)
qed

lemma rndis_msg_init_ring:
  "dev_ring_ok N (rndis_msg_init N dev) \<and> ring_inited (msg_q (rmsg (rndis_msg_init N dev)))"
proof -
  define qs where "qs = map (\<lambda>i. fst (pkt_msg_clean ((msg_q (rmsg dev) ! i)\<lparr>q_idx := i, skbs := replicate N None\<rparr>)))
                           [0..<RNDIS_MSG_MAX_QUEUE]"
  have e: "msg_q (rmsg (rndis_msg_init N dev)) = qs" "w_idx (rmsg (rndis_msg_init N dev)) = 0"
    "r_idx (rmsg (rndis_msg_init N dev)) = 0"
    by (simp_all add: rndis_msg_init_def qs_def)
  have "\<forall>i < RNDIS_MSG_MAX_QUEUE. q_ok N (qs ! i) \<and> pm_state (qs ! i) = RNDIS_QUEUE_IDLE"
    by (simp add: qs_def q_ok_clean_len)
  then show ?thesis using e by (simp add: ring_qs_def ring_inited_def qs_def rndis_consts)
qed

lemma rndis_msg_init_tx [simp]:
  "in_ep_q (rndis_msg_init N dev) = in_ep_q dev" "port_usb (rndis_msg_init N dev) = port_usb dev"
  "net_running (rndis_msg_init N dev) = net_running dev" "carrier_ok (rndis_msg_init N dev) = carrier_ok dev"
  "in_ep_enabled (rndis_msg_init N dev) = in_ep_enabled dev"
  by (simp_all add: rndis_msg_init_def)

lemma eth_start_ok:
  "dev_ring_ok N (eth_start N env dev) \<and> ring_inited (msg_q (rmsg (eth_start N env dev))) \<and>
   in_ep_q (eth_start N env dev) = in_ep_q dev \<and> port_usb (eth_start N env dev) = port_usb dev \<and>
   net_running (eth_start N env dev) = net_running dev \<and> carrier_ok (eth_start N env dev) = carrier_ok dev \<and>
   in_ep_enabled (eth_start N env dev) = in_ep_enabled dev"
  using rndis_msg_init_ring [of N "(rx_fill N env dev)\<lparr>tx_qlen := 0, txq_stopped := False\<rparr>"]
    rx_fill_tx_same [of dev N env]
  by (simp add: eth_start_def tx_same_def)

lemma alloc_requests_tx_same: "tx_same dev (snd (alloc_requests env n dev))"
  by (simp add: alloc_requests_def tx_same_def Let_def split: prod.split)

lemma ue_inv_tx_same: "ue_inv N dev \<Longrightarrow> tx_same dev d' \<Longrightarrow> ue_inv N d'"
  by (simp add: ue_inv_def tx_same_def)

lemma ue_inv_ring_step:
  "ue_inv N dev \<Longrightarrow> ring_step N dev d' \<Longrightarrow> (port_usb dev = None \<Longrightarrow> in_ep_q d' = []) \<Longrightarrow> ue_inv N d'"
  unfolding ue_inv_def ring_step_def by (auto simp del: dev_ring_ok_def)

lemma rx_complete_head_tx_same: "tx_same dev (rx_complete_head N env st actual dev)"
  using rx_complete_tx_same by (auto simp: rx_complete_head_def tx_same_def split: list.split)

lemma ueth_change_mtu_tx_same: "tx_same dev (snd (ueth_change_mtu m dev))"
  by (simp add: ueth_change_mtu_def tx_same_def)

lemma free_skb_tx_same: "tx_same dev (free_skb s dev)"
  by (simp add: tx_same_def)

lemma ue_inv_trace [simp]: "ue_inv N (d\<lparr>ue_trace := x\<rparr>) = ue_inv N d"
  by (simp add: ue_inv_def)

lemma eth_open_inv: "ue_inv N dev \<Longrightarrow> ue_inv N (snd (eth_open N env (dev\<lparr>net_running := True\<rparr>)))"
proof -
  assume inv: "ue_inv N dev"
  have "ue_inv N (if carrier_ok dev then eth_start N env (dev\<lparr>net_running := True\<rparr>) else dev\<lparr>net_running := True\<rparr>)"
  proof (cases "carrier_ok dev")
    case True
    then show ?thesis using inv eth_start_ok [of N env "dev\<lparr>net_running := True\<rparr>"]
      by (auto simp: ue_inv_def simp del: dev_ring_ok_def)
  next
    case False
    then show ?thesis using inv by (simp add: ue_inv_def)
  qed
  then show ?thesis by (simp add: eth_open_def Let_def)
qed

lemma eth_stop_inv:
  assumes inv: "ue_inv N dev" and nr: "\<not> net_running dev"
  shows "\<exists>d'. eth_stop N env dev = Some d' \<and> ue_inv N d'"
proof (cases "port_usb dev")
  case None
  then show ?thesis using inv by (simp add: eth_stop_def ue_inv_def)
next
  case (Some l)
  define d0 where "d0 = dev\<lparr>txq_stopped := True, ue_trace := ue_trace dev @ [LinkClose]\<rparr>"
  have r0: "dev_ring_ok N d0" "0 < N" "\<forall>t \<in> set (in_ep_q d0). ts_ctx t < RNDIS_MSG_MAX_QUEUE"
    using inv by (simp_all add: d0_def ue_inv_def)
  obtain dev2 where d2: "usb_ep_disable_in env d0 = Some dev2"
      "ring_step N (d0\<lparr>in_ep_enabled := False, in_ep_q := []\<rparr>) dev2"
    using usb_ep_disable_in_ok [OF r0(1,2) _ r0(3), of env] Some by (auto simp: d0_def)
  have f2: "in_ep_q dev2 = []" "dev_ring_ok N dev2" "\<not> net_running dev2"
    using ring_step_disabled [OF d2(2)] d2(2) nr by (auto simp: ring_step_def d0_def simp del: dev_ring_ok_def)
  define dev3 where "dev3 = usb_ep_disable_out N env dev2"
  have f3: "in_ep_q dev3 = []" "dev_ring_ok N dev3" "\<not> net_running dev3"
    using usb_ep_disable_out_tx_same [of dev2 N env] f2 by (simp_all add: dev3_def tx_same_def)
  have e: "eth_stop N env dev = Some (if carrier_ok dev3 then dev3\<lparr>in_ep_enabled := True, out_ep_enabled := True\<rparr> else dev3)"
    using Some d2(1) by (simp add: eth_stop_def d0_def dev3_def Let_def)
  show ?thesis using e f3 inv by (simp add: ue_inv_def)
qed

lemma gether_connect_inv:
  assumes inv: "ue_inv N dev" and np: "port_usb dev = None"
  shows "ue_inv N (snd (gether_connect N env l dev))"
proof -
  obtain result dev3 where a: "alloc_requests env (qlen (gadget dev)) (dev\<lparr>in_ep_enabled := True, out_ep_enabled := True\<rparr>) = (result, dev3)"
    by fastforce
  have t3: "tx_same (dev\<lparr>in_ep_enabled := True, out_ep_enabled := True\<rparr>) dev3"
    using alloc_requests_tx_same [of "dev\<lparr>in_ep_enabled := True, out_ep_enabled := True\<rparr>" env "qlen (gadget dev)"] a by simp
  have q0: "in_ep_q dev = []" using inv np by (simp add: ue_inv_def)
  define dev4 where "dev4 = dev3\<lparr>zlp := is_zlp_ok l, header_len := g_header_len l, unwrap := g_unwrap l,
                                    wrap := g_wrap l, port_usb := Some l,
                                    ue_trace := ue_trace dev3 @ [if net_running dev3 then LinkOpen else LinkClose],
                                    carrier_ok := True\<rparr>"
  have i4: "ue_inv N (if net_running dev4 then eth_start N env dev4 else dev4)"
  proof (cases "net_running dev4")
    case True
    then show ?thesis using inv t3 q0 eth_start_ok [of N env dev4]
      by (auto simp: ue_inv_def tx_same_def dev4_def simp del: dev_ring_ok_def)
  next
    case False
    then show ?thesis using inv t3 q0 by (auto simp: ue_inv_def tx_same_def dev4_def)
  qed
  have i5: "ue_inv N (dev3\<lparr>out_ep_enabled := False, in_ep_enabled := False\<rparr>)"
    using inv t3 by (simp add: ue_inv_def tx_same_def)
  have i6: "ue_inv N (dev\<lparr>in_ep_enabled := False\<rparr>)" using inv by (simp add: ue_inv_def)
  have "snd (gether_connect N env l dev) \<in> {dev, dev\<lparr>in_ep_enabled := False\<rparr>,
          if net_running dev4 then eth_start N env dev4 else dev4, dev3\<lparr>out_ep_enabled := False, in_ep_enabled := False\<rparr>}"
    using a by (auto simp: gether_connect_def Let_def dev4_def)
  then show ?thesis using inv i4 i5 i6 by (auto simp del: dev_ring_ok_def)
qed

lemma gether_disconnect_inv:
  assumes inv: "ue_inv N dev"
  shows "\<exists>d'. gether_disconnect N env dev = Some d' \<and> ue_inv N d'"
proof -
  define d0 where "d0 = dev\<lparr>txq_stopped := True, carrier_ok := False\<rparr>"
  have r0: "dev_ring_ok N d0" "0 < N" "port_usb d0 = None \<Longrightarrow> in_ep_q d0 = []"
    "\<forall>t \<in> set (in_ep_q d0). ts_ctx t < RNDIS_MSG_MAX_QUEUE"
    using inv by (simp_all add: d0_def ue_inv_def)
  obtain dev1 where d1: "usb_ep_disable_in env d0 = Some dev1"
      "ring_step N (d0\<lparr>in_ep_enabled := False, in_ep_q := []\<rparr>) dev1"
    using usb_ep_disable_in_ok [OF r0, of env] by blast
  have f1: "in_ep_q dev1 = []" "dev_ring_ok N dev1" "\<not> carrier_ok dev1"
    using ring_step_disabled [OF d1(2)] d1(2) by (auto simp: ring_step_def d0_def simp del: dev_ring_ok_def)
  define dev3 where "dev3 = usb_ep_disable_out N env (dev1\<lparr>freed_reqs := freed_reqs dev1 @ tx_reqs dev1, tx_reqs := []\<rparr>)"
  have f3: "in_ep_q dev3 = []" "dev_ring_ok N dev3" "\<not> carrier_ok dev3"
    using usb_ep_disable_out_tx_same [of "dev1\<lparr>freed_reqs := freed_reqs dev1 @ tx_reqs dev1, tx_reqs := []\<rparr>" N env] f1
    by (simp_all add: dev3_def tx_same_def)
  have "gether_disconnect N env dev =
      Some ((dev3\<lparr>freed_reqs := freed_reqs dev3 @ rx_reqs dev3, rx_reqs := []\<rparr>)
              \<lparr>header_len := 0, unwrap := None, wrap := None, port_usb := None\<rparr>)"
    using d1(1) by (simp add: gether_disconnect_def d0_def dev3_def Let_def)
  then show ?thesis using f3 inv by (simp add: ue_inv_def)
qed

lemma eth_start_xmit_inv:
  assumes inv: "ue_inv N dev" and rc: "net_running dev \<and> carrier_ok dev"
  shows "\<exists>r d'. eth_start_xmit N env skb dev = Some (r, d') \<and> ue_inv N d'"
proof (cases "port_usb dev")
  case None
  then show ?thesis using ue_inv_tx_same [OF inv free_skb_tx_same] by (simp add: eth_start_xmit_def)
next
  case (Some l)
  have "dev_ring_ok N dev" "ring_inited (msg_q (rmsg dev))" "0 < N" "N \<le> 32"
    using inv rc by (simp_all add: ue_inv_def)
  from eth_start_xmit_ok [OF this, of env skb] obtain r d' where
    x: "eth_start_xmit N env skb dev = Some (r, d')" "ring_step N dev d'" by blast
  have "ue_inv N d'" using ue_inv_ring_step [OF inv x(2)] Some by simp
  then show ?thesis using x(1) by blast
qed

lemma tx_complete_inv:
  assumes inv: "ue_inv N dev"
  shows "\<exists>d'. tx_complete env st dev = Some d' \<and> ue_inv N d'"
proof (cases "in_ep_q dev")
  case Nil
  then show ?thesis using inv by (simp add: tx_complete_def)
next
  case (Cons t rest)
  have i0: "ue_inv N (dev\<lparr>in_ep_q := rest\<rparr>)" and p: "port_usb dev \<noteq> None" and c: "ts_ctx t < RNDIS_MSG_MAX_QUEUE"
    using inv Cons by (auto simp: ue_inv_def)
  have "dev_ring_ok N dev" "0 < N" using inv by (simp_all add: ue_inv_def)
  from tx_complete_ok [OF this Cons c p, of env st] obtain d' where
    "tx_complete env st dev = Some d'" "ring_step N (dev\<lparr>in_ep_q := rest\<rparr>) d'" by blast
  then show ?thesis using ue_inv_ring_step [OF i0] p by auto
qed

lemma ue_step_inv:
  assumes inv: "ue_inv N dev"
  shows "\<exists>d'. ue_step N env dev e = Some d' \<and> ue_inv N d'"
proof (cases e)
  case UeOpen
  then show ?thesis using inv eth_open_inv [OF inv] by simp
next
  case UeStop
  have "ue_inv N (dev\<lparr>net_running := False\<rparr>)" using inv by (simp add: ue_inv_def)
  then show ?thesis using UeStop inv eth_stop_inv [of N "dev\<lparr>net_running := False\<rparr>" env] by simp
next
  case (UeConnect l)
  then show ?thesis using inv gether_connect_inv [OF inv] by simp
next
  case UeDisconnect
  then show ?thesis using gether_disconnect_inv [OF inv] by simp
next
  case (UeXmit skb)
  then show ?thesis using inv eth_start_xmit_inv [OF inv, of env skb] by auto
next
  case (UeTxComplete st)
  then show ?thesis using tx_complete_inv [OF inv] by simp
next
  case (UeRxComplete st actual)
  then show ?thesis using ue_inv_tx_same [OF inv rx_complete_head_tx_same] by simp
next
  case UeWork
  then show ?thesis using inv ue_inv_tx_same [OF inv eth_work_tx_same] by simp
next
  case (UeChangeMtu m)
  then show ?thesis using ue_inv_tx_same [OF inv ueth_change_mtu_tx_same] by simp
qed

lemma ue_initial_inv:
  assumes "0 < N" "N \<le> 32"
  shows "ue_inv N (ue_initial N g a h)"
proof -
  have "q_ok N (pkt_msg_zero N)" by (simp add: q_ok_def pkt_msg_zero_def rndis_consts)
  then show ?thesis using assms
    by (simp add: ue_inv_def ue_initial_def rndis_msg_zero_def ring_qs_def pkt_msg_zero_def rndis_consts)
qed

lemma ue_reach_ue_inv:
  assumes N: "0 < N" "N \<le> 32" and r: "ue_reach N dev"
  shows "ue_inv N dev"
  using r
proof (induction rule: ue_reach.induct)
  case (start g se dev)
  then show ?case using ue_initial_inv [OF N]
    by (auto simp: gether_setup_name_def split: if_splits option.splits)
next
  case (step dev env e dev')
  then show ?case using ue_step_inv [of N dev env e] by auto
qed

end
