(* ===== verification/U_Ether_Props.thy ===== *)
theory U_Ether_Props
  imports U_Ether_Safe
begin

text \<open>
  Properties of the whole USB Ethernet device: what the transmit path does when the
  link's \<open>wrap\<close> rejects a packet joining a gathering queue, the byte count of
  single-packet transfers, and the safety of the machine \<open>ue_step\<close> on the states
  reachable from \<open>gether_setup_name\<close>. The concrete device of the examples is a
  high-speed link with the ring initialised and one queue gathering.
\<close>

unbundle bit_operations_syntax

subsection \<open>An example device\<close>

text \<open>A queue of three slots gathering one wrapped packet with request 7.\<close>

definition ex_gq :: pkt_msg where
  "ex_gq = \<lparr>pm_state = RNDIS_QUEUE_GATHER, pm_len = 0, pkt_cnt = 1, q_idx = 0, pm_req = Some 7,
     skbs = [Some (ex_skb 2), None, None], skb_idx = 1, bit_map = 1\<rparr>"

definition ex_dev :: eth_dev where
  "ex_dev = (ue_initial 3 ex_gadget [2, 0, 0, 0, 0, 1] [2, 0, 0, 0, 0, 2])
     \<lparr>port_usb := Some ex_link, wrap := g_wrap ex_link, net_running := True, carrier_ok := True,
      tx_reqs := [8, 9],
      rmsg := \<lparr>w_idx = 0, r_idx = 0, flow_stop = False, last_sent = 0, last_complete = 0,
               msg_q = ex_gq # replicate 31 (fst (pkt_msg_clean ex_gq))\<rparr>\<rparr>"

subsection \<open>A packet the link cannot wrap\<close>

text \<open>C35: When \<open>wrap\<close> fails for a packet that joined a gathering queue, \<open>eth_start_xmit\<close>
  returns the queue's own request to the pool although the queue keeps it, counts the
  packet in the queue without marking it in the bitmap, and reports it dropped.\<close>

theorem eth_start_xmit_wrap_fail_dup:
  assumes port: "port_usb dev = Some l" and uc: "\<not> is_multicast_ether_addr (skb_dest skb)"
    and wr: "wrap dev = Some g" "g skb = None"
    and w: "w = w_idx (rmsg dev)" "w < length (msg_q (rmsg dev))"
    and st: "pm_state (qat dev w) = RNDIS_QUEUE_GATHER" "pm_req (qat dev w) = Some r"
    and n: "Suc (pkt_cnt (qat dev w)) < N" "pkt_cnt (qat dev w) < length (skbs (qat dev w))"
  shows "\<exists>d'. eth_start_xmit N env skb dev = Some (NETDEV_TX_OK, d') \<and>
           tx_reqs d' = r # tx_reqs dev \<and> w_idx (rmsg d') = w \<and>
           pm_state (qat d' w) = RNDIS_QUEUE_GATHER \<and> pm_req (qat d' w) = Some r \<and>
           pkt_cnt (qat d' w) = Suc (pkt_cnt (qat dev w)) \<and> bit_map (qat d' w) = bit_map (qat dev w) \<and>
           tx_dropped (stats d') = Suc (tx_dropped (stats dev))"
  using assms
  by (simp add: eth_start_xmit_def xmit_req_def cdc_filter_drops_def eth_alloc_req_def Let_def tx_drop_def
      tx_req_release_def q_upd_def msg_upd_def qat_def stats_upd_def)

lemma eth_start_xmit_wrap_fail_dup_witness:
  "\<exists>d'. eth_start_xmit 3 ex_env (ex_skb 3) ex_dev = Some (NETDEV_TX_OK, d') \<and>
        tx_reqs d' = [7, 8, 9] \<and> pm_req (qat d' 0) = Some 7 \<and> pm_state (qat d' 0) = RNDIS_QUEUE_GATHER"
  using eth_start_xmit_wrap_fail_dup [of ex_dev ex_link "ex_skb 3" "\<lambda>s. if skb_id s = 3 then None else Some s" 0 7 3 ex_env]
  by (simp add: ex_dev_def ex_link_def ex_skb_def ex_gq_def ue_initial_def qat_def is_multicast_ether_addr_def) blast

subsection \<open>Safety of the device\<close>

text \<open>C38: On every state reachable from \<open>gether_setup_name\<close> (with
  \<open>RNDIS_MSG_MAX_NUM\<close> between 1 and the 32 bits of the bitmap) the device invariant
  holds, and every sequence of events of the network stack, the function driver and the
  controller runs to the end: no queue request is dereferenced while NULL, no buffer
  slot is written outside its queue, and the state reached is reachable again.\<close>

theorem ue_reach_safe:
  assumes N: "0 < N" "N \<le> 32" and r: "ue_reach N dev"
  shows "ue_inv N dev \<and> (\<exists>d'. ue_run N env dev es = Some d' \<and> ue_reach N d')"
proof -
  have "\<exists>d'. ue_run N env dev es = Some d' \<and> ue_reach N d'"
    using r
  proof (induction es arbitrary: dev)
    case Nil
    then show ?case by simp
  next
    case (Cons e es)
    obtain d1 where d1: "ue_step N env dev e = Some d1"
      using ue_step_inv [OF ue_reach_ue_inv [OF N Cons.prems], of env e] by blast
    have "ue_reach N d1" using ue_reach.step [OF Cons.prems d1] .
    then show ?case using Cons.IH [of d1] d1 by simp
  qed
  then show ?thesis using ue_reach_ue_inv [OF N r] by blast
qed

lemma ue_reach_safe_witness:
  "ue_inv 3 (ue_initial 3 ex_gadget [2, 0, 0, 0, 0, 1] [2, 0, 0, 0, 0, 2]) \<and>
   (\<exists>d'. ue_run 3 ex_env (ue_initial 3 ex_gadget [2, 0, 0, 0, 0, 1] [2, 0, 0, 0, 0, 2])
           [UeConnect ex_link, UeOpen, UeXmit (ex_skb 1), UeTxComplete 0] = Some d' \<and> ue_reach 3 d')"
proof -
  have "gether_setup_name 3 ex_gadget ex_setup = Some (Inr (ue_initial 3 ex_gadget [2, 0, 0, 0, 0, 1] [2, 0, 0, 0, 0, 2]))"
    by (simp add: gether_setup_name_def ex_setup_def get_ether_addr_def eth_random_addr_def)
  then have "ue_reach 3 (ue_initial 3 ex_gadget [2, 0, 0, 0, 0, 1] [2, 0, 0, 0, 0, 2])" by (rule ue_reach.start)
  then show ?thesis using ue_reach_safe [of 3] by (simp del: ue_run.simps)
qed

end
