(* ===== verification/Sensor.thy ===== *)
theory Sensor
  imports Prelude
begin

text \<open>
  The Spreadtrum camera sensor driver \<open>drivers/media/sprd_sensor/sensor_drv_k.c\<close>
  in the \<open>CONFIG_MACH_KIRAN\<close>, \<open>CONFIG_ARCH_SCX35\<close> build: the module state
  \<open>struct sensor_module\<close> together with the kernel objects the driver drives (the
  regulators, the sensor clock, the GPIO levels, the I2C messages sent), the buffer
  cache \<open>_sensor_k_kmalloc\<close>, the four supply setters, the clock selection and
  \<open>sensor_k_set_mclk\<close>, the register access \<open>_Sensor_K_ReadReg\<close>/\<open>_Sensor_K_WriteReg\<close>,
  the table writers \<open>_sensor_k_wr_regtab\<close> and \<open>_sensor_burst_write_init\<close>, the raw
  writers, \<open>sensor_k_open\<close>/\<open>sensor_k_release\<close> and \<open>sensor_k_ioctl\<close>. The results
  of the regulator, clock, I2C and user-copy calls are inputs (\<open>sensor_env\<close>); a
  dereference of an \<open>ERR_PTR\<close> or an access outside a buffer is the value \<open>None\<close>.
\<close>

unbundle bit_operations_syntax

subsection \<open>Constants\<close>

definition SENSOR_K_SUCCESS :: int where "SENSOR_K_SUCCESS = 0"
definition SENSOR_K_FAIL :: int where "SENSOR_K_FAIL = -1"
definition SENSOR_I2C_OP_TRY_NUM :: nat where "SENSOR_I2C_OP_TRY_NUM = 4"
definition SENSOR_CMD_BITS_8 :: nat where "SENSOR_CMD_BITS_8 = 1"
definition SENSOR_CMD_BITS_16 :: nat where "SENSOR_CMD_BITS_16 = 2"
definition SENSOR_I2C_VAL_16BIT :: u32 where "SENSOR_I2C_VAL_16BIT = 0x01"
definition SENSOR_I2C_REG_16BIT :: u32 where "SENSOR_I2C_REG_16BIT = 0x02"
definition SENSOR_LOW_EIGHT_BIT :: u16 where "SENSOR_LOW_EIGHT_BIT = 0xff"
definition SENSOR_WRITE_DELAY :: u16 where "SENSOR_WRITE_DELAY = 0xffff"
definition SENSOR_MCLK_SRC_NUM :: nat where "SENSOR_MCLK_SRC_NUM = 4"
definition SENSOR_MCLK_DIV_MAX :: nat where "SENSOR_MCLK_DIV_MAX = 4"
definition NUMBER_MAX :: int where "NUMBER_MAX = 0x7FFFFFF"

text \<open>Values of the Spreadtrum headers (\<open>sensor_drv_k.h\<close>, \<open>sensor_cfg.h\<close>).\<close>

definition SENSOR_MAIN :: u32 where "SENSOR_MAIN = 0"
definition SENSOR_SUB :: u32 where "SENSOR_SUB = 1"
definition SENSOR_ID_MAX :: u32 where "SENSOR_ID_MAX = 6"
definition SENSOR_MAX_MCLK :: u32 where "SENSOR_MAX_MCLK = 96"
definition SENOR_CLK_M_VALUE :: nat where "SENOR_CLK_M_VALUE = 1000000"
definition SENSOR_I2C_BUST_NB :: u32 where "SENSOR_I2C_BUST_NB = 7"

text \<open>The burst writer of the Kiran build.\<close>

definition BURST_MODE_BUFFER_MAX_SIZE :: nat where "BURST_MODE_BUFFER_MAX_SIZE = 255"
definition BURST_REG :: u16 where "BURST_REG = 0x0e"
definition DELAY_REG :: u16 where "DELAY_REG = 0xff"

text \<open>The regulator names of the Kiran board: the analog and the motor supplies are the
  same regulator.\<close>

definition REGU_NAME_CAMVIO :: string where "REGU_NAME_CAMVIO = ''vddcamd''"
definition REGU_NAME_SUB_CAMDVDD :: string where "REGU_NAME_SUB_CAMDVDD = ''vddwifipa''"
definition REGU_NAME_CAMAVDD :: string where "REGU_NAME_CAMAVDD = ''vddcama''"
definition REGU_NAME_CAMDVDD :: string where "REGU_NAME_CAMDVDD = ''vddcamio''"
definition REGU_NAME_CAMMOT :: string where "REGU_NAME_CAMMOT = ''vddcama''"

text \<open>The supply selector \<open>SENSOR_VDD_VAL_E\<close> passed by user space; any other value takes
  the \<open>default\<close> branch of the switches.\<close>

datatype sensor_vdd = SENSOR_VDD_3800MV | SENSOR_VDD_3400MV | SENSOR_VDD_3300MV | SENSOR_VDD_3000MV
  | SENSOR_VDD_2800MV | SENSOR_VDD_2500MV | SENSOR_VDD_2000MV | SENSOR_VDD_1800MV | SENSOR_VDD_1500MV
  | SENSOR_VDD_1300MV | SENSOR_VDD_1200MV | SENSOR_VDD_CLOSED | SENSOR_VDD_UNUSED | SENSOR_VDD_OTHER u32

text \<open>The voltages in microvolts (\<open>SENSOER_VDD_*\<close>).\<close>

definition vdd_uV :: "nat \<Rightarrow> nat" where "vdd_uV mv = mv * 1000"

text \<open>\<open>c_sensor_mclk_tab\<close>: the clock sources in MHz and their names.\<close>

definition c_sensor_mclk_tab :: "(int \<times> string) list" where
  "c_sensor_mclk_tab = [(96, ''clk_96m''), (77, ''clk_76m8''), (48, ''clk_48m''), (26, ''ext_26m'')]"

subsection \<open>State\<close>

text \<open>A regulator consumer handle: \<open>regulator_get\<close> returns a fresh handle or an
  \<open>ERR_PTR\<close>.\<close>

datatype reg_handle = RegOk nat | RegErr

text \<open>The regulator core as far as the driver sees it: the regulator of each live
  handle, the enable count (\<open>use_count\<close>) and voltage of each regulator, and the number of
  "unbalanced disables" warnings.\<close>

record reg_core =
  rc_name :: "nat \<Rightarrow> string"
  rc_next :: nat
  rc_use :: "string \<Rightarrow> nat"
  rc_uV :: "string \<Rightarrow> nat"
  rc_warn :: nat

text \<open>A clock handle of \<open>parse_clk\<close>: a clock or an \<open>ERR_PTR\<close> (\<open>NULL\<close> is \<open>None\<close>).\<close>

datatype clk_handle = ClkOk | ClkErr

text \<open>\<open>SENSOR_REG_BITS_T\<close>.\<close>

record reg_bits_t =
  reg_addr :: u16
  reg_value :: u16
  reg_bits :: u32

text \<open>\<open>struct sensor_module\<close> (\<open>s_p_sensor_mod\<close>, allocated by \<open>sensor_k_init\<close> before any
  entry point runs) with the kernel objects: the cached buffer \<open>sensor_mem\<close> as its bytes
  (\<open>None\<close> when not allocated), the sensor clock's enable count, parent and rate, the MIPI
  clock's enable count, the GPIO levels written (pin and level, oldest first), the
  I2C messages sent (client address and bytes), the I2C bus clock, the register
  last copied back to user space by \<open>SENSOR_IO_I2C_READ\<close>, whether the misc device and
  the I2C driver are registered, and the GPIOs requested.\<close>

record sensor_state =
  sensor_id :: u32
  sensor_mclk :: u32
  iopower_on_count :: nat
  avddpower_on_count :: nat
  dvddpower_on_count :: nat
  motpower_on_count :: nat
  mipi_on :: u32
  ccir_clk :: "clk_handle option"
  mipi_clk :: "clk_handle option"
  cur_i2c_addr :: "u16 option"
  camvio_regulator :: "reg_handle option"
  camavdd_regulator :: "reg_handle option"
  camdvdd_regulator :: "reg_handle option"
  cammot_regulator :: "reg_handle option"
  sensor_mem :: "u8 list option"
  pin_main_reset :: nat
  pin_sub_reset :: nat
  pin_main_pd :: nat
  pin_sub_pd :: nat
  open_count :: int
  regs :: reg_core
  ccir_en :: nat
  ccir_parent :: string
  ccir_rate :: nat
  mipi_en :: nat
  clk_warn :: nat
  gpio_log :: "(nat \<times> bool) list"
  i2c_log :: "(u16 \<times> u8 list) list"
  i2c_clock :: u32
  user_reg :: "reg_bits_t option"
  misc_registered :: bool
  gpios_held :: "nat list"
  i2c_drv_added :: bool

text \<open>Outcomes of the calls into the rest of the kernel: \<open>regulator_get\<close>,
  \<open>regulator_set_voltage\<close> and \<open>regulator_enable\<close> per regulator, \<open>clk_get\<close> of a
  parent, \<open>clk_set_parent\<close>, \<open>clk_set_rate\<close>, \<open>clk_enable\<close>, \<open>vzalloc\<close> of a size,
  \<open>copy_from_user\<close>, \<open>parse_clk\<close> of the sensor and of the MIPI clock (a clock,
  \<open>NULL\<close> or an \<open>ERR_PTR\<close>), the success of each attempt (numbered from 0) of an I2C
  transfer of given bytes, the code a failed single transfer returns, and the bytes a
  read transfer returns for a client address, command and length; the code of
  \<open>clk_mm_i_eb\<close>, the count a failed user copy leaves, and the results of the calls of
  the probe (\<open>misc_register\<close>, \<open>of_get_gpio\<close>, \<open>gpio_request\<close>, \<open>i2c_add_driver\<close>,
  \<open>i2c_check_functionality\<close> and the address of the client bound).\<close>

record sensor_env =
  se_reg_get_ok :: "string \<Rightarrow> bool"
  se_set_volt_err :: "string \<Rightarrow> nat \<Rightarrow> int"
  se_enable_err :: "string \<Rightarrow> int"
  se_clk_get_ok :: "string \<Rightarrow> bool"
  se_set_parent_err :: int
  se_set_rate_err :: int
  se_clk_enable_err :: int
  se_alloc_ok :: "nat \<Rightarrow> bool"
  se_user_ok :: bool
  se_parse_ccir :: "clk_handle option"
  se_parse_mipi :: "clk_handle option"
  se_i2c_ok :: "u8 list \<Rightarrow> nat \<Rightarrow> bool"
  se_i2c_err :: int
  se_i2c_read :: "u16 \<Rightarrow> u8 list \<Rightarrow> nat \<Rightarrow> u8 list"
  se_mm_eb :: int
  se_uncopied :: int
  se_misc_err :: int
  se_of_gpio :: "nat \<Rightarrow> nat"
  se_gpio_err :: "nat \<Rightarrow> int"
  se_i2c_add_err :: int
  se_i2c_func_ok :: bool
  se_client_addr :: u16

subsection \<open>The regulator core\<close>

definition regulator_get :: "sensor_env \<Rightarrow> string \<Rightarrow> sensor_state \<Rightarrow> reg_handle \<times> sensor_state" where
  "regulator_get env name s =
     (if se_reg_get_ok env name
      then (let rc = regs s; h = rc_next rc
            in (RegOk h, s\<lparr>regs := rc\<lparr>rc_name := (rc_name rc)(h := name), rc_next := Suc h\<rparr>\<rparr>))
      else (RegErr, s))"

text \<open>The operations on a handle dereference it: an \<open>ERR_PTR\<close> or \<open>NULL\<close> is \<open>None\<close>.\<close>

definition regulator_set_voltage :: "sensor_env \<Rightarrow> reg_handle option \<Rightarrow> nat \<Rightarrow> sensor_state \<Rightarrow> (int \<times> sensor_state) option" where
  "regulator_set_voltage env ho uV s =
     (case ho of
        Some (RegOk h) \<Rightarrow>
          (let n = rc_name (regs s) h; err = se_set_volt_err env n uV
           in Some (err, if err = 0 then s\<lparr>regs := (regs s)\<lparr>rc_uV := (rc_uV (regs s))(n := uV)\<rparr>\<rparr> else s))
      | _ \<Rightarrow> None)"

definition regulator_enable :: "sensor_env \<Rightarrow> reg_handle option \<Rightarrow> sensor_state \<Rightarrow> (int \<times> sensor_state) option" where
  "regulator_enable env ho s =
     (case ho of
        Some (RegOk h) \<Rightarrow>
          (let n = rc_name (regs s) h; err = se_enable_err env n
           in Some (err, if err = 0 then s\<lparr>regs := (regs s)\<lparr>rc_use := (rc_use (regs s))(n := Suc (rc_use (regs s) n))\<rparr>\<rparr>
                         else s))
      | _ \<Rightarrow> None)"

text \<open>\<open>regulator_disable\<close> of a regulator that is not enabled warns "unbalanced
  disables" and fails.\<close>

definition regulator_disable :: "reg_handle option \<Rightarrow> sensor_state \<Rightarrow> (int \<times> sensor_state) option" where
  "regulator_disable ho s =
     (case ho of
        Some (RegOk h) \<Rightarrow>
          (let n = rc_name (regs s) h; u = rc_use (regs s) n
           in if u = 0 then Some (- EIO, s\<lparr>regs := (regs s)\<lparr>rc_warn := Suc (rc_warn (regs s))\<rparr>\<rparr>)
              else Some (0, s\<lparr>regs := (regs s)\<lparr>rc_use := (rc_use (regs s))(n := u - 1)\<rparr>\<rparr>))
      | _ \<Rightarrow> None)"

subsection \<open>The supplies\<close>

text \<open>The four supplies; each has a regulator handle and an enable counter in
  \<open>sensor_module\<close>, which \<open>_sensor_regulator_enable\<close>/\<open>_sensor_regulator_disable\<close> get as
  pointers.\<close>

datatype reg_slot = SlotVio | SlotAvdd | SlotDvdd | SlotMot

definition slot_handle :: "reg_slot \<Rightarrow> sensor_state \<Rightarrow> reg_handle option" where
  "slot_handle sl s = (case sl of SlotVio \<Rightarrow> camvio_regulator s | SlotAvdd \<Rightarrow> camavdd_regulator s
                        | SlotDvdd \<Rightarrow> camdvdd_regulator s | SlotMot \<Rightarrow> cammot_regulator s)"

definition slot_set_handle :: "reg_slot \<Rightarrow> reg_handle option \<Rightarrow> sensor_state \<Rightarrow> sensor_state" where
  "slot_set_handle sl h s = (case sl of SlotVio \<Rightarrow> s\<lparr>camvio_regulator := h\<rparr> | SlotAvdd \<Rightarrow> s\<lparr>camavdd_regulator := h\<rparr>
                              | SlotDvdd \<Rightarrow> s\<lparr>camdvdd_regulator := h\<rparr> | SlotMot \<Rightarrow> s\<lparr>cammot_regulator := h\<rparr>)"

definition slot_count :: "reg_slot \<Rightarrow> sensor_state \<Rightarrow> nat" where
  "slot_count sl s = (case sl of SlotVio \<Rightarrow> iopower_on_count s | SlotAvdd \<Rightarrow> avddpower_on_count s
                       | SlotDvdd \<Rightarrow> dvddpower_on_count s | SlotMot \<Rightarrow> motpower_on_count s)"

definition slot_set_count :: "reg_slot \<Rightarrow> nat \<Rightarrow> sensor_state \<Rightarrow> sensor_state" where
  "slot_set_count sl n s = (case sl of SlotVio \<Rightarrow> s\<lparr>iopower_on_count := n\<rparr> | SlotAvdd \<Rightarrow> s\<lparr>avddpower_on_count := n\<rparr>
                             | SlotDvdd \<Rightarrow> s\<lparr>dvddpower_on_count := n\<rparr> | SlotMot \<Rightarrow> s\<lparr>motpower_on_count := n\<rparr>)"

text \<open>\<open>_sensor_regulator_enable\<close> counts the enable whatever \<open>regulator_enable\<close>
  returns.\<close>

definition sensor_regulator_enable :: "sensor_env \<Rightarrow> reg_slot \<Rightarrow> sensor_state \<Rightarrow> (int \<times> sensor_state) option" where
  "sensor_regulator_enable env sl s =
     (case regulator_enable env (slot_handle sl s) s of
        None \<Rightarrow> None
      | Some (err, s1) \<Rightarrow> Some (err, slot_set_count sl (Suc (slot_count sl s1)) s1))"

definition sensor_regulator_disable :: "reg_slot \<Rightarrow> sensor_state \<Rightarrow> sensor_state option" where
  "sensor_regulator_disable sl s =
     (if 0 < slot_count sl s
      then (case regulator_disable (slot_handle sl s) s of
              None \<Rightarrow> None
            | Some (_, s1) \<Rightarrow> Some (slot_set_count sl (slot_count sl s1 - 1) s1))
      else Some s)"

text \<open>The part the four setters share once the handle is there: set the voltage
  (unless the supply is to be closed), then enable, or disable and drop the handle
  (\<open>regulator_put\<close>); a failed enable drops the handle too.\<close>

definition sensor_set_supply :: "sensor_env \<Rightarrow> reg_slot \<Rightarrow> nat \<Rightarrow> sensor_state \<Rightarrow> (int \<times> sensor_state) option" where
  "sensor_set_supply env sl uV s =
     (case (if uV \<noteq> 0 then regulator_set_voltage env (slot_handle sl s) uV s else Some (0, s)) of
        None \<Rightarrow> None
      | Some (err, s1) \<Rightarrow>
          if err \<noteq> 0 then Some (SENSOR_K_FAIL, s1)
          else if uV \<noteq> 0 then
            (case sensor_regulator_enable env sl s1 of
               None \<Rightarrow> None
             | Some (err2, s2) \<Rightarrow>
                 if err2 \<noteq> 0 then Some (SENSOR_K_FAIL, slot_set_handle sl None s2)
                 else Some (SENSOR_K_SUCCESS, s2))
          else
            (case sensor_regulator_disable sl s1 of
               None \<Rightarrow> None
             | Some s2 \<Rightarrow> Some (SENSOR_K_SUCCESS, slot_set_handle sl None s2)))"

text \<open>A handle is requested only when the field is \<open>NULL\<close>; a failed request leaves its
  \<open>ERR_PTR\<close> in the field.\<close>

definition sensor_get_supply :: "sensor_env \<Rightarrow> reg_slot \<Rightarrow> string \<Rightarrow> sensor_state \<Rightarrow> bool \<times> sensor_state" where
  "sensor_get_supply env sl name s =
     (if slot_handle sl s = None
      then (case regulator_get env name s of (h, s1) \<Rightarrow> (h \<noteq> RegErr, slot_set_handle sl (Some h) s1))
      else (True, s))"

text \<open>The switches of the four setters (the \<open>CONFIG_ARCH_SCX35\<close> cases).\<close>

definition cammot_uV :: "sensor_vdd \<Rightarrow> nat" where
  "cammot_uV v = (case v of SENSOR_VDD_2800MV \<Rightarrow> vdd_uV 2800 | SENSOR_VDD_3000MV \<Rightarrow> vdd_uV 3000
                   | SENSOR_VDD_3300MV \<Rightarrow> vdd_uV 3300 | SENSOR_VDD_1800MV \<Rightarrow> vdd_uV 1800 | _ \<Rightarrow> 0)"

definition avdd_uV :: "sensor_vdd \<Rightarrow> nat" where
  "avdd_uV v = (case v of SENSOR_VDD_2800MV \<Rightarrow> vdd_uV 2800 | SENSOR_VDD_3000MV \<Rightarrow> vdd_uV 3000
                 | SENSOR_VDD_2500MV \<Rightarrow> vdd_uV 2500 | SENSOR_VDD_1800MV \<Rightarrow> vdd_uV 1800 | _ \<Rightarrow> 0)"

definition dvdd_uV :: "sensor_vdd \<Rightarrow> nat" where
  "dvdd_uV v = (case v of SENSOR_VDD_1200MV \<Rightarrow> vdd_uV 1200 | SENSOR_VDD_1800MV \<Rightarrow> vdd_uV 1800
                 | SENSOR_VDD_1500MV \<Rightarrow> vdd_uV 1500 | SENSOR_VDD_1300MV \<Rightarrow> vdd_uV 1300 | _ \<Rightarrow> 0)"

definition iovdd_uV :: "sensor_vdd \<Rightarrow> nat" where
  "iovdd_uV v = (case v of SENSOR_VDD_2800MV \<Rightarrow> vdd_uV 2800 | SENSOR_VDD_2500MV \<Rightarrow> vdd_uV 2500
                  | SENSOR_VDD_1500MV \<Rightarrow> vdd_uV 1500 | SENSOR_VDD_1800MV \<Rightarrow> vdd_uV 1800 | _ \<Rightarrow> 0)"

definition sensor_k_set_voltage_cammot :: "sensor_env \<Rightarrow> sensor_vdd \<Rightarrow> sensor_state \<Rightarrow> (int \<times> sensor_state) option" where
  "sensor_k_set_voltage_cammot env v s =
     (case sensor_get_supply env SlotMot REGU_NAME_CAMMOT s of
        (ok, s1) \<Rightarrow> if \<not> ok then Some (SENSOR_K_FAIL, s1) else sensor_set_supply env SlotMot (cammot_uV v) s1)"

definition sensor_k_set_voltage_avdd :: "sensor_env \<Rightarrow> sensor_vdd \<Rightarrow> sensor_state \<Rightarrow> (int \<times> sensor_state) option" where
  "sensor_k_set_voltage_avdd env v s =
     (case sensor_get_supply env SlotAvdd REGU_NAME_CAMAVDD s of
        (ok, s1) \<Rightarrow> if \<not> ok then Some (SENSOR_K_FAIL, s1) else sensor_set_supply env SlotAvdd (avdd_uV v) s1)"

text \<open>The Kiran \<open>sensor_k_set_voltage_dvdd\<close> requests a new handle on every call, for
  the main or the sub camera's supply, and overwrites the field.\<close>

definition sensor_k_set_voltage_dvdd :: "sensor_env \<Rightarrow> sensor_vdd \<Rightarrow> u32 \<Rightarrow> sensor_state \<Rightarrow> (int \<times> sensor_state) option" where
  "sensor_k_set_voltage_dvdd env v sid s =
     (let name = (if sid = SENSOR_SUB then REGU_NAME_SUB_CAMDVDD else REGU_NAME_CAMDVDD)
      in case regulator_get env name s of
           (h, s1) \<Rightarrow>
             (let s2 = slot_set_handle SlotDvdd (Some h) s1
              in if h = RegErr then Some (SENSOR_K_FAIL, s2) else sensor_set_supply env SlotDvdd (dvdd_uV v) s2))"

definition sensor_k_set_voltage_iovdd :: "sensor_env \<Rightarrow> sensor_vdd \<Rightarrow> sensor_state \<Rightarrow> (int \<times> sensor_state) option" where
  "sensor_k_set_voltage_iovdd env v s =
     (case sensor_get_supply env SlotVio REGU_NAME_CAMVIO s of
        (ok, s1) \<Rightarrow> if \<not> ok then Some (SENSOR_K_FAIL, s1) else sensor_set_supply env SlotVio (iovdd_uV v) s1)"

subsection \<open>The buffer cache\<close>

text \<open>\<open>_sensor_k_kmalloc\<close> keeps one \<open>vzalloc\<close>ed buffer and allocates a new one only
  when a larger one is asked for; \<open>_sensor_k_kfree\<close> frees nothing. The result is the
  buffer returned (\<open>None\<close> for \<open>NULL\<close>), which is then \<open>sensor_mem\<close>.\<close>

definition sensor_k_kmalloc :: "sensor_env \<Rightarrow> nat \<Rightarrow> sensor_state \<Rightarrow> u8 list option \<times> sensor_state" where
  "sensor_k_kmalloc env sz s =
     (let fresh = (if se_alloc_ok env sz then Some (replicate sz 0) else None)
      in case sensor_mem s of
           None \<Rightarrow> (fresh, s\<lparr>sensor_mem := fresh\<rparr>)
         | Some b \<Rightarrow> if sz \<le> length b then (Some b, s) else (fresh, s\<lparr>sensor_mem := fresh\<rparr>))"

subsection \<open>The sensor clock\<close>

text \<open>\<open>_select_sensor_mclk\<close>: for each divider \<open>i + 1\<close> the source nearest to
  \<open>clk_set * (i + 1)\<close> (the first on a tie), and of these the divider with the smallest
  distance (the first on a tie). \<open>mark_src_tmp\<close> is carried from one divider to the
  next, as in the code.\<close>

definition mclk_src_step :: "int \<Rightarrow> nat \<Rightarrow> int \<times> nat \<Rightarrow> int \<times> nat" where
  "mclk_src_step clk_tmp j = (\<lambda>(dmin, m). let d = \<bar>fst (c_sensor_mclk_tab ! j) - clk_tmp\<bar>
                                             in if d < dmin then (d, j) else (dmin, m))"

definition mclk_div_step :: "int \<Rightarrow> nat \<Rightarrow> int \<times> nat \<times> nat \<times> nat \<Rightarrow> int \<times> nat \<times> nat \<times> nat" where
  "mclk_div_step clk_set i = (\<lambda>(ddmin, src, dv, mtmp).
     case fold (mclk_src_step (clk_set * int (i + 1))) [0..<SENSOR_MCLK_SRC_NUM] (NUMBER_MAX, mtmp) of
       (smin, mt) \<Rightarrow> if smin < ddmin then (smin, mt, i, mt) else (ddmin, src, dv, mt))"

definition select_sensor_mclk :: "u8 \<Rightarrow> (string \<times> nat) option" where
  "select_sensor_mclk clk_set =
     (if 96 < unat clk_set then None
      else case fold (mclk_div_step (int (unat clk_set))) [0..<SENSOR_MCLK_DIV_MAX] (NUMBER_MAX, 0, 0, 0) of
             (_, src, dv, _) \<Rightarrow> Some (snd (c_sensor_mclk_tab ! src), dv + 1))"

text \<open>The sensor clock \<open>ccir_clk\<close>: \<open>clk_disable\<close> and \<open>clk_enable\<close> do nothing on
  \<open>NULL\<close>, a disable of a clock that is not enabled is an "unbalanced disable" warning.\<close>

definition clk_disable_ccir :: "sensor_state \<Rightarrow> sensor_state option" where
  "clk_disable_ccir s = (case ccir_clk s of
       None \<Rightarrow> Some s
     | Some ClkErr \<Rightarrow> None
     | Some ClkOk \<Rightarrow> Some (if ccir_en s = 0 then s\<lparr>clk_warn := Suc (clk_warn s)\<rparr> else s\<lparr>ccir_en := ccir_en s - 1\<rparr>))"

definition clk_enable_ccir :: "sensor_env \<Rightarrow> sensor_state \<Rightarrow> (int \<times> sensor_state) option" where
  "clk_enable_ccir env s = (case ccir_clk s of
       None \<Rightarrow> Some (0, s)
     | Some ClkErr \<Rightarrow> None
     | Some ClkOk \<Rightarrow> if se_clk_enable_err env = 0 then Some (0, s\<lparr>ccir_en := Suc (ccir_en s)\<rparr>)
                     else Some (se_clk_enable_err env, s))"

text \<open>\<open>sensor_k_set_mclk\<close>. \<open>clk_get\<close> reports a failure as an \<open>ERR_PTR\<close>, which the test
  \<open>!clk_parent\<close> lets through to \<open>clk_set_parent\<close>; \<open>clk_set_parent\<close> on a \<open>NULL\<close> clock
  is \<open>-EINVAL\<close>. The divider is not used.\<close>

definition sensor_k_set_mclk :: "sensor_env \<Rightarrow> u32 \<Rightarrow> sensor_state \<Rightarrow> (int \<times> sensor_state) option" where
  "sensor_k_set_mclk env mclk0 s =
     (if mclk0 \<noteq> 0 \<and> sensor_mclk s \<noteq> mclk0 then
        (let mclk = (if SENSOR_MAX_MCLK < mclk0 then SENSOR_MAX_MCLK else mclk0)
         in case (if sensor_mclk s \<noteq> 0 then clk_disable_ccir s else Some s) of
              None \<Rightarrow> None
            | Some s1 \<Rightarrow>
                (case select_sensor_mclk (ucast mclk) of
                   None \<Rightarrow> Some (- EINVAL, s1)
                 | Some (src, _) \<Rightarrow>
                     if \<not> se_clk_get_ok env src then None
                     else (case ccir_clk s1 of
                             None \<Rightarrow> Some (- EINVAL, s1)
                           | Some ClkErr \<Rightarrow> None
                           | Some ClkOk \<Rightarrow>
                               if se_set_parent_err env \<noteq> 0 then Some (- EINVAL, s1)
                               else if se_set_rate_err env \<noteq> 0 then Some (- EINVAL, s1\<lparr>ccir_parent := src\<rparr>)
                               else (case clk_enable_ccir env
                                            (s1\<lparr>ccir_parent := src, ccir_rate := unat mclk * SENOR_CLK_M_VALUE\<rparr>) of
                                       None \<Rightarrow> None
                                     | Some (_, s2) \<Rightarrow> Some (0, s2\<lparr>sensor_mclk := mclk\<rparr>)))))
      else if mclk0 = 0 then
        (if sensor_mclk s \<noteq> 0 then map_option (\<lambda>s1. (0, s1\<lparr>sensor_mclk := 0\<rparr>)) (clk_disable_ccir s)
         else Some (0, s))
      else Some (0, s))"

text \<open>The MIPI clock: \<open>_sensor_k_mipi_clk_en\<close> looks the clock up once and keeps an
  \<open>ERR_PTR\<close> it gets; \<open>_sensor_k_mipi_clk_dis\<close> disables and puts a clock that is not
  \<open>NULL\<close>.\<close>

definition sensor_k_mipi_clk_en :: "sensor_env \<Rightarrow> sensor_state \<Rightarrow> int \<times> sensor_state" where
  "sensor_k_mipi_clk_en env s =
     (let s1 = (if mipi_clk s = None then s\<lparr>mipi_clk := se_parse_mipi env\<rparr> else s)
      in case mipi_clk s1 of
           Some ClkErr \<Rightarrow> (-1, s1)
         | None \<Rightarrow> (0, s1)
         | Some ClkOk \<Rightarrow> if se_clk_enable_err env \<noteq> 0 then (-1, s1) else (0, s1\<lparr>mipi_en := Suc (mipi_en s1)\<rparr>))"

definition sensor_k_mipi_clk_dis :: "sensor_state \<Rightarrow> sensor_state option" where
  "sensor_k_mipi_clk_dis s = (case mipi_clk s of
       None \<Rightarrow> Some s
     | Some ClkErr \<Rightarrow> None
     | Some ClkOk \<Rightarrow> Some ((if mipi_en s = 0 then s\<lparr>clk_warn := Suc (clk_warn s)\<rparr>
                            else s\<lparr>mipi_en := mipi_en s - 1\<rparr>)\<lparr>mipi_clk := None\<rparr>))"

subsection \<open>GPIOs and sensor selection\<close>

definition gpio_write :: "nat \<Rightarrow> bool \<Rightarrow> sensor_state \<Rightarrow> sensor_state" where
  "gpio_write pin lvl s = s\<lparr>gpio_log := gpio_log s @ [(pin, lvl)]\<rparr>"

definition sensor_k_set_pd_level :: "bool \<Rightarrow> sensor_state \<Rightarrow> int \<times> sensor_state" where
  "sensor_k_set_pd_level lvl s =
     (SENSOR_K_SUCCESS,
      if sensor_id s = SENSOR_MAIN then gpio_write (pin_main_pd s) lvl s
      else if sensor_id s = SENSOR_SUB then gpio_write (pin_sub_pd s) lvl s
      else s)"

text \<open>\<open>_sensor_k_reset\<close>: the reset pin to \<open>level\<close> (\<open>gpio_direction_output\<close>, then
  \<open>gpio_set_value\<close>), and after \<open>width\<close> ms back to \<open>!level\<close>.\<close>

definition sensor_k_reset :: "u32 \<Rightarrow> u32 \<Rightarrow> sensor_state \<Rightarrow> int \<times> sensor_state" where
  "sensor_k_reset level width s =
     (let pulse = (\<lambda>pin. gpio_write pin (level = 0) (gpio_write pin (level \<noteq> 0) (gpio_write pin (level \<noteq> 0) s)))
      in (SENSOR_K_SUCCESS,
          if sensor_id s = SENSOR_MAIN then pulse (pin_main_reset s)
          else if sensor_id s = SENSOR_SUB then pulse (pin_sub_reset s)
          else s))"

definition sensor_k_sensor_sel :: "u32 \<Rightarrow> sensor_state \<Rightarrow> int \<times> sensor_state" where
  "sensor_k_sensor_sel sid s = (SENSOR_K_SUCCESS, s\<lparr>sensor_id := sid\<rparr>)"

definition sensor_k_sensor_desel :: "u32 \<Rightarrow> sensor_state \<Rightarrow> int \<times> sensor_state" where
  "sensor_k_sensor_desel sid s = (SENSOR_K_SUCCESS, s\<lparr>sensor_id := SENSOR_ID_MAX\<rparr>)"

definition sensor_k_set_rst_level :: "u32 \<Rightarrow> sensor_state \<Rightarrow> int \<times> sensor_state" where
  "sensor_k_set_rst_level lvl s =
     (let set = (\<lambda>pin. gpio_write pin (lvl \<noteq> 0) (gpio_write pin (lvl \<noteq> 0) s))
      in (SENSOR_K_SUCCESS,
          if sensor_id s = SENSOR_MAIN then set (pin_main_reset s)
          else if sensor_id s = SENSOR_SUB then set (pin_sub_reset s)
          else s))"

subsection \<open>Register access\<close>

text \<open>The bytes of a register address and of a value, high byte first when 16 bits
  wide.\<close>

definition reg_bytes :: "bool \<Rightarrow> u16 \<Rightarrow> u8 list" where
  "reg_bytes wide x = (if wide then [ucast (drop_bit 8 x AND SENSOR_LOW_EIGHT_BIT), ucast (x AND SENSOR_LOW_EIGHT_BIT)]
                       else [ucast x])"

definition reg_wide :: "u32 \<Rightarrow> bool" where
  "reg_wide bits = (bits AND SENSOR_I2C_REG_16BIT = SENSOR_I2C_REG_16BIT)"

definition val_wide :: "u32 \<Rightarrow> bool" where
  "val_wide bits = (bits AND SENSOR_I2C_VAL_16BIT = SENSOR_I2C_VAL_16BIT)"

text \<open>The retry loops of \<open>_Sensor_K_ReadReg\<close> and \<open>_Sensor_K_WriteReg\<close> stop at the first
  attempt that succeeds, after at most \<open>SENSOR_I2C_OP_TRY_NUM\<close> attempts.\<close>

definition i2c_try :: "sensor_env \<Rightarrow> u8 list \<Rightarrow> nat option" where
  "i2c_try env msg = find (se_i2c_ok env msg) [0..<SENSOR_I2C_OP_TRY_NUM]"

definition Sensor_K_ReadReg :: "sensor_env \<Rightarrow> reg_bits_t \<Rightarrow> sensor_state \<Rightarrow> (int \<times> reg_bits_t) option" where
  "Sensor_K_ReadReg env r s =
     (case cur_i2c_addr s of
        None \<Rightarrow> None
      | Some a \<Rightarrow>
          (let cmd = reg_bytes (reg_wide (reg_bits r)) (reg_addr r);
               n = (if val_wide (reg_bits r) then SENSOR_CMD_BITS_16 else SENSOR_CMD_BITS_8)
           in case i2c_try env cmd of
                None \<Rightarrow> Some (SENSOR_K_FAIL, r)
              | Some _ \<Rightarrow>
                  (let buf = take n (se_i2c_read env a cmd n @ [0, 0])
                   in Some (SENSOR_K_SUCCESS,
                            r\<lparr>reg_value := if n = 1 then ucast (buf ! 0)
                                           else push_bit 8 (ucast (buf ! 0)) + ucast (buf ! 1)\<rparr>))))"

text \<open>A write to the register \<open>SENSOR_WRITE_DELAY\<close> is a delay of \<open>reg_value\<close> ms and
  sends nothing.\<close>

definition Sensor_K_WriteReg :: "sensor_env \<Rightarrow> reg_bits_t \<Rightarrow> sensor_state \<Rightarrow> (int \<times> sensor_state) option" where
  "Sensor_K_WriteReg env r s =
     (let cmd = reg_bytes (reg_wide (reg_bits r)) (reg_addr r) @ reg_bytes (val_wide (reg_bits r)) (reg_value r)
      in if reg_addr r \<noteq> SENSOR_WRITE_DELAY then
           (case cur_i2c_addr s of
              None \<Rightarrow> None
            | Some a \<Rightarrow> (case i2c_try env cmd of
                           None \<Rightarrow> Some (SENSOR_K_FAIL, s)
                         | Some _ \<Rightarrow> Some (SENSOR_K_SUCCESS, s\<lparr>i2c_log := i2c_log s @ [(a, cmd)]\<rparr>)))
         else Some (SENSOR_K_SUCCESS, s))"

subsection \<open>Register tables\<close>

text \<open>\<open>SENSOR_REG_T\<close> entries as they lie in memory: address then value, each little
  endian, four bytes per entry.\<close>

definition le16 :: "u16 \<Rightarrow> u8 list" where
  "le16 x = [ucast x, ucast (drop_bit 8 x)]"

definition reg_tab_bytes :: "(u16 \<times> u16) list \<Rightarrow> u8 list" where
  "reg_tab_bytes tab = concat (map (\<lambda>(a, v). le16 a @ le16 v) tab)"

definition get_le16 :: "u8 list \<Rightarrow> nat \<Rightarrow> u16" where
  "get_le16 b k = ucast (b ! k) + push_bit 8 (ucast (b ! Suc k))"

text \<open>\<open>sensor_reg_ptr[i]\<close>: \<open>None\<close> when the entry is not inside the buffer.\<close>

definition reg_entry :: "u8 list \<Rightarrow> nat \<Rightarrow> (u16 \<times> u16) option" where
  "reg_entry b i = (if 4 * i + 4 \<le> length b then Some (get_le16 b (4 * i), get_le16 b (4 * i + 2)) else None)"

text \<open>\<open>copy_from_user\<close> of \<open>n\<close> bytes from a user buffer into the cached buffer; it fails
  when the user buffer is shorter.\<close>

definition copy_in :: "sensor_env \<Rightarrow> u8 list \<Rightarrow> nat \<Rightarrow> u8 list \<Rightarrow> u8 list option" where
  "copy_in env src n b = (if se_user_ok env \<and> n \<le> length src then Some (take n src @ drop n b) else None)"

text \<open>The plain loop of \<open>_sensor_k_wr_regtab\<close>: every entry is written, a failure is
  remembered.\<close>

function wr_regtab_loop :: "sensor_env \<Rightarrow> u32 \<Rightarrow> u8 list \<Rightarrow> nat \<Rightarrow> nat \<Rightarrow> int \<Rightarrow> sensor_state \<Rightarrow> (int \<times> sensor_state) option" where
  "wr_regtab_loop env bits b cnt i ret s =
     (if i < cnt then
        (case reg_entry b i of
           None \<Rightarrow> None
         | Some (a, v) \<Rightarrow>
             (case Sensor_K_WriteReg env \<lparr>reg_addr = a, reg_value = v, reg_bits = bits\<rparr> s of
                None \<Rightarrow> None
              | Some (r, s1) \<Rightarrow> wr_regtab_loop env bits b cnt (Suc i) (if r = SENSOR_K_FAIL then SENSOR_K_FAIL else ret) s1))
      else Some (ret, s))"
  by pat_completeness auto
termination by (relation "measure (\<lambda>(_, _, _, cnt, i, _). cnt - i)") auto

declare wr_regtab_loop.simps [simp del]

text \<open>The Kiran \<open>_sensor_burst_write_init\<close>: outside a burst an entry is sent as two
  bytes (the result is not looked at), \<open>(BURST_REG, v)\<close> with \<open>v \<noteq> 0\<close> starts a burst,
  \<open>(DELAY_REG, v)\<close> is a delay; inside a burst the first address and the values are
  gathered in the 255-byte stack buffer \<open>burstmode_data\<close> and \<open>(BURST_REG, 0)\<close> sends them.
  The state of the loop is \<open>burst_flag\<close>, \<open>idx\<close> and the buffer; a write past the buffer
  is \<open>None\<close>.\<close>

function burst_loop :: "sensor_env \<Rightarrow> u16 \<Rightarrow> u8 list \<Rightarrow> nat \<Rightarrow> nat \<Rightarrow> bool \<Rightarrow> nat \<Rightarrow> u8 list \<Rightarrow> sensor_state \<Rightarrow> (int \<times> sensor_state) option" where
  "burst_loop env a b cnt i flag idx data s =
     (if i < cnt then
        (case reg_entry b i of
           None \<Rightarrow> None
         | Some (sub, v) \<Rightarrow>
             if \<not> flag then
               (if sub = BURST_REG then burst_loop env a b cnt (Suc i) (v \<noteq> 0) idx data s
                else if sub = DELAY_REG then burst_loop env a b cnt (Suc i) flag idx data s
                else (let msg = [ucast sub, ucast v];
                          s1 = (if se_i2c_ok env msg 0 then s\<lparr>i2c_log := i2c_log s @ [(a, msg)]\<rparr> else s)
                      in burst_loop env a b cnt (Suc i) flag 0 data s1))
             else if sub = BURST_REG \<and> v = 0 then
               (let msg = take idx data
                in if se_i2c_ok env msg 0
                   then burst_loop env a b cnt (Suc i) False 0 data (s\<lparr>i2c_log := i2c_log s @ [(a, msg)]\<rparr>)
                   else Some (1, s))
             else
               (let (idx1, data1) = (if idx = 0 then (1, data[0 := ucast sub]) else (idx, data))
                in if BURST_MODE_BUFFER_MAX_SIZE \<le> idx1 then None
                   else burst_loop env a b cnt (Suc i) flag (Suc idx1) (data1[idx1 := ucast v]) s))
      else Some (0, s))"
  by pat_completeness auto
termination by (relation "measure (\<lambda>(_, _, _, cnt, i, _). cnt - i)") auto

declare burst_loop.simps [simp del]

definition sensor_burst_write_init :: "sensor_env \<Rightarrow> u8 list \<Rightarrow> nat \<Rightarrow> sensor_state \<Rightarrow> (int \<times> sensor_state) option" where
  "sensor_burst_write_init env b cnt s =
     (case cur_i2c_addr s of
        None \<Rightarrow> Some (-1, s)
      | Some a \<Rightarrow> burst_loop env a b cnt 0 False 0 (replicate BURST_MODE_BUFFER_MAX_SIZE 0) s)"

text \<open>\<open>SENSOR_REG_TAB_T\<close>, with the user table it points to.\<close>

record reg_tab_t =
  sensor_reg_tab :: "(u16 \<times> u16) list"
  reg_count :: u32
  tab_reg_bits :: u32
  burst_mode :: u32

text \<open>\<open>_sensor_k_wr_regtab\<close>: \<open>size = cnt * sizeof(SENSOR_REG_T)\<close> is computed in 32 bits,
  the loops then read \<open>cnt\<close> entries of the buffer.\<close>

definition sensor_k_wr_regtab :: "sensor_env \<Rightarrow> reg_tab_t \<Rightarrow> sensor_state \<Rightarrow> (int \<times> sensor_state) option" where
  "sensor_k_wr_regtab env t s =
     (let cnt = reg_count t; size = cnt * 4
      in case sensor_k_kmalloc env (unat size) s of
           (None, s1) \<Rightarrow> Some (SENSOR_K_FAIL, s1)
         | (Some b, s1) \<Rightarrow>
             (case copy_in env (reg_tab_bytes (sensor_reg_tab t)) (unat size) b of
                None \<Rightarrow> Some (SENSOR_K_FAIL, s1)
              | Some b1 \<Rightarrow>
                  (let s2 = s1\<lparr>sensor_mem := Some b1\<rparr>
                   in if burst_mode t = 0 then wr_regtab_loop env (tab_reg_bits t) b1 (unat cnt) 0 SENSOR_K_SUCCESS s2
                      else if burst_mode t = SENSOR_I2C_BUST_NB then sensor_burst_write_init env b1 (unat cnt) s2
                      else Some (SENSOR_K_SUCCESS, s2))))"

text \<open>\<open>SENSOR_I2C_T\<close>, with the user bytes it points to.\<close>

record i2c_t =
  i2c_data :: "u8 list"
  i2c_count :: u16
  slave_addr :: u16

text \<open>\<open>_sensor_k_wr_i2c\<close>: one transfer of \<open>i2c_count\<close> user bytes to \<open>slave_addr\<close>, on the
  adapter of the current client.\<close>

definition sensor_k_wr_i2c :: "sensor_env \<Rightarrow> i2c_t \<Rightarrow> sensor_state \<Rightarrow> (int \<times> sensor_state) option" where
  "sensor_k_wr_i2c env t s =
     (let cnt = unat (i2c_count t)
      in case sensor_k_kmalloc env cnt s of
           (None, s1) \<Rightarrow> Some (SENSOR_K_FAIL, s1)
         | (Some b, s1) \<Rightarrow>
             (case copy_in env (i2c_data t) cnt b of
                None \<Rightarrow> Some (SENSOR_K_FAIL, s1)
              | Some b1 \<Rightarrow>
                  (let s2 = s1\<lparr>sensor_mem := Some b1\<rparr>; msg = take cnt b1
                   in if cur_i2c_addr s2 = None then None
                      else if se_i2c_ok env msg 0
                      then Some (SENSOR_K_SUCCESS, s2\<lparr>i2c_log := i2c_log s2 @ [(slave_addr t, msg)]\<rparr>)
                      else Some (se_i2c_err env, s2))))"

text \<open>\<open>sensor_k_write\<close>: fewer than 64 bytes go through a stack buffer, more through the
  cached buffer; the message length is a 16-bit field.\<close>

definition sensor_k_write :: "sensor_env \<Rightarrow> u8 list \<Rightarrow> u32 \<Rightarrow> sensor_state \<Rightarrow> (int \<times> sensor_state) option" where
  "sensor_k_write env ubuf cnt s =
     (case (if unat cnt < 64 then (Some (replicate 64 0), s) else sensor_k_kmalloc env (unat cnt) s) of
        (None, s1) \<Rightarrow> Some (SENSOR_K_FAIL, s1)
      | (Some b, s1) \<Rightarrow>
          (case copy_in env ubuf (unat cnt) b of
             None \<Rightarrow> Some (SENSOR_K_FAIL, s1)
           | Some b1 \<Rightarrow>
               (let s2 = (if unat cnt < 64 then s1 else s1\<lparr>sensor_mem := Some b1\<rparr>);
                    msg = take (unat (ucast cnt :: u16)) b1
                in case cur_i2c_addr s2 of
                     None \<Rightarrow> None
                   | Some a \<Rightarrow> if se_i2c_ok env msg 0
                               then Some (SENSOR_K_SUCCESS, s2\<lparr>i2c_log := i2c_log s2 @ [(a, msg)]\<rparr>)
                               else Some (se_i2c_err env, s2))))"

subsection \<open>Open and release\<close>

definition sensor_k_open :: "sensor_env \<Rightarrow> sensor_state \<Rightarrow> int \<times> sensor_state" where
  "sensor_k_open env s =
     (let s1 = s\<lparr>open_count := open_count s + 1\<rparr>
      in if open_count s1 = 1 then (se_mm_eb env, s1\<lparr>ccir_clk := se_parse_ccir env\<rparr>) else (0, s1))"

text \<open>The last release closes the supplies (the Kiran build closes the digital supply
  once for each camera), stops the sensor clock and puts it; the results are not looked
  at.\<close>

definition sensor_k_release :: "sensor_env \<Rightarrow> sensor_state \<Rightarrow> (int \<times> sensor_state) option" where
  "sensor_k_release env s =
     (let s0 = s\<lparr>open_count := open_count s - 1\<rparr>
      in if open_count s0 = 0 then
           Option.bind (sensor_k_set_voltage_cammot env SENSOR_VDD_CLOSED s0) (\<lambda>(_, s1).
           Option.bind (sensor_k_set_voltage_avdd env SENSOR_VDD_CLOSED s1) (\<lambda>(_, s2).
           Option.bind (sensor_k_set_voltage_dvdd env SENSOR_VDD_CLOSED SENSOR_MAIN s2) (\<lambda>(_, s3).
           Option.bind (sensor_k_set_voltage_dvdd env SENSOR_VDD_CLOSED SENSOR_SUB s3) (\<lambda>(_, s4).
           Option.bind (sensor_k_set_voltage_iovdd env SENSOR_VDD_CLOSED s4) (\<lambda>(_, s5).
           Option.bind (sensor_k_set_mclk env 0 s5) (\<lambda>(_, s6).
           Some (se_mm_eb env, s6\<lparr>ccir_clk := None\<rparr>)))))))
         else Some (0, s0))"

subsection \<open>The ioctl interface\<close>

text \<open>The commands of \<open>sensor_k_ioctl\<close> with the argument it copies from user space
  (\<open>SENSOR_IO_IF_CFG\<close>: whether the interface is opened and whether it is MIPI).
  \<open>SENSOR_IO_POWER_CFG\<close> calls \<open>sensor_power_on\<close>/\<open>sensor_power_off\<close> of another file and is
  not modelled.\<close>

datatype sensor_io =
    SENSOR_IO_PD u8
  | SENSOR_IO_SET_CAMMOT sensor_vdd
  | SENSOR_IO_SET_AVDD sensor_vdd
  | SENSOR_IO_SET_DVDD sensor_vdd u32
  | SENSOR_IO_SET_IOVDD sensor_vdd
  | SENSOR_IO_SET_MCLK u32
  | SENSOR_IO_RST u32 u32
  | SENSOR_IO_I2C_INIT u32
  | SENSOR_IO_I2C_DEINIT u32
  | SENSOR_IO_SET_ID u32
  | SENSOR_IO_RST_LEVEL u32
  | SENSOR_IO_I2C_ADDR u16
  | SENSOR_IO_I2C_READ reg_bits_t
  | SENSOR_IO_I2C_WRITE reg_bits_t
  | SENSOR_IO_I2C_WRITE_REGS reg_tab_t
  | SENSOR_IO_SET_I2CCLOCK u32
  | SENSOR_IO_I2C_WRITE_EXT i2c_t
  | SENSOR_IO_GET_FLASH_LEVEL
  | SENSOR_IO_GET_SOCID
  | SENSOR_IO_IF_CFG bool bool
  | SENSOR_IO_OTHER nat

text \<open>The \<open>SENSOR_IO_IF_CFG\<close> branch; the CSI calls have no state here.\<close>

definition sensor_if_cfg :: "sensor_env \<Rightarrow> bool \<Rightarrow> bool \<Rightarrow> sensor_state \<Rightarrow> sensor_state option" where
  "sensor_if_cfg env is_open mipi s =
     (if \<not> mipi then Some s
      else if is_open then
        (if mipi_on s = 0 then Some ((snd (sensor_k_mipi_clk_en env s))\<lparr>mipi_on := 1\<rparr>) else Some s)
      else if mipi_on s = 1 then map_option (\<lambda>s1. s1\<lparr>mipi_on := 0\<rparr>) (sensor_k_mipi_clk_dis s)
      else Some s)"

text \<open>The commands that start with a \<open>copy_from_user\<close> of their argument.\<close>

definition io_copies_in :: "sensor_io \<Rightarrow> bool" where
  "io_copies_in cmd = (case cmd of SENSOR_IO_GET_SOCID \<Rightarrow> False | SENSOR_IO_OTHER _ \<Rightarrow> False | _ \<Rightarrow> True)"

text \<open>A failed \<open>copy_from_user\<close> or \<open>copy_to_user\<close> returns the number of bytes not
  copied, \<open>se_uncopied\<close>.\<close>

definition sensor_k_ioctl :: "sensor_env \<Rightarrow> sensor_io \<Rightarrow> sensor_state \<Rightarrow> (int \<times> sensor_state) option" where
  "sensor_k_ioctl env cmd s =
     (if \<not> se_user_ok env \<and> io_copies_in cmd
      then Some (se_uncopied env, s)
      else case cmd of
        SENSOR_IO_PD l \<Rightarrow> Some (sensor_k_set_pd_level (l \<noteq> 0) s)
      | SENSOR_IO_SET_CAMMOT v \<Rightarrow> sensor_k_set_voltage_cammot env v s
      | SENSOR_IO_SET_AVDD v \<Rightarrow> sensor_k_set_voltage_avdd env v s
      | SENSOR_IO_SET_DVDD v sid \<Rightarrow> sensor_k_set_voltage_dvdd env v sid s
      | SENSOR_IO_SET_IOVDD v \<Rightarrow> sensor_k_set_voltage_iovdd env v s
      | SENSOR_IO_SET_MCLK m \<Rightarrow> sensor_k_set_mclk env m s
      | SENSOR_IO_RST l w \<Rightarrow> Some (sensor_k_reset l w s)
      | SENSOR_IO_I2C_INIT sid \<Rightarrow> Some (sensor_k_sensor_sel sid s)
      | SENSOR_IO_I2C_DEINIT sid \<Rightarrow> Some (sensor_k_sensor_desel sid s)
      | SENSOR_IO_SET_ID sid \<Rightarrow> Some (0, s\<lparr>sensor_id := sid\<rparr>)
      | SENSOR_IO_RST_LEVEL l \<Rightarrow> Some (sensor_k_set_rst_level l s)
      | SENSOR_IO_I2C_ADDR a \<Rightarrow>
          (case cur_i2c_addr s of
             None \<Rightarrow> None
           | Some c \<Rightarrow> Some (0, s\<lparr>cur_i2c_addr := Some ((c AND NOT 0xFF) OR a)\<rparr>))
      | SENSOR_IO_I2C_READ r \<Rightarrow>
          (case Sensor_K_ReadReg env r s of
             None \<Rightarrow> None
           | Some (ret, r1) \<Rightarrow> if ret = SENSOR_K_FAIL then Some (ret, s) else Some (0, s\<lparr>user_reg := Some r1\<rparr>))
      | SENSOR_IO_I2C_WRITE r \<Rightarrow> Sensor_K_WriteReg env r s
      | SENSOR_IO_I2C_WRITE_REGS t \<Rightarrow> sensor_k_wr_regtab env t s
      | SENSOR_IO_SET_I2CCLOCK c \<Rightarrow> Some (0, s\<lparr>i2c_clock := c\<rparr>)
      | SENSOR_IO_I2C_WRITE_EXT t \<Rightarrow> sensor_k_wr_i2c env t s
      | SENSOR_IO_GET_FLASH_LEVEL \<Rightarrow> Some (0, s)
      | SENSOR_IO_GET_SOCID \<Rightarrow> Some (if se_user_ok env then 0 else se_uncopied env, s)
      | SENSOR_IO_IF_CFG isopen mip \<Rightarrow> map_option (Pair 0) (sensor_if_cfg env isopen mip s)
      | SENSOR_IO_OTHER _ \<Rightarrow> Some (0, s))"

subsection \<open>Probe, remove and the module state\<close>

definition gpio_request :: "sensor_env \<Rightarrow> nat \<Rightarrow> sensor_state \<Rightarrow> int \<times> sensor_state" where
  "gpio_request env pin s =
     (let e = se_gpio_err env pin in (e, if e = 0 then s\<lparr>gpios_held := gpios_held s @ [pin]\<rparr> else s))"

text \<open>\<open>sensor_k_probe\<close>: a failed GPIO request or \<open>i2c_add_driver\<close> returns with the misc
  device and the GPIOs already requested kept.\<close>

definition sensor_k_probe :: "sensor_env \<Rightarrow> sensor_state \<Rightarrow> int \<times> sensor_state" where
  "sensor_k_probe env s =
     (if se_misc_err env \<noteq> 0 then (se_misc_err env, s)
      else
        (let s1 = s\<lparr>misc_registered := True, pin_main_reset := se_of_gpio env 0, pin_main_pd := se_of_gpio env 1,
                    pin_sub_reset := se_of_gpio env 2, pin_sub_pd := se_of_gpio env 3\<rparr>
         in case gpio_request env (pin_main_reset s1) s1 of (e1, s2) \<Rightarrow>
            if e1 \<noteq> 0 then (e1, s2) else
            case gpio_request env (pin_main_pd s2) s2 of (e2, s3) \<Rightarrow>
            if e2 \<noteq> 0 then (e2, s3) else
            case (if pin_sub_reset s3 \<noteq> pin_main_reset s3 then gpio_request env (pin_sub_reset s3) s3 else (0, s3)) of (e3, s4) \<Rightarrow>
            if e3 \<noteq> 0 then (e3, s4) else
            case (if pin_sub_pd s4 \<noteq> pin_main_pd s4 then gpio_request env (pin_sub_pd s4) s4 else (0, s4)) of (e4, s5) \<Rightarrow>
            if e4 \<noteq> 0 then (e4, s5) else
            (let s6 = gpio_write (pin_main_reset s5) True s5
             in if se_i2c_add_err env \<noteq> 0 then (SENSOR_K_FAIL, s6) else (0, s6\<lparr>i2c_drv_added := True\<rparr>))))"

text \<open>\<open>sensor_k_remove\<close> frees the GPIOs and the misc device; the I2C driver stays
  registered.\<close>

definition sensor_k_remove :: "sensor_state \<Rightarrow> int \<times> sensor_state" where
  "sensor_k_remove s =
     (let free = (\<lambda>pin s. s\<lparr>gpios_held := remove1 pin (gpios_held s)\<rparr>);
          s1 = (if pin_sub_reset s \<noteq> pin_main_reset s then free (pin_sub_reset s) s else s);
          s2 = (if pin_sub_pd s1 \<noteq> pin_main_pd s1 then free (pin_sub_pd s1) s1 else s1)
      in (0, (free (pin_main_pd s2) (free (pin_main_reset s2) s2))\<lparr>misc_registered := False\<rparr>))"

text \<open>\<open>sensor_probe\<close>, the I2C driver's probe: the bound client becomes the current one.\<close>

definition sensor_probe :: "sensor_env \<Rightarrow> sensor_state \<Rightarrow> int \<times> sensor_state" where
  "sensor_probe env s =
     (if \<not> se_i2c_func_ok env then (- ENODEV, s) else (0, s\<lparr>cur_i2c_addr := Some (se_client_addr env)\<rparr>))"

text \<open>The module state \<open>sensor_k_init\<close> allocates (\<open>vzalloc\<close>, so every field zero and
  every pointer \<open>NULL\<close>), with \<open>sensor_id = SENSOR_ID_MAX\<close>; the regulator core is the
  kernel's.\<close>

definition sensor_k_init_state :: "reg_core \<Rightarrow> sensor_state" where
  "sensor_k_init_state rc =
     \<lparr>sensor_id = SENSOR_ID_MAX, sensor_mclk = 0, iopower_on_count = 0, avddpower_on_count = 0,
      dvddpower_on_count = 0, motpower_on_count = 0, mipi_on = 0, ccir_clk = None, mipi_clk = None,
      cur_i2c_addr = None, camvio_regulator = None, camavdd_regulator = None, camdvdd_regulator = None,
      cammot_regulator = None, sensor_mem = None, pin_main_reset = 0, pin_sub_reset = 0, pin_main_pd = 0,
      pin_sub_pd = 0, open_count = 0, regs = rc, ccir_en = 0, ccir_parent = [], ccir_rate = 0, mipi_en = 0,
      clk_warn = 0, gpio_log = [], i2c_log = [], i2c_clock = 0, user_reg = None, misc_registered = False,
      gpios_held = [], i2c_drv_added = False\<rparr>"

text \<open>The entry points of the driver as events: the platform and I2C probes, the file
  operations of the misc device, and the platform remove.\<close>

datatype sensor_op = SnProbe | SnI2cProbe | SnOpen | SnRelease | SnIoctl sensor_io
  | SnWrite "u8 list" u32 | SnRemove

definition sensor_step :: "sensor_env \<Rightarrow> sensor_op \<Rightarrow> sensor_state \<Rightarrow> (int \<times> sensor_state) option" where
  "sensor_step env op s = (case op of
       SnProbe \<Rightarrow> Some (sensor_k_probe env s)
     | SnI2cProbe \<Rightarrow> Some (sensor_probe env s)
     | SnOpen \<Rightarrow> Some (sensor_k_open env s)
     | SnRelease \<Rightarrow> sensor_k_release env s
     | SnIoctl c \<Rightarrow> sensor_k_ioctl env c s
     | SnWrite b n \<Rightarrow> sensor_k_write env b n s
     | SnRemove \<Rightarrow> Some (sensor_k_remove s))"

text \<open>A run of entry points in order; \<open>None\<close> when one of them faults.\<close>

fun sensor_run :: "sensor_env \<Rightarrow> sensor_op list \<Rightarrow> sensor_state \<Rightarrow> sensor_state option" where
  "sensor_run env [] s = Some s"
| "sensor_run env (op # ops) s = Option.bind (sensor_step env op s) (\<lambda>(_, s1). sensor_run env ops s1)"

subsection \<open>Example inputs\<close>

text \<open>A kernel in which every call the driver makes succeeds (each I2C transfer at its
  first attempt), the board's GPIOs 100 to 103, a sensor at I2C address \<open>0x3c\<close> that
  answers reads with \<open>0x12 0x34\<close>, and a regulator core with nothing requested or enabled.\<close>

definition ex_sensor_env :: sensor_env where
  "ex_sensor_env =
     \<lparr>se_reg_get_ok = (\<lambda>_. True), se_set_volt_err = (\<lambda>_ _. 0), se_enable_err = (\<lambda>_. 0),
      se_clk_get_ok = (\<lambda>_. True), se_set_parent_err = 0, se_set_rate_err = 0, se_clk_enable_err = 0,
      se_alloc_ok = (\<lambda>_. True), se_user_ok = True, se_parse_ccir = Some ClkOk, se_parse_mipi = Some ClkOk,
      se_i2c_ok = (\<lambda>_ _. True), se_i2c_err = - EIO, se_i2c_read = (\<lambda>_ _ _. [0x12, 0x34]), se_mm_eb = 0,
      se_uncopied = 4, se_misc_err = 0, se_of_gpio = (\<lambda>i. 100 + i), se_gpio_err = (\<lambda>_. 0),
      se_i2c_add_err = 0, se_i2c_func_ok = True, se_client_addr = 0x3c\<rparr>"

definition ex_reg_core :: reg_core where
  "ex_reg_core = \<lparr>rc_name = (\<lambda>_. []), rc_next = 0, rc_use = (\<lambda>_. 0), rc_uV = (\<lambda>_. 0), rc_warn = 0\<rparr>"

end
