(* ===== verification/Sensor_Props.thy ===== *)
theory Sensor_Props
  imports Sensor
begin

text \<open>
  The properties of the camera sensor driver model (\<open>Sensor\<close>): the clock selection of
  \<open>_select_sensor_mclk\<close> is optimal; the register bytes round-trip between
  \<open>_Sensor_K_WriteReg\<close>'s encoding, the little-endian table layout and \<open>_Sensor_K_ReadReg\<close>;
  \<open>_sensor_k_wr_regtab\<close> sends exactly the table's non-delay entries; a supply switched on
  and off is balanced in the regulator core; and the defects: the burst writer's stack
  buffer overflow, the 32-bit wrap of the table size, the counted failed enable, and the
  Kiran front camera's digital supply left on by the last release.
\<close>

text \<open>The minimum search of \<open>_select_sensor_mclk\<close>: a left fold that replaces the best
  value only on a strict improvement ends with a value below every candidate, taken from a
  candidate unless none beats the start.\<close>

lemma fold_argmin:
  fixes f :: "'a \<Rightarrow> int"
  assumes "fold (\<lambda>j (dm, m). if f j < dm then (f j, p j) else (dm, m)) xs (d0, m0) = (d, m)"
  shows "d \<le> d0 \<and> (\<forall>j\<in>set xs. d \<le> f j) \<and> ((d = d0 \<and> m = m0) \<or> (\<exists>j\<in>set xs. d = f j \<and> m = p j))"
  using assms
proof (induction xs arbitrary: d0 m0)
  case Nil then show ?case by simp
next
  case (Cons x xs)
  show ?case
  proof (cases "f x < d0")
    case True
    with Cons.prems have "fold (\<lambda>j (dm, m). if f j < dm then (f j, p j) else (dm, m)) xs (f x, p x) = (d, m)" by simp
    from Cons.IH [OF this] True show ?thesis by force
  next
    case False
    with Cons.prems have "fold (\<lambda>j (dm, m). if f j < dm then (f j, p j) else (dm, m)) xs (d0, m0) = (d, m)" by simp
    from Cons.IH [OF this] False show ?thesis by force
  qed
qed

lemma bit_255_int: "bit (255 :: int) n \<longleftrightarrow> n < 8"
proof -
  have e: "(255 :: int) = mask 8" by (simp add: mask_eq_exp_minus_1)
  show ?thesis unfolding e by (simp add: bit_mask_iff)
qed

lemma reg_bytes_wide_decode:
  "push_bit 8 (ucast (reg_bytes True v ! 0) :: u16) + ucast (reg_bytes True v ! 1) = v"
proof -
  let ?h = "push_bit 8 (ucast (ucast (drop_bit 8 v AND 255) :: u8)) :: u16"
  let ?l = "ucast (ucast (v AND 255) :: u8) :: u16"
  have "?h AND ?l = 0" by (rule bit_word_eqI) (auto simp: bit_simps bit_255_int)
  then have "?h + ?l = ?h OR ?l" by (rule disjunctive_add_eq_or)
  also have "\<dots> = v" by (rule bit_word_eqI) (auto simp: bit_simps bit_255_int)
  finally show ?thesis by (simp add: reg_bytes_def SENSOR_LOW_EIGHT_BIT_def)
qed

lemma reg_bytes_narrow_decode:
  "(ucast (reg_bytes False v ! 0) :: u16) = v AND 0xff"
  unfolding reg_bytes_def by (rule bit_word_eqI) (auto simp: bit_simps bit_255_int)


lemma mclk_src_step_eq:
  "mclk_src_step t = (\<lambda>j (dm, m). if \<bar>fst (c_sensor_mclk_tab ! j) - t\<bar> < dm then (\<bar>fst (c_sensor_mclk_tab ! j) - t\<bar>, id j) else (dm, m))"
  by (auto simp: mclk_src_step_def fun_eq_iff Let_def)

text \<open>The search over the sources for one target clock finds a nearest source; the
  initial index does not matter.\<close>

lemma mclk_src_best:
  assumes t: "0 \<le> t" "t \<le> 384"
      and r: "fold (mclk_src_step t) [0..<SENSOR_MCLK_SRC_NUM] (NUMBER_MAX, m0) = (d, m)"
  shows "m < SENSOR_MCLK_SRC_NUM \<and> d = \<bar>fst (c_sensor_mclk_tab ! m) - t\<bar>
         \<and> (\<forall>j < SENSOR_MCLK_SRC_NUM. d \<le> \<bar>fst (c_sensor_mclk_tab ! j) - t\<bar>)"
proof -
  note f = fold_argmin [OF r [unfolded mclk_src_step_eq]]
  have "\<bar>fst (c_sensor_mclk_tab ! 0) - t\<bar> < NUMBER_MAX"
    using t by (simp add: c_sensor_mclk_tab_def NUMBER_MAX_def)
  moreover have "0 \<in> set [0..<SENSOR_MCLK_SRC_NUM]" by (simp add: SENSOR_MCLK_SRC_NUM_def)
  ultimately have "d \<noteq> NUMBER_MAX" using f by fastforce
  with f show ?thesis by auto
qed

lemma mclk_src_start:
  assumes "0 \<le> t" "t \<le> 384"
  shows "fold (mclk_src_step t) [0..<SENSOR_MCLK_SRC_NUM] (NUMBER_MAX, m0)
         = fold (mclk_src_step t) [1..<SENSOR_MCLK_SRC_NUM] (\<bar>96 - t\<bar>, 0)"
proof -
  have u: "[0..<SENSOR_MCLK_SRC_NUM] = 0 # [1..<SENSOR_MCLK_SRC_NUM]"
    by (simp add: SENSOR_MCLK_SRC_NUM_def upt_conv_Cons)
  have "\<bar>96 - t\<bar> < NUMBER_MAX" using assms by (simp add: NUMBER_MAX_def)
  then have "mclk_src_step t 0 (NUMBER_MAX, m0) = (\<bar>96 - t\<bar>, 0)"
    by (simp add: mclk_src_step_def c_sensor_mclk_tab_def)
  then show ?thesis unfolding u by simp
qed

lemma mclk_div_step_proj:
  assumes "0 \<le> c" "c \<le> 96" "i < SENSOR_MCLK_DIV_MAX"
  shows "(\<lambda>(dd, src, dv, mt). (dd, src, dv)) (mclk_div_step c i a)
   = (\<lambda>(dm, m). if fst (fold (mclk_src_step (c * int (i + 1))) [0..<SENSOR_MCLK_SRC_NUM] (NUMBER_MAX, 0)) < dm
                 then (fst (fold (mclk_src_step (c * int (i + 1))) [0..<SENSOR_MCLK_SRC_NUM] (NUMBER_MAX, 0)),
                       snd (fold (mclk_src_step (c * int (i + 1))) [0..<SENSOR_MCLK_SRC_NUM] (NUMBER_MAX, 0)), i)
                 else (dm, m)) ((\<lambda>(dd, src, dv, mt). (dd, src, dv)) a)"
proof -
  have "1 + int i \<le> 4" using assms(3) by (simp add: SENSOR_MCLK_DIV_MAX_def)
  then have "c * (1 + int i) \<le> 96 * 4" using assms(1,2) by (intro mult_mono) auto
  moreover have "0 \<le> c * (1 + int i)" using assms(1) by simp
  ultimately have st: "fold (mclk_src_step (c * (1 + int i))) [0..<SENSOR_MCLK_SRC_NUM] (NUMBER_MAX, m0)
                   = fold (mclk_src_step (c * (1 + int i))) [1..<SENSOR_MCLK_SRC_NUM] (\<bar>96 - c * (1 + int i)\<bar>, 0)" for m0
    by (intro mclk_src_start) simp_all
  obtain dd src dv mt where "a = (dd, src, dv, mt)" by (cases a)
  then show ?thesis by (simp add: mclk_div_step_def st split_beta)
qed


lemma mclk_src_fold_best:
  assumes "0 \<le> c" "c \<le> 96" "i < SENSOR_MCLK_DIV_MAX"
  shows "snd (fold (mclk_src_step (c * int (i + 1))) [0..<SENSOR_MCLK_SRC_NUM] (NUMBER_MAX, 0)) < SENSOR_MCLK_SRC_NUM \<and>
         fst (fold (mclk_src_step (c * int (i + 1))) [0..<SENSOR_MCLK_SRC_NUM] (NUMBER_MAX, 0))
           = \<bar>fst (c_sensor_mclk_tab ! snd (fold (mclk_src_step (c * int (i + 1))) [0..<SENSOR_MCLK_SRC_NUM] (NUMBER_MAX, 0))) - c * int (i + 1)\<bar> \<and>
         (\<forall>j < SENSOR_MCLK_SRC_NUM. fst (fold (mclk_src_step (c * int (i + 1))) [0..<SENSOR_MCLK_SRC_NUM] (NUMBER_MAX, 0))
            \<le> \<bar>fst (c_sensor_mclk_tab ! j) - c * int (i + 1)\<bar>)"
proof -
  have "int (i + 1) \<le> 4" using assms(3) by (simp add: SENSOR_MCLK_DIV_MAX_def)
  then have "c * int (i + 1) \<le> 96 * 4" using assms(1,2) by (intro mult_mono) auto
  moreover have "0 \<le> c * int (i + 1)" using assms(1) by simp
  moreover obtain d m where e: "fold (mclk_src_step (c * int (i + 1))) [0..<SENSOR_MCLK_SRC_NUM] (NUMBER_MAX, 0) = (d, m)"
    by fastforce
  ultimately show ?thesis using mclk_src_best [of "c * int (i + 1)" 0 d m] by auto
qed

text \<open>C9: For every requested clock up to 96 MHz, \<open>_select_sensor_mclk\<close> returns a source of
  \<open>c_sensor_mclk_tab\<close> and a divider from 1 to 4 whose product with the request is as close
  to the source's frequency as that of any other source and divider.\<close>

theorem select_sensor_mclk_optimal:
  assumes "unat clk \<le> 96"
  shows "\<exists>src dv. select_sensor_mclk clk = Some (snd (c_sensor_mclk_tab ! src), dv) \<and>
           src < SENSOR_MCLK_SRC_NUM \<and> 1 \<le> dv \<and> dv \<le> SENSOR_MCLK_DIV_MAX \<and>
           (\<forall>j < SENSOR_MCLK_SRC_NUM. \<forall>d \<in> {1..SENSOR_MCLK_DIV_MAX}.
              \<bar>fst (c_sensor_mclk_tab ! src) - int (unat clk) * int dv\<bar>
                \<le> \<bar>fst (c_sensor_mclk_tab ! j) - int (unat clk) * int d\<bar>)"
proof -
  define c where "c = int (unat clk)"
  have c: "0 \<le> c" "c \<le> 96"
    unfolding c_def using assms by (simp, metis of_nat_le_iff of_nat_numeral)
  have cd: "int (unat clk) = c" by (simp add: c_def)
  then have cu: "uint clk = c" by simp
  define inner where "inner i = fold (mclk_src_step (c * int (i + 1))) [0..<SENSOR_MCLK_SRC_NUM] (NUMBER_MAX, 0)" for i
  define P :: "int \<times> nat \<times> nat \<times> nat \<Rightarrow> int \<times> nat \<times> nat" where "P = (\<lambda>(dd, src, dv, mt). (dd, src, dv))"
  obtain dd src dv mt where F: "fold (mclk_div_step c) [0..<SENSOR_MCLK_DIV_MAX] (NUMBER_MAX, 0, 0, 0) = (dd, src, dv, mt)"
    by (metis prod_cases4)
  have "P (fold (mclk_div_step c) [0..<SENSOR_MCLK_DIV_MAX] (NUMBER_MAX, 0, 0, 0))
        = fold (\<lambda>i (dm, m). if fst (inner i) < dm then (fst (inner i), (snd (inner i), i)) else (dm, m))
               [0..<SENSOR_MCLK_DIV_MAX] (P (NUMBER_MAX, 0, 0, 0))"
    by (rule fold_commute_apply) (auto simp: P_def inner_def mclk_div_step_proj [OF c] fun_eq_iff)
  then have G: "fold (\<lambda>i (dm, m). if fst (inner i) < dm then (fst (inner i), (snd (inner i), i)) else (dm, m))
               [0..<SENSOR_MCLK_DIV_MAX] (NUMBER_MAX, (0, 0)) = (dd, (src, dv))"
    by (simp add: F P_def)
  note A = fold_argmin [OF G]
  have best: "snd (inner i) < SENSOR_MCLK_SRC_NUM \<and> fst (inner i) = \<bar>fst (c_sensor_mclk_tab ! snd (inner i)) - c * int (i + 1)\<bar> \<and>
              (\<forall>j < SENSOR_MCLK_SRC_NUM. fst (inner i) \<le> \<bar>fst (c_sensor_mclk_tab ! j) - c * int (i + 1)\<bar>)"
    if "i < SENSOR_MCLK_DIV_MAX" for i
    unfolding inner_def by (rule mclk_src_fold_best [OF c that])
  have "fst (inner 0) < NUMBER_MAX"
  proof -
    have b0: "0 < SENSOR_MCLK_DIV_MAX" "0 < SENSOR_MCLK_SRC_NUM"
      by (simp_all add: SENSOR_MCLK_DIV_MAX_def SENSOR_MCLK_SRC_NUM_def)
    have "fst (inner 0) \<le> \<bar>fst (c_sensor_mclk_tab ! 0) - c * int (0 + 1)\<bar>"
      using best [OF b0(1)] b0(2) by blast
    then show ?thesis using c by (simp add: c_sensor_mclk_tab_def NUMBER_MAX_def)
  qed
  moreover have "0 \<in> set [0..<SENSOR_MCLK_DIV_MAX]" by (simp add: SENSOR_MCLK_DIV_MAX_def)
  ultimately obtain i where i: "i < SENSOR_MCLK_DIV_MAX" and di: "dd = fst (inner i)"
    and si: "src = snd (inner i)" and vi: "dv = i"
    using A by force
  have sel: "select_sensor_mclk clk = Some (snd (c_sensor_mclk_tab ! src), dv + 1)"
    using assms F by (simp add: select_sensor_mclk_def cd cu)
  have opt: "\<bar>fst (c_sensor_mclk_tab ! src) - c * int (dv + 1)\<bar> \<le> \<bar>fst (c_sensor_mclk_tab ! j) - c * int d\<bar>"
    if j: "j < SENSOR_MCLK_SRC_NUM" and d: "d \<in> {1..SENSOR_MCLK_DIV_MAX}" for j d
  proof -
    have d1: "d - 1 < SENSOR_MCLK_DIV_MAX" "d - 1 + 1 = d" using d by auto
    have "dd \<le> fst (inner (d - 1))" using A d1(1) by auto
    also have "\<dots> \<le> \<bar>fst (c_sensor_mclk_tab ! j) - c * int d\<bar>" using best [OF d1(1)] j d1(2) by metis
    finally show ?thesis using best [OF i] di si vi by simp
  qed
  show ?thesis
    using sel best [OF i] si vi i opt unfolding cd cu
    by (intro exI [of _ src] exI [of _ "dv + 1"]) auto
qed


lemma le16_decode: "get_le16 (le16 x @ r) 0 = x"
proof -
  let ?l = "ucast (ucast x :: u8) :: u16"
  let ?h = "push_bit 8 (ucast (ucast (drop_bit 8 x) :: u8)) :: u16"
  have "?l AND ?h = 0" by (rule bit_word_eqI) (auto simp: bit_simps)
  then have "?l + ?h = ?l OR ?h" by (rule disjunctive_add_eq_or)
  also have "\<dots> = x" by (rule bit_word_eqI) (auto simp: bit_simps)
  finally show ?thesis by (simp add: get_le16_def le16_def)
qed

lemma length_reg_tab_bytes [simp]: "length (reg_tab_bytes tab) = 4 * length tab"
  by (induction tab) (auto simp: reg_tab_bytes_def le16_def)

lemma reg_tab_bytes_Cons:
  "reg_tab_bytes ((x, v) # tab) = le16 x @ le16 v @ reg_tab_bytes tab"
  by (simp add: reg_tab_bytes_def)

text \<open>The entries of a table laid out by \<open>reg_tab_bytes\<close> are read back by \<open>reg_entry\<close>.\<close>

lemma reg_entry_tab:
  assumes "take (4 * length tab) b = reg_tab_bytes tab" "i < length tab"
  shows "reg_entry b i = Some (tab ! i)"
  using assms
proof (induction tab arbitrary: b i)
  case Nil then show ?case by simp
next
  case (Cons e tab)
  obtain x v where e: "e = (x, v)" by fastforce
  have lb: "4 * length (e # tab) \<le> length b"
    using arg_cong [OF Cons.prems(1), of length] by simp
  have b: "b = le16 x @ le16 v @ reg_tab_bytes tab @ drop (4 * length (e # tab)) b"
    using Cons.prems(1) unfolding e reg_tab_bytes_Cons
    by (metis append.assoc append_take_drop_id)
  show ?case
  proof (cases i)
    case 0
    have "get_le16 b 2 = v"
      using le16_decode [of v "reg_tab_bytes tab @ drop (4 * length (e # tab)) b"]
      by (subst b) (simp add: get_le16_def le16_def)
    moreover have "get_le16 b 0 = x"
      using le16_decode [of x "le16 v @ reg_tab_bytes tab @ drop (4 * length (e # tab)) b"] b by simp
    ultimately show ?thesis using 0 lb e by (simp add: reg_entry_def numeral_2_eq_2)
  next
    case (Suc k)
    have t: "take (4 * length tab) (drop 4 b) = reg_tab_bytes tab"
      by (subst b) (simp add: le16_def)
    have "reg_entry (drop 4 b) k = Some (tab ! k)" using Cons.IH [OF t] Cons.prems(2) Suc by simp
    moreover have "get_le16 (drop 4 b) n = get_le16 b (4 + n)" for n
      using lb by (simp add: get_le16_def)
    ultimately show ?thesis using Suc lb by (simp add: reg_entry_def split: if_splits)
  qed
qed


text \<open>The bytes \<open>_Sensor_K_WriteReg\<close> sends for an entry.\<close>

lemma Sensor_K_WriteReg_ok:
  assumes "cur_i2c_addr s = Some a"
    and "i2c_try env (reg_bytes (reg_wide (reg_bits r)) (reg_addr r) @ reg_bytes (val_wide (reg_bits r)) (reg_value r)) \<noteq> None"
  shows "Sensor_K_WriteReg env r s =
           Some (SENSOR_K_SUCCESS,
                 if reg_addr r \<noteq> SENSOR_WRITE_DELAY
                 then s\<lparr>i2c_log := i2c_log s @ [(a, reg_bytes (reg_wide (reg_bits r)) (reg_addr r) @ reg_bytes (val_wide (reg_bits r)) (reg_value r))]\<rparr>
                 else s)"
  using assms by (auto simp: Sensor_K_WriteReg_def Let_def)

lemma wr_regtab_loop_ok:
  assumes ok: "\<forall>m. i2c_try env m \<noteq> None"
    and b: "take (4 * length tab) b = reg_tab_bytes tab" and n: "cnt \<le> length tab"
    and c: "cur_i2c_addr s = Some a"
  shows "wr_regtab_loop env bits b cnt i ret s =
           Some (ret, s\<lparr>i2c_log := i2c_log s @
                   map (\<lambda>(x, v). (a, reg_bytes (reg_wide bits) x @ reg_bytes (val_wide bits) v))
                     (filter (\<lambda>(x, v). x \<noteq> SENSOR_WRITE_DELAY) (map ((!) tab) [i..<cnt]))\<rparr>)"
  using c
proof (induction "cnt - i" arbitrary: i s)
  case 0
  then show ?case by (simp add: wr_regtab_loop.simps)
next
  case (Suc k)
  then have i: "i < cnt" by simp
  obtain x v where e: "tab ! i = (x, v)" by fastforce
  have re: "reg_entry b i = Some (x, v)" using reg_entry_tab [OF b] i n e by simp
  define s1 where "s1 = (if x \<noteq> SENSOR_WRITE_DELAY
                        then s\<lparr>i2c_log := i2c_log s @ [(a, reg_bytes (reg_wide bits) x @ reg_bytes (val_wide bits) v)]\<rparr>
                        else s)"
  have w: "Sensor_K_WriteReg env \<lparr>reg_addr = x, reg_value = v, reg_bits = bits\<rparr> s = Some (SENSOR_K_SUCCESS, s1)"
    using Sensor_K_WriteReg_ok [OF Suc.prems] ok by (simp add: s1_def)
  have c1: "cur_i2c_addr s1 = Some a" using Suc.prems by (simp add: s1_def)
  have k: "k = cnt - Suc i" using Suc.hyps(2) by simp
  have u: "[i..<cnt] = i # [Suc i..<cnt]" using i by (simp add: upt_conv_Cons)
  show ?case
    using Suc.hyps(1) [OF k c1] i re w e
    by (subst wr_regtab_loop.simps) (simp add: u s1_def SENSOR_K_FAIL_def SENSOR_K_SUCCESS_def)
qed


text \<open>What \<open>_sensor_k_kmalloc\<close> promises: a returned buffer holds at least the bytes asked
  for and is the cached one; the rest of the state is untouched.\<close>

lemma sensor_k_kmalloc_result:
  assumes "sensor_k_kmalloc env sz s = (Some b, s1)"
  shows "sz \<le> length b \<and> s1 = s\<lparr>sensor_mem := Some b\<rparr>"
  using assms by (auto simp: sensor_k_kmalloc_def Let_def split: option.splits if_splits)

lemma sensor_k_kmalloc_alloc_ok:
  "se_alloc_ok env sz \<Longrightarrow> fst (sensor_k_kmalloc env sz s) \<noteq> None"
  by (auto simp: sensor_k_kmalloc_def Let_def split: option.splits)

lemma reg_tab_bytes_take: "reg_tab_bytes (take k tab) = take (4 * k) (reg_tab_bytes tab)"
proof (induction tab arbitrary: k)
  case Nil then show ?case by (simp add: reg_tab_bytes_def)
next
  case (Cons e tab)
  obtain x v where e: "e = (x, v)" by fastforce
  show ?case
  proof (cases k)
    case 0 then show ?thesis by (simp add: reg_tab_bytes_def)
  next
    case (Suc j)
    show ?thesis using Cons.IH [of j] Suc by (simp add: e reg_tab_bytes_Cons le16_def take_add)
  qed
qed

text \<open>C32: A register table written without burst mode, when the kernel calls succeed and
  \<open>cnt * sizeof(SENSOR_REG_T)\<close> does not wrap, returns \<open>SENSOR_K_SUCCESS\<close> and sends exactly
  the entries of the table that are not \<open>SENSOR_WRITE_DELAY\<close>, in order, each as its address
  and value bytes to the current sensor.\<close>

theorem sensor_k_wr_regtab_plain:
  assumes c: "cur_i2c_addr s = Some a" and ok: "\<forall>m. i2c_try env m \<noteq> None"
    and u: "se_user_ok env" and al: "se_alloc_ok env (unat (reg_count t) * 4)"
    and n: "unat (reg_count t) \<le> length (sensor_reg_tab t)" and nw: "unat (reg_count t) * 4 < 2 ^ 32"
    and m: "burst_mode t = 0"
  shows "\<exists>s'. sensor_k_wr_regtab env t s = Some (SENSOR_K_SUCCESS, s') \<and>
           i2c_log s' = i2c_log s @
             map (\<lambda>(x, v). (a, reg_bytes (reg_wide (tab_reg_bits t)) x @ reg_bytes (val_wide (tab_reg_bits t)) v))
               (filter (\<lambda>(x, v). x \<noteq> SENSOR_WRITE_DELAY) (take (unat (reg_count t)) (sensor_reg_tab t)))"
proof -
  let ?cnt = "unat (reg_count t)"
  let ?tab = "take ?cnt (sensor_reg_tab t)"
  have sz: "unat (reg_count t * 4) = ?cnt * 4"
    using nw by (simp add: unat_mult_lem [THEN iffD1])
  obtain b s1 where k: "sensor_k_kmalloc env (?cnt * 4) s = (Some b, s1)"
    using sensor_k_kmalloc_alloc_ok [OF al, of s] by (cases "sensor_k_kmalloc env (?cnt * 4) s") auto
  note kb = sensor_k_kmalloc_result [OF k]
  let ?b1 = "take (?cnt * 4) (reg_tab_bytes (sensor_reg_tab t)) @ drop (?cnt * 4) b"
  have cp: "copy_in env (reg_tab_bytes (sensor_reg_tab t)) (?cnt * 4) b = Some ?b1"
    using u n by (simp add: copy_in_def)
  have lt: "length ?tab = ?cnt" using n by simp
  have tb: "take (4 * length ?tab) ?b1 = reg_tab_bytes ?tab"
    using n by (simp add: lt reg_tab_bytes_take mult.commute)
  let ?s2 = "s1\<lparr>sensor_mem := Some ?b1\<rparr>"
  have c2: "cur_i2c_addr ?s2 = Some a" using c kb by simp
  have mp: "map ((!) ?tab) [0..<?cnt] = ?tab" using lt map_nth [of ?tab] by simp
  note L = wr_regtab_loop_ok [OF ok tb lt [symmetric, THEN eq_imp_le] c2, of "tab_reg_bits t" 0 SENSOR_K_SUCCESS]
  show ?thesis
    using L lt mp k cp kb m
    by (simp add: sensor_k_wr_regtab_def sz Let_def del: wr_regtab_loop.simps)
qed


text \<open>Inside a burst every entry that does not close it adds a byte to \<open>burstmode_data\<close>;
  once \<open>idx\<close> reaches the end of the buffer the next such entry writes past it.\<close>

lemma burst_loop_overflow:
  assumes b: "take (4 * length tab) b = reg_tab_bytes tab"
    and k: "i + k \<le> cnt" "i + k \<le> length tab"
    and nb: "\<forall>j < k. fst (tab ! (i + j)) \<noteq> BURST_REG"
    and idx: "1 \<le> idx" "idx \<le> BURST_MODE_BUFFER_MAX_SIZE" "BURST_MODE_BUFFER_MAX_SIZE + 1 \<le> idx + k"
  shows "burst_loop env a b cnt i True idx data s = None"
  using k nb idx
proof (induction k arbitrary: i idx data)
  case 0 then show ?case by simp
next
  case (Suc k)
  obtain x v where e: "tab ! i = (x, v)" by fastforce
  have re: "reg_entry b i = Some (x, v)" using reg_entry_tab [OF b] Suc.prems(2) e by simp
  have x: "x \<noteq> BURST_REG" using Suc.prems(3) [rule_format, of 0] e by simp
  have i: "i < cnt" using Suc.prems(1) by simp
  show ?case
  proof (cases "BURST_MODE_BUFFER_MAX_SIZE \<le> idx")
    case True
    then show ?thesis using i re x Suc.prems(4) by (subst burst_loop.simps) simp
  next
    case False
    have "burst_loop env a b cnt (Suc i) True (Suc idx) (data[idx := ucast v]) s = None"
      using Suc.prems False by (intro Suc.IH) (auto simp: add.commute add_Suc_right)
    then show ?thesis using i re x False Suc.prems(4) by (subst burst_loop.simps) simp
  qed
qed

text \<open>C34: A table written with \<open>burst_mode = SENSOR_I2C_BUST_NB\<close> that opens a burst with its
  first entry and has 255 more entries before the next \<open>BURST_REG\<close> entry makes
  \<open>_sensor_burst_write_init\<close> write past its 255-byte stack buffer: the overflow check of the
  loop only prints.\<close>

theorem sensor_k_wr_regtab_burst_overflow:
  assumes c: "cur_i2c_addr s = Some a"
    and u: "se_user_ok env" and al: "se_alloc_ok env (unat (reg_count t) * 4)"
    and n: "unat (reg_count t) \<le> length (sensor_reg_tab t)" and nw: "unat (reg_count t) * 4 < 2 ^ 32"
    and m: "burst_mode t = SENSOR_I2C_BUST_NB"
    and h: "sensor_reg_tab t ! 0 = (BURST_REG, v)" "v \<noteq> 0"
    and nb: "\<forall>j < BURST_MODE_BUFFER_MAX_SIZE. fst (sensor_reg_tab t ! Suc j) \<noteq> BURST_REG"
    and len: "BURST_MODE_BUFFER_MAX_SIZE < unat (reg_count t)"
  shows "sensor_k_wr_regtab env t s = None"
proof -
  let ?cnt = "unat (reg_count t)"
  let ?tab = "take ?cnt (sensor_reg_tab t)"
  have sz: "unat (reg_count t * 4) = ?cnt * 4"
    using nw by (simp add: unat_mult_lem [THEN iffD1])
  obtain b s1 where k: "sensor_k_kmalloc env (?cnt * 4) s = (Some b, s1)"
    using sensor_k_kmalloc_alloc_ok [OF al, of s] by (cases "sensor_k_kmalloc env (?cnt * 4) s") auto
  note kb = sensor_k_kmalloc_result [OF k]
  let ?b1 = "take (?cnt * 4) (reg_tab_bytes (sensor_reg_tab t)) @ drop (?cnt * 4) b"
  have cp: "copy_in env (reg_tab_bytes (sensor_reg_tab t)) (?cnt * 4) b = Some ?b1"
    using u n by (simp add: copy_in_def)
  have lt: "length ?tab = ?cnt" using n by simp
  have tb: "take (4 * length ?tab) ?b1 = reg_tab_bytes ?tab"
    using n by (simp add: lt reg_tab_bytes_take mult.commute)
  have c0: "0 < ?cnt" using len by simp
  have ne: "sensor_reg_tab t \<noteq> []" using n c0 by auto
  have e0: "reg_entry ?b1 0 = Some (BURST_REG, v)" using reg_entry_tab [OF tb, of 0] lt c0 h(1) ne by simp
  have ov2: "burst_loop env a ?b1 ?cnt (Suc (Suc 0)) True (Suc (Suc 0)) d s' = None" for d s'
    using burst_loop_overflow [OF tb, of "Suc (Suc 0)" "BURST_MODE_BUFFER_MAX_SIZE - 1" ?cnt "Suc (Suc 0)"] len nb lt
    by (auto simp: BURST_MODE_BUFFER_MAX_SIZE_def)
  obtain x1 v1 where e1: "?tab ! 1 = (x1, v1)" by fastforce
  have re1: "reg_entry ?b1 (Suc 0) = Some (x1, v1)" using reg_entry_tab [OF tb, of 1] lt len e1
    by (simp add: BURST_MODE_BUFFER_MAX_SIZE_def)
  have x1: "x1 \<noteq> BURST_REG" using nb [rule_format, of 0] e1 len
    by (simp add: BURST_MODE_BUFFER_MAX_SIZE_def)
  have c1: "Suc 0 < ?cnt" using len by (simp add: BURST_MODE_BUFFER_MAX_SIZE_def)
  have ov: "burst_loop env a ?b1 ?cnt (Suc 0) True 0 d s' = None" for d s'
    using re1 x1 c1 ov2 by (subst burst_loop.simps) (simp add: BURST_MODE_BUFFER_MAX_SIZE_def)
  have "sensor_burst_write_init env ?b1 ?cnt (s1\<lparr>sensor_mem := Some ?b1\<rparr>) = None"
    using c kb c0 e0 h(2) ov
    by (simp add: sensor_burst_write_init_def, subst burst_loop.simps) simp
  then show ?thesis
    using k cp kb m
    by (simp add: sensor_k_wr_regtab_def sz Let_def SENSOR_I2C_BUST_NB_def del: burst_loop.simps)
qed

text \<open>\<open>size = cnt * sizeof(SENSOR_REG_T)\<close> wraps in 32 bits: a table of \<open>0x40000001\<close>
  entries gets a 4-byte buffer, and the loop then reads its second entry outside it.\<close>

lemma sensor_k_wr_regtab_count_wrap:
  "sensor_k_wr_regtab ex_sensor_env
     \<lparr>sensor_reg_tab = [(0x3012, 0x55)], reg_count = 0x40000001, tab_reg_bits = 3, burst_mode = 0\<rparr>
     ((sensor_k_init_state ex_reg_core)\<lparr>cur_i2c_addr := Some 0x3c\<rparr>) = None"
proof -
  have u4: "unat ((0x40000001::u32) * 4) = 4" by simp
  have uc: "unat (0x40000001::u32) = 0x40000001" by simp
  let ?b = "le16 0x3012 @ le16 0x55"
  have b: "copy_in ex_sensor_env (reg_tab_bytes [(0x3012, 0x55)]) 4 (replicate 4 0) = Some ?b"
    by (simp add: copy_in_def ex_sensor_env_def reg_tab_bytes_def le16_def)
  have e0: "reg_entry ?b 0 = Some (0x3012, 0x55)"
    using reg_entry_tab [of "[(0x3012, 0x55)]" ?b 0] by (simp add: reg_tab_bytes_def le16_def)
  have e1: "reg_entry ?b 1 = None" by (simp add: reg_entry_def le16_def)
  have ok: "i2c_try ex_sensor_env m \<noteq> None" for m
    by (simp add: i2c_try_def ex_sensor_env_def SENSOR_I2C_OP_TRY_NUM_def upt_rec)
  have w: "\<exists>s1. Sensor_K_WriteReg ex_sensor_env \<lparr>reg_addr = 0x3012, reg_value = 0x55, reg_bits = 3\<rparr> s = Some (SENSOR_K_SUCCESS, s1)"
    if "cur_i2c_addr s = Some 0x3c" for s
    using Sensor_K_WriteReg_ok [OF that ok] by simp
  have loop: "wr_regtab_loop ex_sensor_env 3 ?b 0x40000001 0 r s = None" if c: "cur_i2c_addr s = Some 0x3c" for r s
  proof -
    obtain s1 where "Sensor_K_WriteReg ex_sensor_env \<lparr>reg_addr = 0x3012, reg_value = 0x55, reg_bits = 3\<rparr> s = Some (SENSOR_K_SUCCESS, s1)"
      using w [OF c] by blast
    moreover have "wr_regtab_loop ex_sensor_env 3 ?b 0x40000001 (Suc 0) r' s' = None" for r' s'
      using e1 by (subst wr_regtab_loop.simps) simp
    ultimately show ?thesis using e0 by (subst wr_regtab_loop.simps) simp
  qed
  show ?thesis
    using b loop
    by (simp add: sensor_k_wr_regtab_def sensor_k_kmalloc_def ex_sensor_env_def sensor_k_init_state_def u4 uc Let_def)
qed

text \<open>On Kiran the digital supply is requested anew on every call, for the camera named
  by the caller. After the front camera's supply \<open>vddwifipa\<close> was switched on, the last
  release closes the main camera's \<open>vddcamio\<close> first: its counter says on, so that regulator
  gets an unbalanced disable, and the second call finds the counter at zero and leaves
  \<open>vddwifipa\<close> on.\<close>

lemma sensor_kiran_front_release:
  "\<exists>s. sensor_run ex_sensor_env [SnI2cProbe, SnOpen, SnIoctl (SENSOR_IO_SET_DVDD SENSOR_VDD_1800MV SENSOR_SUB), SnRelease]
          (sensor_k_init_state ex_reg_core) = Some s \<and>
       rc_use (regs s) REGU_NAME_SUB_CAMDVDD = 1 \<and> rc_use (regs s) REGU_NAME_CAMDVDD = 0 \<and> rc_warn (regs s) = 1"
  by (simp add: sensor_step_def sensor_probe_def sensor_k_open_def sensor_k_ioctl_def io_copies_in_def
      sensor_k_release_def sensor_k_set_voltage_dvdd_def sensor_k_set_voltage_cammot_def sensor_k_set_voltage_avdd_def
      sensor_k_set_voltage_iovdd_def sensor_k_set_mclk_def sensor_get_supply_def sensor_set_supply_def
      regulator_get_def regulator_set_voltage_def regulator_enable_def regulator_disable_def
      sensor_regulator_enable_def sensor_regulator_disable_def slot_handle_def slot_set_handle_def slot_count_def
      slot_set_count_def ex_sensor_env_def ex_reg_core_def sensor_k_init_state_def
      REGU_NAME_SUB_CAMDVDD_def REGU_NAME_CAMDVDD_def REGU_NAME_CAMMOT_def REGU_NAME_CAMAVDD_def REGU_NAME_CAMVIO_def
      SENSOR_SUB_def SENSOR_MAIN_def dvdd_uV_def cammot_uV_def avdd_uV_def iovdd_uV_def vdd_uV_def Let_def)


lemma sensor_regulator_slot_simps [simp]:
  "slot_handle sl (slot_set_handle sl h s) = h"
  "slot_count sl (slot_set_count sl n s) = n"
  "slot_handle sl (slot_set_count sl' n s) = slot_handle sl s"
  "slot_count sl (slot_set_handle sl' h s) = slot_count sl s"
  "regs (slot_set_handle sl h s) = regs s"
  "regs (slot_set_count sl n s) = regs s"
  "slot_handle sl (s\<lparr>regs := rc\<rparr>) = slot_handle sl s"
  "slot_count sl (s\<lparr>regs := rc\<rparr>) = slot_count sl s"
  by (cases sl; cases sl'; simp add: slot_handle_def slot_set_handle_def slot_count_def slot_set_count_def)+

text \<open>In a kernel where the regulator calls succeed, switching a supply on with a
  voltage of its table and then off again (\<open>SENSOR_VDD_CLOSED\<close>) gives the regulator
  core's enable counts and the driver's counter back, and drops the handle.\<close>

lemma sensor_supply_on_off:
  assumes h: "slot_handle sl s = Some (RegOk k)" and uV: "uV \<noteq> 0"
    and ok: "se_set_volt_err env (rc_name (regs s) k) uV = 0" "se_enable_err env (rc_name (regs s) k) = 0"
  shows "\<exists>s1 s2. sensor_set_supply env sl uV s = Some (SENSOR_K_SUCCESS, s1) \<and>
           sensor_set_supply env sl 0 s1 = Some (SENSOR_K_SUCCESS, s2) \<and>
           rc_use (regs s1) (rc_name (regs s) k) = Suc (rc_use (regs s) (rc_name (regs s) k)) \<and>
           rc_use (regs s2) = rc_use (regs s) \<and> slot_count sl s2 = slot_count sl s \<and> slot_handle sl s2 = None"
  using assms
  by (simp add: sensor_set_supply_def regulator_set_voltage_def regulator_enable_def regulator_disable_def
      sensor_regulator_enable_def sensor_regulator_disable_def Let_def fun_upd_idem)

lemma sensor_k_set_voltage_avdd_on_off:
  assumes n: "camavdd_regulator s = None" and v: "avdd_uV v \<noteq> 0"
    and ok: "se_reg_get_ok env REGU_NAME_CAMAVDD" "se_set_volt_err env REGU_NAME_CAMAVDD (avdd_uV v) = 0"
            "se_enable_err env REGU_NAME_CAMAVDD = 0"
  shows "\<exists>s1 s2. sensor_k_set_voltage_avdd env v s = Some (SENSOR_K_SUCCESS, s1) \<and>
           sensor_k_set_voltage_avdd env SENSOR_VDD_CLOSED s1 = Some (SENSOR_K_SUCCESS, s2) \<and>
           rc_use (regs s1) REGU_NAME_CAMAVDD = Suc (rc_use (regs s) REGU_NAME_CAMAVDD) \<and>
           rc_use (regs s2) = rc_use (regs s) \<and> avddpower_on_count s2 = avddpower_on_count s \<and>
           camavdd_regulator s2 = None"
proof -
  let ?k = "rc_next (regs s)"
  let ?s0 = "s\<lparr>regs := (regs s)\<lparr>rc_name := (rc_name (regs s))(?k := REGU_NAME_CAMAVDD), rc_next := Suc ?k\<rparr>,
               camavdd_regulator := Some (RegOk ?k)\<rparr>"
  have g: "sensor_get_supply env SlotAvdd REGU_NAME_CAMAVDD s = (True, ?s0)"
    using n ok(1) by (simp add: sensor_get_supply_def regulator_get_def slot_handle_def slot_set_handle_def Let_def)
  have h0: "slot_handle SlotAvdd ?s0 = Some (RegOk ?k)" by (simp add: slot_handle_def)
  obtain s1 s2 where
    a: "sensor_set_supply env SlotAvdd (avdd_uV v) ?s0 = Some (SENSOR_K_SUCCESS, s1)" and
    b: "sensor_set_supply env SlotAvdd 0 s1 = Some (SENSOR_K_SUCCESS, s2)" and
    c: "rc_use (regs s1) REGU_NAME_CAMAVDD = Suc (rc_use (regs s) REGU_NAME_CAMAVDD)" and
    d: "rc_use (regs s2) = rc_use (regs s)" "slot_count SlotAvdd s2 = slot_count SlotAvdd ?s0"
       "slot_handle SlotAvdd s2 = None"
    using sensor_supply_on_off [OF h0 v, of env] ok by auto
  have s1h: "slot_handle SlotAvdd s1 \<noteq> None"
    using a v ok by (auto simp: sensor_set_supply_def regulator_set_voltage_def sensor_regulator_enable_def
        regulator_enable_def slot_handle_def slot_set_count_def Let_def split: if_splits)
  have "avdd_uV SENSOR_VDD_CLOSED = 0" by (simp add: avdd_uV_def)
  then show ?thesis
    using g a b c d s1h
    by (auto simp: sensor_k_set_voltage_avdd_def sensor_get_supply_def slot_handle_def slot_count_def)
qed

text \<open>\<open>_sensor_regulator_enable\<close> counts an enable that failed; the handle is then dropped,
  so the counter says the supply is on while the regulator core never enabled it.\<close>

lemma sensor_k_set_voltage_avdd_enable_fail:
  assumes h: "camavdd_regulator s = Some (RegOk k)" and v: "avdd_uV v \<noteq> 0"
    and e: "se_set_volt_err env (rc_name (regs s) k) (avdd_uV v) = 0" "se_enable_err env (rc_name (regs s) k) \<noteq> 0"
  shows "\<exists>s1. sensor_k_set_voltage_avdd env v s = Some (SENSOR_K_FAIL, s1) \<and>
           avddpower_on_count s1 = Suc (avddpower_on_count s) \<and> camavdd_regulator s1 = None \<and>
           rc_use (regs s1) = rc_use (regs s)"
  using assms
  by (simp add: sensor_k_set_voltage_avdd_def sensor_get_supply_def sensor_set_supply_def slot_handle_def
      regulator_set_voltage_def regulator_enable_def sensor_regulator_enable_def slot_count_def slot_set_count_def
      slot_set_handle_def Let_def)


text \<open>A sensor that answers a register read with the bytes \<open>_Sensor_K_WriteReg\<close> would
  have sent for a value gives that value back to \<open>_Sensor_K_ReadReg\<close> (its low byte for
  8-bit values).\<close>

lemma Sensor_K_ReadReg_roundtrip:
  assumes c: "cur_i2c_addr s = Some a"
    and ok: "i2c_try env (reg_bytes (reg_wide (reg_bits r)) (reg_addr r)) \<noteq> None"
    and rd: "se_i2c_read env a (reg_bytes (reg_wide (reg_bits r)) (reg_addr r)) (if val_wide (reg_bits r) then 2 else 1)
             = reg_bytes (val_wide (reg_bits r)) v"
  shows "Sensor_K_ReadReg env r s =
           Some (SENSOR_K_SUCCESS, r\<lparr>reg_value := if val_wide (reg_bits r) then v else v AND 0xff\<rparr>)"
proof (cases "val_wide (reg_bits r)")
  case True
  have l: "length (reg_bytes True v) = 2" by (simp add: reg_bytes_def)
  show ?thesis
    using c ok rd True reg_bytes_wide_decode [of v] l
    by (auto simp: Sensor_K_ReadReg_def SENSOR_CMD_BITS_16_def Let_def)
next
  case False
  have l: "reg_bytes False v = [ucast v]" by (simp add: reg_bytes_def)
  show ?thesis
    using c ok rd False reg_bytes_narrow_decode [of v]
    by (auto simp: Sensor_K_ReadReg_def SENSOR_CMD_BITS_8_def Let_def l)
qed

subsection \<open>The properties at concrete inputs\<close>

theorem select_sensor_mclk_optimal_witness:
  "unat (24::u8) \<le> 96 \<and> select_sensor_mclk 24 = Some (''clk_48m'', 2) \<and>
   (\<exists>src dv. select_sensor_mclk 24 = Some (snd (c_sensor_mclk_tab ! src), dv) \<and>
      src < SENSOR_MCLK_SRC_NUM \<and> 1 \<le> dv \<and> dv \<le> SENSOR_MCLK_DIV_MAX)"
proof -
  have s: "select_sensor_mclk 24 = Some (''clk_48m'', 2)" by code_simp
  show ?thesis using select_sensor_mclk_optimal [of 24] s by auto
qed

theorem sensor_k_wr_regtab_plain_witness:
  "\<exists>s'. sensor_k_wr_regtab ex_sensor_env
          \<lparr>sensor_reg_tab = [(0x3012, 0x55), (0xffff, 10), (0x3013, 0x66)], reg_count = 3, tab_reg_bits = 3, burst_mode = 0\<rparr>
          ((sensor_k_init_state ex_reg_core)\<lparr>cur_i2c_addr := Some 0x3c\<rparr>) = Some (SENSOR_K_SUCCESS, s') \<and>
        i2c_log s' = [(0x3c, [0x30, 0x12, 0, 0x55]), (0x3c, [0x30, 0x13, 0, 0x66])]"
proof -
  have ok: "\<forall>m. i2c_try ex_sensor_env m \<noteq> None"
    by (simp add: i2c_try_def ex_sensor_env_def SENSOR_I2C_OP_TRY_NUM_def upt_rec)
  show ?thesis
    using sensor_k_wr_regtab_plain [OF _ ok, where s = "(sensor_k_init_state ex_reg_core)\<lparr>cur_i2c_addr := Some 0x3c\<rparr>" and a = "0x3c"
      and t = "\<lparr>sensor_reg_tab = [(0x3012, 0x55), (0xffff, 10), (0x3013, 0x66)], reg_count = 3, tab_reg_bits = 3, burst_mode = 0\<rparr>"]
    by (simp add: ex_sensor_env_def sensor_k_init_state_def SENSOR_WRITE_DELAY_def reg_bytes_def reg_wide_def val_wide_def
                  SENSOR_I2C_REG_16BIT_def SENSOR_I2C_VAL_16BIT_def SENSOR_LOW_EIGHT_BIT_def)
qed

theorem sensor_k_wr_regtab_burst_overflow_witness:
  "sensor_k_wr_regtab ex_sensor_env
     \<lparr>sensor_reg_tab = [(0x0e, 1)] @ replicate 255 (0x20, 1) @ [(0x0e, 0)], reg_count = 257, tab_reg_bits = 0,
      burst_mode = 7\<rparr>
     ((sensor_k_init_state ex_reg_core)\<lparr>cur_i2c_addr := Some 0x3c\<rparr>) = None"
  by (rule sensor_k_wr_regtab_burst_overflow [where a = "0x3c" and v = 1])
     (simp_all add: ex_sensor_env_def sensor_k_init_state_def SENSOR_I2C_BUST_NB_def BURST_REG_def
        BURST_MODE_BUFFER_MAX_SIZE_def nth_append)

end
