(* ===== verification/Spec2Isabelle.thy ===== *)
theory Spec2Isabelle
  imports Smack_Access Mali_Inv Input_Bridge Fuel_Gauge Swap Headset U_Ether_Props Sensor_Props
begin

text \<open>
  \<^bold>\<open>A verification library for parts of kernel-samsung-kiran: the Smack label
  table and access decision, the DVFS platform layer of the Mali GPU, the Samsung
  input bridge, the Samsung fuel-gauge driver, the message entry and task list of the
  SWAP profiler, the SC2723 headset detection driver, the Ethernet-over-USB link
  layer of the gadget stack, and the Spreadtrum camera sensor driver.\<close>

  \<^bold>\<open>The program.\<close> \<open>security/smack/smack_access.c\<close> holds the core of the Smack
  LSM: the table of known labels (\<open>smack_known_list\<close> and the hash table
  \<open>smack_known_hash\<close> of \<open>SMACK_HASH_SLOTS\<close> buckets), label import
  (\<open>smk_parse_smack\<close>, \<open>smk_import_entry\<close>, \<open>smk_import\<close>), secid translation
  (\<open>smack_from_secid\<close>, \<open>smack_to_secid\<close>), the CIPSO category map
  (\<open>smk_netlbl_mls\<close>), the access decision (\<open>smk_access_entry\<close>, \<open>smk_access\<close>,
  \<open>smk_tskacc\<close>, \<open>smk_curacc\<close>) and its audit path (\<open>smack_log\<close>,
  \<open>smack_str_from_perm\<close>, \<open>smack_log_callback\<close>). The hook layer calls
  \<open>smk_import\<close> to turn a label text into a table entry and \<open>smk_curacc\<close> to decide an
  access between the current task's label and an object's label.

  \<open>drivers/gpu/mali/platform/sc8830/mali_platform.c\<close> is the SoC layer under the
  Mali driver: it generates the table of reachable GPU frequencies
  (\<open>gpu_dfs_full_list_generate\<close>: every clock source divided by 1 to 4), indexes the
  build's list of usable ones (\<open>gpu_dfs_context_init\<close>, with \<open>freq_search\<close>), powers the
  GPU domain and its clocks up and down (\<open>mali_power_initialize\<close>,
  \<open>mali_platform_power_mode_change\<close>, \<open>mali_platform_device_unregister\<close>), and scales
  the frequency: the Mali core reports the load to \<open>mali_platform_utilization\<close>, which
  picks the next frequency inside limits set through sysfs (\<open>gpu_level\<close>,
  \<open>gpufreq_min_limit\<close>, \<open>gpufreq_max_limit\<close>) and queues \<open>gpu_dfs_work\<close>, whose
  \<open>gpu_change_freq_div\<close> reprograms the clock parent and divider.

  \<open>drivers/input/sec-input-bridge.c\<close> is an input handler on the volume, power and menu
  keys: a key sequence (the log-dump map) or a five-second press of the safe-mode key
  makes its work item send a uevent to user space.

  \<open>drivers/power/sec_fuelgauge.c\<close> is the power-supply class driver of the battery
  fuel gauge: the battery driver reads the state of charge through
  \<open>sec_fg_get_property\<close> (scaled by the designed full capacity, clamped and smoothed)
  and passes events through \<open>sec_fg_set_property\<close>; a low-charge interrupt raises a
  wake lock that a later capacity read releases. The chip is behind
  \<open>sec_hal_fg_*\<close> of another file.

  \<open>kernel/swap\<close> is the SWAP profiler: user space sends it messages (a header of two
  little-endian 32-bit words, id and size, then the payload) through
  \<open>parser/swap_msg_parser.c\<close>, whose \<open>msg_handler\<close> checks the size, copies the payload
  into a message buffer and dispatches by id to the handlers of \<open>msg_cmd.c\<close>, holding
  the CPU lock around \<open>MSG_STOP\<close>; \<open>us_manager/debugfs_us_manager.c\<close> lists the pids of
  the profiled processes in the debugfs file \<open>tasks\<close>; the kprobe module resolves the
  kernel symbols it depends on (\<open>kprobe/swap_kprobes_deps.h\<close>).

  \<open>drivers/input/misc/headset_sprd_sc2723.c\<close> detects a plugged headset and its hook
  button: two GPIO interrupts (\<open>headset_detect_irq_handler\<close>,
  \<open>headset_button_irq_handler\<close>) disable themselves and queue work;
  \<open>headset_detect_work_func\<close> debounces, powers the microphone bias, classifies the
  headset with the ADC (\<open>headset_type_detect\<close>) and reports the switch state;
  \<open>headset_button_work_func\<close> maps the ADC reading to a key and reports press and
  release, with a timer (\<open>button_press_verify_func\<close>) for short taps. The probe
  parses the device tree, powers up the regulators and registers the interrupts.

  \<open>drivers/usb/gadget/u_ether.c\<close> is the network device behind the CDC Ethernet and
  RNDIS gadget functions. A function driver connects its link (\<open>gether_connect\<close>:
  enable both endpoints, allocate the request pools \<open>tx_reqs\<close>/\<open>rx_reqs\<close> with
  \<open>alloc_requests\<close>, start the queues when the interface is up) and disconnects it
  (\<open>gether_disconnect\<close>). Received transfers complete in \<open>rx_complete\<close>, which
  unwraps the frames, passes them to \<open>netif_rx\<close> and resubmits the request
  (\<open>rx_submit\<close>, \<open>rx_fill\<close>, with \<open>eth_work\<close> retrying after a memory
  shortage). In the \<open>CONFIG_USB_SPRD_DWC\<close> build the transmit side gathers up to
  \<open>RNDIS_MSG_MAX_NUM\<close> packets into one transfer: a ring \<open>s_rndis_msg\<close> of 32
  queues (\<open>pkt_msg\<close>) with a write index and a read index; \<open>eth_start_xmit\<close> takes
  a request (\<open>eth_alloc_req\<close>), wraps the packet, stores it (\<open>save_to_queue\<close>,
  \<open>update_sbks_in_queue\<close>) and sends a queue whose packets are all wrapped
  (\<open>pkt_msg_send\<close>); \<open>tx_complete\<close> cleans the queue, returns its request, moves
  the read index and sends the write queue when the ring is otherwise idle.

  \<open>drivers/media/sprd_sensor/sensor_drv_k.c\<close> (Kiran build) is the kernel half of the
  camera stack: user space opens the misc device \<open>sprd_sensor\<close> and drives the sensor
  through \<open>sensor_k_ioctl\<close>: it switches the four supplies (\<open>sensor_k_set_voltage_*\<close>,
  counting enables in \<open>sensor_module\<close> through \<open>_sensor_regulator_enable/disable\<close>),
  sets the sensor clock (\<open>sensor_k_set_mclk\<close>, which picks a source and divider with
  \<open>_select_sensor_mclk\<close>), toggles the reset and power-down GPIOs, reads and writes
  sensor registers over I2C (\<open>_Sensor_K_ReadReg\<close>, \<open>_Sensor_K_WriteReg\<close>, with up to four
  attempts) and whole register tables copied from user space into a cached buffer
  (\<open>_sensor_k_wr_regtab\<close>, \<open>_sensor_k_kmalloc\<close>; burst tables go to
  \<open>_sensor_burst_write_init\<close>); the last \<open>release\<close> switches everything off.

  \<^bold>\<open>Theories.\<close>
  \<^item> \<open>Prelude\<close>: the C integer types as words (\<open>u8\<close>, \<open>u32\<close>, \<open>s32\<close>), the error
    numbers, C strings (\<open>cstr_at\<close>, \<open>strlen\<close>), truncating division, and the list and
    word lemmas the components share.
  \<^item> \<open>Smack_Labels\<close>: the label table. Kernel memory is an arena \<open>sk_heap\<close> of
    \<open>smack_known\<close> records addressed by index, so a \<open>struct smack_known *\<close> is an index
    and pointer equality is index equality. \<open>sk_list\<close> is \<open>smack_known_list\<close> (new
    entries are added at the head, as \<open>list_add_rcu\<close> does), \<open>sk_hash\<close> the buckets
    (\<open>hlist_add_head_rcu\<close>), \<open>smack_next_secid\<close> and \<open>log_policy\<close> the globals.
    \<open>full_name_hash\<close> is the parameter \<open>h\<close>: every theorem holds for every hash
    function. The outcome of the allocations of \<open>smk_import_entry\<close> (the \<open>kzalloc\<close> of the
    label copy in \<open>smk_parse_smack\<close>, that of the entry, and the category map) is the
    parameter \<open>mem\<close> (\<open>alloc_outcome\<close>); \<open>smk_parse_smack\<close> itself takes the outcome
    of its \<open>kzalloc\<close> as \<open>alloc\<close>. The CIPSO DOI values are \<open>cd\<close>/\<open>cm\<close>.
    The invariant \<open>smack_inv\<close> (listed entries allocated, distinct, with distinct
    texts and secids, each bucket the sublist of the labels hashing to it, secids below
    the counter, the static labels in place) holds after \<open>init_smack_known_list\<close>
    and is kept by \<open>smk_import_entry\<close> while the secid counter has not reached its
    last value.
  \<^item> \<open>Smack_Access\<close>: the decision. Access masks and results are 32-bit words read
    with \<open>sint\<close> where the code compares them with 0. \<open>smack_permits\<close> is the
    abstract policy over permission sets (\<open>perm\<close>, \<open>perms_of\<close>), and
    \<open>smk_access_refines_policy\<close> shows the bit-level decision implements it.
    \<open>smack_privileged\<close> is the parameter \<open>privileged\<close> of \<open>smk_tskacc_rc\<close>;
    \<open>audit_log_untrustedstring\<close> the parameter \<open>untrusted\<close>.
  \<^item> \<open>Mali_Search\<close>: the clock tables of the three SoC builds, the full-list generator,
    and the two binary searches. C \<open>int\<close>s are \<open>int\<close> (no value comes near overflow:
    frequencies are below 600000 kHz and loads below 256); \<open>struct gpu_freq_info *\<close>
    is an index into \<open>dfs_freq_full_list\<close>. \<open>freq_search_correct\<close> shows
    \<open>freq_search\<close> is exact search on a decreasing list; \<open>get_next_freq_correct\<close> that
    \<open>get_next_freq\<close> brackets a key that is not a threshold (\<open>gnf_bracket\<close>), and
    \<open>get_next_freq_glitch\<close> what it does at a threshold.
  \<^item> \<open>Mali_DVFS\<close>: the DVFS state (\<open>gpu_dfs_context\<close> in \<open>mali_state\<close>, with the
    hardware the code writes: clock parent and divider, \<open>FORCE_SHUTDOWN\<close>, and the
    enable counts of \<open>gpu_clock\<close>, \<open>gpu_clock_i\<close> and the sources as \<open>int\<close>s so that
    an unbalanced \<open>clk_disable\<close> shows as -1), the build as a \<open>mali_config\<close> record
    (\<open>DFS_MAX_FREQ\<close>, \<open>DFS_MIN_FREQ\<close>, \<open>SPRD_DFS_ONE_STEP_SCALE_DOWN\<close> and
    \<open>SPRD_MATCH_DFS_TO_LOWER_FREQ\<close> come from headers outside the sources and stay
    parameters), one definition per entry point, and the machine \<open>mali_step\<close> over the
    events \<open>mali_event\<close> with its reachable states \<open>mali_reach\<close>. Each entry point is
    one atomic step; this is assumed, since \<open>gpu_dfs_sem\<close> is not taken by
    \<open>mali_platform_utilization\<close> and \<open>gpu_change_freq_div\<close> reads the frequency pointers
    before taking it. \<open>queue_work\<close> sets a pending flag and the work item runs as its own
    event. \<open>clk_get\<close> is a parameter: each theorem holds
    whichever sources it finds.
  \<^item> \<open>Mali_Inv\<close>: the shape of the generated table, the well-formedness of a build
    (\<open>mali_config_wf\<close>, checked for the three builds by \<open>mali_builds_wf\<close>) and the
    invariant \<open>mali_inv\<close>: pointers in the list, list entries indexed by position with
    strictly decreasing frequencies, one parent clock per \<open>freq_select\<close>, and the
    hardware agreeing with the context (\<open>mali_hw_ok\<close>). It holds after
    \<open>mali_power_initialize\<close> and every event keeps it (rule induction over
    \<open>mali_reach\<close>); from it follow that no event fails (\<open>mali_step_total\<close>), that
    the next frequency lies in the window (\<open>mali_utilization_window\<close>), that the clock
    hardware matches the current frequency and the enable counts stay balanced, and
    that queued work reaches the chosen frequency (\<open>mali_dfs_work_reaches_next\<close>).
  \<^item> \<open>Input_Bridge\<close>: the platform data (\<open>ib_pdata\<close>, from the board file or from
    \<open>sec_input_bridge_parse_dt\<close> over the device-tree accessors \<open>ib_dt\<close>), the bridge
    state \<open>ib_state\<close> (with the statics of \<open>input_bridge_check_safemode\<close>, the queued
    work and the armed timer), one definition per function, and the machine \<open>ib_step\<close>
    over key events, timer expiry and the work, whose actions (uevents, callback calls)
    are returned in order. Out-of-range reads of the platform data and the overflow of
    the 16-byte \<open>env_str\<close> are \<open>None\<close>. The log-dump matcher is proved sound
    (\<open>input_bridge_logdump_sound\<close>); \<open>ib_logdump_overlap_missed\<close> shows it is not
    complete; \<open>sec_input_bridge_probe_devcreate_fail\<close> and \<open>ib_power_tap_safemode\<close>
    show two defects of the code.
  \<^item> \<open>Fuel_Gauge\<close>: the platform data \<open>fg_pdata\<close> (the fields of
    \<open>sec_battery_platform_data_t\<close> the driver reads), the driver state \<open>fg_state\<close>
    (the fields of \<open>struct sec_fuelgauge_info\<close> it writes, with the wake lock and the
    pending interrupt work), the chip's answers as inputs (\<open>hal_read\<close>: success and
    value), one definition per function of the file, and the machine \<open>fg_step\<close>
    with its reachable states \<open>fg_reach\<close> (from a probe that returned 0). A C division
    by zero in the scaling is \<open>None\<close>. The invariant \<open>fg_capacity_ok\<close> (the kept
    capacity is a percentage) holds on every reachable state, and every successful
    non-raw capacity read reports 0..100 (\<open>fg_capacity_reported_bounds\<close>);
    \<open>sec_fuelgauge_probe_gpio_fail\<close> shows the probe's failure paths that return 0.
  \<^item> \<open>Swap\<close>: \<open>copy_from_user\<close> over the user buffer (it returns the number of bytes
    it could not copy), the header as \<open>le32\<close> of the first and second word, and
    \<open>msg_handler\<close> returning its result together with the ordered trace of its calls
    (\<open>swap_action\<close>: \<open>init_mb\<close>, the CPU lock, the handler, \<open>uninit_mb\<close>); the
    handlers of \<open>msg_cmd.c\<close> and the result of \<open>init_mb\<close> are parameters of
    \<open>swap_msg_env\<close>. \<open>msg_handler_roundtrip\<close> shows that a message encoded as the
    protocol says is decoded into its id and payload and dispatched with the calls
    paired. The \<open>tasks\<close> file is \<open>read_tasks\<close> over the process list (a parameter),
    with the buffer bound \<open>MAX_APPS_COUNT\<close> and \<open>sprintf\<close> of a pid as
    \<open>sprintf_d\<close> of the prelude.
  \<^item> \<open>Headset\<close>: the analog registers as a map from \<open>adi_reg\<close> to words, the platform
    data \<open>hs_pdata\<close> (from \<open>headset_detect_parse_dt\<close>), the driver state
    \<open>hs_state\<close> (the \<open>static\<close> variables of the file and of its functions, the
    interrupt enable states and disable depths, the regulator enable counts, the
    switch and input device states and the list of reported key events), one
    definition per function, and the machine \<open>hs_step\<close> over interrupts, work items,
    audio-block changes and sysfs writes, with its reachable states \<open>hs_reach\<close> from a
    probe that returned 0. GPIO levels and ADC samples are inputs of each event. The
    invariant \<open>hs_inv\<close> gives \<open>hs_reach_key_balance\<close>: key events alternate press and
    release, a press needs a plugged headset, and no interrupt or regulator is disabled
    or enabled twice. \<open>headset_debug_level_roundtrip\<close> is the round trip of the
    \<open>debug_level\<close> attribute; the lemmas on the probe and the classification back the
    findings.
  \<^item> \<open>U_Ether\<close>: the device \<open>eth_dev\<close> (with the fields of its \<open>net_device\<close>, the
    pools as lists of request numbers, each endpoint's queue as the list of its pending
    requests, oldest first, and the calls whose order matters as the trace
    \<open>ue_trace\<close>), the receive path, the pools, the MTU change, the parsing of the
    address parameters (\<open>get_ether_addr\<close>, with \<open>hex_to_bin\<close> of \<open>lib/hexdump.c\<close>)
    and \<open>gether_setup_name\<close>. The results of the controller and the allocator are
    inputs (\<open>ue_env\<close>). Lemmas: \<open>get_ether_addr_roundtrip\<close> (parsing what
    \<open>%pM\<close> prints), \<open>prealloc_full\<close>, \<open>rx_fill_owned\<close> (no receive request lost or
    duplicated) and the frame accounting of \<open>rx_frames_loop_counts\<close>.
  \<^item> \<open>U_Ether_Tx\<close>: the aggregation ring (\<open>pkt_msg\<close>, \<open>rndis_msg\<close>; the queue
    states \<open>RNDIS_QUEUE_*\<close>, the bitmap a \<open>u32\<close> word, \<open>RNDIS_MSG_MAX_NUM\<close> the
    parameter \<open>N\<close>), one definition per function of the transmit path and of the link
    entry points, \<open>usb_ep_disable\<close> as the completion of every pending request with
    \<open>-ESHUTDOWN\<close>, and the machine \<open>ue_step\<close> over the events of the stack, the
    function driver and the controller, with its reachable states \<open>ue_reach\<close>. A NULL
    request or an index outside \<open>skbs\<close> is the value \<open>None\<close>. The invariant:
    \<open>q_ok\<close> for a queue, \<open>ring_qs\<close>/\<open>dev_ring_ok\<close> for the ring, \<open>ue_inv\<close> for
    the device.
  \<^item> \<open>U_Ether_Inv\<close>: the bitmap lemmas (\<open>FULL_BIT_MAP N = mask N\<close>, bits above
    the packet count clear) and one lemma per ring operation (\<open>pkt_msg_send\<close>,
    \<open>tx_complete_account\<close>, \<open>rndis_queue_full\<close>, \<open>eth_alloc_req\<close>,
    \<open>tx_kick\<close>): each keeps the ring well formed (\<open>ring_step\<close>) and returns.
  \<^item> \<open>U_Ether_Safe\<close>: the same for \<open>save_to_queue\<close>, \<open>update_sbks_in_queue\<close>,
    \<open>eth_start_xmit\<close> and \<open>tx_complete\<close>; the receive side leaves the transmit
    state alone (\<open>tx_same\<close>); the link operations keep \<open>ue_inv\<close>
    (\<open>ue_step_inv\<close>, \<open>ue_reach_ue_inv\<close>).
  \<^item> \<open>U_Ether_Props\<close>: \<open>ue_reach_safe\<close> (every event sequence from a reachable
    state runs to the end) and \<open>eth_start_xmit_wrap_fail_dup\<close> (a wrap failure on a
    gathering queue returns the queue's own request to the pool).
  \<^item> \<open>Sensor\<close>: \<open>struct sensor_module\<close> as \<open>sensor_state\<close>, with the kernel objects the
    driver drives: the regulator core (\<open>reg_core\<close>: the regulator of each handle, enable
    counts, voltages, unbalanced-disable warnings), the sensor and MIPI clocks' enable
    counts, the GPIO levels and the I2C messages written, in order. The outcomes of the
    kernel calls are inputs (\<open>sensor_env\<close>); a handle is a value that may be an
    \<open>ERR_PTR\<close>, and dereferencing one, \<open>NULL\<close>, or a buffer past its end is \<open>None\<close>. One
    definition per function of the file (the Kiran and \<open>CONFIG_ARCH_SCX35\<close> branches),
    the ioctl commands as \<open>sensor_io\<close>, and a run of entry points \<open>sensor_run\<close>.
  \<^item> \<open>Sensor_Props\<close>: \<open>select_sensor_mclk_optimal\<close> (the chosen source and divider are
    nearest to the request), \<open>sensor_k_wr_regtab_plain\<close> (a plain table is sent entry by
    entry, delays skipped; it rests on the read-back of the little-endian table layout
    \<open>reg_entry_tab\<close>), \<open>Sensor_K_ReadReg_roundtrip\<close>, the balance of a supply switched
    on and off (\<open>sensor_k_set_voltage_avdd_on_off\<close>), and the defects:
    \<open>sensor_k_wr_regtab_burst_overflow\<close>, \<open>sensor_k_wr_regtab_count_wrap\<close>,
    \<open>sensor_k_set_voltage_avdd_enable_fail\<close> and \<open>sensor_kiran_front_release\<close>.

  \<^bold>\<open>Loops and termination.\<close> The character scan of \<open>smk_parse_smack\<close> is
  \<open>smk_parse_scan\<close>, a \<open>function\<close> terminating by the measure \<open>len - i\<close>; the bit loop
  of \<open>smk_netlbl_mls\<close> is \<open>smk_mls_byte\<close>, terminating because the mask is shifted
  right until it is 0; the outer byte loop is structural recursion. The Mali binary
  searches are \<open>function\<close>s terminating by the measure \<open>high - low + 1\<close>; a read past
  the end of the list in \<open>get_next_freq\<close> is the value \<open>None\<close>, and
  \<open>mali_step_total\<close> shows it never happens on a reachable state. The generator loops
  are \<open>fold\<close>s over \<open>[0..<n]\<close>. The key-table walks of the input bridge and the
  attribute loop of the fuel gauge are structural recursion over lists. The retry
  loop of \<open>headset_type_detect\<close> (a \<open>goto no_mic_retry\<close>) is the
  \<open>partial_function (option)\<close> \<open>headset_type_detect_loop\<close>, so that a loop that
  does not end would be \<open>None\<close>; \<open>headset_type_detect_terminates\<close> shows it always
  returns after at most \<open>NO_MIC_RETRY_COUNT + 1\<close> passes, because the retry counter
  is decremented on every jump back; its partial-correctness lemmas are proved by
  fixpoint induction. The decimal printing of \<open>sprintf_d\<close> is \<open>dec_digits\<close>,
  terminating because the number is divided by 10. In \<open>u_ether.c\<close>, \<open>rx_fill\<close> is a
  \<open>function\<close> terminating by the length of the receive pool, which every successful
  submission shortens (a failure ends the loop); the search of
  \<open>update_sbks_in_queue\<close> terminates by \<open>pkt_cnt - i\<close>; the frame loop, the
  allocation loop of \<open>prealloc\<close> and the address parser are structural recursion;
  \<open>usb_ep_disable\<close> completes exactly the requests pending when it is called.
  In the sensor driver the retry loops of the register access stop at the first of
  \<open>SENSOR_I2C_OP_TRY_NUM\<close> attempts that succeeds (\<open>find\<close> over \<open>[0..<4]\<close>); the two
  loops of \<open>_select_sensor_mclk\<close> are \<open>fold\<close>s; the table loops \<open>wr_regtab_loop\<close>
  and \<open>burst_loop\<close> are \<open>function\<close>s terminating by the measure \<open>cnt - i\<close>.
  No fuel is needed.

  \<^bold>\<open>Not modelled.\<close> RCU and the mutexes (every operation is atomic here),
  \<open>netlbl_catmap_setbit\<close> allocation inside the category loop (the category set is a
  list), the audit buffer machinery of \<open>common_lsm_audit\<close> (its record is the value
  of \<open>smack_log\<close>), and the code outside \<open>smack_access.c\<close>: \<open>smk_set_access\<close>
  (smackfs) and \<open>init_smack_known_list\<close> (smack_lsm) are modelled from their
  documented behaviour. In \<open>mali_platform.c\<close>: the \<open>CONFIG_OF\<close> path (\<open>get_dfs_list\<close>,
  \<open>set_dfs_list\<close>, \<open>search_clksrc\<close>), the failure path of
  \<open>mali_platform_device_register\<close>, the polling loops on the power domain
  (\<open>sprd_gpu_domain_state\<close>, \<open>sprd_gpu_domain_wait_for_ready\<close>: register reads
  with a timeout, no state), \<open>gpufreq_table_show\<close> (a string buffer), and the
  failure of \<open>create_singlethread_workqueue\<close> (the work queue is taken as created).
  In \<open>sec-input-bridge.c\<close>: the \<open>DEBUG_BRIDGE\<close> dumps and the printing; the
  separate \<open>devm_kzalloc\<close> calls of \<open>sec_input_bridge_parse_dt\<close> share one outcome.
  In \<open>sec_fuelgauge.c\<close>: the chip access functions \<open>sec_hal_fg_*\<close> (another file;
  their results are inputs), the printing, the interrupt registration (its result is an
  input), and \<open>sec_fuelgauge_shutdown\<close>, \<open>sec_fuelgauge_remove\<close> and the module
  init/exit (no state of the model).
  In \<open>kernel/swap\<close>: the command handlers of \<open>msg_cmd.c\<close>, \<open>sspt_proc.c\<close> and
  \<open>swap_ksyms\<close> (other files; their results are parameters), the debugfs calls (their
  results are inputs), and the list and \<open>read/write_proc_vm_atomic\<close> macros of
  \<open>swap_kprobes_deps.h\<close>, which only rename functions of other files.
  In \<open>headset_sprd_sc2723.c\<close>: the notifier chain and the \<open>external_headmicbias\<close>
  callback (other drivers), the printing and the register dumps' text, the code under
  \<open>#if 0\<close>, the wake lock and the timer as objects (a pending flag stands for a queued
  work or an armed timer), and the platform driver registration.
  In \<open>u_ether.c\<close>: the transmit path of builds without \<open>CONFIG_USB_SPRD_DWC\<close>
  (\<open>tx_complete\<close> and \<open>eth_start_xmit\<close> of lines 475-655, not compiled in this
  build), \<open>eth_get_drvinfo\<close> (string copies for ethtool), the \<open>no_interrupt\<close>
  hint of \<open>pkt_msg_send\<close>, the copy of the packet bytes (only lengths are kept), and
  the spinlocks (each entry point is one atomic step; completions interleave only
  between entry points).
  In \<open>sensor_drv_k.c\<close>: \<open>SENSOR_IO_POWER_CFG\<close> (it calls \<open>sensor_power_on/off\<close> of
  another file), the flash and torch attributes and \<open>_Sensor_K_SetTorch\<close> (the SM5701
  flash driver), the class and device files of \<open>sensor_k_init\<close>, \<open>sensor_k_exit\<close>, the
  cpuidle notifier, the CSI calls (no state here), the branches of other boards and
  SoCs, and the \<open>sensor_lock\<close> mutex (each ioctl is one step).
  \<open>drivers/video/sprdfb/sprdfb_main.c\<close> is not modelled: nearly every operation hands
  over to the display controller and panel operations of other files (\<open>dev->ctrl\<close>,
  \<open>sprdfb_panel_*\<close>), which are not in the sources. \<open>include/linux/i2c/zinitix_ts.h\<close>
  declares platform data only and holds no code.
\<close>

text \<open>C23: An end-to-end run for every hash function: after boot, importing \<open>app1\<close>
  and \<open>app2\<close> allocates entries 6 and 7; once the rule \<open>app1 app2 rw\<close> is loaded,
  \<open>app1\<close> may read, read-write and lock \<open>app2\<close> (lock through write), may not
  execute it, \<open>app2\<close> may not read \<open>app1\<close>, and the secid of \<open>app2\<close> translates
  back to its entry.\<close>

theorem smack_two_label_scenario:
  "(case smk_import_entry h cd cm Alloc_ok ''app1'' 0 (init_smack_known_list h) of (a, s1) \<Rightarrow>
    case smk_import_entry h cd cm Alloc_ok ''app2'' 0 s1 of (b, s2) \<Rightarrow>
    let s3 = smk_set_access 6 7 (MAY_READ OR MAY_WRITE) s2 in
      a = Some 6 \<and> b = Some 7 \<and>
      smk_access_rc s3 6 7 MAY_READ = 0 \<and>
      smk_access_rc s3 6 7 (MAY_READ OR MAY_WRITE) = 0 \<and>
      smk_access_rc s3 6 7 MAY_LOCK = 0 \<and>
      smk_access_rc s3 6 7 MAY_EXEC = - EACCES \<and>
      smk_access_rc s3 7 6 MAY_READ = - EACCES \<and>
      smack_from_secid s3 (smack_to_secid h s3 ''app2'') = 7)"
proof -
  let ?s0 = "init_smack_known_list h"
  have i0: "smack_inv h ?s0" by (rule smack_inv_init)
  have len [simp]: "length smack_known_statics = 6" by (simp add: smack_known_statics_def)
  have hl: "length (sk_hash ?s0) = SMACK_HASH_SLOTS" using i0 by (simp add: smack_inv_def)
  have f0: "smk_find_entry h ?s0 t = None" if "t \<notin> {''?'', ''^'', ''*'', ''_'', [], ''@''}" for t
    using that by (auto simp: smk_find_entry_list [OF i0] label_text_def smack_known_statics_def static_known_def)
  define e1 where "e1 = smk_new_entry cd cm ''app1'' 10"
  define s0' where "s0' = ?s0\<lparr>smack_next_secid := 11, sk_heap := smack_known_statics @ [e1]\<rparr>"
  define s1 where "s1 = smk_insert_entry h 6 s0'"
  have imp1: "smk_import_entry h cd cm Alloc_ok ''app1'' 0 ?s0 = (Some 6, s1)"
    using smk_import_entry_new [OF smk_parse_smack_app1 f0, of cd cm] by (simp add: s1_def s0'_def e1_def)
  have f1: "smk_find_entry h s1 ''app2'' = None"
  proof -
    have "smk_find_entry h s1 ''app2'' = smk_find_entry h s0' ''app2''"
      unfolding s1_def by (rule smk_find_entry_insert_other) (simp add: s0'_def label_text_def nth_append e1_def)
    also have "\<dots> = smk_find_entry h ?s0 ''app2''"
      unfolding s0'_def using smk_find_entry_heap_append [OF i0, where n = 11 and e = e1 and str = "''app2''"] by simp
    finally show ?thesis using f0 [of "''app2''"] by simp
  qed
  have h1: "sk_heap s1 = smack_known_statics @ [e1]" and n1: "smack_next_secid s1 = 11"
    and hl1: "length (sk_hash s1) = SMACK_HASH_SLOTS"
    using hl by (simp_all add: s1_def s0'_def)
  define e2 where "e2 = smk_new_entry cd cm ''app2'' 11"
  define s1' where "s1' = s1\<lparr>smack_next_secid := 12, sk_heap := smack_known_statics @ [e1, e2]\<rparr>"
  define s2 where "s2 = smk_insert_entry h 7 s1'"
  have imp2: "smk_import_entry h cd cm Alloc_ok ''app2'' 0 s1 = (Some 7, s2)"
    using smk_import_entry_new [OF smk_parse_smack_app2 f1, of cd cm] h1 n1 by (simp add: s2_def s1'_def e2_def)
  define s3 where "s3 = smk_set_access 6 7 (MAY_READ OR MAY_WRITE) s2"
  have r3: "smk_rules (sk_heap s3 ! 6) = [\<lparr>smk_subject = 6, smk_object = 7, smk_rule_access = MAY_READ OR MAY_WRITE\<rparr>]"
    and r3': "smk_rules (sk_heap s3 ! 7) = []"
    by (simp_all add: s3_def s2_def s1'_def smk_set_access_def Let_def nth_append e1_def e2_def
        smack_known_statics_def static_known_def smk_rule_match_def)
  have l3: "sk_list s3 = [7, 6, 5, 4, 3, 2, 1, 0]"
    by (simp add: s3_def s2_def s1'_def s1_def s0'_def)
  have t3: "label_text s3 7 = ''app2''" and sec3: "label_secid s3 7 = 11"
    by (simp_all add: s3_def s2_def s1'_def label_text_def label_secid_def nth_append e2_def)
  have f3: "smk_find_entry h s3 ''app2'' = Some 7"
  proof -
    have "smk_find_entry h s3 ''app2'' = smk_find_entry h s2 ''app2''"
      by (simp add: s3_def smk_find_entry_def)
    also have "\<dots> = Some 7"
      unfolding s2_def using hl1
      by (intro smk_find_entry_insert_head) (simp_all add: s1'_def label_text_def nth_append e2_def)
    finally show ?thesis .
  qed
  have to: "smack_to_secid h s3 ''app2'' = 11"
    using f3 sec3 by (simp add: smack_to_secid_def)
  have fr: "smack_from_secid s3 11 = 7"
    using l3 sec3 by (simp add: smack_from_secid_def)
  have main: "smk_access_rc s3 6 7 MAY_READ = 0 \<and>
      smk_access_rc s3 6 7 (MAY_READ OR MAY_WRITE) = 0 \<and>
      smk_access_rc s3 6 7 MAY_LOCK = 0 \<and>
      smk_access_rc s3 6 7 MAY_EXEC = - EACCES \<and>
      smk_access_rc s3 7 6 MAY_READ = - EACCES \<and>
      smack_from_secid s3 (smack_to_secid h s3 ''app2'') = 7"
    using r3 r3' to fr
    by (simp add: smk_access_rc_def smk_access_entry_def smack_known_addrs may_bits ENOENT_def)
  show ?thesis
    using imp1 imp2 main by (simp add: s3_def Let_def)
qed

end
